(* ===== verification/Prelude.thy ===== *)
theory Prelude
  imports Main "HOL-Library.Word"
begin

text \<open>
  Shared ground of the development: the machine-integer names of the C sources, the
  pieces of the C string library the program uses (\<open>strcpy\<close>-style bounded buffers,
  \<open>strchr\<close>, \<open>strrchr\<close>, \<open>strncmp\<close>, numeric conversions of \<open>printf\<close> and \<open>strtoul\<close>)
  and the generic lemmas about them. A C string is the \<open>string\<close> of its characters before
  the terminating NUL; a \<open>char\<close> is one byte.
\<close>

unbundle bit_operations_syntax

named_theorems cstr \<open>facts about C strings and their numeric conversions\<close>

subsection \<open>Machine integers\<close>

type_synonym byte = "8 word"
type_synonym u16 = "16 word"
type_synonym u32 = "32 word"
type_synonym u64 = "64 word"

text \<open>Conversion of a mathematical integer to the C types \<open>unsigned int\<close> and \<open>int\<close>.\<close>

definition to_u32 :: "int \<Rightarrow> u32" where
  "to_u32 i = word_of_int i"

definition to_s32 :: "int \<Rightarrow> int" where
  "to_s32 i = sint (word_of_int i :: u32)"

lemma to_s32_id [simp]: "- (2 ^ 31) \<le> i \<Longrightarrow> i < 2 ^ 31 \<Longrightarrow> to_s32 i = i"
proof -
  assume b: "- (2 ^ 31) \<le> i" "i < 2 ^ 31"
  have "to_s32 i = signed_take_bit 31 (take_bit 32 i)"
    by (simp only: to_s32_def sint_uint uint_word_of_int_eq) simp
  also have "\<dots> = signed_take_bit 31 i"
    by (simp only: signed_take_bit_take_bit) simp
  also have "\<dots> = i"
    using b by (simp only: signed_take_bit_int_eq_self)
  finally show ?thesis .
qed

lemma uint_to_u32 [simp]: "0 \<le> i \<Longrightarrow> i < 2 ^ 32 \<Longrightarrow> uint (to_u32 i) = i"
  by (simp add: to_u32_def uint_word_of_int)

text \<open>C division of signed integers truncates towards zero.\<close>

definition c_div :: "int \<Rightarrow> int \<Rightarrow> int" where
  "c_div a b = sgn a * sgn b * (\<bar>a\<bar> div \<bar>b\<bar>)"

lemma c_div_nonneg [simp]: "0 \<le> a \<Longrightarrow> 0 < b \<Longrightarrow> c_div a b = a div b"
  by (cases "a = 0") (auto simp: c_div_def)

subsection \<open>Buffers and searches of the C string library\<close>

text \<open>
  Writing a string and its NUL into a \<open>char\<close> array of \<open>n\<close> elements: \<open>None\<close> when it does
  not fit, which in C is a write outside the array.
\<close>

definition fits :: "nat \<Rightarrow> string \<Rightarrow> string option" where
  "fits n s = (if length s < n then Some s else None)"

text \<open>\<open>strncmp(a, b, n) == 0\<close> where \<open>b\<close> has exactly \<open>n\<close> characters: \<open>b\<close> is a prefix of \<open>a\<close>.\<close>

definition has_prefix :: "string \<Rightarrow> string \<Rightarrow> bool" where
  "has_prefix a b = (take (length b) a = b)"

lemma has_prefix_append [simp, cstr]: "has_prefix (b @ c) b"
  by (simp add: has_prefix_def)

lemma has_prefixD [cstr]: "has_prefix a b \<Longrightarrow> a = b @ drop (length b) a"
  by (metis append_take_drop_id has_prefix_def)

lemma has_prefix_iff [cstr]: "has_prefix a b \<longleftrightarrow> (\<exists>c. a = b @ c)"
  by (auto dest: has_prefixD)

text \<open>\<open>strchr\<close>: the part of the string from the first occurrence on; \<open>None\<close> is NULL.\<close>

fun strchr :: "string \<Rightarrow> char \<Rightarrow> string option" where
  "strchr [] c = None"
| "strchr (x # xs) c = (if x = c then Some (x # xs) else strchr xs c)"

text \<open>\<open>strrchr\<close>: the index of the last occurrence; \<open>None\<close> is NULL.\<close>

fun strrchr :: "string \<Rightarrow> char \<Rightarrow> nat option" where
  "strrchr [] c = None"
| "strrchr (x # xs) c =
     (case strrchr xs c of Some i \<Rightarrow> Some (Suc i) | None \<Rightarrow> if x = c then Some 0 else None)"

lemma strchr_append [cstr]:
  "c \<notin> set a \<Longrightarrow> strchr (a @ c # b) c = Some (c # b)"
  by (induction a) auto

lemma strchr_None [cstr]: "strchr s c = None \<longleftrightarrow> c \<notin> set s"
  by (induction s) auto

lemma strrchr_None [cstr]: "strrchr s c = None \<longleftrightarrow> c \<notin> set s"
  by (induction s) (auto split: option.splits)

lemma strrchr_Some [cstr]:
  "strrchr s c = Some i \<Longrightarrow> i < length s \<and> s ! i = c \<and> c \<notin> set (drop (Suc i) s)"
  by (induction s arbitrary: i) (auto simp: strrchr_None split: option.splits if_splits)

text \<open>Everything before the first occurrence of a character (\<open>*strchr(s, c) = 0\<close>).\<close>

definition before_char :: "char \<Rightarrow> string \<Rightarrow> string" where
  "before_char c s = takeWhile (\<lambda>x. x \<noteq> c) s"

subsection \<open>Numbers as text\<close>

definition digit :: "nat \<Rightarrow> char" where
  "digit k = (if k < 10 then char_of (48 + k) else char_of (87 + k))"

fun digs :: "nat \<Rightarrow> nat \<Rightarrow> string" where
  "digs b n = (if b < 2 \<or> n < b then [digit n] else digs b (n div b) @ [digit (n mod b)])"

declare digs.simps [simp del]

definition dec :: "nat \<Rightarrow> string" where
  "dec n = digs 10 n"

definition dec_int :: "int \<Rightarrow> string" where
  "dec_int i = (if i < 0 then CHR ''-'' # dec (nat (- i)) else dec (nat i))"

definition pad_left :: "nat \<Rightarrow> char \<Rightarrow> string \<Rightarrow> string" where
  "pad_left k c s = replicate (k - length s) c @ s"

definition digit_val :: "nat \<Rightarrow> char \<Rightarrow> nat option" where
  "digit_val b c = (let k = of_char c :: nat in
     if 48 \<le> k \<and> k < 58 \<and> k - 48 < b then Some (k - 48) else None)"

text \<open>The value of the longest run of base-\<open>b\<close> digits at the front (\<open>b \<le> 10\<close>).\<close>

fun num_prefix :: "nat \<Rightarrow> nat \<Rightarrow> string \<Rightarrow> nat" where
  "num_prefix b acc [] = acc"
| "num_prefix b acc (c # cs) =
     (case digit_val b c of None \<Rightarrow> acc | Some d \<Rightarrow> num_prefix b (b * acc + d) cs)"

text \<open>\<open>isspace\<close> in the C locale.\<close>

definition c_isspace :: "char \<Rightarrow> bool" where
  "c_isspace c = (c = CHR '' '' \<or> (9 \<le> (of_char c :: nat) \<and> (of_char c :: nat) \<le> 13))"

text \<open>
  \<open>strtoul(s, NULL, b)\<close> on a machine with 64-bit \<open>long\<close>: white space, an optional sign,
  digits; saturating at \<open>ULONG_MAX\<close>; a minus sign negates in the unsigned type.
\<close>

definition strtoul :: "nat \<Rightarrow> string \<Rightarrow> u64" where
  "strtoul b s = (case dropWhile c_isspace s of
      [] \<Rightarrow> 0
    | c # cs \<Rightarrow>
        (let sat = (\<lambda>v. if v < 2 ^ 64 then word_of_nat v else (- 1 :: u64)) in
         if c = CHR ''-'' then
           (if num_prefix b 0 cs < 2 ^ 64 then - sat (num_prefix b 0 cs) else - 1)
         else if c = CHR ''+'' then sat (num_prefix b 0 cs)
         else sat (num_prefix b 0 (c # cs))))"

end
