(* ===== verification/Iomanx.thy ===== *)
theory Iomanx
  imports Prelude
begin

text \<open>
  The interface of the program to everything outside it (\<open>src/src/iomanX_port.h\<close>): the
  constants and structures of iomanX, the calls the program makes (iomanX with its APA and
  PFS drivers, which are git submodules, and the host operating system with its C library:
  file descriptors, streams, semaphores, memory) and the model of
  code that makes such calls.

  The outside is a parameter: an environment \<open>env\<close> answers every call from the history of
  the calls made so far, so quantifying over \<open>env\<close> covers every behaviour of the drivers,
  the disk and the host. A piece of C code is a function of type \<open>'a io\<close>; it yields an
  outcome and the extended history. The outcomes are a normal return, \<open>exit\<close>, an access
  outside an object (\<open>Fault\<close>, undefined behaviour in C) and \<open>Stuck\<close>, a loop that used up
  the number of iterations the environment grants.
\<close>

subsection \<open>Constants of iomanX\<close>

named_theorems fio \<open>the numeric constants of iomanX\<close>

definition FIO_O_RDONLY :: u32 where [fio]: "FIO_O_RDONLY = 0x0001"
definition FIO_O_WRONLY :: u32 where [fio]: "FIO_O_WRONLY = 0x0002"
definition FIO_O_RDWR :: u32 where [fio]: "FIO_O_RDWR = 0x0003"
definition FIO_O_NBLOCK :: u32 where [fio]: "FIO_O_NBLOCK = 0x0010"
definition FIO_O_APPEND :: u32 where [fio]: "FIO_O_APPEND = 0x0100"
definition FIO_O_CREAT :: u32 where [fio]: "FIO_O_CREAT = 0x0200"
definition FIO_O_TRUNC :: u32 where [fio]: "FIO_O_TRUNC = 0x0400"
definition FIO_O_EXCL :: u32 where [fio]: "FIO_O_EXCL = 0x0800"

definition FIO_MT_RDWR :: u32 where [fio]: "FIO_MT_RDWR = 0"
definition FIO_MT_RDONLY :: u32 where [fio]: "FIO_MT_RDONLY = 1"

definition FIO_SEEK_SET :: int where [fio]: "FIO_SEEK_SET = 0"
definition FIO_SEEK_CUR :: int where [fio]: "FIO_SEEK_CUR = 1"
definition FIO_SEEK_END :: int where [fio]: "FIO_SEEK_END = 2"

definition FIO_CST_MODE :: u32 where [fio]: "FIO_CST_MODE = 0x0001"
definition FIO_CST_ATTR :: u32 where [fio]: "FIO_CST_ATTR = 0x0002"
definition FIO_CST_SIZE :: u32 where [fio]: "FIO_CST_SIZE = 0x0004"
definition FIO_CST_CT :: u32 where [fio]: "FIO_CST_CT = 0x0008"
definition FIO_CST_AT :: u32 where [fio]: "FIO_CST_AT = 0x0010"
definition FIO_CST_MT :: u32 where [fio]: "FIO_CST_MT = 0x0020"
definition FIO_CST_PRVT :: u32 where [fio]: "FIO_CST_PRVT = 0x0040"

definition FIO_S_IFMT :: u32 where [fio]: "FIO_S_IFMT = 0xF000"
definition FIO_S_IFLNK :: u32 where [fio]: "FIO_S_IFLNK = 0x4000"
definition FIO_S_IFREG :: u32 where [fio]: "FIO_S_IFREG = 0x2000"
definition FIO_S_IFDIR :: u32 where [fio]: "FIO_S_IFDIR = 0x1000"
definition FIO_S_ISUID :: u32 where [fio]: "FIO_S_ISUID = 0x0800"
definition FIO_S_ISGID :: u32 where [fio]: "FIO_S_ISGID = 0x0400"
definition FIO_S_ISVTX :: u32 where [fio]: "FIO_S_ISVTX = 0x0200"
definition FIO_S_IRUSR :: u32 where [fio]: "FIO_S_IRUSR = 0x0100"
definition FIO_S_IWUSR :: u32 where [fio]: "FIO_S_IWUSR = 0x0080"
definition FIO_S_IXUSR :: u32 where [fio]: "FIO_S_IXUSR = 0x0040"
definition FIO_S_IRGRP :: u32 where [fio]: "FIO_S_IRGRP = 0x0020"
definition FIO_S_IWGRP :: u32 where [fio]: "FIO_S_IWGRP = 0x0010"
definition FIO_S_IXGRP :: u32 where [fio]: "FIO_S_IXGRP = 0x0008"
definition FIO_S_IROTH :: u32 where [fio]: "FIO_S_IROTH = 0x0004"
definition FIO_S_IWOTH :: u32 where [fio]: "FIO_S_IWOTH = 0x0002"
definition FIO_S_IXOTH :: u32 where [fio]: "FIO_S_IXOTH = 0x0001"

definition FIO_S_ISLNK :: "u32 \<Rightarrow> bool" where
  "FIO_S_ISLNK m = (m AND FIO_S_IFMT = FIO_S_IFLNK)"

definition FIO_S_ISREG :: "u32 \<Rightarrow> bool" where
  "FIO_S_ISREG m = (m AND FIO_S_IFMT = FIO_S_IFREG)"

definition FIO_S_ISDIR :: "u32 \<Rightarrow> bool" where
  "FIO_S_ISDIR m = (m AND FIO_S_IFMT = FIO_S_IFDIR)"

definition HIOCADDSUB :: u32 where [fio]: "HIOCADDSUB = 0x6801"
definition HIOCNSUB :: u32 where [fio]: "HIOCNSUB = 0x6803"
definition HIOCFLUSH :: u32 where [fio]: "HIOCFLUSH = 0x6804"
definition HIOCGETPARTSTART :: u32 where [fio]: "HIOCGETPARTSTART = 0x6836"
definition HDIOC_MAXSECTOR :: u32 where [fio]: "HDIOC_MAXSECTOR = 0x4801"
definition HDIOC_TOTALSECTOR :: u32 where [fio]: "HDIOC_TOTALSECTOR = 0x4802"
definition HIOCTRANSFER :: u32 where [fio]: "HIOCTRANSFER = 0x6832"
definition HIOCGETSIZE :: u32 where [fio]: "HIOCGETSIZE = 0x6833"
definition PDIOC_ZONESZ :: u32 where [fio]: "PDIOC_ZONESZ = 0x5001"
definition PDIOC_ZONEFREE :: u32 where [fio]: "PDIOC_ZONEFREE = 0x5002"

subsection \<open>Structures of iomanX\<close>

record iox_stat =
  st_mode :: u32
  st_attr :: u32
  st_size :: u32
  st_ctime :: "byte list"
  st_atime :: "byte list"
  st_mtime :: "byte list"
  st_hisize :: u32
  private_0 :: u32
  private_1 :: u32
  private_2 :: u32
  private_3 :: u32
  private_4 :: u32
  private_5 :: u32

text \<open>A stat structure cleared with \<open>memset\<close>.\<close>

definition zero_stat :: iox_stat where
  "zero_stat = \<lparr>st_mode = 0, st_attr = 0, st_size = 0,
     st_ctime = replicate 8 0, st_atime = replicate 8 0, st_mtime = replicate 8 0,
     st_hisize = 0, private_0 = 0, private_1 = 0, private_2 = 0, private_3 = 0,
     private_4 = 0, private_5 = 0\<rparr>"

record hddIoctl2Transfer =
  xf_sub :: u32
  xf_sector :: u32
  xf_size :: u32
  xf_mode :: u32
  xf_buffer :: "string option"

text \<open>What a \<open>void *\<close> argument points to in the calls the program makes.\<close>

datatype ioarg =
    No_arg
  | Text_arg string
  | Int_arg u32
  | Transfer_arg hddIoctl2Transfer
  | Ints_arg "int list"

subsection \<open>Calls and their answers\<close>

text \<open>
  The stat structure of the host: mode, size and the three time stamps in seconds.
\<close>

record posix_stat =
  ps_mode :: u32
  ps_size :: int
  ps_ctime :: int
  ps_atime :: int
  ps_mtime :: int

text \<open>Further calls of the host's C library, \<open>errno\<close> among them.\<close>

datatype (plugins only: code size) posix_call =
    P_stat string
  | P_chmod string u32
  | P_mkdir string u32
  | P_rmdir string
  | P_rename string string
  | P_sync
  | P_opendir string
  | P_readdir int
  | P_closedir int
  | P_symlink string string
  | P_readlink string nat
  | P_errno
  | P_flock int bool
  | P_ioctl int nat int

text \<open>Sockets, System V semaphores and shared memory, as the daemon and its clients use them.\<close>

datatype (plugins only: code size) ipc_call =
    Sock_new
  | Sock_bind int string
  | Sock_connect int string
  | Sock_listen int nat
  | Sock_accept int
  | Sock_peer int
  | Cap_get int
  | Sock_poll "int list"
  | Sock_recv int nat
  | Sock_send int string
  | Signal_ignore
  | Sem_get bool
  | Sem_set int
  | Sem_op int int
  | Sem_remove int
  | Shm_get nat bool
  | Shm_attach int
  | Shm_size int
  | Shm_detach
  | Shm_remove int
  | Shm_read nat
  | Shm_write string

text \<open>
  The operations of the PFS library as the daemon calls them (\<open>pfslib_compat.h\<close>) and as its
  clients ask for them. A \<open>bool\<close> stands for a pointer argument: the shared memory, or NULL.
\<close>

datatype (plugins only: code size) pfs_op =
    Op_open string int int
  | Op_lseek int int int
  | Op_lseek64 int int int
  | Op_read int bool int
  | Op_write int bool int
  | Op_close int
  | Op_dopen string
  | Op_dread int bool
  | Op_dclose int
  | Op_chstat string bool int
  | Op_getstat string bool
  | Op_mkdir string int
  | Op_rmdir string
  | Op_chdir string
  | Op_remove string
  | Op_rename string string
  | Op_ioctl int int bool
  | Op_ioctl2 int int bool int bool int
  | Op_symlink string string
  | Op_readlink string bool int
  | Op_sync string int
  | Op_format string string bool int
  | Op_mount string string int bool int
  | Op_umount string
  | Op_devctl string int bool int bool int
  | Op_setreadahead int
  | Op_getreadahead
  | Op_getmountpoint string
  | Op_transfer int u32 u32 u32 u32 bool

text \<open>Calls of the FUSE library, and of the callback that receives directory entries.\<close>

datatype (plugins only: code size) fuse_call =
    Fuse_parse "string list"
  | Fuse_add_arg string
  | Fuse_main "string list"
  | Fuse_fill string posix_stat

datatype (plugins only: code size) call =
    Ix_open string u32 u32
  | Ix_close int
  | Ix_read int nat
  | Ix_write int string
  | Ix_lseek int int int
  | Ix_lseek64 int int int
  | Ix_ioctl int u32 ioarg
  | Ix_ioctl2 int u32 ioarg nat
  | Ix_remove string
  | Ix_mkdir string u32
  | Ix_rmdir string
  | Ix_dopen string
  | Ix_dread int
  | Ix_getstat string
  | Ix_chstat string iox_stat u32
  | Ix_format string "string option" ioarg
  | Ix_rename string string
  | Ix_chdir string
  | Ix_sync string int
  | Ix_mount string string u32
  | Ix_umount string
  | Ix_devctl string u32 ioarg nat
  | Ix_symlink string string
  | Ix_readlink string nat
  | Ix_AddDrv string
  | Ix_DelDrv string
  | Init_apa "string list"
  | Init_pfs "string list"
  | Host_open string u32 u32
  | Host_read int nat
  | Host_write int string
  | Host_close int
  | Host_lseek int int int
  | Host_getcwd nat
  | Host_chdir string
  | Host_getline
  | Host_remove string
  | F_open string string
  | F_read int nat
  | F_write int string
  | F_seek int int int
  | F_tell int
  | F_close int
  | Malloc nat
  | Sem_init nat
  | Sem_destroy nat
  | Sem_wait nat
  | Sem_post nat
  | Puts string
  | Eputs string
  | Posix posix_call
  | Ipc ipc_call
  | Pfs pfs_op
  | Fuse fuse_call

text \<open>
  An answer: the returned \<open>int\<close>, the bytes delivered through a buffer argument (or the
  name of a directory entry), and the stat structure delivered through a pointer, of iomanX
  or of the host.
\<close>

record reply =
  rp_ret :: int
  rp_data :: string
  rp_stat :: iox_stat
  rp_posix :: posix_stat

type_synonym trace = "(call \<times> reply) list"

record env =
  answer :: "trace \<Rightarrow> call \<Rightarrow> reply"
  fuel :: nat

text \<open>A plain answer: a return code and no data.\<close>

definition code :: "int \<Rightarrow> reply" where
  "code i = \<lparr>rp_ret = i, rp_data = [], rp_stat = zero_stat,
     rp_posix = \<lparr>ps_mode = 0, ps_size = 0, ps_ctime = 0, ps_atime = 0, ps_mtime = 0\<rparr>\<rparr>"

definition code_data :: "int \<Rightarrow> string \<Rightarrow> reply" where
  "code_data i s = \<lparr>rp_ret = i, rp_data = s, rp_stat = zero_stat,
     rp_posix = \<lparr>ps_mode = 0, ps_size = 0, ps_ctime = 0, ps_atime = 0, ps_mtime = 0\<rparr>\<rparr>"

lemma code_simps [simp]:
  "rp_ret (code i) = i" "rp_data (code i) = []"
  "rp_ret (code_data i s) = i" "rp_data (code_data i s) = s"
  by (simp_all add: code_def code_data_def)

end
