(* ===== verification/Prog.thy ===== *)
theory Prog
  imports Iomanx
begin

text \<open>
  Programs over the interface of \<^theory_text>\<open>Iomanx\<close>: sequencing, calls, bounded buffers, loops, and
  the two ways of reasoning about them. Straight-line code is evaluated by the equations
  collected in \<open>io_simps\<close>. For loops and whole commands there are \<open>wp\<close>, the weakest
  precondition for a normal return, and \<open>emits_only\<close>, which bounds the calls a program can
  make whatever its outcome.
\<close>

named_theorems io_simps \<open>evaluation of programs\<close>
named_theorems wp_simps \<open>weakest preconditions of program constructs\<close>
named_theorems vcg \<open>introduction rules that follow a program, for any replies\<close>
named_theorems emits \<open>introduction rules for the calls a program can make\<close>

subsection \<open>Programs\<close>

datatype 'a outcome = Done 'a | Exited int | Fault | Stuck

type_synonym 'a io = "env \<Rightarrow> trace \<Rightarrow> 'a outcome \<times> trace"

definition retM :: "'a \<Rightarrow> 'a io" where
  "retM a = (\<lambda>E tr. (Done a, tr))"

definition exitM :: "int \<Rightarrow> 'a io" where
  "exitM c = (\<lambda>E tr. (Exited c, tr))"

definition faultM :: "'a io" where
  "faultM = (\<lambda>E tr. (Fault, tr))"

definition stuckM :: "'a io" where
  "stuckM = (\<lambda>E tr. (Stuck, tr))"

definition callM :: "call \<Rightarrow> reply io" where
  "callM c = (\<lambda>E tr. (Done (answer E tr c), tr @ [(c, answer E tr c)]))"

definition bindM :: "'a io \<Rightarrow> ('a \<Rightarrow> 'b io) \<Rightarrow> 'b io" where
  "bindM m f = (\<lambda>E tr. case m E tr of
      (Done a, tr') \<Rightarrow> f a E tr'
    | (Exited c, tr') \<Rightarrow> (Exited c, tr')
    | (Fault, tr') \<Rightarrow> (Fault, tr')
    | (Stuck, tr') \<Rightarrow> (Stuck, tr'))"

abbreviation seqM :: "'a io \<Rightarrow> 'b io \<Rightarrow> 'b io" where
  "seqM m n \<equiv> bindM m (\<lambda>_. n)"

definition bufM :: "nat \<Rightarrow> string \<Rightarrow> string io" where
  "bufM n s = (case fits n s of None \<Rightarrow> faultM | Some t \<Rightarrow> retM t)"

text \<open>The return code of a call.\<close>

definition codeM :: "call \<Rightarrow> int io" where
  "codeM c = bindM (callM c) (\<lambda>r. retM (rp_ret r))"

definition doM :: "call \<Rightarrow> unit io" where
  "doM c = bindM (callM c) (\<lambda>r. retM ())"

text \<open>
  A loop: the body maps the loop's variables to new ones (\<open>Inl\<close>) or leaves the loop with a
  value (\<open>Inr\<close>). The environment's \<open>fuel\<close> bounds the number of iterations.
\<close>

fun iterM :: "nat \<Rightarrow> ('s \<Rightarrow> ('s + 'r) io) \<Rightarrow> 's \<Rightarrow> 'r io" where
  "iterM 0 b s = stuckM"
| "iterM (Suc n) b s =
     bindM (b s) (\<lambda>x. case x of Inl s' \<Rightarrow> iterM n b s' | Inr r \<Rightarrow> retM r)"

definition loopM :: "('s \<Rightarrow> ('s + 'r) io) \<Rightarrow> 's \<Rightarrow> 'r io" where
  "loopM b s = (\<lambda>E tr. iterM (fuel E) b s E tr)"

subsection \<open>Evaluation\<close>

lemma bindM_retM: "bindM (retM a) f = f a"
  by (simp add: bindM_def retM_def)

lemma bindM_retM_run [io_simps]: "bindM (retM a) f E tr = f a E tr"
  by (simp add: bindM_retM)

lemma bindM_callM [io_simps]:
  "bindM (callM c) f E tr = f (answer E tr c) E (tr @ [(c, answer E tr c)])"
  by (simp add: bindM_def callM_def)

lemma bindM_assoc [io_simps]: "bindM (bindM m f) g = bindM m (\<lambda>x. bindM (f x) g)"
  by (rule ext)+ (simp add: bindM_def split: prod.splits outcome.splits)

lemma bindM_abnormal [io_simps]:
  "bindM (exitM c) f = exitM c" "bindM faultM f = faultM" "bindM stuckM f = stuckM"
  by (simp_all add: bindM_def exitM_def faultM_def stuckM_def)

lemma bindM_if [io_simps]:
  "bindM (if b then m else n) f = (if b then bindM m f else bindM n f)"
  by simp

lemma run_simps [io_simps]:
  "retM a E tr = (Done a, tr)" "exitM c E tr = (Exited c, tr)"
  "faultM E tr = (Fault, tr)" "stuckM E tr = (Stuck, tr)"
  "callM cl E tr = (Done (answer E tr cl), tr @ [(cl, answer E tr cl)])"
  by (simp_all add: retM_def exitM_def faultM_def stuckM_def callM_def)

lemma if_run [io_simps]: "(if b then m else n) E tr = (if b then m E tr else n E tr)"
  by simp

lemma bindM_codeM [io_simps]: "bindM (codeM c) f = bindM (callM c) (\<lambda>r. f (rp_ret r))"
  by (simp add: codeM_def bindM_retM io_simps)

lemma codeM_run [io_simps]:
  "codeM c E tr = (Done (rp_ret (answer E tr c)), tr @ [(c, answer E tr c)])"
  by (simp add: codeM_def io_simps)

lemma bindM_doM [io_simps]: "bindM (doM c) f = bindM (callM c) (\<lambda>r. f ())"
  by (simp add: doM_def bindM_retM io_simps)

lemma doM_run [io_simps]: "doM c E tr = (Done (), tr @ [(c, answer E tr c)])"
  by (simp add: doM_def io_simps)

lemma bindM_bufM [io_simps]:
  "bindM (bufM n s) f = (if length s < n then f s else faultM)"
  by (simp add: bufM_def fits_def bindM_retM io_simps)

lemma bufM_run [io_simps]:
  "bufM n s E tr = (if length s < n then (Done s, tr) else (Fault, tr))"
  by (simp add: bufM_def fits_def io_simps)

lemma bindM_loopM [io_simps]:
  "bindM (loopM b s) f E tr = bindM (iterM (fuel E) b s) f E tr"
  by (simp add: bindM_def loopM_def)

lemma loopM_run [io_simps]: "loopM b s E tr = iterM (fuel E) b s E tr"
  by (simp add: loopM_def)

lemma bindM_prod [io_simps]:
  "bindM (case p of (a, b) \<Rightarrow> f a b) g = (case p of (a, b) \<Rightarrow> bindM (f a b) g)"
  by (simp split: prod.splits)

lemma bindM_option [io_simps]:
  "bindM (case x of None \<Rightarrow> m | Some a \<Rightarrow> n a) f =
     (case x of None \<Rightarrow> bindM m f | Some a \<Rightarrow> bindM (n a) f)"
  by (simp split: option.splits)

subsection \<open>Weakest preconditions\<close>

text \<open>
  \<open>wp m E Q tr\<close>: started after the history \<open>tr\<close>, \<open>m\<close> either returns a value and a history
  that satisfy \<open>Q\<close>, or does not return normally.
\<close>

definition wp :: "'a io \<Rightarrow> env \<Rightarrow> ('a \<Rightarrow> trace \<Rightarrow> bool) \<Rightarrow> trace \<Rightarrow> bool" where
  "wp m E Q tr = (case m E tr of (Done a, tr') \<Rightarrow> Q a tr' | _ \<Rightarrow> True)"

lemma wp_basic [wp_simps]:
  "wp (retM a) E Q tr = Q a tr"
  "wp (exitM k) E Q tr" "wp faultM E Q tr" "wp stuckM E Q tr"
  "wp (callM cl) E R tr = R (answer E tr cl) (tr @ [(cl, answer E tr cl)])"
  "wp (codeM cl) E S tr = S (rp_ret (answer E tr cl)) (tr @ [(cl, answer E tr cl)])"
  "wp (doM cl) E T tr = T () (tr @ [(cl, answer E tr cl)])"
  "wp (bufM n s) E U tr = (length s < n \<longrightarrow> U s tr)"
  by (simp_all add: wp_def io_simps)

lemma wp_bindM [wp_simps]: "wp (bindM m f) E Q tr = wp m E (\<lambda>a tr'. wp (f a) E Q tr') tr"
  by (simp add: wp_def bindM_def split: prod.splits outcome.splits)

lemma wp_if [wp_simps]:
  "wp (if b then m else n) E Q tr = (if b then wp m E Q tr else wp n E Q tr)"
  by simp

lemma wp_cases [wp_simps]:
  "wp (case p of (a, b) \<Rightarrow> f a b) E Q tr = (case p of (a, b) \<Rightarrow> wp (f a b) E Q tr)"
  "wp (case x of None \<Rightarrow> m | Some y \<Rightarrow> n y) E Q tr =
     (case x of None \<Rightarrow> wp m E Q tr | Some y \<Rightarrow> wp (n y) E Q tr)"
  by (simp_all split: prod.splits option.splits)

lemma wp_mono:
  "wp m E Q tr \<Longrightarrow> (\<And>a tr'. Q a tr' \<Longrightarrow> R a tr') \<Longrightarrow> wp m E R tr"
  by (auto simp: wp_def split: prod.splits outcome.splits)

lemma wp_iterM:
  assumes init: "I s tr"
    and step: "\<And>s tr. I s tr \<Longrightarrow>
      wp (b s) E (\<lambda>x tr'. case x of Inl s' \<Rightarrow> I s' tr' | Inr r \<Rightarrow> Q r tr') tr"
  shows "wp (iterM n b s) E Q tr"
  using init
proof (induction n arbitrary: s tr)
  case 0
  then show ?case by (simp add: wp_simps)
next
  case (Suc n)
  have "wp (b s) E (\<lambda>x tr'. wp (case x of Inl s' \<Rightarrow> iterM n b s' | Inr r \<Rightarrow> retM r) E Q tr') tr"
    by (rule wp_mono [OF step [OF Suc.prems]])
      (auto simp: wp_simps Suc.IH split: sum.splits)
  then show ?case by (simp add: wp_simps)
qed

lemma wp_loopM:
  assumes "I s tr"
    and "\<And>s tr. I s tr \<Longrightarrow>
      wp (b s) E (\<lambda>x tr'. case x of Inl s' \<Rightarrow> I s' tr' | Inr r \<Rightarrow> Q r tr') tr"
  shows "wp (loopM b s) E Q tr"
  using wp_iterM [where n = "fuel E", OF assms] by (simp add: wp_def loopM_def)

text \<open>Introduction rules in which the replies are arbitrary.\<close>

lemma vcg_basic [vcg]:
  "Q a tr \<Longrightarrow> wp (retM a) E Q tr"
  "wp (exitM k) E Q tr" "wp faultM E Q tr" "wp stuckM E Q tr"
  "(\<And>r. R r (tr @ [(c, r)])) \<Longrightarrow> wp (callM c) E R tr"
  "(\<And>r. S (rp_ret r) (tr @ [(c, r)])) \<Longrightarrow> wp (codeM c) E S tr"
  "(\<And>r. T () (tr @ [(c, r)])) \<Longrightarrow> wp (doM c) E T tr"
  "(length s < n \<Longrightarrow> U s tr) \<Longrightarrow> wp (bufM n s) E U tr"
  by (simp_all add: wp_simps)

lemma vcg_compound [vcg]:
  "wp m E (\<lambda>a tr'. wp (f a) E Q tr') tr \<Longrightarrow> wp (bindM m f) E Q tr"
  "(b \<Longrightarrow> wp m' E R tr) \<Longrightarrow> (\<not> b \<Longrightarrow> wp n' E R tr) \<Longrightarrow> wp (if b then m' else n') E R tr"
  by (simp_all add: wp_simps)

lemma vcg_cases [vcg]:
  "wp (f x) E Q tr \<Longrightarrow> wp (let y = x in f y) E Q tr"
  "(\<And>a b. p = (a, b) \<Longrightarrow> wp (g a b) E R tr) \<Longrightarrow> wp (case p of (a, b) \<Rightarrow> g a b) E R tr"
  "(z = None \<Longrightarrow> wp m E S tr) \<Longrightarrow> (\<And>y. z = Some y \<Longrightarrow> wp (n y) E S tr) \<Longrightarrow>
     wp (case z of None \<Rightarrow> m | Some y \<Rightarrow> n y) E S tr"
  by (auto split: prod.splits option.splits)

subsection \<open>The calls a program can make\<close>

definition emits_only :: "(call \<Rightarrow> bool) \<Rightarrow> 'a io \<Rightarrow> bool" where
  "emits_only A m = (\<forall>E tr. \<exists>evs. snd (m E tr) = tr @ evs \<and> (\<forall>(c, r) \<in> set evs. A c))"

lemma emits_onlyD:
  "emits_only A m \<Longrightarrow> \<exists>evs. snd (m E tr) = tr @ evs \<and> (\<forall>c r. (c, r) \<in> set evs \<longrightarrow> A c)"
  unfolding emits_only_def by fast

lemma emits_only_basic [emits]:
  "emits_only A (retM a)" "emits_only A (exitM c)" "emits_only A faultM" "emits_only A stuckM"
  "emits_only A (bufM n s)"
  by (simp_all add: emits_only_def io_simps)

lemma emits_only_call [emits]:
  "A c \<Longrightarrow> emits_only A (callM c)" "A c \<Longrightarrow> emits_only A (codeM c)" "A c \<Longrightarrow> emits_only A (doM c)"
  by (simp_all add: emits_only_def io_simps)

lemma emits_only_bind [emits]:
  assumes "emits_only A m" "\<And>a. emits_only A (f a)"
  shows "emits_only A (bindM m f)"
  unfolding emits_only_def
proof (intro allI)
  fix E tr
  obtain evs where m: "snd (m E tr) = tr @ evs" "\<And>c r. (c, r) \<in> set evs \<Longrightarrow> A c"
    using emits_onlyD [OF assms(1)] by blast
  show "\<exists>evs. snd (bindM m f E tr) = tr @ evs \<and> (\<forall>(c, r) \<in> set evs. A c)"
  proof (cases "fst (m E tr)")
    case (Done a)
    obtain evs' where "snd (f a E (tr @ evs)) = (tr @ evs) @ evs'" "\<And>c r. (c, r) \<in> set evs' \<Longrightarrow> A c"
      using emits_onlyD [OF assms(2)] by blast
    with m Done show ?thesis
      by (intro exI [of _ "evs @ evs'"]) (auto simp: bindM_def split: prod.splits)
  qed (use m in \<open>auto simp: bindM_def split: prod.splits\<close>)
qed

lemma emits_only_bind_bufM [emits]: "emits_only A (f s) \<Longrightarrow> emits_only A (bindM (bufM n s) f)"
  by (auto simp: emits_only_def io_simps)

lemma emits_only_if [emits]:
  "(b \<Longrightarrow> emits_only A m) \<Longrightarrow> (\<not> b \<Longrightarrow> emits_only A n) \<Longrightarrow> emits_only A (if b then m else n)"
  by simp

lemma emits_only_option [emits]:
  "emits_only A m \<Longrightarrow> (\<And>a. emits_only A (n a)) \<Longrightarrow>
     emits_only A (case x of None \<Rightarrow> m | Some a \<Rightarrow> n a)"
  by (simp split: option.splits)

lemma emits_only_prod [emits]:
  "(\<And>a b. emits_only A (f a b)) \<Longrightarrow> emits_only A (case p of (a, b) \<Rightarrow> f a b)"
  by (simp split: prod.splits)

lemma emits_only_sum [emits]:
  "(\<And>a. emits_only A (f a)) \<Longrightarrow> (\<And>b. emits_only A (g b)) \<Longrightarrow>
     emits_only A (case x of Inl a \<Rightarrow> f a | Inr b \<Rightarrow> g b)"
  by (simp split: sum.splits)

lemma emits_only_iterM:
  "(\<And>s. emits_only A (b s)) \<Longrightarrow> emits_only A (iterM n b s)"
proof (induction n arbitrary: s)
  case 0
  then show ?case by (simp add: emits)
next
  case (Suc n)
  then show ?case
    by (simp only: iterM.simps)
      (intro emits_only_bind emits_only_sum Suc.IH emits_only_basic Suc.prems)
qed

lemma emits_only_loopM [emits]:
  assumes "\<And>s. emits_only A (b s)"
  shows "emits_only A (loopM b s)"
  unfolding emits_only_def loopM_def
  using emits_onlyD [OF emits_only_iterM [of A b, OF assms]] by fast

lemma emits_only_mono: "emits_only A m \<Longrightarrow> (\<And>c. A c \<Longrightarrow> B c) \<Longrightarrow> emits_only B m"
  by (fastforce simp: emits_only_def)

end
