(* ===== verification/Hl.thy ===== *)
theory Hl
  imports Prog
begin

text \<open>
  The high-level operations shared by the programs (\<open>src/src/hl.c\<close>): copying a file into and
  out of a partition, listing a directory and the partitions, formatting and creating
  partitions. Standard output is modelled (calls \<open>Puts\<close>), with the formats of the source;
  messages on standard error are not. The handle of every open is closed again and every
  mount is undone: \<^theory_text>\<open>Ledger\<close>.
\<close>

definition nl :: string where "nl = [CHR 0x0A]"

definition putsM :: "string \<Rightarrow> unit io" where
  "putsM s = doM (Puts s)"

lemma bindM_putsM [io_simps]: "bindM (putsM s) f = bindM (callM (Puts s)) (\<lambda>_. f ())"
  by (simp add: putsM_def io_simps)

lemma putsM_run [io_simps]: "putsM s E tr = (Done (), tr @ [(Puts s, answer E tr (Puts s))])"
  by (simp add: putsM_def io_simps)

lemma wp_putsM [wp_simps]: "wp (putsM s) E Q tr = Q () (tr @ [(Puts s, answer E tr (Puts s))])"
  by (simp add: wp_def io_simps)

lemma emits_only_putsM [emits]: "A (Puts s) \<Longrightarrow> emits_only A (putsM s)"
  by (simp add: putsM_def emits)

text \<open>The \<open>open(2)\<close> flags of the host (Linux values).\<close>

definition O_RDONLY :: u32 where "O_RDONLY = 0"
definition O_WRONLY :: u32 where "O_WRONLY = 1"
definition O_RDWR :: u32 where "O_RDWR = 2"
definition O_CREAT :: u32 where "O_CREAT = 0x40"

text \<open>The bytes a successful \<open>read\<close> left in the buffer, as a following \<open>write\<close> takes them.\<close>

definition got :: "reply \<Rightarrow> string" where
  "got r = take (nat (rp_ret r)) (rp_data r)"

subsection \<open>Copying\<close>

text \<open>The loop of \<open>copyto\<close>; it ends with the last \<open>len\<close> and \<open>retval\<close>.\<close>

definition copyto_body :: "int \<Rightarrow> int \<Rightarrow> string \<Rightarrow> unit \<Rightarrow> (unit + int \<times> int) io" where
  "copyto_body in_file fh dest_path = (\<lambda>_.
     bindM (callM (Host_read in_file 65536)) (\<lambda>r.
     if rp_ret r > 0 then
       bindM (codeM (Ix_write fh (got r))) (\<lambda>result.
       if result < 0 then
         bindM (putsM (dest_path @ '': write failed with '' @ dec_int result @ nl)) (\<lambda>_.
         retM (Inr (rp_ret r, - 1)))
       else retM (Inl ()))
     else retM (Inr (rp_ret r, 0))))"

definition copyto :: "string \<Rightarrow> string \<Rightarrow> string \<Rightarrow> int io" where
  "copyto mount_point dest src =
     bindM (codeM (Host_open src O_RDONLY 0)) (\<lambda>in_file.
     if in_file \<noteq> - 1 then
       bindM (codeM (Ix_mount ''pfs0:'' mount_point 0)) (\<lambda>result.
       bindM
         (if result \<ge> 0 then
            bindM (bufM 256 (''pfs0:'' @ dest)) (\<lambda>dest_path.
            bindM (codeM (Ix_open dest_path (FIO_O_WRONLY OR FIO_O_CREAT) 0x1B6)) (\<lambda>fh.
            bindM
              (if fh \<ge> 0 then
                 bindM (loopM (copyto_body in_file fh dest_path) ()) (\<lambda>(len, retval).
                 bindM (codeM (Ix_close fh)) (\<lambda>result.
                 if result < 0 then
                   bindM (putsM (''close: failed with '' @ dec_int result @ nl)) (\<lambda>_. retM (- 1))
                 else retM retval))
               else
                 bindM (putsM (dest_path @ '': create failed with '' @ dec_int fh @ nl)) (\<lambda>_.
                 retM (- 1)))
              (\<lambda>retval.
            bindM (codeM (Ix_umount ''pfs0:'')) (\<lambda>result.
            if result < 0 then
              bindM (putsM (''pfs0: umount failed with '' @ dec_int result @ nl)) (\<lambda>_. retM (- 1))
            else retM retval))))
          else
            bindM (putsM (''pfs0: mount of '' @ [CHR 0x22] @ mount_point @ [CHR 0x22] @
                '' failed with '' @ dec_int result @ nl)) (\<lambda>_. retM (- 1)))
         (\<lambda>retval.
       bindM (doM (Host_close in_file)) (\<lambda>_. retM retval)))
     else retM (- 1))"

definition copyfrom_body :: "int \<Rightarrow> int \<Rightarrow> unit \<Rightarrow> (unit + int \<times> int) io" where
  "copyfrom_body fh out_file = (\<lambda>_.
     bindM (callM (Ix_read fh 65536)) (\<lambda>r.
     if rp_ret r > 0 then
       bindM (codeM (Host_write out_file (got r))) (\<lambda>result.
       if result = - 1 then retM (Inr (rp_ret r, - 1)) else retM (Inl ()))
     else retM (Inr (rp_ret r, 0))))"

definition copyfrom :: "string \<Rightarrow> string \<Rightarrow> string \<Rightarrow> int io" where
  "copyfrom mount_point src dest =
     bindM (codeM (Host_open dest (O_CREAT OR O_WRONLY) 0x1B4)) (\<lambda>out_file.
     if out_file \<noteq> - 1 then
       bindM (codeM (Ix_mount ''pfs0:'' mount_point 0)) (\<lambda>result.
       bindM
         (if result \<ge> 0 then
            bindM (bufM 256 (''pfs0:'' @ src)) (\<lambda>src_path.
            bindM (codeM (Ix_open src_path FIO_O_RDONLY 0)) (\<lambda>fh.
            bindM
              (if fh \<ge> 0 then
                 bindM (loopM (copyfrom_body fh out_file) ()) (\<lambda>(len, retval).
                 bindM
                   (if len < 0 then
                      bindM (putsM (src_path @ '': read failed with '' @ dec_int len @ nl)) (\<lambda>_.
                      retM (- 1))
                    else retM retval)
                   (\<lambda>retval.
                 bindM (codeM (Ix_close fh)) (\<lambda>result.
                 if result < 0 then
                   bindM (putsM (''close: failed with '' @ dec_int result @ nl)) (\<lambda>_. retM (- 1))
                 else retM retval)))
               else
                 bindM (putsM (src_path @ '': open failed with '' @ dec_int fh @ nl)) (\<lambda>_.
                 retM (- 1)))
              (\<lambda>retval.
            bindM (codeM (Ix_umount ''pfs0:'')) (\<lambda>result.
            if result < 0 then
              bindM (putsM (''pfs0: umount failed with '' @ dec_int result @ nl)) (\<lambda>_. retM (- 1))
            else retM retval))))
          else
            bindM (putsM (''pfs0: mount of '' @ [CHR 0x22] @ mount_point @ [CHR 0x22] @
                '' failed with '' @ dec_int result @ nl)) (\<lambda>_. retM (- 1)))
         (\<lambda>retval.
       bindM (codeM (Host_close out_file)) (\<lambda>c.
       retM (if c = - 1 then - 1 else retval))))
     else retM (- 1))"

subsection \<open>Listing\<close>

text \<open>One byte of an on-disk time stamp, and the year in its last two.\<close>

definition time_byte :: "byte list \<Rightarrow> nat \<Rightarrow> nat" where
  "time_byte t i = (if i < length t then unat (t ! i) else 0)"

definition time_year :: "byte list \<Rightarrow> nat" where
  "time_year t = time_byte t 6 + 256 * time_byte t 7"

text \<open>\<open>sprintf(mod_time, "%04d-%02d-%02d %02d:%02d", ...)\<close> into \<open>char mod_time[16 + 1]\<close>.\<close>

definition mod_time :: "byte list \<Rightarrow> string" where
  "mod_time t =
     pad_left 4 (CHR ''0'') (dec (time_year t)) @ ''-'' @
     pad_left 2 (CHR ''0'') (dec (time_byte t 5)) @ ''-'' @
     pad_left 2 (CHR ''0'') (dec (time_byte t 4)) @ '' '' @
     pad_left 2 (CHR ''0'') (dec (time_byte t 3)) @ '':'' @
     pad_left 2 (CHR ''0'') (dec (time_byte t 2))"

definition mode_char :: "u32 \<Rightarrow> u32 \<Rightarrow> char \<Rightarrow> char" where
  "mode_char m b c = (if m AND b \<noteq> 0 then c else CHR ''-'')"

definition mode_string :: "u32 \<Rightarrow> string" where
  "mode_string m =
     [if m AND FIO_S_IFMT = FIO_S_IFLNK then CHR ''l''
      else if m AND FIO_S_IFMT = FIO_S_IFREG then CHR ''-''
      else if m AND FIO_S_IFMT = FIO_S_IFDIR then CHR ''d'' else CHR ''?'',
      mode_char m FIO_S_IRUSR (CHR ''r''), mode_char m FIO_S_IWUSR (CHR ''w''),
      mode_char m FIO_S_IXUSR (CHR ''x''), mode_char m FIO_S_IRGRP (CHR ''r''),
      mode_char m FIO_S_IWGRP (CHR ''w''), mode_char m FIO_S_IXGRP (CHR ''x''),
      mode_char m FIO_S_IROTH (CHR ''r''), mode_char m FIO_S_IWOTH (CHR ''w''),
      mode_char m FIO_S_IXOTH (CHR ''x'')]"

text \<open>
  \<open>end_symbol\<close> keeps its value from the previous entry when the type is not known; before the
  first entry it is not initialised (\<open>None\<close>).
\<close>

definition dir_end_symbol :: "u32 \<Rightarrow> string option \<Rightarrow> string option" where
  "dir_end_symbol m old =
     (if m AND FIO_S_IFMT = FIO_S_IFLNK then Some ''@''
      else if m AND FIO_S_IFMT = FIO_S_IFREG then Some []
      else if m AND FIO_S_IFMT = FIO_S_IFDIR then Some ''/''
      else old)"

definition list_dir_body :: "int \<Rightarrow> int \<Rightarrow> string option \<Rightarrow> (string option + int) io" where
  "list_dir_body dh lsmode = (\<lambda>end_symbol.
     bindM (callM (Ix_dread dh)) (\<lambda>r.
     if rp_ret r \<noteq> 0 \<and> rp_ret r \<noteq> - 1 then
       let m = st_mode (rp_stat r);
           end_symbol = dir_end_symbol m end_symbol
       in bindM (bufM 17 (mod_time (st_mtime (rp_stat r)))) (\<lambda>time.
          bindM
            (if lsmode = 0 then
               (case end_symbol of None \<Rightarrow> faultM | Some es \<Rightarrow> putsM (rp_data r @ es @ nl))
             else if lsmode = 1 then
               (case end_symbol of None \<Rightarrow> faultM | Some es \<Rightarrow>
                  putsM (mode_string m @ '' '' @
                    pad_left 10 (CHR '' '') (dec (unat (st_size (rp_stat r)))) @ ''  '' @ time @
                    ''  '' @ rp_data r @ es @ nl))
             else retM ()) (\<lambda>_.
          retM (Inl end_symbol)))
     else retM (Inr (rp_ret r))))"

definition list_dir_objects :: "int \<Rightarrow> int \<Rightarrow> int io" where
  "list_dir_objects dh lsmode = loopM (list_dir_body dh lsmode) None"

subsection \<open>Listing the partitions\<close>

text \<open>\<open>%7.2f\<close> of \<open>n / 1024.0\<close>: \<open>n\<close> is below \<open>2 ^ 53\<close>, so the quotient is exact and the C
  library rounds it to the nearest hundredth, ties to even.\<close>

definition hundredths :: "nat \<Rightarrow> nat" where
  "hundredths n = (let q = n * 100 div 1024; r = n * 100 mod 1024 in
     if r > 512 \<or> (r = 512 \<and> odd q) then q + 1 else q)"

definition fmt_7_2f :: "nat \<Rightarrow> string" where
  "fmt_7_2f n = pad_left 7 (CHR '' '')
     (dec (hundredths n div 100) @ ''.'' @ pad_left 2 (CHR ''0'') (dec (hundredths n mod 100)))"

text \<open>\<open>%#10x\<close> and \<open>%04X\<close>.\<close>

definition fmt_hash10x :: "nat \<Rightarrow> string" where
  "fmt_hash10x n = pad_left 10 (CHR '' '') (if n = 0 then ''0'' else ''0x'' @ digs 16 n)"

definition upper_hex :: "char \<Rightarrow> char" where
  "upper_hex c = (if (97 :: nat) \<le> of_char c then char_of ((of_char c :: nat) - 32) else c)"

definition fmt_04X :: "nat \<Rightarrow> string" where
  "fmt_04X n = pad_left 4 (CHR ''0'') (map upper_hex (digs 16 n))"

definition fmt_u :: "nat \<Rightarrow> nat \<Rightarrow> string" where
  "fmt_u w n = pad_left w (CHR '' '') (dec n)"

text \<open>The symbol after a partition's name: free, sub-partition, PFS, HDL, anything else.\<close>

definition part_end_symbol :: "iox_stat \<Rightarrow> string" where
  "part_end_symbol st =
     (if st_mode st = 0x0000 then ''%''
      else if st_attr st = 1 then ''@''
      else if st_mode st = 0x0100 then ''/''
      else if st_mode st = 0x1337 then ''*''
      else [])"

text \<open>\<open>totalsize\<close>, in MiB: the 64-bit size of a main partition with its sub-partitions.\<close>

definition part_totalsize :: "iox_stat \<Rightarrow> nat" where
  "part_totalsize st = (unat (private_1 st) + unat (private_2 st) * 2 ^ 32) div 2048"

definition lspart_line :: "int \<Rightarrow> string \<Rightarrow> iox_stat \<Rightarrow> string \<Rightarrow> string option" where
  "lspart_line lsmode name st time =
    (let size = unat (st_size st) div 2048;
         totalsize = part_totalsize st;
         shown = (st_attr st = 0 \<and> st_mode st \<noteq> 0x0000);
         start = unat (private_5 st)
     in if lsmode = 0 then
          (if shown then Some (fmt_7_2f totalsize @ '' GiB  '' @ name @ part_end_symbol st @ nl)
           else None)
        else if lsmode = 1 then
          Some (fmt_hash10x start @ '' '' @
            (if start mod 0x200000 = 0 then fmt_u 4 (start div 0x200000) @ '' GiB'' else ''        '') @
            ''  '' @ fmt_04X (unat (st_mode st)) @
            (if size < 1024 then fmt_u 5 size @ '' MiB'' else fmt_u 5 (size div 1024) @ '' GiB'') @
            (if shown then
               (if totalsize mod 1024 = 0 \<and> totalsize div 1024 < 2 ^ 31
                then ''  '' @ fmt_u 4 (totalsize div 1024) @ ''    GiB''
                else ''  '' @ fmt_7_2f totalsize @ '' GiB'')
             else ''             '') @
            ''   '' @ time @ ''  '' @ name @ part_end_symbol st @ nl)
        else None)"

definition lspart_body :: "int \<Rightarrow> int \<Rightarrow> unit \<Rightarrow> (unit + unit) io" where
  "lspart_body dh lsmode = (\<lambda>_.
     bindM (callM (Ix_dread dh)) (\<lambda>r.
     if rp_ret r \<noteq> 0 \<and> rp_ret r \<noteq> - 1 then
       bindM (bufM 17 (mod_time (st_mtime (rp_stat r)))) (\<lambda>time.
       bindM (case lspart_line lsmode (rp_data r) (rp_stat r) time of
           None \<Rightarrow> retM () | Some s \<Rightarrow> putsM s) (\<lambda>_.
       retM (Inl ())))
     else retM (Inr ())))"

definition lspart :: "int \<Rightarrow> int io" where
  "lspart lsmode =
     bindM (codeM (Ix_dopen ''hdd0:'')) (\<lambda>dh.
     if dh \<ge> 0 then
       bindM (if lsmode = 1 then putsM
           (''Start (sector)       Code    Slice         Size   Timestamp         Name'' @ nl)
         else retM ()) (\<lambda>_.
       bindM (loopM (lspart_body dh lsmode) ()) (\<lambda>_.
       bindM (codeM (Ix_close dh)) (\<lambda>result.
       if result < 0 then
         bindM (putsM (''dclose: failed with '' @ dec_int result @ nl)) (\<lambda>_. retM (- 1))
       else retM 0)))
     else
       bindM (putsM (''dopen: '' @ [CHR 0x22] @ ''hdd0:'' @ [CHR 0x22] @ '' failed with '' @
           dec_int dh @ nl)) (\<lambda>_. retM dh))"

definition ls :: "string \<Rightarrow> string \<Rightarrow> int io" where
  "ls mount_point path =
     bindM (codeM (Ix_mount ''pfs0:'' mount_point 0)) (\<lambda>result.
     if result \<ge> 0 then
       bindM (bufM 256 (''pfs0:'' @ path)) (\<lambda>dir_path.
       bindM (codeM (Ix_dopen dir_path)) (\<lambda>dh.
       bindM
         (if dh \<ge> 0 then
            bindM (list_dir_objects dh 1) (\<lambda>_.
            bindM (codeM (Ix_close dh)) (\<lambda>result.
            if result < 0 then
              bindM (putsM (''dclose: failed with '' @ dec_int result @ nl)) (\<lambda>_. retM (- 1))
            else retM 0))
          else
            bindM (putsM (''dopen: '' @ [CHR 0x22] @ dir_path @ [CHR 0x22] @ '' failed with '' @
                dec_int dh @ nl)) (\<lambda>_. retM (- 1)))
         (\<lambda>retval.
       bindM (codeM (Ix_umount ''pfs0:'')) (\<lambda>result.
       if result < 0 then
         bindM (putsM (''pfs0: umount failed with '' @ dec_int result @ nl)) (\<lambda>_. retM (- 1))
       else retM retval))))
     else
       bindM (putsM (''pfs0: mount of '' @ [CHR 0x22] @ mount_point @ [CHR 0x22] @
           '' failed with '' @ dec_int result @ nl)) (\<lambda>_. retM (- 1)))"

subsection \<open>Formatting and creating partitions\<close>

definition mkpfs :: "string \<Rightarrow> int io" where
  "mkpfs mount_point =
     bindM (bufM 256 (''hdd0:'' @ mount_point)) (\<lambda>tmp.
     codeM (Ix_format ''pfs:'' (Some tmp) (Ints_arg [8192, 0x2d66, 0])))"

definition mkpart :: "string \<Rightarrow> int \<Rightarrow> bool \<Rightarrow> int io" where
  "mkpart mount_point size_in_mb format =
     bindM (bufM 256
       (if size_in_mb \<ge> 1024 then mount_point @ '','' @ dec_int (c_div size_in_mb 1024) @ ''G''
        else mount_point @ '','' @ dec_int size_in_mb @ ''M'')) (\<lambda>tmp.
     bindM (codeM (Ix_open tmp (FIO_O_RDWR OR FIO_O_CREAT) 0)) (\<lambda>result.
     if result \<ge> 0 then
       bindM (doM (Ix_close result)) (\<lambda>_.
       if format then mkpfs mount_point else retM 0)
     else retM result))"

definition initialize :: "int io" where
  "initialize =
     bindM (codeM (Ix_format ''hdd0:'' None No_arg)) (\<lambda>result.
     if result \<ge> 0 then
       bindM (mkpfs ''__net'') (\<lambda>result.
       bindM (mkpfs ''__system'') (\<lambda>_.
       bindM (mkpfs ''__sysconf'') (\<lambda>_.
       bindM (mkpfs ''__common'') (\<lambda>_.
       retM result))))
     else retM result)"

end
