(* ===== verification/Ghost.thy ===== *)
theory Ghost
  imports Prog
begin

text \<open>
  Reasoning about a program through a summary of its history. A summary is a step function
  \<open>st\<close> folded over the calls and replies; \<open>gwp st m Q g\<close> says that from summary \<open>g\<close> every
  normal return of \<open>m\<close>, whatever the environment answers, satisfies \<open>Q\<close> on the value and the
  new summary. The rules in \<open>gwp\<close> follow the structure of a program; the replies become
  universally quantified variables, so the goals stay small.
\<close>

named_theorems gwp \<open>introduction rules for summaries of a program's history\<close>

definition gwp ::
    "('g \<Rightarrow> call \<times> reply \<Rightarrow> 'g) \<Rightarrow> 'a io \<Rightarrow> ('a \<Rightarrow> 'g \<Rightarrow> bool) \<Rightarrow> 'g \<Rightarrow> bool" where
  "gwp st m Q g = (\<forall>E tr. \<exists>evs. snd (m E tr) = tr @ evs \<and>
     (case fst (m E tr) of Done a \<Rightarrow> Q a (foldl st g evs) | _ \<Rightarrow> True))"

lemma gwpI:
  assumes "\<And>E tr. \<exists>evs. snd (m E tr) = tr @ evs \<and>
    (\<forall>a. fst (m E tr) = Done a \<longrightarrow> Q a (foldl st g evs))"
  shows "gwp st m Q g"
  unfolding gwp_def
proof (intro allI)
  fix E tr
  obtain evs where "snd (m E tr) = tr @ evs"
    "\<And>a. fst (m E tr) = Done a \<Longrightarrow> Q a (foldl st g evs)"
    using assms by blast
  then show "\<exists>evs. snd (m E tr) = tr @ evs \<and>
     (case fst (m E tr) of Done a \<Rightarrow> Q a (foldl st g evs) | _ \<Rightarrow> True)"
    by (intro exI [of _ evs]) (auto split: outcome.splits)
qed

lemma gwpD:
  assumes "gwp st m Q g"
  shows "\<exists>evs. snd (m E tr) = tr @ evs \<and> (\<forall>a. fst (m E tr) = Done a \<longrightarrow> Q a (foldl st g evs))"
proof -
  obtain evs where "snd (m E tr) = tr @ evs"
    "case fst (m E tr) of Done a \<Rightarrow> Q a (foldl st g evs) | _ \<Rightarrow> True"
    using assms unfolding gwp_def by blast
  then show ?thesis
    by (intro exI [of _ evs]) auto
qed

lemma gwp_basic [gwp]:
  "Q a g \<Longrightarrow> gwp st (retM a) Q g"
  "gwp st (exitM k) Q g" "gwp st faultM Q g" "gwp st stuckM Q g"
  "(length s < n \<Longrightarrow> P s g) \<Longrightarrow> gwp st (bufM n s) P g"
  by (rule gwpI; simp add: io_simps)+

lemma gwp_call [gwp]:
  "(\<And>r. Q r (st g (c, r))) \<Longrightarrow> gwp st (callM c) Q g"
  "(\<And>r. R (rp_ret r) (st g (c, r))) \<Longrightarrow> gwp st (codeM c) R g"
  "(\<And>r. P () (st g (c, r))) \<Longrightarrow> gwp st (doM c) P g"
  by (rule gwpI; simp add: io_simps)+

lemma gwp_bind [gwp]:
  assumes "gwp st m (\<lambda>a g'. gwp st (f a) Q g') g"
  shows "gwp st (bindM m f) Q g"
proof (rule gwpI)
  fix E tr
  obtain evs where m: "snd (m E tr) = tr @ evs"
    "\<And>a. fst (m E tr) = Done a \<Longrightarrow> gwp st (f a) Q (foldl st g evs)"
    using gwpD [OF assms] by blast
  show "\<exists>evs. snd (bindM m f E tr) = tr @ evs \<and>
     (\<forall>a. fst (bindM m f E tr) = Done a \<longrightarrow> Q a (foldl st g evs))"
  proof (cases "fst (m E tr)")
    case (Done b)
    have run: "bindM m f E tr = f b E (tr @ evs)"
      using m(1) Done by (cases "m E tr") (simp add: bindM_def)
    obtain evs' where "snd (f b E (tr @ evs)) = (tr @ evs) @ evs'"
      "\<And>a. fst (f b E (tr @ evs)) = Done a \<Longrightarrow> Q a (foldl st (foldl st g evs) evs')"
      using gwpD [OF m(2) [OF Done]] by blast
    then show ?thesis
      by (intro exI [of _ "evs @ evs'"]) (simp add: run)
  qed (use m in \<open>auto simp: bindM_def split: prod.splits\<close>)
qed

lemma gwp_mono:
  assumes "gwp st m Q g" "\<And>a g'. Q a g' \<Longrightarrow> R a g'"
  shows "gwp st m R g"
  by (rule gwpI) (use gwpD [OF assms(1)] assms(2) in blast)

lemma gwp_if [gwp]:
  "(b \<Longrightarrow> gwp st m Q g) \<Longrightarrow> (\<not> b \<Longrightarrow> gwp st n Q g) \<Longrightarrow> gwp st (if b then m else n) Q g"
  by simp

lemma gwp_let [gwp]: "gwp st (f x) Q g \<Longrightarrow> gwp st (let y = x in f y) Q g"
  by simp

lemma gwp_option [gwp]:
  "(x = None \<Longrightarrow> gwp st m Q g) \<Longrightarrow> (\<And>y. x = Some y \<Longrightarrow> gwp st (n y) Q g) \<Longrightarrow>
     gwp st (case x of None \<Rightarrow> m | Some y \<Rightarrow> n y) Q g"
  by (cases x) auto

lemma gwp_prod [gwp]:
  "(\<And>a b. p = (a, b) \<Longrightarrow> gwp st (f a b) Q g) \<Longrightarrow> gwp st (case p of (a, b) \<Rightarrow> f a b) Q g"
  by (cases p) auto

lemma gwp_iterM:
  assumes "I s g"
    and "\<And>s g. I s g \<Longrightarrow>
      gwp st (b s) (\<lambda>x g'. case x of Inl s' \<Rightarrow> I s' g' | Inr r \<Rightarrow> Q r g') g"
  shows "gwp st (iterM n b s) Q g"
  using assms(1)
proof (induction n arbitrary: s g)
  case 0
  then show ?case by (simp add: gwp)
next
  case (Suc n)
  have "gwp st (b s) (\<lambda>x g'. gwp st (case x of Inl s' \<Rightarrow> iterM n b s' | Inr r \<Rightarrow> retM r) Q g') g"
    by (rule gwp_mono [OF assms(2) [OF Suc.prems]])
      (auto split: sum.splits intro: Suc.IH gwp)
  then show ?case by (simp add: gwp_bind)
qed

lemma gwp_loopM:
  assumes "I s g"
    and "\<And>s g. I s g \<Longrightarrow>
      gwp st (b s) (\<lambda>x g'. case x of Inl s' \<Rightarrow> I s' g' | Inr r \<Rightarrow> Q r g') g"
  shows "gwp st (loopM b s) Q g"
  by (rule gwpI) (use gwpD [OF gwp_iterM [of I, OF assms]] in \<open>simp add: loopM_def\<close>)

text \<open>Calls the summary ignores.\<close>

lemma gwp_ignored:
  assumes "emits_only A m" "\<And>c r g. A c \<Longrightarrow> st g (c, r) = g" "\<And>a. Q a g"
  shows "gwp st m Q g"
proof (rule gwpI)
  fix E tr
  obtain evs where evs: "snd (m E tr) = tr @ evs" "\<And>c r. (c, r) \<in> set evs \<Longrightarrow> A c"
    using emits_onlyD [OF assms(1)] by blast
  have "foldl st g evs = g"
    using evs(2)
  proof (induction evs)
    case (Cons e evs)
    obtain c r where e: "e = (c, r)" by (cases e)
    then have "st g e = g" using Cons.prems [of c r] by (simp add: assms(2))
    moreover have "foldl st g evs = g"
      by (rule Cons.IH) (meson Cons.prems list.set_intros(2))
    ultimately show ?case by simp
  qed simp
  with evs(1) assms(3) show "\<exists>evs. snd (m E tr) = tr @ evs \<and>
     (\<forall>a. fst (m E tr) = Done a \<longrightarrow> Q a (foldl st g evs))"
    by auto
qed

text \<open>From a summary back to the history.\<close>

lemma gwp_wp:
  assumes "gwp st m Q (foldl st g0 tr)"
  shows "wp m E (\<lambda>a tr'. Q a (foldl st g0 tr')) tr"
  using gwpD [OF assms, of E tr] by (cases "m E tr") (auto simp: wp_def split: outcome.splits)

end
