(* ===== verification/Ledger.thy ===== *)
theory Ledger
  imports Hl Ghost
begin

text \<open>
  Accounting over histories. \<open>ledger\<close> computes from a history which iomanX handles, host
  descriptors and streams are open and which mounts have not been undone (a \<open>close\<close> gives its handle up
  even when it reports an error, a failed \<open>umount\<close> leaves the mount); a program is
  \<open>balanced\<close> when a normal return leaves the ledger as it was. \<open>copy_loop\<close> is the contract of the program's
  copy loops: every byte read is written, in order, and a source that serves its content is
  copied completely.
\<close>

subsection \<open>Open handles and mounts\<close>

record ledger =
  lg_ix :: "int list"
  lg_host :: "int list"
  lg_files :: "int list"
  lg_mounts :: "string list"

fun ledger_step :: "ledger \<Rightarrow> call \<times> reply \<Rightarrow> ledger" where
  "ledger_step L (Ix_open _ _ _, r) =
     (if rp_ret r \<ge> 0 then L\<lparr>lg_ix := rp_ret r # lg_ix L\<rparr> else L)"
| "ledger_step L (Ix_dopen _, r) =
     (if rp_ret r \<ge> 0 then L\<lparr>lg_ix := rp_ret r # lg_ix L\<rparr> else L)"
| "ledger_step L (Ix_close fd, r) =
     (if fd \<ge> 0 then L\<lparr>lg_ix := remove1 fd (lg_ix L)\<rparr> else L)"
| "ledger_step L (Host_open _ _ _, r) =
     (if rp_ret r \<noteq> - 1 then L\<lparr>lg_host := rp_ret r # lg_host L\<rparr> else L)"
| "ledger_step L (Host_close fd, r) = L\<lparr>lg_host := remove1 fd (lg_host L)\<rparr>"
| "ledger_step L (F_open _ _, r) =
     (if rp_ret r \<noteq> 0 then L\<lparr>lg_files := rp_ret r # lg_files L\<rparr> else L)"
| "ledger_step L (F_close f, r) = L\<lparr>lg_files := remove1 f (lg_files L)\<rparr>"
| "ledger_step L (Ix_mount fs _ _, r) =
     (if rp_ret r \<ge> 0 then L\<lparr>lg_mounts := fs # lg_mounts L\<rparr> else L)"
| "ledger_step L (Ix_umount fs, r) =
     (if rp_ret r \<ge> 0 then L\<lparr>lg_mounts := remove1 fs (lg_mounts L)\<rparr> else L)"
| "ledger_step L _ = L"

definition ledger_of :: "trace \<Rightarrow> ledger" where
  "ledger_of tr = foldl ledger_step \<lparr>lg_ix = [], lg_host = [], lg_files = [], lg_mounts = []\<rparr> tr"

lemma ledger_of_append [simp]: "ledger_of (tr @ evs) = foldl ledger_step (ledger_of tr) evs"
  by (simp add: ledger_of_def)

text \<open>Calls that open, close, mount or unmount nothing.\<close>

fun neutral :: "call \<Rightarrow> bool" where
  "neutral (Ix_open _ _ _) = False"
| "neutral (Ix_dopen _) = False"
| "neutral (Ix_close _) = False"
| "neutral (Host_open _ _ _) = False"
| "neutral (Host_close _) = False"
| "neutral (F_open _ _) = False"
| "neutral (F_close _) = False"
| "neutral (Ix_mount _ _ _) = False"
| "neutral (Ix_umount _) = False"
| "neutral _ = True"

lemma ledger_step_neutral [simp]: "neutral c \<Longrightarrow> ledger_step L (c, r) = L"
  by (cases c) auto

definition balanced :: "'a io \<Rightarrow> bool" where
  "balanced m = (\<forall>L. gwp ledger_step m (\<lambda>_ L'. L' = L) L)"

lemma gwp_neutral: "emits_only neutral m \<Longrightarrow> (\<And>a. Q a L) \<Longrightarrow> gwp ledger_step m Q L"
  by (rule gwp_ignored [of neutral]) simp_all

lemma balanced_neutral: "emits_only neutral m \<Longrightarrow> balanced m"
  by (auto simp: balanced_def intro!: gwp_neutral)

lemma gwp_balanced: "balanced m \<Longrightarrow> (\<And>a. Q a L) \<Longrightarrow> gwp ledger_step m Q L"
  by (rule gwp_mono [where Q = "\<lambda>_ L'. L' = L"]) (auto simp: balanced_def)

lemma balanced_wp: "balanced m \<Longrightarrow> wp m E (\<lambda>_ tr'. ledger_of tr' = ledger_of tr) tr"
  unfolding ledger_of_def by (rule gwp_wp) (simp add: balanced_def)

subsection \<open>The operations of hl.c\<close>

lemma emits_neutral_bodies [emits]:
  "emits_only neutral (copyto_body i f d u)" "emits_only neutral (copyfrom_body f i u)"
  "emits_only neutral (list_dir_body dh m s)" "emits_only neutral (lspart_body dh m u)"
  by (auto simp: copyto_body_def copyfrom_body_def list_dir_body_def lspart_body_def Let_def
      intro!: emits)

lemma emits_neutral_hl [emits]:
  "emits_only neutral (putsM s)"
  "emits_only neutral (list_dir_objects dh m)" "emits_only neutral (mkpfs mp)"
  by (auto simp: list_dir_objects_def mkpfs_def intro!: emits)

lemma gwp_neutral_hl [gwp]:
  "(\<And>a. Q a L) \<Longrightarrow> gwp ledger_step (putsM s) Q L"
  "(\<And>a. R a L) \<Longrightarrow> gwp ledger_step (loopM (copyto_body i f d) u) R L"
  "(\<And>a. R a L) \<Longrightarrow> gwp ledger_step (loopM (copyfrom_body f i) u) R L"
  "(\<And>a. P a L) \<Longrightarrow> gwp ledger_step (list_dir_objects dh m) P L"
  "(\<And>a. Q a L) \<Longrightarrow> gwp ledger_step (loopM (lspart_body dh m) u) Q L"
  "(\<And>a. P a L) \<Longrightarrow> gwp ledger_step (mkpfs mp) P L"
  by (rule gwp_neutral, auto intro!: emits)+

text \<open>
  The ledger together with the number of unmounts that failed. A program that mounts \<open>pfs0:\<close>
  for its own use \<open>releases\<close> it: on a normal return either the ledger is as before, or the
  return code is negative, an unmount has failed and only the mount is left.
\<close>

type_synonym account = "ledger \<times> nat"

definition umount_failed :: "call \<times> reply \<Rightarrow> bool" where
  "umount_failed = (\<lambda>(c, r). (case c of Ix_umount _ \<Rightarrow> rp_ret r < 0 | _ \<Rightarrow> False))"

definition account_step :: "account \<Rightarrow> call \<times> reply \<Rightarrow> account" where
  "account_step = (\<lambda>(L, k) e. (ledger_step L e, if umount_failed e then Suc k else k))"

definition account_of :: "trace \<Rightarrow> account" where
  "account_of tr = (ledger_of tr, length (filter umount_failed tr))"

lemma account_of_foldl:
  "account_of tr = foldl account_step (\<lparr>lg_ix = [], lg_host = [], lg_files = [], lg_mounts = []\<rparr>, 0) tr"
  by (induction tr rule: rev_induct) (auto simp: account_of_def ledger_of_def account_step_def split: prod.splits)

lemma account_step_simps [simp]:
  "account_step (L, k) (Ix_open p f m, r) = (ledger_step L (Ix_open p f m, r), k)"
  "account_step (L, k) (Ix_dopen p, r) = (ledger_step L (Ix_dopen p, r), k)"
  "account_step (L, k) (Ix_close fd, r) = (ledger_step L (Ix_close fd, r), k)"
  "account_step (L, k) (Host_open p f' m, r) = (ledger_step L (Host_open p f' m, r), k)"
  "account_step (L, k) (Host_close fd, r) = (ledger_step L (Host_close fd, r), k)"
  "account_step (L, k) (Ix_mount fs d fl, r) = (ledger_step L (Ix_mount fs d fl, r), k)"
  "account_step (L, k) (Ix_umount fs, r) =
     (ledger_step L (Ix_umount fs, r), if rp_ret r < 0 then Suc k else k)"
  by (simp_all add: account_step_def umount_failed_def)

lemma account_step_neutral [simp]: "neutral c \<Longrightarrow> account_step s (c, r) = s"
  by (cases s; cases c) (auto simp: account_step_def umount_failed_def)

lemma gwp_account_neutral: "emits_only neutral m \<Longrightarrow> (\<And>a. Q a s) \<Longrightarrow> gwp account_step m Q s"
  by (rule gwp_ignored [of neutral]) simp_all

lemma gwp_account_hl [gwp]:
  "(\<And>a. Q a s) \<Longrightarrow> gwp account_step (putsM t) Q s"
  "(\<And>a. R a s) \<Longrightarrow> gwp account_step (loopM (copyto_body i f d) u) R s"
  "(\<And>a. R a s) \<Longrightarrow> gwp account_step (loopM (copyfrom_body f i) u) R s"
  "(\<And>a. P a s) \<Longrightarrow> gwp account_step (list_dir_objects dh m) P s"
  by (rule gwp_account_neutral, auto intro!: emits)+

definition released :: "account \<Rightarrow> int \<Rightarrow> account \<Rightarrow> bool" where
  "released = (\<lambda>(L, k) r (L', k').
     lg_ix L' = lg_ix L \<and> lg_host L' = lg_host L \<and> lg_files L' = lg_files L \<and>
     (lg_mounts L' = lg_mounts L \<and> k' = k \<or>
      r < 0 \<and> k' = Suc k \<and> lg_mounts L' = ''pfs0:'' # lg_mounts L))"

definition releases :: "int io \<Rightarrow> bool" where
  "releases m = (\<forall>s. gwp account_step m (released s) s)"

lemma releases_wp:
  "releases m \<Longrightarrow> wp m E (\<lambda>r tr'. released (account_of tr) r (account_of tr')) tr"
  unfolding account_of_foldl releases_def by (rule gwp_wp) blast

lemma releases_copyto: "releases (copyto mp dest src)"
  by (auto simp: releases_def released_def copyto_def intro!: gwp)

lemma releases_copyfrom: "releases (copyfrom mp src dest)"
  by (auto simp: releases_def released_def copyfrom_def intro!: gwp)

lemma releases_ls: "releases (ls mp path)"
  by (auto simp: releases_def released_def ls_def intro!: gwp)

lemma balanced_lspart: "balanced (lspart m)"
  by (auto simp: balanced_def lspart_def intro!: gwp)

lemma balanced_mkpart: "balanced (mkpart mp sz f)"
  by (auto simp: balanced_def mkpart_def intro!: gwp)

lemma balanced_initialize: "balanced initialize"
  by (auto simp: initialize_def intro!: balanced_neutral emits)

end
