(* ===== verification/Copy_Loop.thy ===== *)
theory Copy_Loop
  imports Ledger
begin

text \<open>
  The contract of the program's copy loops. A loop reads a chunk, hands it to a write and goes
  on while reads deliver and the write is accepted. \<open>written\<close> and \<open>taken\<close> are the bytes
  that a history hands to writes and receives from reads. From the contract: whatever
  the environment does, the bytes handed to writes are the bytes read, in order; and when the
  source delivers a list of chunks and the writes are accepted, the loop ends and has copied
  the whole list.
\<close>

fun payload :: "call \<Rightarrow> string" where
  "payload (Ix_write _ s) = s"
| "payload (Host_write _ s) = s"
| "payload (F_write _ s) = s"
| "payload _ = []"

definition written :: "trace \<Rightarrow> string" where
  "written evs = concat (map (\<lambda>(c, r). payload c) evs)"

fun is_read :: "call \<Rightarrow> bool" where
  "is_read (Ix_read _ _) = True"
| "is_read (Host_read _ _) = True"
| "is_read (F_read _ _) = True"
| "is_read _ = False"

definition taken :: "trace \<Rightarrow> string" where
  "taken evs = concat (map (\<lambda>(c, r). if is_read c then got r else []) evs)"

lemma written_simps [simp]:
  "written [] = []" "written ((c, r) # evs) = payload c @ written evs"
  "written (evs @ evs') = written evs @ written evs'"
  by (simp_all add: written_def)

lemma taken_simps [simp]:
  "taken [] = []" "taken ((c, r) # evs) = (if is_read c then got r else []) @ taken evs"
  "taken (evs @ evs') = taken evs @ taken evs'"
  by (simp_all add: taken_def)

lemma got_nonpos [simp]: "rp_ret r \<le> 0 \<Longrightarrow> got r = []"
  by (simp add: got_def)

text \<open>The bytes read and the bytes handed to writes, as a summary of the history.\<close>

fun moved_step :: "string \<times> string \<Rightarrow> call \<times> reply \<Rightarrow> string \<times> string" where
  "moved_step (a, b) (c, r) = (a @ (if is_read c then got r else []), b @ payload c)"

lemma foldl_moved: "foldl moved_step (a, b) evs = (a @ taken evs, b @ written evs)"
  by (induction evs arbitrary: a b) auto

definition faithful_copy :: "'a io \<Rightarrow> bool" where
  "faithful_copy m = (\<forall>a. gwp moved_step m (\<lambda>_ (x, y). x = y) (a, a))"

lemma faithful_copyD:
  assumes "faithful_copy m" "m E tr = (Done v, tr @ evs)"
  shows "written evs = taken evs"
proof -
  have "gwp moved_step m (\<lambda>_ (x, y). x = y) ([], [])"
    using assms(1) by (simp add: faithful_copy_def)
  from gwpD [OF this, of E tr] assms(2) show ?thesis
    by (auto simp: foldl_moved)
qed

text \<open>Calls that neither read nor write.\<close>

definition quiet :: "call \<Rightarrow> bool" where
  "quiet c = (\<not> is_read c \<and> payload c = [])"

lemma gwp_quiet:
  assumes "emits_only quiet m" "\<And>v. Q v g"
  shows "gwp moved_step m Q g"
  by (rule gwp_ignored [of quiet]) (use assms in \<open>auto simp: quiet_def elim: moved_step.cases\<close>)

text \<open>
  From history \<open>tr\<close> on, the source delivers the chunks \<open>cs\<close> to the reading call \<open>rd\<close> and then
  reports its end, while every write \<open>wr\<close> of a chunk is answered as \<open>ok\<close> demands.
\<close>

fun serves ::
    "env \<Rightarrow> call \<Rightarrow> (string \<Rightarrow> call) \<Rightarrow> (int \<Rightarrow> int \<Rightarrow> bool) \<Rightarrow> trace \<Rightarrow> string list \<Rightarrow> bool" where
  "serves E rd wr ok tr [] = (rp_ret (answer E tr rd) = 0)"
| "serves E rd wr ok tr (c # cs) =
     (let r = answer E tr rd; tr1 = tr @ [(rd, r)]; w = answer E tr1 (wr c) in
      0 < rp_ret r \<and> got r = c \<and> ok (rp_ret r) (rp_ret w) \<and>
      serves E rd wr ok (tr1 @ [(wr c, w)]) cs)"

text \<open>The history after the chunks, and the reply that ended them.\<close>

fun served :: "env \<Rightarrow> call \<Rightarrow> (string \<Rightarrow> call) \<Rightarrow> trace \<Rightarrow> string list \<Rightarrow> trace" where
  "served E rd wr tr [] = [(rd, answer E tr rd)]"
| "served E rd wr tr (c # cs) =
     (let r = answer E tr rd; tr1 = tr @ [(rd, r)]; w = answer E tr1 (wr c) in
      (rd, r) # (wr c, w) # served E rd wr (tr1 @ [(wr c, w)]) cs)"

locale copy_loop =
  fixes body :: "unit \<Rightarrow> (unit + 'r) io"
    and rd :: call
    and wr :: "string \<Rightarrow> call"
    and ok :: "int \<Rightarrow> int \<Rightarrow> bool"
    and fin :: "reply \<Rightarrow> 'r"
  assumes payload_wr [simp]: "payload (wr s) = s"
    and payload_rd [simp]: "payload rd = []"
    and read_rd [simp]: "is_read rd"
    and read_wr [simp]: "\<not> is_read (wr s)"
    and run_end: "answer E tr rd = r \<Longrightarrow> rp_ret r \<le> 0 \<Longrightarrow>
      body () E tr = (Done (Inr (fin r)), tr @ [(rd, r)])"
    and run_more: "answer E tr rd = r \<Longrightarrow> 0 < rp_ret r \<Longrightarrow>
      answer E (tr @ [(rd, r)]) (wr (got r)) = w \<Longrightarrow> ok (rp_ret r) (rp_ret w) \<Longrightarrow>
      body () E tr = (Done (Inl ()), tr @ [(rd, r), (wr (got r), w)])"
    and run_bad: "answer E tr rd = r \<Longrightarrow> 0 < rp_ret r \<Longrightarrow>
      answer E (tr @ [(rd, r)]) (wr (got r)) = w \<Longrightarrow> \<not> ok (rp_ret r) (rp_ret w) \<Longrightarrow>
      \<exists>v evs. body () E tr = (Done (Inr v), tr @ [(rd, r), (wr (got r), w)] @ evs) \<and>
        written evs = [] \<and> taken evs = []"
begin

lemma faithful_iter: "\<exists>evs. snd (iterM n body () E tr) = tr @ evs \<and> written evs = taken evs"
proof (induction n arbitrary: tr)
  case 0
  show ?case by (simp add: io_simps)
next
  case (Suc n)
  define r where "r = answer E tr rd"
  define w where "w = answer E (tr @ [(rd, r)]) (wr (got r))"
  note defs = r_def [symmetric] w_def [symmetric]
  consider "rp_ret r \<le> 0" | "0 < rp_ret r" "ok (rp_ret r) (rp_ret w)"
    | "0 < rp_ret r" "\<not> ok (rp_ret r) (rp_ret w)" by linarith
  then show ?case
  proof cases
    case 1
    from run_end [OF defs(1) 1] show ?thesis
      by (simp add: bindM_def io_simps 1)
  next
    case 2
    obtain evs where
      "snd (iterM n body () E (tr @ [(rd, r), (wr (got r), w)])) =
         (tr @ [(rd, r), (wr (got r), w)]) @ evs" "written evs = taken evs"
      using Suc.IH by blast
    with run_more [OF defs(1) 2(1) defs(2) 2(2)] show ?thesis
      by (intro exI [of _ "[(rd, r), (wr (got r), w)] @ evs"]) (simp add: bindM_def)
  next
    case 3
    from run_bad [OF defs(1) 3(1) defs(2) 3(2)] show ?thesis
      by (auto simp: bindM_def io_simps)
  qed
qed

text \<open>Whatever the environment does, the bytes handed to writes are the bytes read.\<close>

lemma faithful: "\<exists>evs. snd (loopM body () E tr) = tr @ evs \<and> written evs = taken evs"
  using faithful_iter by (simp add: loopM_def)

lemma complete_iter:
  "serves E rd wr ok tr cs \<Longrightarrow> length cs < n \<Longrightarrow>
     iterM n body () E tr =
       (Done (fin (snd (last (served E rd wr tr cs)))), tr @ served E rd wr tr cs)"
proof (induction cs arbitrary: tr n)
  case Nil
  then obtain n' where n: "n = Suc n'" by (cases n) auto
  from Nil have "rp_ret (answer E tr rd) \<le> 0" by simp
  from run_end [OF refl this] show ?case by (simp add: n bindM_def io_simps)
next
  case (Cons c cs)
  then obtain n' where n: "n = Suc n'" "length cs < n'" by (cases n) auto
  define r where "r = answer E tr rd"
  define w where "w = answer E (tr @ [(rd, r)]) (wr c)"
  note defs = r_def [symmetric] w_def [symmetric]
  have facts: "0 < rp_ret r" "got r = c" "ok (rp_ret r) (rp_ret w)"
    and rest: "serves E rd wr ok (tr @ [(rd, r), (wr c, w)]) cs"
    using Cons.prems(1) by (simp_all add: Let_def r_def w_def)
  have "body () E tr = (Done (Inl ()), tr @ [(rd, r), (wr c, w)])"
    using run_more [OF defs(1) facts(1), of w] facts defs by simp
  moreover have "served E rd wr tr' cs \<noteq> []" for tr'
    by (cases cs) (simp_all add: Let_def)
  ultimately show ?case
    using Cons.IH [OF rest n(2)] defs by (simp add: n bindM_def Let_def)
qed

lemma gwp_copy:
  assumes "\<And>v x. Q v (a @ x, b @ x)"
  shows "gwp moved_step (loopM body ()) Q (a, b)"
proof (rule gwpI)
  fix E tr
  obtain evs where "snd (loopM body () E tr) = tr @ evs" "written evs = taken evs"
    using faithful by blast
  with assms show "\<exists>evs. snd (loopM body () E tr) = tr @ evs \<and>
     (\<forall>v. fst (loopM body () E tr) = Done v \<longrightarrow> Q v (foldl moved_step (a, b) evs))"
    by (auto simp: foldl_moved)
qed

text \<open>A source that delivers its chunks is copied completely, and the loop ends.\<close>

lemma complete:
  "serves E rd wr ok tr cs \<Longrightarrow> length cs < fuel E \<Longrightarrow>
     loopM body () E tr =
       (Done (fin (snd (last (served E rd wr tr cs)))), tr @ served E rd wr tr cs)"
  by (simp add: loopM_def complete_iter)

lemma served_written: "written (served E rd wr tr cs) = concat cs"
  by (induction cs arbitrary: tr) (simp_all add: Let_def)

end

lemma served_last: "serves E rd wr ok tr cs \<Longrightarrow> rp_ret (snd (last (served E rd wr tr cs))) = 0"
proof (induction cs arbitrary: tr)
  case (Cons c cs)
  have "served E rd wr tr' cs \<noteq> []" for tr'
    by (cases cs) (simp_all add: Let_def)
  with Cons show ?case by (simp add: Let_def)
qed simp

interpretation copyto_copies: copy_loop "copyto_body in_file fh dest_path"
  "Host_read in_file 65536" "Ix_write fh" "\<lambda>len result. result \<ge> 0" "\<lambda>r. (rp_ret r, 0)"
  by unfold_locales (auto simp: copyto_body_def io_simps)

interpretation copyfrom_copies: copy_loop "copyfrom_body fh out_file"
  "Ix_read fh 65536" "Host_write out_file" "\<lambda>len result. result \<noteq> - 1" "\<lambda>r. (rp_ret r, 0)"
  by unfold_locales (auto simp: copyfrom_body_def io_simps)

subsection \<open>The copying operations\<close>

lemma gwp_copy_hl [gwp]:
  "(\<And>v x. Q v (a @ x, b @ x)) \<Longrightarrow> gwp moved_step (loopM (copyto_body i f d) ()) Q (a, b)"
  "(\<And>v x. Q v (a @ x, b @ x)) \<Longrightarrow> gwp moved_step (loopM (copyfrom_body f i) ()) Q (a, b)"
  "P () g \<Longrightarrow> gwp moved_step (putsM s) P g"
  by (rule copyto_copies.gwp_copy copyfrom_copies.gwp_copy gwp_quiet,
    auto simp: quiet_def intro!: emits)+

lemma faithful_copyto: "faithful_copy (copyto mp dest src)"
  by (auto simp: faithful_copy_def copyto_def intro!: gwp)

lemma faithful_copyfrom: "faithful_copy (copyfrom mp src dest)"
  by (auto simp: faithful_copy_def copyfrom_def intro!: gwp)

end
