(* ===== verification/Hl_Props.thy ===== *)
theory Hl_Props
  imports Copy_Loop
begin

text \<open>
  What the operations of \<open>hl.c\<close> promise their callers: handles and mounts are given back, what
  is written is what was read, and with a cooperating device the copy is complete.
\<close>

text \<open>The part of a history after its beginning \<open>tr\<close>.\<close>

definition during :: "trace \<Rightarrow> trace \<Rightarrow> trace" where
  "during tr tr' = drop (length tr) tr'"

lemma during_append [simp]: "during tr (tr @ evs) = evs"
  by (simp add: during_def)

lemma faithful_copy_wp:
  assumes "faithful_copy m"
  shows "wp m E (\<lambda>_ tr'. written (during tr tr') = taken (during tr tr')) tr"
proof -
  have "gwp moved_step m (\<lambda>_ (x, y). x = y) ([], [])"
    using assms by (simp add: faithful_copy_def)
  from gwpD [OF this, of E tr] show ?thesis
    by (cases "m E tr") (auto simp: wp_def foldl_moved split: outcome.splits)
qed

text \<open>\<open>E\<close> answers the call \<open>c\<close> with the return code \<open>k\<close>, at any time.\<close>

definition returns :: "env \<Rightarrow> call \<Rightarrow> int \<Rightarrow> bool" where
  "returns E c k = (\<forall>tr. answer E tr c = code k)"

lemma returnsD [simp]: "returns E c k \<Longrightarrow> answer E tr c = code k"
  by (simp add: returns_def)

text \<open>C10. Whatever iomanX and the host answer, when \<open>copyto\<close>, \<open>copyfrom\<close> or \<open>ls\<close> returns, every
  handle it opened, on either side, has been closed, and \<open>pfs0:\<close> is unmounted again; only when
  the unmount itself has failed is the mount left, and then the return code is negative.\<close>

theorem hl_releases:
  "wp (copyto mp dest src) E (\<lambda>r tr'. released (account_of tr) r (account_of tr')) tr \<and>
   wp (copyfrom mp src dest) E (\<lambda>r tr'. released (account_of tr) r (account_of tr')) tr \<and>
   wp (ls mp dir) E (\<lambda>r tr'. released (account_of tr) r (account_of tr')) tr"
  by (simp add: releases_wp releases_copyto releases_copyfrom releases_ls)

text \<open>C36. Whatever the device and the host answer, when \<open>copyto\<close> or \<open>copyfrom\<close> returns, the
  bytes it handed to the writing side are exactly the bytes the reading side delivered, in
  order: nothing is dropped, repeated or reordered, also when an operation failed midway.\<close>

theorem hl_copies_faithfully:
  "wp (copyto mp dest src) E (\<lambda>_ tr'. written (during tr tr') = taken (during tr tr')) tr \<and>
   wp (copyfrom mp src dest) E (\<lambda>_ tr'. written (during tr tr') = taken (during tr tr')) tr"
  by (simp add: faithful_copy_wp faithful_copyto faithful_copyfrom)

lemma copyto_loop_complete:
  assumes "serves E (Host_read fd 65536) (Ix_write fh) (\<lambda>_ result. result \<ge> 0) tr cs"
    "length cs < fuel E"
  shows "iterM (fuel E) (copyto_body fd fh p) () E tr =
    (Done (0, 0), tr @ served E (Host_read fd 65536) (Ix_write fh) tr cs)"
  using copyto_copies.complete_iter [OF assms] served_last [OF assms(1)] by simp

lemma copyfrom_loop_complete:
  assumes "serves E (Ix_read fh 65536) (Host_write fd) (\<lambda>_ result. result \<noteq> - 1) tr cs"
    "length cs < fuel E"
  shows "iterM (fuel E) (copyfrom_body fh fd) () E tr =
    (Done (0, 0), tr @ served E (Ix_read fh 65536) (Host_write fd) tr cs)"
  using copyfrom_copies.complete_iter [OF assms] served_last [OF assms(1)] by simp

lemma bindM_run_Done2: "m E tr = (Done (a, b), tr') \<Longrightarrow> bindM m (case_prod f) E tr = f a b E tr'"
  by (simp add: bindM_def)


definition copyto_env :: env where
  "copyto_env = \<lparr>answer = (\<lambda>tr c. case c of
       Host_open _ _ _ \<Rightarrow> code 3
     | Ix_open _ _ _ \<Rightarrow> code 5
     | Host_read _ _ \<Rightarrow> if Host_read 3 65536 \<in> fst ` set tr then code 0 else code_data 3 ''abc''
     | Ix_write _ s \<Rightarrow> code (int (length s))
     | _ \<Rightarrow> code 0), fuel = 2\<rparr>"


text \<open>\<open>copyfrom\<close> copies a whole file out of a partition in the same way.\<close>

theorem copyfrom_complete:
  assumes "returns E (Host_open dest (O_CREAT OR O_WRONLY) 0x1B4) fd" "fd \<noteq> - 1"
    and "returns E (Ix_mount ''pfs0:'' mp 0) m" "0 \<le> m" "length src < 251"
    and "returns E (Ix_open (''pfs0:'' @ src) FIO_O_RDONLY 0) fh" "0 \<le> fh"
    and "serves E (Ix_read fh 65536) (Host_write fd) (\<lambda>_ result. result \<noteq> - 1)
      (tr @ [(Host_open dest (O_CREAT OR O_WRONLY) 0x1B4, code fd),
        (Ix_mount ''pfs0:'' mp 0, code m), (Ix_open (''pfs0:'' @ src) FIO_O_RDONLY 0, code fh)]) cs"
      "length cs < fuel E"
    and "returns E (Ix_close fh) c" "0 \<le> c" "returns E (Ix_umount ''pfs0:'') u" "0 \<le> u"
    and "returns E (Host_close fd) h" "h \<noteq> - 1"
  shows "\<exists>evs. copyfrom mp src dest E tr = (Done 0, tr @ evs) \<and> written evs = concat cs"
  using assms
  by (simp add: copyfrom_def io_simps bindM_run_Done2 [OF copyfrom_loop_complete]
      copyfrom_copies.served_written)

definition copyfrom_env :: env where
  "copyfrom_env = \<lparr>answer = (\<lambda>tr c. case c of
       Host_open _ _ _ \<Rightarrow> code 3
     | Ix_open _ _ _ \<Rightarrow> code 5
     | Ix_read _ _ \<Rightarrow> if Ix_read 5 65536 \<in> fst ` set tr then code 0 else code_data 3 ''abc''
     | Host_write _ s \<Rightarrow> code (int (length s))
     | _ \<Rightarrow> code 0), fuel = 2\<rparr>"

theorem copyfrom_complete_witness:
  "\<exists>evs. copyfrom ''hdd0:__common'' ''/save'' ''save'' copyfrom_env [] = (Done 0, [] @ evs) \<and>
     written evs = concat [''abc'']"
  by (rule copyfrom_complete [where fd = 3 and m = 0 and fh = 5 and c = 0 and u = 0 and h = 0])
    (simp_all add: returns_def copyfrom_env_def Let_def got_def)

end
