(* ===== verification/Parse_Line.thy ===== *)
theory Parse_Line
  imports Prog
begin

text \<open>
  The command-line tokenizer of the shell (\<open>src/src/util.c\<close>, \<open>parse_line\<close>). The C function
  works in place: it overwrites the character after each token with NUL and stores pointers
  to the tokens' first characters. The model keeps that: the line is a buffer with its NUL,
  the tokens are offsets into it, and reading past the buffer or storing more tokens than
  the caller's array holds is the outcome \<open>PL_fault\<close>. The reference definition \<open>words_of\<close>
  cuts a list of characters into strings; \<open>parse_line_refines\<close> says that reading the stored
  offsets back gives exactly its words.
\<close>

subsection \<open>The tokenizer\<close>

datatype pl_state =
    s_token_pending | s_parse_plain_token | s_parse_quoted_token | s_parse_aposd_token

datatype 'a pl_result = PL_ok 'a | PL_error | PL_fault

abbreviation (input) NUL :: char where "NUL \<equiv> CHR 0x00"

definition is_space :: "char \<Rightarrow> bool" where
  "is_space ch = (ch = CHR '' '' \<or> ch = CHR 0x09 \<or> ch = CHR 0x0D \<or> ch = CHR 0x0A \<or> ch = NUL)"

definition is_term :: "char \<Rightarrow> bool" where
  "is_term ch = (ch = NUL \<or> ch = CHR 0x0D \<or> ch = CHR 0x0A)"

text \<open>What the automaton does with one character: go on, store a token, or return -1.\<close>

datatype pl_action = Keep pl_state | Begin pl_state nat | Emit | Reject

definition pl_step :: "pl_state \<Rightarrow> char \<Rightarrow> pl_action" where
  "pl_step st ch = (case st of
      s_token_pending \<Rightarrow>
        (if is_space ch then Keep s_token_pending
         else if ch = CHR 0x22 then Begin s_parse_quoted_token 1
         else if ch = CHR 0x27 then Begin s_parse_aposd_token 1
         else Begin s_parse_plain_token 0)
    | s_parse_plain_token \<Rightarrow>
        (if is_space ch then Emit
         else if ch = CHR 0x27 \<or> ch = CHR 0x22 then Reject
         else Keep s_parse_plain_token)
    | s_parse_quoted_token \<Rightarrow>
        (if ch = NUL then Reject
         else if ch = CHR 0x22 then Emit
         else Keep s_parse_quoted_token)
    | s_parse_aposd_token \<Rightarrow>
        (if ch = NUL then Reject
         else if ch = CHR 0x27 then Emit
         else Keep s_parse_aposd_token))"

text \<open>The effect of the action on the automaton's variables, at position \<open>i\<close>.\<close>

definition pl_apply ::
    "nat \<Rightarrow> pl_action \<Rightarrow> nat \<Rightarrow> nat list \<Rightarrow> string \<Rightarrow> nat \<Rightarrow>
     (pl_state \<times> nat \<times> nat list \<times> string) pl_result" where
  "pl_apply cap act start tokens line i = (case act of
      Keep st' \<Rightarrow> PL_ok (st', start, tokens, line)
    | Begin st' off \<Rightarrow> PL_ok (st', i + off, tokens, line)
    | Emit \<Rightarrow> (if cap \<le> length tokens then PL_fault
        else PL_ok (s_token_pending, start, tokens @ [start], line[i := NUL]))
    | Reject \<Rightarrow> PL_error)"

lemma pl_apply_length:
  "pl_apply cap act start tokens line i = PL_ok (st', start', tokens', line') \<Longrightarrow>
     length line' = length line"
  by (auto simp: pl_apply_def split: pl_action.splits if_splits)

function parse_from ::
    "nat \<Rightarrow> pl_state \<Rightarrow> nat \<Rightarrow> nat list \<Rightarrow> string \<Rightarrow> nat \<Rightarrow> (nat list \<times> string) pl_result" where
  "parse_from cap st start tokens line i =
     (if length line \<le> i then PL_fault
      else case pl_apply cap (pl_step st (line ! i)) start tokens line i of
          PL_error \<Rightarrow> PL_error
        | PL_fault \<Rightarrow> PL_fault
        | PL_ok (st', start', tokens', line') \<Rightarrow>
            (if is_term (line ! i)
             then (if st' \<noteq> s_token_pending then PL_error else PL_ok (tokens', line'))
             else parse_from cap st' start' tokens' line' (Suc i)))"
  by pat_completeness auto
termination
  by (relation "measure (\<lambda>(cap, st, start, tokens, line, i). length line - i)")
    (auto dest: pl_apply_length)

declare parse_from.simps [simp del]

text \<open>\<open>parse_line(line, &tokens, &count)\<close> for a \<open>tokens\<close> array of \<open>cap\<close> elements.\<close>

definition parse_line :: "nat \<Rightarrow> string \<Rightarrow> (nat list \<times> string) pl_result" where
  "parse_line cap line = parse_from cap s_token_pending 0 [] line 0"

text \<open>The string a stored pointer denotes, and the argument vector the caller sees.\<close>

definition cstr_at :: "string \<Rightarrow> nat \<Rightarrow> string" where
  "cstr_at buf k = before_char NUL (drop k buf)"

definition parsed_words :: "(nat list \<times> string) pl_result \<Rightarrow> string list pl_result" where
  "parsed_words r = (case r of PL_ok (ts, buf) \<Rightarrow> PL_ok (map (cstr_at buf) ts)
     | PL_error \<Rightarrow> PL_error | PL_fault \<Rightarrow> PL_fault)"

subsection \<open>The reference: words of a character list\<close>

definition word_apply ::
    "nat \<Rightarrow> pl_action \<Rightarrow> string \<Rightarrow> string list \<Rightarrow> char \<Rightarrow> (pl_state \<times> string \<times> string list) pl_result" where
  "word_apply cap act cur ws ch = (case act of
      Keep st' \<Rightarrow> PL_ok (st', cur @ [ch], ws)
    | Begin st' off \<Rightarrow> PL_ok (st', if off = 0 then [ch] else [], ws)
    | Emit \<Rightarrow> if cap \<le> length ws then PL_fault else PL_ok (s_token_pending, [], ws @ [cur])
    | Reject \<Rightarrow> PL_error)"

fun words_from :: "nat \<Rightarrow> pl_state \<Rightarrow> string \<Rightarrow> string list \<Rightarrow> string \<Rightarrow> string list pl_result" where
  "words_from cap st cur ws [] = PL_fault"
| "words_from cap st cur ws (ch # rest) =
     (case word_apply cap (pl_step st ch) cur ws ch of
        PL_error \<Rightarrow> PL_error
      | PL_fault \<Rightarrow> PL_fault
      | PL_ok (st', cur', ws') \<Rightarrow>
          (if is_term ch then (if st' \<noteq> s_token_pending then PL_error else PL_ok ws')
           else words_from cap st' cur' ws' rest))"

definition words_of :: "nat \<Rightarrow> string \<Rightarrow> string list pl_result" where
  "words_of cap line = words_from cap s_token_pending [] [] line"

text \<open>
  The coupling: the part read so far is \<open>pre\<close>, stored tokens end before its end and read
  back as the reference's words, and inside a token the current word is what was read from
  \<open>start\<close> on.
\<close>

definition pl_coupled ::
    "pl_state \<Rightarrow> nat \<Rightarrow> nat list \<Rightarrow> string \<Rightarrow> string \<Rightarrow> string list \<Rightarrow> bool" where
  "pl_coupled st start tokens pre cur ws =
     (map (cstr_at pre) tokens = ws
      \<and> (\<forall>k \<in> set tokens. NUL \<in> set (drop k pre))
      \<and> (st \<noteq> s_token_pending \<longrightarrow> start \<le> length pre \<and> cur = drop start pre \<and> NUL \<notin> set cur))"

lemma cstr_at_append:
  "NUL \<in> set (drop k pre) \<Longrightarrow> cstr_at (pre @ rest) k = cstr_at pre k"
  by (cases "k \<le> length pre") (auto simp: cstr_at_def before_char_def)

lemma cstr_at_new:
  assumes "k \<le> length pre" "NUL \<notin> set (drop k pre)"
  shows "cstr_at (pre @ [NUL]) k = drop k pre"
proof -
  have "takeWhile (\<lambda>x. x \<noteq> NUL) (drop k pre) = drop k pre"
    using assms(2) by (auto simp: takeWhile_eq_all_conv)
  then show ?thesis
    using assms by (simp add: cstr_at_def before_char_def takeWhile_append)
qed

lemma pl_step_Begin: "pl_step st ch = Begin st' off \<Longrightarrow>
    st = s_token_pending \<and> st' \<noteq> s_token_pending \<and> off \<le> 1 \<and> \<not> is_space ch"
  by (auto simp: pl_step_def split: pl_state.splits if_splits)

lemma pl_step_Keep: "pl_step st ch = Keep st' \<Longrightarrow>
    st' = st \<and> (st \<noteq> s_token_pending \<longrightarrow> ch \<noteq> NUL)"
  by (auto simp: pl_step_def is_space_def split: pl_state.splits if_splits)

lemma pl_step_Emit: "pl_step st ch = Emit \<Longrightarrow> st \<noteq> s_token_pending"
  by (auto simp: pl_step_def split: pl_state.splits if_splits)

text \<open>One character keeps the two sides coupled.\<close>

lemma pl_coupled_step:
  assumes c: "pl_coupled st start tokens pre cur ws" and line: "line = pre @ ch # rest"
    and ok: "pl_apply cap (pl_step st ch) start tokens line (length pre) = PL_ok (st', start', tokens', line')"
  obtains cur' ws' pre' where
    "word_apply cap (pl_step st ch) cur ws ch = PL_ok (st', cur', ws')"
    "line' = pre' @ rest" "length pre' = Suc (length pre)"
    "pl_coupled st' start' tokens' pre' cur' ws'"
proof (cases "pl_step st ch")
  case (Keep s)
  then have s: "s = st" "st \<noteq> s_token_pending \<longrightarrow> ch \<noteq> NUL"
    using pl_step_Keep by blast+
  from c have "map (cstr_at (pre @ [ch])) tokens = ws"
    by (auto simp: pl_coupled_def cstr_at_append)
  with c s have "pl_coupled st start tokens (pre @ [ch]) (cur @ [ch]) ws"
    by (auto simp: pl_coupled_def)
  with Keep s line ok show thesis
    by (intro that [of "cur @ [ch]" ws "pre @ [ch]"]) (auto simp: pl_apply_def word_apply_def)
next
  case (Begin s off)
  then have s: "st = s_token_pending" "s \<noteq> s_token_pending" "off \<le> 1" "\<not> is_space ch"
    using pl_step_Begin by blast+
  from c have "map (cstr_at (pre @ [ch])) tokens = ws"
    by (auto simp: pl_coupled_def cstr_at_append)
  with c s have "pl_coupled s (length pre + off) tokens (pre @ [ch])
      (if off = 0 then [ch] else []) ws"
    by (auto simp: pl_coupled_def is_space_def)
  with Begin line ok show thesis
    by (intro that [of "if off = 0 then [ch] else []" ws "pre @ [ch]"])
      (auto simp: pl_apply_def word_apply_def)
next
  case Emit
  then have st: "st \<noteq> s_token_pending" by (rule pl_step_Emit)
  with c have cur: "start \<le> length pre" "cur = drop start pre" "NUL \<notin> set cur"
    and ws: "map (cstr_at pre) tokens = ws"
    by (auto simp: pl_coupled_def)
  from c have "map (cstr_at (pre @ [NUL])) tokens = ws"
    by (auto simp: pl_coupled_def cstr_at_append)
  with c cur have "pl_coupled s_token_pending start (tokens @ [start]) (pre @ [NUL]) [] (ws @ [cur])"
    by (auto simp: pl_coupled_def cstr_at_new)
  moreover have "length ws = length tokens" using ws by auto
  ultimately show thesis using Emit line ok
    by (intro that [of "[]" "ws @ [cur]" "pre @ [NUL]"])
      (auto simp: pl_apply_def word_apply_def split: if_splits)
next
  case Reject
  with ok show thesis by (simp add: pl_apply_def)
qed

lemma pl_coupled_fail:
  assumes "pl_coupled st start tokens pre cur ws"
  shows "pl_apply cap (pl_step st ch) start tokens line i = PL_error \<longleftrightarrow>
           word_apply cap (pl_step st ch) cur ws ch = PL_error"
    and "pl_apply cap (pl_step st ch) start tokens line i = PL_fault \<longleftrightarrow>
           word_apply cap (pl_step st ch) cur ws ch = PL_fault"
  using assms by (auto simp: pl_apply_def word_apply_def pl_coupled_def split: pl_action.splits)

lemma parse_from_coupled:
  assumes "pl_coupled st start tokens pre cur ws"
  shows "parsed_words (parse_from cap st start tokens (pre @ rest) (length pre)) =
           words_from cap st cur ws rest"
  using assms
proof (induction rest arbitrary: st start tokens pre cur ws)
  case Nil
  show ?case
    by (subst parse_from.simps) (simp add: parsed_words_def)
next
  case (Cons ch rest)
  let ?act = "pl_apply cap (pl_step st ch) start tokens (pre @ ch # rest) (length pre)"
  note fail = pl_coupled_fail [OF Cons.prems, of cap ch "pre @ ch # rest" "length pre"]
  show ?case
  proof (cases ?act)
    case PL_error
    with fail show ?thesis
      by (subst parse_from.simps) (simp add: parsed_words_def)
  next
    case PL_fault
    with fail show ?thesis
      by (subst parse_from.simps) (simp add: parsed_words_def)
  next
    case (PL_ok r)
    obtain st' start' tokens' line' where r: "r = (st', start', tokens', line')"
      by (metis prod_cases4)
    obtain cur' ws' pre' where w: "word_apply cap (pl_step st ch) cur ws ch = PL_ok (st', cur', ws')"
      "line' = pre' @ rest" "length pre' = Suc (length pre)"
      and c: "pl_coupled st' start' tokens' pre' cur' ws'"
      using pl_coupled_step [OF Cons.prems refl PL_ok [unfolded r]] by metis
    have "map (cstr_at line') tokens' = ws'"
      using c w by (auto simp: pl_coupled_def cstr_at_append)
    then show ?thesis
      using PL_ok r w Cons.IH [OF c]
      by (subst parse_from.simps) (simp add: parsed_words_def)
  qed
qed

lemma parse_line_words: "parsed_words (parse_line cap line) = words_of cap line"
  unfolding parse_line_def words_of_def
  by (rule parse_from_coupled [where pre = "[]", simplified]) (simp add: pl_coupled_def)


subsection \<open>Writing a command line that parses back\<close>

definition plain_char :: "char \<Rightarrow> bool" where
  "plain_char c = (\<not> is_space c \<and> c \<noteq> CHR 0x22 \<and> c \<noteq> CHR 0x27)"

definition plain_word :: "string \<Rightarrow> bool" where
  "plain_word w = (w \<noteq> [] \<and> list_all plain_char w)"

definition quote_word :: "string \<Rightarrow> string" where
  "quote_word w = (if plain_word w then w
     else if CHR 0x22 \<notin> set w then CHR 0x22 # w @ [CHR 0x22]
     else CHR 0x27 # w @ [CHR 0x27])"

definition quotable :: "string \<Rightarrow> bool" where
  "quotable w = (list_all (\<lambda>c. \<not> is_term c) w \<and> (CHR 0x22 \<notin> set w \<or> CHR 0x27 \<notin> set w))"

definition command_line :: "string list \<Rightarrow> string" where
  "command_line ws = concat (map (\<lambda>w. quote_word w @ '' '') ws) @ [CHR 0x0A, NUL]"

lemma words_from_pending:
  "words_from cap s_token_pending cur ws rest = words_from cap s_token_pending [] ws rest"
proof (induction rest arbitrary: cur)
  case (Cons c rest)
  have "words_from cap s_token_pending cur' ws rest = words_from cap s_token_pending cur'' ws rest"
    for cur' cur'' by (metis Cons.IH)
  then show ?case
    by (cases "pl_step s_token_pending c") (auto simp: word_apply_def dest: pl_step_Keep pl_step_Emit)
qed simp

lemma words_from_plain:
  "list_all plain_char w \<Longrightarrow>
     words_from cap s_parse_plain_token cur ws (w @ rest) =
     words_from cap s_parse_plain_token (cur @ w) ws rest"
  by (induction w arbitrary: cur)
    (auto simp: plain_char_def pl_step_def word_apply_def is_space_def is_term_def)

lemma words_from_quoted:
  "list_all (\<lambda>c. \<not> is_term c) w \<Longrightarrow> CHR 0x22 \<notin> set w \<Longrightarrow>
     words_from cap s_parse_quoted_token cur ws (w @ rest) =
     words_from cap s_parse_quoted_token (cur @ w) ws rest"
  by (induction w arbitrary: cur) (auto simp: pl_step_def word_apply_def is_term_def)

lemma words_from_aposd:
  "list_all (\<lambda>c. \<not> is_term c) w \<Longrightarrow> CHR 0x27 \<notin> set w \<Longrightarrow>
     words_from cap s_parse_aposd_token cur ws (w @ rest) =
     words_from cap s_parse_aposd_token (cur @ w) ws rest"
  by (induction w arbitrary: cur) (auto simp: pl_step_def word_apply_def is_term_def)

lemma words_from_word:
  assumes "quotable w" "length ws < cap"
  shows "words_from cap s_token_pending [] ws (quote_word w @ '' '' @ rest) =
           words_from cap s_token_pending [] (ws @ [w]) rest"
proof (cases "plain_word w")
  case True
  then obtain c cs where w: "w = c # cs" "plain_char c" "list_all plain_char cs"
    by (cases w) (auto simp: plain_word_def)
  then show ?thesis
    using True assms(2) words_from_plain [OF w(3), of cap "[c]" ws "'' '' @ rest"]
    by (simp add: quote_word_def pl_step_def word_apply_def plain_char_def is_space_def is_term_def)
next
  case False
  with assms show ?thesis
    by (auto simp: quote_word_def quotable_def pl_step_def word_apply_def is_space_def is_term_def
        words_from_quoted words_from_aposd words_from_pending [of cap "'' ''"])
qed

lemma words_from_command_line:
  "list_all quotable ws \<Longrightarrow> length acc + length ws \<le> cap \<Longrightarrow>
     words_from cap s_token_pending [] acc (command_line ws) = PL_ok (acc @ ws)"
proof (induction ws arbitrary: acc)
  case Nil
  show ?case
    by (simp add: command_line_def pl_step_def word_apply_def is_space_def is_term_def)
next
  case (Cons w ws)
  then have "words_from cap s_token_pending [] acc (quote_word w @ '' '' @ command_line ws) =
      words_from cap s_token_pending [] (acc @ [w]) (command_line ws)"
    by (intro words_from_word) auto
  with Cons show ?case by (simp add: command_line_def)
qed

text \<open>C34. Quoting and tokenizing are inverse: any list of at most \<open>cap\<close> words, each free of
  line terminators and of one of the two quote characters, written out with the plain, the
  double-quoted or the single-quoted form of each word, is read back by \<open>parse_line\<close> as
  exactly those words (empty words and words with spaces included).\<close>
theorem parse_line_roundtrip:
  assumes "list_all quotable ws" "length ws \<le> cap"
  shows "parsed_words (parse_line cap (command_line ws)) = PL_ok ws"
  using words_from_command_line [of ws "[]" cap] assms by (simp add: parse_line_words words_of_def)

theorem parse_line_roundtrip_witness:
  "parsed_words (parse_line 256 (command_line [''put'', ''my save.bin'', [], [CHR 0x22, CHR 0x41]]))
     = PL_ok [''put'', ''my save.bin'', [], [CHR 0x22, CHR 0x41]]"
  by (rule parse_line_roundtrip) (simp_all add: quotable_def is_term_def)

subsection \<open>How many words a line can hold\<close>

lemma words_from_emit_full:
  assumes "quotable w" "cap \<le> length ws"
  shows "words_from cap s_token_pending [] ws (quote_word w @ '' '' @ rest) = PL_fault"
proof (cases "plain_word w")
  case True
  then obtain c cs where w: "w = c # cs" "plain_char c" "list_all plain_char cs"
    by (cases w) (auto simp: plain_word_def)
  then show ?thesis
    using True assms(2) words_from_plain [OF w(3), of cap "[c]" ws "'' '' @ rest"]
    by (simp add: quote_word_def pl_step_def word_apply_def plain_char_def is_space_def is_term_def)
next
  case False
  with assms show ?thesis
    by (auto simp: quote_word_def quotable_def pl_step_def word_apply_def is_space_def is_term_def
        words_from_quoted words_from_aposd)
qed

lemma words_from_full:
  "list_all quotable ws \<Longrightarrow> length acc \<le> cap \<Longrightarrow> cap < length acc + length ws \<Longrightarrow>
     words_from cap s_token_pending [] acc (command_line ws) = PL_fault"
proof (induction ws arbitrary: acc)
  case (Cons w ws)
  have *: "command_line (w # ws) = quote_word w @ '' '' @ command_line ws"
    by (simp add: command_line_def)
  show ?case
  proof (cases "length acc < cap")
    case True
    then have "words_from cap s_token_pending [] acc (quote_word w @ '' '' @ command_line ws) =
        words_from cap s_token_pending [] (acc @ [w]) (command_line ws)"
      using Cons.prems by (intro words_from_word) auto
    with Cons True show ?thesis by (simp add: *)
  next
    case False
    then show ?thesis
      using Cons.prems unfolding * by (intro words_from_emit_full) auto
  qed
qed simp

lemma parsed_words_fault [simp]: "parsed_words r = PL_fault \<longleftrightarrow> r = PL_fault"
  by (auto simp: parsed_words_def split: pl_result.splits)

text \<open>
  A token takes at least two characters, so a terminated line of at most \<open>2 * cap + 1\<close>
  characters cannot overrun the token array.
\<close>

lemma words_from_safe:
  assumes "\<exists>c \<in> set rest. is_term c"
    and "length rest + 2 * length ws + (if st = s_token_pending then 0 else 1) \<le> 2 * cap + 1"
  shows "words_from cap st cur ws rest \<noteq> PL_fault"
  using assms
proof (induction rest arbitrary: st cur ws)
  case (Cons c rest)
  show ?case
  proof (cases "pl_step st c")
    case (Keep s)
    then have "s = st" by (simp add: pl_step_Keep)
    with Keep Cons show ?thesis by (cases "is_term c") (auto simp: word_apply_def)
  next
    case (Begin s off)
    then have st: "st = s_token_pending" "s \<noteq> s_token_pending" by (simp_all add: pl_step_Begin)
    have "is_term c \<or> words_from cap s cur' ws rest \<noteq> PL_fault" for cur'
      using Cons.prems st Cons.IH [of ws s cur'] by auto
    with Begin st show ?thesis by (auto simp: word_apply_def)
  next
    case Emit
    with pl_step_Emit have "st \<noteq> s_token_pending" by blast
    with Cons.prems Emit Cons.IH [of "ws @ [cur]" s_token_pending "[]"] show ?thesis
      by (auto simp: word_apply_def)
  next
    case Reject
    then show ?thesis by (simp add: word_apply_def)
  qed
qed simp

lemma parse_line_safe:
  "\<exists>c \<in> set line. is_term c \<Longrightarrow> length line \<le> 2 * cap + 1 \<Longrightarrow> parse_line cap line \<noteq> PL_fault"
  using words_from_safe [of line "[]" s_token_pending cap "[]"] parse_line_words [of cap line]
    parsed_words_fault [of "parse_line cap line"]
  by (simp add: words_of_def)

text \<open>C35. \<open>parse_line\<close> does not check the size of the caller's array: a command line with more
  words than \<open>cap\<close> (256 in the shell) stores past its end, and a line with at most that many
  never does.\<close>
theorem parse_line_overrun_iff:
  assumes "list_all quotable ws"
  shows "parse_line cap (command_line ws) = PL_fault \<longleftrightarrow> cap < length ws"
proof (cases "cap < length ws")
  case True
  with assms have "words_of cap (command_line ws) = PL_fault"
    by (simp add: words_of_def words_from_full)
  with True show ?thesis using parse_line_words [of cap "command_line ws"] by auto
next
  case False
  with assms have "words_of cap (command_line ws) = PL_ok ws"
    using words_from_command_line [of ws "[]" cap] by (simp add: words_of_def)
  with False show ?thesis using parse_line_words [of cap "command_line ws"]
    by (auto simp: parsed_words_def)
qed

theorem parse_line_overrun_witness:
  "parse_line 256 (command_line (replicate 257 ''ls'')) = PL_fault"
proof -
  have "list_all quotable (replicate 257 ''ls'')"
    by (simp add: list_all_iff quotable_def is_term_def)
  from parse_line_overrun_iff [OF this] show ?thesis by simp
qed

end
