(* ===== verification/Atad.thy ===== *)
theory Atad
  imports Ledger
begin

text \<open>
  The ATA disk of the emulated console (\<open>src/subprojects/fakeps2sdk/atad.c\<close>): a file or block
  device of the host, addressed in sectors of 512 bytes. The two static variables are the
  record \<open>atad\<close>; the branches for Windows and macOS are not compiled on the modelled host.
\<close>

record atad =
  at_handle :: int
  at_hdd_length :: u32

record ata_devinfo =
  ata_exists :: u32
  ata_has_packet :: u32
  ata_total_sectors :: u32
  ata_security_status :: u32

definition atad_boot :: atad where
  "atad_boot = \<lparr>at_handle = - 1, at_hdd_length = 0\<rparr>"

text \<open>\<open>lseek\<close> whence values of the host.\<close>

definition SEEK_SET :: int where "SEEK_SET = 0"
definition SEEK_CUR :: int where "SEEK_CUR = 1"
definition SEEK_END :: int where "SEEK_END = 2"

definition set_atad_device_handle :: "int \<Rightarrow> atad \<Rightarrow> (int \<times> atad) io" where
  "set_atad_device_handle fd A =
     bindM (codeM (Host_lseek fd 0 SEEK_END)) (\<lambda>sz.
     if sz \<noteq> - 1 then
       retM (0, A\<lparr>at_hdd_length := to_u32 (c_div (sz - 511) 512), at_handle := fd\<rparr>)
     else retM (1, A))"

definition set_atad_device_path :: "string \<Rightarrow> atad \<Rightarrow> atad io" where
  "set_atad_device_path path A =
     bindM (codeM (Host_open path O_RDWR 0)) (\<lambda>fd.
     if fd = - 1 then exitM 1
     else bindM (set_atad_device_handle fd A) (\<lambda>(r, A').
       if r \<noteq> 0 then exitM 1 else retM A'))"

definition atad_close :: "atad \<Rightarrow> atad io" where
  "atad_close A =
     (if at_handle A \<noteq> - 1 then
        bindM (doM (Host_close (at_handle A))) (\<lambda>_. retM (A\<lparr>at_handle := - 1\<rparr>))
      else retM A)"

definition ata_get_devinfo :: "atad \<Rightarrow> int \<Rightarrow> ata_devinfo" where
  "ata_get_devinfo A device =
     (if device = 0 \<and> at_handle A \<noteq> - 1 then
        \<lparr>ata_exists = 1, ata_has_packet = 0, ata_total_sectors = at_hdd_length A,
         ata_security_status = 0\<rparr>
      else
        \<lparr>ata_exists = 0, ata_has_packet = 0, ata_total_sectors = 0, ata_security_status = 0\<rparr>)"

text \<open>
  Reading and writing sectors. The byte count \<open>nsectors * 512\<close> is computed in 32 bits; the
  buffer of a write holds \<open>buf\<close>, and a write of more than it holds is a fault. The result of
  a read is the second component.
\<close>

definition ATA_DIR_READ :: int where "ATA_DIR_READ = 0"
definition ATA_DIR_WRITE :: int where "ATA_DIR_WRITE = 1"

definition ata_device_sector_io ::
    "atad \<Rightarrow> int \<Rightarrow> string \<Rightarrow> u32 \<Rightarrow> u32 \<Rightarrow> int \<Rightarrow> (int \<times> string) io" where
  "ata_device_sector_io A device buf lba nsectors dir =
     (if at_handle A = - 1 then
        bindM (putsM (''atadDmaTransfer: device fd not set'' @ nl)) (\<lambda>_. retM (- 1, []))
      else if device \<noteq> 0 then
        bindM (putsM (''atadDmaTransfer: invalid device '' @ dec_int device @ nl)) (\<lambda>_.
        retM (- 1, []))
      else
        bindM (codeM (Host_lseek (at_handle A) (uint lba * 512) SEEK_SET)) (\<lambda>pos.
        if pos = - 1 then retM (- 1, [])
        else
          bindM
            (if dir = ATA_DIR_WRITE then
               (if length buf < unat (nsectors * 512) then faultM
                else callM (Host_write (at_handle A) (take (unat (nsectors * 512)) buf)))
             else callM (Host_read (at_handle A) (unat (nsectors * 512))))
            (\<lambda>r.
          if rp_ret r = uint (nsectors * 512) then retM (0, rp_data r)
          else retM (- 1, rp_data r))))"

subsection \<open>Facts\<close>

lemma set_atad_device_handle_length:
  assumes "answer E tr (Host_lseek fd 0 SEEK_END) = r" "rp_ret r = 512 * int n" "0 < n" "n < 2 ^ 32"
  shows "set_atad_device_handle fd A E tr =
     (Done (0, \<lparr>at_handle = fd, at_hdd_length = of_nat (n - 1), \<dots> = atad.more A\<rparr>),
      tr @ [(Host_lseek fd 0 SEEK_END, r)])"
proof -
  have "(512 * int n - 511) div 512 = int (n - 1)"
    using assms(3) by (simp add: of_nat_diff)
  moreover have "\<bar>512 * int n - 511\<bar> = 512 * int n - 511" "sgn (512 * int n - 511) = 1"
    using assms(3) by auto
  ultimately have "to_u32 (c_div (512 * int n - 511) 512) = of_nat (n - 1)"
    by (simp add: to_u32_def c_div_def)
  then show ?thesis
    using assms by (cases A) (simp add: set_atad_device_handle_def io_simps)
qed

end
