(* ===== verification/Shell.thy ===== *)
theory Shell
  imports Parse_Line Atad
begin

text \<open>
  The interactive shell (\<open>src/src/shell.c\<close>). \<open>context_t\<close> is the C structure; \<open>shell_state\<close>
  adds the global \<open>total_sectors\<close> and the disk. A command handler maps the state and its
  arguments to a return code and the new state. Character arrays of the source are buffers
  of their size: writing past one is a fault. Diagnostics that end in \<open>strerror\<close> or
  \<open>perror\<close> text or depend on \<open>errno\<close> are left out; the prompt, the banner and the fixed
  messages on standard error are calls \<open>Eputs\<close>.
\<close>

subsection \<open>State\<close>

record context_t =
  is_setup :: int
  mount_point :: string
  mount :: int
  path :: string

record shell_state = context_t +
  total_sectors :: u32
  disk :: atad

definition context_boot :: shell_state where
  "context_boot = \<lparr>is_setup = 0, mount_point = [], mount = 0, path = ''/'',
     total_sectors = 0, disk = atad_boot\<rparr>"

definition no_req :: u32 where "no_req = 0"
definition need_device :: u32 where "need_device = 1"
definition need_no_device :: u32 where "need_no_device = 2"
definition need_mount :: u32 where "need_mount = 4"
definition need_no_mount :: u32 where "need_no_mount = 8"

lemmas req_defs = no_req_def need_device_def need_no_device_def need_mount_def need_no_mount_def

definition eputs :: "string \<Rightarrow> unit io" where
  "eputs s = doM (Eputs s)"

definition check_requirements :: "shell_state \<Rightarrow> u32 \<Rightarrow> int io" where
  "check_requirements ctx req =
     (if req AND need_device \<noteq> 0 \<and> is_setup ctx = 0 then
        bindM (eputs (''(!) No device selected; use `device'' @ [CHR 0x27] @ '' command.'' @ nl))
          (\<lambda>_. retM 0)
      else if req AND need_no_device \<noteq> 0 \<and> is_setup ctx \<noteq> 0 then
        bindM (eputs (''(!) Device already selected; restart first.'' @ nl)) (\<lambda>_. retM 0)
      else if req AND need_mount \<noteq> 0 \<and> mount ctx = 0 then
        bindM (eputs (''(!) No partition mounted; use `mount'' @ [CHR 0x27] @ '' command.'' @ nl))
          (\<lambda>_. retM 0)
      else if req AND need_no_mount \<noteq> 0 \<and> mount ctx \<noteq> 0 then
        bindM (eputs (''(!) Partition already mounted; use `umount'' @ [CHR 0x27] @ '' first.'' @ nl))
          (\<lambda>_. retM 0)
      else retM 1)"

type_synonym handler = "shell_state \<Rightarrow> string list \<Rightarrow> (int \<times> shell_state) io"

subsection \<open>The local directory and free space\<close>

definition do_lcd :: handler where
  "do_lcd ctx argv =
     (if length argv = 1 then
        bindM (callM (Host_getcwd 256)) (\<lambda>r.
        if rp_ret r \<noteq> 0 then bindM (putsM (rp_data r @ nl)) (\<lambda>_. retM (0, ctx))
        else retM (- 1, ctx))
      else bindM (codeM (Host_chdir (argv ! 1))) (\<lambda>c. retM (c, ctx)))"

text \<open>The loop that adds up the sectors of main partitions, in 32 bits.\<close>

definition df_body :: "int \<Rightarrow> u32 \<Rightarrow> (u32 + u32) io" where
  "df_body dh = (\<lambda>used.
     bindM (callM (Ix_dread dh)) (\<lambda>r.
     if rp_ret r \<noteq> 0 \<and> rp_ret r \<noteq> - 1 then
       retM (Inl (if st_mode (rp_stat r) \<noteq> 0x0000 \<and> st_attr (rp_stat r) = 0
                  then used + private_1 (rp_stat r) else used))
     else retM (Inr used)))"

definition df_header :: string where
  "df_header = ''Device                               Size    Used   Avail Capacity'' @ nl"

definition df_line :: "string \<Rightarrow> string \<Rightarrow> u32 \<Rightarrow> u32 \<Rightarrow> u32 \<Rightarrow> u32 \<Rightarrow> string" where
  "df_line name unit_name sz used avail pct =
     name @ fmt_u 4 (unat sz) @ unit_name @ '' '' @ fmt_u 4 (unat used) @ unit_name @ '' '' @
     fmt_u 4 (unat avail) @ unit_name @ ''   '' @ fmt_u 3 (unat pct) @ ''%'' @ nl"

definition do_df :: handler where
  "do_df ctx argv =
     (if mount ctx = 0 then
        bindM (codeM (Ix_dopen ''hdd0:'')) (\<lambda>dh.
        if dh < 0 then retM (dh, ctx)
        else
          bindM (loopM (df_body dh) 0) (\<lambda>used.
          bindM (doM (Ix_close dh)) (\<lambda>_.
          let free = total_sectors ctx + 1 - used in
          bindM (putsM df_header) (\<lambda>_.
          if total_sectors ctx + 1 = 0 then faultM
          else
            bindM (putsM (df_line (''hdd0:                             '') ''GiB''
              ((total_sectors ctx + 1) div (2048 * 1024)) (used div (2048 * 1024))
              (free div (2048 * 1024)) ((used * 100) div (total_sectors ctx + 1)))) (\<lambda>_.
            retM (0, ctx))))))
      else
        bindM (callM (Ix_getstat (mount_point ctx))) (\<lambda>r.
        if rp_ret r < 0 then retM (rp_ret r, ctx)
        else
          let total = private_1 (rp_stat r) - private_0 (rp_stat r) * 4 - 4 * 1024 * 2 in
          bindM (codeM (Ix_devctl ''pfs0:'' PDIOC_ZONESZ No_arg 0)) (\<lambda>frsize.
          bindM (codeM (Ix_devctl ''pfs0:'' PDIOC_ZONEFREE No_arg 0)) (\<lambda>bavail.
          let free = to_u32 frsize * to_u32 bavail div 512;
              name = pad_left 32 (CHR '' '') (drop 5 (mount_point ctx)) @ ''  '' in
          bindM (putsM df_header) (\<lambda>_.
          if total = 0 then faultM
          else if total div 2048 < 10000 then
            bindM (putsM (df_line name ''MiB'' (total div 2048) ((total - free) div 2048)
              (free div 2048) (((total - free) * 100) div total))) (\<lambda>_. retM (0, ctx))
          else
            bindM (putsM (df_line name ''GiB'' (total div (2048 * 1024))
              ((total - free) div (2048 * 1024)) (free div (2048 * 1024))
              (((total - free) * 100) div total))) (\<lambda>_. retM (0, ctx)))))))"

subsection \<open>Selecting and initialising the device\<close>

text \<open>\<open>_init_hdlfs\<close> (\<open>src/subprojects/hdlfs\<close>): the driver registers itself.\<close>

definition hdlfs_start :: "int io" where
  "hdlfs_start = bindM (doM (Ix_DelDrv ''hdl'')) (\<lambda>_. bindM (doM (Ix_AddDrv ''hdl'')) (\<lambda>_. retM 0))"

definition do_device :: handler where
  "do_device ctx argv =
     bindM (set_atad_device_path (argv ! 1) (disk ctx)) (\<lambda>d.
     bindM (codeM (Init_apa [''ps2hdd.irx''])) (\<lambda>result.
     if result < 0 then exitM 1
     else
       bindM (codeM (Init_pfs [''pfs.irx'', ''-m'', ''1'', ''-o'', ''1'', ''-n'', ''10''])) (\<lambda>result.
       if result < 0 then exitM 1
       else
         bindM hdlfs_start (\<lambda>result.
         if result < 0 then exitM 1
         else
           bindM (codeM (Ix_devctl ''hdd0:'' HDIOC_TOTALSECTOR No_arg 0)) (\<lambda>total.
           bindM (do_df (ctx\<lparr>disk := d, is_setup := 1, total_sectors := to_u32 total\<rparr>) [])
             (\<lambda>(_, ctx'). retM (0, ctx')))))))"

definition do_initialize :: handler where
  "do_initialize ctx argv =
     (if length argv = 1 then
        bindM (putsM (''Use: initialize yes to create APA partitioning.'' @ nl)) (\<lambda>_.
        retM (0, ctx))
      else
        bindM (codeM (Ix_format ''hdd0:'' None No_arg)) (\<lambda>result.
        bindM
          (if result \<ge> 0 then
             bindM (mkpfs ''__net'') (\<lambda>result.
             bindM (mkpfs ''__system'') (\<lambda>_.
             bindM (mkpfs ''__sysconf'') (\<lambda>_.
             bindM (mkpfs ''__common'') (\<lambda>_.
             retM result))))
           else retM result) (\<lambda>result.
        bindM (codeM (Ix_devctl ''hdd0:'' HDIOC_TOTALSECTOR No_arg 0)) (\<lambda>total.
        bindM (do_df (ctx\<lparr>total_sectors := to_u32 total\<rparr>) []) (\<lambda>(_, ctx').
        retM (result, ctx'))))))"

subsection \<open>Creating a partition\<close>

definition sizesString :: "string list" where
  "sizesString = [''8M'', ''16M'', ''32M'', ''64M'', ''128M'', ''256M'', ''512M'', ''1G'', ''2G'',
     ''4G'', ''8G'', ''16G'', ''32G'']"

definition sizesMB :: "u32 list" where
  "sizesMB = [8, 16, 32, 64, 128, 256, 512, 1024, 2048, 4096, 8192, 16384, 32768]"

definition fsType :: "string list" where
  "fsType = [''MBR'', ''EXT2SWAP'', ''EXT2'', ''REISER'', ''PFS'', ''CFS'', ''HDL'']"

text \<open>
  The size argument: a number that ends with \<open>M\<close> or \<open>G\<close>. The character before an empty
  token is the quote that opened it. \<open>strtoul\<close> yields 64 bits, \<open>size_in_mb\<close> has 32.
\<close>

definition mkpart_size :: "string \<Rightarrow> u32 option" where
  "mkpart_size arg =
     (if arg = [] then None
      else if last arg = CHR ''M'' then Some (ucast (strtoul 10 (butlast arg)))
      else if last arg = CHR ''G'' then Some (ucast (strtoul 10 (butlast arg) * 1024))
      else None)"

text \<open>
  The loop for the main partition, from the largest size below \<open>i\<close> on. It returns \<open>result\<close>,
  \<open>i\<close>, \<open>partfd\<close> and \<open>size_in_mb\<close>.
\<close>

fun mkpart_main ::
    "string \<Rightarrow> string \<Rightarrow> u32 \<Rightarrow> int \<Rightarrow> nat \<Rightarrow> (int \<times> nat \<times> int \<times> u32) io" where
  "mkpart_main name part_type sz partfd 0 = retM (- 1, 0, partfd, sz)"
| "mkpart_main name part_type sz partfd (Suc i) =
     (if length sizesMB \<le> i then faultM
      else if sizesMB ! i \<le> sz then
        bindM (bufM 128 (''hdd0:'' @ name @ '',,,'' @ sizesString ! i @ '','' @ part_type)) (\<lambda>tmp.
        bindM (codeM (Ix_open tmp (FIO_O_RDWR OR FIO_O_CREAT) 0)) (\<lambda>partfd.
        if partfd \<ge> 0 then
          bindM (putsM (''Main partition of '' @ sizesString ! i @ '' created.'' @ nl)) (\<lambda>_.
          retM (partfd, i, partfd, sz - sizesMB ! i))
        else mkpart_main name part_type sz partfd i))
      else mkpart_main name part_type sz partfd i)"

text \<open>The loop for the sub-partitions; the last argument is \<open>j + 1\<close>. It returns what is left
  of \<open>size_in_mb\<close>.\<close>

lemma length_sizes [simp]: "length sizesMB = 13" "length sizesString = 13"
  by (simp_all add: sizesMB_def sizesString_def)

lemma sizesMB_pos [simp]: "j < 13 \<Longrightarrow> 0 < unat (sizesMB ! j)"
proof -
  have "list_all (\<lambda>s. 0 < unat s) sizesMB"
    by (simp add: sizesMB_def)
  then show "j < 13 \<Longrightarrow> ?thesis"
    by (simp add: list_all_length)
qed

lemma unat_minus_less: "(a :: u32) \<le> b \<Longrightarrow> unat (b - a) = unat b - unat a"
  by (simp add: unat_sub)

function mkpart_subs :: "int \<Rightarrow> u32 \<Rightarrow> nat \<Rightarrow> u32 io" where
  "mkpart_subs partfd sz 0 = retM sz"
| "mkpart_subs partfd sz (Suc j) =
     (if length sizesMB \<le> j then faultM
      else if 0 < sz then
        (if sizesMB ! j \<le> sz then
           bindM (codeM (Ix_ioctl2 partfd HIOCADDSUB (Text_arg (sizesString ! j))
               (length (sizesString ! j) + 1))) (\<lambda>r.
           if r \<ge> 0 then
             bindM (putsM (''Sub partition of '' @ sizesString ! j @ '' created.'' @ nl)) (\<lambda>_.
             mkpart_subs partfd (sz - sizesMB ! j) (Suc j))
           else mkpart_subs partfd sz j)
         else mkpart_subs partfd sz j)
      else retM sz)"
  by pat_completeness auto

termination
proof (relation "measure (\<lambda>(fd, sz, j). unat sz + j)", goal_cases)
  case (2 partfd sz j r u)
  then have "0 < unat (sizesMB ! j)" "unat (sizesMB ! j) \<le> unat sz" "sizesMB ! j \<le> sz"
    by (simp_all add: word_le_nat_alt)
  then have "unat (sz - sizesMB ! j) < unat sz"
    by (simp only: unat_minus_less)
  then show ?case by simp
qed simp_all

definition do_mkpart :: handler where
  "do_mkpart ctx argv =
     bindM (bufM 37 (''hdd0:'' @ argv ! 1)) (\<lambda>openString.
     bindM (codeM (Ix_open openString FIO_O_RDONLY 0)) (\<lambda>partfd.
     if partfd \<noteq> - 2 then
       bindM (doM (Ix_close partfd)) (\<lambda>_.
       bindM (putsM (argv ! 1 @ '': partition already exists.'' @ nl)) (\<lambda>_. retM (- 1, ctx)))
     else case mkpart_size (argv ! 2) of
       None \<Rightarrow>
         bindM (eputs (argv ! 2 @ '': Partition size should end with literal M or G.'' @ nl)) (\<lambda>_.
         retM (- 1, ctx))
     | Some size_in_mb \<Rightarrow>
         if argv ! 3 \<notin> set fsType then
           bindM (eputs (argv ! 3 @ '': wrong fs type. Acceptable fs types: '' @
             ''{PFS, CFS, HDL, REISER, EXT2, EXT2SWAP, MBR}.'' @ nl)) (\<lambda>_. retM (- 1, ctx))
         else
           bindM (mkpart_main (argv ! 1) (argv ! 3) size_in_mb partfd 9)
             (\<lambda>(result, i, partfd, size_in_mb).
           bindM (if partfd \<ge> 0 then mkpart_subs partfd size_in_mb (Suc i) else retM size_in_mb)
             (\<lambda>_.
           if result \<ge> 0 then
             bindM (doM (Ix_close partfd)) (\<lambda>_.
             bindM (if has_prefix (argv ! 3) ''PFS'' then mkpfs (argv ! 1) else retM 0)
               (\<lambda>result. retM (result, ctx)))
           else retM (result, ctx)))))"

subsection \<open>Mounting and the current directory\<close>

definition do_ls :: handler where
  "do_ls ctx argv =
     (let lsmode = (if length argv > 1 \<and> has_prefix (argv ! 1) ''-l'' then 1 else 0) in
      if mount ctx = 0 then bindM (lspart lsmode) (\<lambda>result. retM (result, ctx))
      else
        bindM (bufM 256 (''pfs0:'' @ path ctx)) (\<lambda>dir_path.
        bindM (codeM (Ix_dopen dir_path)) (\<lambda>dh.
        if dh \<ge> 0 then
          bindM (list_dir_objects dh lsmode) (\<lambda>_.
          bindM (doM (Ix_close dh)) (\<lambda>_. retM (0, ctx)))
        else retM (dh, ctx))))"

definition do_mount :: handler where
  "do_mount ctx argv =
     bindM (bufM 256 (''hdd0:'' @ argv ! 1)) (\<lambda>mp.
     bindM (codeM (Ix_mount ''pfs0:'' mp 0)) (\<lambda>result.
     if result \<ge> 0 then retM (0, ctx\<lparr>mount_point := mp, mount := 1\<rparr>)
     else retM (result, ctx\<lparr>mount_point := mp\<rparr>)))"

definition do_umount :: handler where
  "do_umount ctx argv =
     bindM (codeM (Ix_umount ''pfs0:'')) (\<lambda>result.
     if result \<ge> 0 then retM (0, ctx\<lparr>mount := 0\<rparr>) else retM (result, ctx))"

definition do_pwd :: handler where
  "do_pwd ctx argv = bindM (putsM (path ctx @ nl)) (\<lambda>_. retM (0, ctx))"

text \<open>
  The new \<open>path\<close> of \<open>cd\<close>, before \<open>chdir\<close> is asked; \<open>None\<close> is the write through the null
  pointer \<open>strrchr\<close> returns for a path without a slash.
\<close>

definition cd_path :: "string \<Rightarrow> string \<Rightarrow> string option" where
  "cd_path cwd arg =
     (if arg = ''/'' then Some ''/''
      else if arg = ''..'' \<or> arg = ''../'' then
        (case strrchr cwd (CHR ''/'') of
           None \<Rightarrow> None
         | Some slash \<Rightarrow> if slash \<noteq> 0 then Some (take slash cwd) else Some (take 1 cwd))
      else if has_prefix arg ''/'' then Some arg
      else Some ((if length cwd > 1 then cwd @ ''/'' else cwd) @ arg))"

definition do_cd :: handler where
  "do_cd ctx argv =
     (case cd_path (path ctx) (argv ! 1) of
        None \<Rightarrow> faultM
      | Some p \<Rightarrow>
          bindM (bufM 256 p) (\<lambda>new_path.
          bindM (bufM 256 (''pfs0:'' @ new_path)) (\<lambda>tmp.
          bindM (codeM (Ix_chdir tmp)) (\<lambda>result.
          if result < 0 then retM (result, ctx) else retM (result, ctx\<lparr>path := new_path\<rparr>)))))"

text \<open>\<open>"pfs0:"\<close>, the current directory, a slash unless there is one, and the name, in
  \<open>char tmp[256]\<close>.\<close>

definition pfs_name :: "shell_state \<Rightarrow> string \<Rightarrow> string" where
  "pfs_name ctx name =
     (let tmp = ''pfs0:'' @ path ctx in
      (if last tmp \<noteq> CHR ''/'' then tmp @ ''/'' else tmp) @ name)"

definition do_mkdir :: handler where
  "do_mkdir ctx argv =
     bindM (bufM 256 (pfs_name ctx (argv ! 1))) (\<lambda>tmp.
     bindM (codeM (Ix_mkdir tmp 0x1FF)) (\<lambda>result. retM (result, ctx)))"

definition do_rmdir :: handler where
  "do_rmdir ctx argv =
     bindM (bufM 256 (pfs_name ctx (argv ! 1))) (\<lambda>tmp.
     bindM (codeM (Ix_rmdir tmp)) (\<lambda>result. retM (result, ctx)))"

subsection \<open>Transfers\<close>

definition get_body :: "int \<Rightarrow> int \<Rightarrow> unit \<Rightarrow> (unit + unit) io" where
  "get_body in_fd out = (\<lambda>_.
     bindM (callM (Ix_read in_fd 4096)) (\<lambda>r.
     if rp_ret r > 0 then
       bindM (codeM (Host_write out (got r))) (\<lambda>result.
       if result \<noteq> rp_ret r then retM (Inr ()) else retM (Inl ()))
     else retM (Inr ())))"

definition do_get :: handler where
  "do_get ctx argv =
     bindM (bufM 256 (pfs_name ctx (argv ! 1))) (\<lambda>tmp.
     bindM (codeM (Ix_open tmp FIO_O_RDONLY 0)) (\<lambda>in_fd.
     if in_fd \<ge> 0 then
       bindM (codeM (Host_open (argv ! 1) (O_CREAT OR O_WRONLY) 0x1B4)) (\<lambda>out.
       bindM
         (if out \<noteq> - 1 then
            bindM (loopM (get_body in_fd out) ()) (\<lambda>_. codeM (Host_close out))
          else retM (- 1)) (\<lambda>result.
       bindM (doM (Ix_close in_fd)) (\<lambda>_. retM (result, ctx))))
     else retM (in_fd, ctx)))"

definition put_body :: "int \<Rightarrow> int \<Rightarrow> string \<Rightarrow> unit \<Rightarrow> (unit + unit) io" where
  "put_body in_fd out tmp = (\<lambda>_.
     bindM (callM (Host_read in_fd 32768)) (\<lambda>r.
     if rp_ret r > 0 then
       bindM (codeM (Ix_write out (got r))) (\<lambda>result.
       if result \<noteq> rp_ret r then
         bindM
           (if result < 0 then retM ()
            else eputs (''(!) '' @ tmp @ '': wrote '' @ dec_int result @ '' bytes instead of '' @
              dec_int (rp_ret r) @ ''.'' @ nl)) (\<lambda>_.
         retM (Inr ()))
       else retM (Inl ()))
     else retM (Inr ())))"

definition do_put :: handler where
  "do_put ctx argv =
     bindM (bufM 256 (pfs_name ctx (argv ! 1))) (\<lambda>tmp.
     bindM (codeM (Host_open (argv ! 1) O_RDONLY 0)) (\<lambda>in_fd.
     if in_fd \<noteq> - 1 then
       bindM (codeM (Ix_open tmp (FIO_O_WRONLY OR FIO_O_CREAT) 0x1B6)) (\<lambda>out.
       bindM
         (if out \<ge> 0 then
            bindM (loopM (put_body in_fd out tmp) ()) (\<lambda>_. codeM (Ix_close out))
          else retM out) (\<lambda>result.
       bindM (doM (Host_close in_fd)) (\<lambda>_. retM (result, ctx))))
     else retM (- 1, ctx)))"

subsection \<open>Removing and renaming\<close>

definition do_rm :: handler where
  "do_rm ctx argv =
     bindM (bufM 256 (pfs_name ctx (argv ! 1))) (\<lambda>tmp.
     bindM (codeM (Ix_remove tmp)) (\<lambda>result. retM (result, ctx)))"

definition do_rename :: handler where
  "do_rename ctx argv =
     bindM (bufM 256 (if mount ctx = 0 then ''hdd0:'' @ argv ! 1 else pfs_name ctx (argv ! 1)))
       (\<lambda>tmp.
     bindM (codeM (Ix_rename tmp (argv ! 2))) (\<lambda>result. retM (result, ctx)))"

definition do_rmpart :: handler where
  "do_rmpart ctx argv =
     bindM (bufM 256 (''hdd0:'' @ argv ! 1)) (\<lambda>tmp.
     bindM (codeM (Ix_remove tmp)) (\<lambda>result. retM (result, ctx)))"

definition help_text :: string where
  "help_text =
     ''~Command List~'' @ nl @
     ''lcd [path] - print/change the local working directory'' @ nl @
     ''device <device> - use this PS2 HDD;'' @ nl @
     ''initialize - blank and create APA/PFS on a new PS2 HDD (destructive);'' @ nl @
     ''mkpart <part_name> <size> <fstype> - create a new PFS formatted partition;'' @ nl @
     [CHR 0x09] @ ''Size must end with M or G literal (like 384M or 3G);'' @ nl @
     [CHR 0x09] @ ''Acceptable fs types: {PFS, CFS, HDL, REISER, EXT2, EXT2SWAP, MBR};'' @ nl @
     [CHR 0x09] @ ''Only fs type PFS will format partition, other partitions should be formatted by another utilities;'' @ nl @
     ''mount <part_name> - mount a partition;'' @ nl @
     ''umount - un-mount a partition;'' @ nl @
     ''ls [-l] - no mount: list partitions; mount: list files/dirs; -l: verbose list;'' @ nl @
     ''rename <curr_name> <new_name> - no mount: rename partition; mount: rename a file/dir.'' @ nl @
     ''mkdir <dir_name> - create a new directory;'' @ nl @
     ''rmdir <dir_name> - delete an existing empty directory;'' @ nl @
     ''pwd - print current PS2 HDD directory;'' @ nl @
     ''cd <dir_name> - change directory;'' @ nl @
     ''get <file_name> - copy file from PS2 HDD to current dir;'' @ nl @
     ''put <file_name> - copy file from current dir to PS2 HDD;'' @ nl @
     [CHR 0x09] @ ''file name must not contain a path;'' @ nl @
     ''rm <file_name> - delete a file;'' @ nl @
     ''rename <curr_name> <new_name> - rename a file/dir/partition.'' @ nl @
     ''rmpart <part_name> - remove partition (destructive).'' @ nl @
     ''df - no mount: display free space on the whole HDD; mount: display free space on partition.'' @ nl @
     ''exit/quit/bye - exits the program. (Do this before you unplug your HDD)'' @ nl"

definition do_help :: handler where
  "do_help ctx argv = bindM (eputs help_text) (\<lambda>_. retM (0, ctx))"

subsection \<open>Dispatch and the main loop\<close>

record command =
  cm_name :: string
  cm_args :: nat
  cm_req :: u32
  cm_process :: handler

definition cmd :: "string \<Rightarrow> nat \<Rightarrow> u32 \<Rightarrow> handler \<Rightarrow> command" where
  "cmd name args req process =
     \<lparr>cm_name = name, cm_args = args, cm_req = req, cm_process = process\<rparr>"

definition CMD :: "command list" where
  "CMD = [
     cmd ''lcd'' 0 no_req do_lcd,
     cmd ''lcd'' 1 no_req do_lcd,
     cmd ''device'' 1 need_no_device do_device,
     cmd ''initialize'' 0 (need_device + need_no_mount) do_initialize,
     cmd ''initialize'' 1 (need_device + need_no_mount) do_initialize,
     cmd ''mkpart'' 3 need_device do_mkpart,
     cmd ''mount'' 1 (need_device + need_no_mount) do_mount,
     cmd ''umount'' 0 (need_device + need_mount) do_umount,
     cmd ''ls'' 0 need_device do_ls,
     cmd ''ls'' 1 need_device do_ls,
     cmd ''mkdir'' 1 (need_device + need_mount) do_mkdir,
     cmd ''rmdir'' 1 (need_device + need_mount) do_rmdir,
     cmd ''pwd'' 0 (need_device + need_mount) do_pwd,
     cmd ''cd'' 1 (need_device + need_mount) do_cd,
     cmd ''get'' 1 (need_device + need_mount) do_get,
     cmd ''put'' 1 (need_device + need_mount) do_put,
     cmd ''rm'' 1 (need_device + need_mount) do_rm,
     cmd ''rmpart'' 1 need_device do_rmpart,
     cmd ''df'' 0 need_device do_df,
     cmd ''rename'' 2 need_device do_rename,
     cmd ''help'' 0 no_req do_help]"

fun find_command :: "command list \<Rightarrow> string list \<Rightarrow> command option" where
  "find_command [] argv = None"
| "find_command (c # cs) argv =
     (if argv ! 0 = cm_name c \<and> cm_args c = length argv - 1 then Some c else find_command cs argv)"

definition exec :: handler where
  "exec ctx argv =
     (if argv = [] then retM (0, ctx)
      else case find_command CMD argv of
        Some c \<Rightarrow>
          bindM (check_requirements ctx (cm_req c)) (\<lambda>ok.
          if ok \<noteq> 0 then cm_process c ctx argv else retM (0, ctx))
      | None \<Rightarrow>
          bindM (eputs (''(!) '' @ argv ! 0 @ '': unknown command or bad number of arguments.'' @ nl))
            (\<lambda>_. retM (0, ctx)))"

text \<open>The prompt after a command; it is kept while no device is selected.\<close>

definition update_prompt :: "string \<Rightarrow> shell_state \<Rightarrow> string io" where
  "update_prompt prompt ctx =
     (if is_setup ctx \<noteq> 0 then
        (if mount ctx \<noteq> 0 then
           (case strchr (mount_point ctx) (CHR '':'') of
              None \<Rightarrow> faultM
            | Some s \<Rightarrow> bufM 256 (drop 1 s @ '':'' @ path ctx @ ''# ''))
         else retM ''# '')
      else retM prompt)"

definition is_exit :: "string \<Rightarrow> bool" where
  "is_exit line = (has_prefix line ''exit'' \<or> has_prefix line ''quit'' \<or> has_prefix line ''bye'')"

text \<open>One round of the loop: the prompt, a line, the command, the next prompt.\<close>

definition shell_body ::
    "string \<times> shell_state \<Rightarrow> (string \<times> shell_state + shell_state) io" where
  "shell_body = (\<lambda>(prompt, ctx).
     bindM (eputs prompt) (\<lambda>_.
     bindM (callM Host_getline) (\<lambda>l.
     if rp_ret l < 0 \<or> is_exit (rp_data l) then retM (Inr ctx)
     else
       bindM
         (case parsed_words (parse_line 256 (rp_data l @ [CHR 0x00])) of
            PL_fault \<Rightarrow> faultM
          | PL_error \<Rightarrow>
              bindM (eputs (''(!) Unable to parse command line.'' @ nl)) (\<lambda>_. retM ctx)
          | PL_ok tokens \<Rightarrow>
              bindM (exec ctx tokens) (\<lambda>(result, ctx).
              bindM
                (if result \<noteq> 0 then eputs (''(!) Exit code is '' @ dec_int result) else retM ())
                (\<lambda>_. retM ctx))) (\<lambda>ctx.
       bindM (update_prompt prompt ctx) (\<lambda>prompt.
       retM (Inl (prompt, ctx)))))))"

definition shell_loop :: "shell_state \<Rightarrow> (int \<times> shell_state) io" where
  "shell_loop ctx = bindM (loopM shell_body (''> '', ctx)) (\<lambda>ctx. retM (0, ctx))"

definition banner :: string where
  "banner =
     ''pfsshell for POSIX systems'' @ nl @
     ''https://github.com/ps2homebrew/pfsshell'' @ nl @
     nl @
     ''This program uses pfs, apa, iomanX, '' @ nl @
     ''code from ps2sdk (https://github.com/ps2dev/ps2sdk)'' @ nl @
     nl @
     ''Type '' @ [CHR 0x22] @ ''help'' @ [CHR 0x22] @ '' for a list of commands.'' @ nl @
     nl"

definition shell :: "(int \<times> shell_state) io" where
  "shell =
     bindM (eputs banner) (\<lambda>_.
     bindM (shell_loop context_boot) (\<lambda>(result, ctx).
     bindM (if mount ctx \<noteq> 0 then do_umount ctx [] else retM (0, ctx)) (\<lambda>(_, ctx).
     bindM (atad_close (disk ctx)) (\<lambda>d.
     retM (result, ctx\<lparr>disk := d\<rparr>)))))"

end
