(* ===== verification/Shell_Props.thy ===== *)
theory Shell_Props
  imports Shell Hl_Props
begin

text \<open>
  What the shell guarantees: a command runs only when its requirements hold, what a command
  can touch in each state, the invariant of a session, the accounting of handles and mounts,
  and the behaviour of \<open>cd\<close>, \<open>get\<close>, \<open>put\<close> and \<open>mkpart\<close>.
\<close>

subsection \<open>Dispatch\<close>

lemma emits_eputs [emits]: "A (Eputs s) \<Longrightarrow> emits_only A (eputs s)"
  by (simp add: eputs_def emits)

lemma bindM_eputs [io_simps]: "bindM (eputs s) f = bindM (callM (Eputs s)) (\<lambda>_. f ())"
  by (simp add: eputs_def bindM_doM)

lemma gwp_eputs [gwp]: "(\<And>r. Q () (st g (Eputs s, r))) \<Longrightarrow> gwp st (eputs s) Q g"
  by (simp add: eputs_def gwp)

lemma gwp_putsM: "(\<And>r. Q () (st g (Puts s, r))) \<Longrightarrow> gwp st (putsM s) Q g"
  by (simp add: putsM_def gwp)

text \<open>What a requirement demands of the state.\<close>

definition permits :: "shell_state \<Rightarrow> u32 \<Rightarrow> bool" where
  "permits ctx req =
     ((req AND need_device \<noteq> 0 \<longrightarrow> is_setup ctx \<noteq> 0) \<and>
      (req AND need_no_device \<noteq> 0 \<longrightarrow> is_setup ctx = 0) \<and>
      (req AND need_mount \<noteq> 0 \<longrightarrow> mount ctx \<noteq> 0) \<and>
      (req AND need_no_mount \<noteq> 0 \<longrightarrow> mount ctx = 0))"

lemma permits_simps [simp]:
  "permits ctx no_req"
  "permits ctx need_device \<longleftrightarrow> is_setup ctx \<noteq> 0"
  "permits ctx need_no_device \<longleftrightarrow> is_setup ctx = 0"
  "permits ctx (need_device + need_mount) \<longleftrightarrow> is_setup ctx \<noteq> 0 \<and> mount ctx \<noteq> 0"
  "permits ctx (need_device + need_no_mount) \<longleftrightarrow> is_setup ctx \<noteq> 0 \<and> mount ctx = 0"
  by (auto simp: permits_def req_defs)

lemma check_requirements_ok: "permits ctx req \<Longrightarrow> check_requirements ctx req = retM 1"
  by (auto simp: permits_def check_requirements_def)

lemma check_requirements_fails:
  "\<not> permits ctx req \<Longrightarrow>
     \<exists>s. check_requirements ctx req = bindM (eputs s) (\<lambda>_. retM 0)"
  unfolding check_requirements_def permits_def by (auto split: if_splits)

lemma find_command_Some:
  "find_command cs argv = Some c \<Longrightarrow>
     c \<in> set cs \<and> argv ! 0 = cm_name c \<and> cm_args c = length argv - 1"
  by (induction cs) (auto split: if_splits)

text \<open>Reasoning about all commands: each handler in the states its requirements permit.\<close>

lemma exec_gwp:
  assumes "\<And>r. Q (0, ctx) g" "\<And>s r. Q (0, ctx) (st g (Eputs s, r))"
    and "\<And>c. c \<in> set CMD \<Longrightarrow> permits ctx (cm_req c) \<Longrightarrow> argv \<noteq> [] \<Longrightarrow> argv ! 0 = cm_name c \<Longrightarrow>
      length argv = Suc (cm_args c) \<Longrightarrow> gwp st (cm_process c ctx argv) Q g"
  shows "gwp st (exec ctx argv) Q g"
proof (cases "find_command CMD argv")
  case None
  then show ?thesis
    by (auto simp: exec_def assms intro!: gwp)
next
  case (Some c)
  show ?thesis
  proof (cases "argv = [] \<or> \<not> permits ctx (cm_req c)")
    case True
    then show ?thesis
      using check_requirements_fails [of ctx "cm_req c"] Some
      by (auto simp: exec_def assms intro!: gwp)
  next
    case False
    moreover have "length argv = Suc (cm_args c)"
      using False find_command_Some [OF Some] by (cases argv) auto
    ultimately have "gwp st (cm_process c ctx argv) Q g"
      using assms(3) find_command_Some [OF Some] by auto
    with False Some show ?thesis
      by (simp add: exec_def check_requirements_ok bindM_retM)
  qed
qed

lemma exec_emits:
  assumes "\<And>s. A (Eputs s)"
    and "\<And>c. c \<in> set CMD \<Longrightarrow> permits ctx (cm_req c) \<Longrightarrow> argv \<noteq> [] \<Longrightarrow> argv ! 0 = cm_name c \<Longrightarrow>
      length argv = Suc (cm_args c) \<Longrightarrow> emits_only A (cm_process c ctx argv)"
  shows "emits_only A (exec ctx argv)"
proof (cases "find_command CMD argv")
  case None
  then show ?thesis
    by (auto simp: exec_def assms intro!: emits)
next
  case (Some c)
  show ?thesis
  proof (cases "argv = [] \<or> \<not> permits ctx (cm_req c)")
    case True
    consider "argv = []" | s where "argv \<noteq> []"
      "check_requirements ctx (cm_req c) = bindM (eputs s) (\<lambda>_. retM 0)"
      using True check_requirements_fails [of ctx "cm_req c"] by blast
    then show ?thesis
    proof cases
      case 2
      then have "exec ctx argv = bindM (eputs s) (\<lambda>_. retM (0, ctx))"
        by (simp add: exec_def Some bindM_assoc bindM_retM)
      then show ?thesis by (simp add: emits assms(1))
    qed (simp add: exec_def emits)
  next
    case False
    moreover have "length argv = Suc (cm_args c)"
      using False find_command_Some [OF Some] by (cases argv) auto
    ultimately have "emits_only A (cm_process c ctx argv)"
      using assms(2) find_command_Some [OF Some] by auto
    with False Some show ?thesis
      by (simp add: exec_def check_requirements_ok bindM_retM)
  qed
qed

text \<open>C9. A command whose requirements do not hold does nothing: it reports that on standard
  error and returns 0, without a call to iomanX or the host and without a change of state.\<close>

theorem exec_guarded:
  assumes "argv \<noteq> []" "find_command CMD argv = Some c" "\<not> permits ctx (cm_req c)"
  shows "\<exists>s. exec ctx argv E tr = (Done (0, ctx), tr @ [(Eputs s, answer E tr (Eputs s))])"
  using check_requirements_fails [OF assms(3)] assms(1,2)
  by (auto simp: exec_def io_simps)

theorem exec_guarded_witness:
  "\<exists>s. exec context_boot [''ls''] copyto_env [] =
     (Done (0, context_boot), [] @ [(Eputs s, answer copyto_env [] (Eputs s))])"
  by (rule exec_guarded [where c = "cmd ''ls'' 0 need_device do_ls"])
    (simp_all add: CMD_def cmd_def context_boot_def)

subsection \<open>Handles, mounts and the state\<close>

text \<open>A handler that leaves ledger and state as they were.\<close>

definition keeps :: "(int \<times> shell_state) io \<Rightarrow> shell_state \<Rightarrow> bool" where
  "keeps m ctx = (\<forall>L. gwp ledger_step m (\<lambda>(r, ctx') L'. L' = L \<and> ctx' = ctx) L)"

lemma keepsD:
  "keeps m ctx \<Longrightarrow> (\<And>r. Q (r, ctx) L) \<Longrightarrow> gwp ledger_step m Q L"
  by (rule gwp_mono [where Q = "\<lambda>(r, ctx') L'. L' = L \<and> ctx' = ctx"]) (auto simp: keeps_def)

lemma emits_neutral_shell [emits]:
  "emits_only neutral (df_body dh u)" "emits_only neutral (get_body i f v)"
  "emits_only neutral (put_body i f t v)"
  by (auto simp: df_body_def get_body_def put_body_def intro!: emits)

lemma emits_mkpart_subs [emits]:
  "(\<And>s l. A (Ix_ioctl2 fd HIOCADDSUB s l)) \<Longrightarrow> (\<And>s. A (Puts s)) \<Longrightarrow>
     emits_only A (mkpart_subs fd sz j)"
proof (induction fd sz j rule: mkpart_subs.induct)
  case (1 fd sz)
  then show ?case by (simp add: emits)
next
  case (2 fd sz j)
  then show ?case
    by (simp (no_asm_simp)) (intro conjI impI emits_only_bind emits_only_if emits; simp)
qed

lemma gwp_neutral_shell [gwp]:
  "(\<And>a. Q a L) \<Longrightarrow> gwp ledger_step (loopM (df_body dh) u) Q L"
  "(\<And>a. R a L) \<Longrightarrow> gwp ledger_step (loopM (get_body i f) v) R L"
  "(\<And>a. R a L) \<Longrightarrow> gwp ledger_step (loopM (put_body i f t) v) R L"
  "(\<And>a. Q a L) \<Longrightarrow> gwp ledger_step (mkpart_subs fd sz j) Q L"
  by (rule gwp_neutral, auto intro!: emits)+

lemma gwp_lspart [gwp]: "(\<And>a. Q a L) \<Longrightarrow> gwp ledger_step (lspart m) Q L"
  by (rule gwp_balanced [OF balanced_lspart])

lemma gwp_mkpart_main:
  "fd < 0 \<Longrightarrow> gwp ledger_step (mkpart_main name ty sz fd i)
     (\<lambda>(result, i', partfd, sz') L'. partfd < 0 \<and> result < 0 \<and> L' = L \<or>
        partfd = result \<and> 0 \<le> result \<and> L' = L\<lparr>lg_ix := result # lg_ix L\<rparr>) L"
proof (induction name ty sz fd i rule: mkpart_main.induct)
  case (1 name ty sz fd)
  then show ?case by (simp add: gwp)
next
  case (2 name ty sz fd i)
  then show ?case
    by (simp (no_asm_simp)) (intro conjI impI gwp; simp add: not_le)
qed

lemma keeps_simple:
  "keeps (do_lcd ctx argv) ctx" "keeps (do_df ctx argv) ctx" "keeps (do_ls ctx argv) ctx"
  "keeps (do_pwd ctx argv) ctx" "keeps (do_mkdir ctx argv) ctx" "keeps (do_rmdir ctx argv) ctx"
  "keeps (do_rm ctx argv) ctx" "keeps (do_rename ctx argv) ctx" "keeps (do_rmpart ctx argv) ctx"
  "keeps (do_help ctx argv) ctx"
  by (auto simp: keeps_def do_lcd_def do_df_def do_ls_def do_pwd_def do_mkdir_def do_rmdir_def
      do_rm_def do_rename_def do_rmpart_def do_help_def Let_def intro!: gwp)

lemma keeps_transfers: "keeps (do_get ctx argv) ctx" "keeps (do_put ctx argv) ctx"
  by (auto simp: keeps_def do_get_def do_put_def intro!: gwp)

lemma keeps_mkpart: "keeps (do_mkpart ctx argv) ctx"
  unfolding keeps_def do_mkpart_def
  by (auto intro!: gwp gwp_mono [OF gwp_mkpart_main])

subsection \<open>The session\<close>

text \<open>The invariant of the context: what holds whenever the shell waits for a line.\<close>

definition shell_inv :: "shell_state \<Rightarrow> bool" where
  "shell_inv ctx =
     ((mount ctx \<noteq> 0 \<longrightarrow> is_setup ctx \<noteq> 0 \<and> has_prefix (mount_point ctx) ''hdd0:'') \<and>
      length (mount_point ctx) < 256 \<and> length (path ctx) < 256 \<and> has_prefix (path ctx) ''/'' \<and>
      (is_setup ctx = 0 \<longleftrightarrow> at_handle (disk ctx) = - 1))"

text \<open>The invariant of the history: the ledger holds the disk while a device is selected and
  the mount while a partition is mounted, and nothing else.\<close>

definition accounted :: "shell_state \<Rightarrow> ledger \<Rightarrow> bool" where
  "accounted ctx L =
     (L = \<lparr>lg_ix = [], lg_host = (if at_handle (disk ctx) = - 1 then [] else [at_handle (disk ctx)]),
       lg_files = [], lg_mounts = (if mount ctx = 0 then [] else [''pfs0:''])\<rparr>)"

lemma has_slash_path: "has_prefix p ''/'' \<longleftrightarrow> (\<exists>q. p = CHR ''/'' # q)"
  by (auto simp: has_prefix_iff)

lemma cd_path_slash:
  assumes "has_prefix cwd ''/''" "cd_path cwd arg = Some p"
  shows "has_prefix p ''/''"
proof -
  obtain q where cwd: "cwd = CHR ''/'' # q" using assms(1) by (auto simp: has_slash_path)
  have "take i cwd = CHR ''/'' # take (i - 1) q" if "i \<noteq> 0" for i
    using that by (cases i) (auto simp: cwd)
  with assms(2) show ?thesis
    by (auto simp: has_slash_path cd_path_def cwd split: if_splits option.splits)
qed

lemma cd_path_Some: "has_prefix cwd ''/'' \<Longrightarrow> cd_path cwd arg \<noteq> None"
  by (auto simp: cd_path_def strrchr_None has_slash_path split: option.splits)

definition session_ok :: "shell_state \<Rightarrow> ledger \<Rightarrow> bool" where
  "session_ok ctx L = (shell_inv ctx \<and> accounted ctx L)"

lemma session_keeps:
  "keeps m ctx \<Longrightarrow> session_ok ctx L \<Longrightarrow> gwp ledger_step m (\<lambda>(r, ctx'). session_ok ctx') L"
  by (auto intro!: keepsD)

lemma session_cd:
  assumes "session_ok ctx L"
  shows "gwp ledger_step (do_cd ctx argv) (\<lambda>(r, ctx'). session_ok ctx') L"
proof -
  have "has_prefix (path ctx) ''/''"
    using assms by (simp add: session_ok_def shell_inv_def)
  note facts = cd_path_slash [OF this] cd_path_Some [OF this]
  show ?thesis
    using assms facts
    by (auto simp: do_cd_def session_ok_def shell_inv_def accounted_def intro!: gwp)
qed

lemma session_mount:
  assumes "session_ok ctx L" "is_setup ctx \<noteq> 0" "mount ctx = 0"
  shows "gwp ledger_step (do_mount ctx argv) (\<lambda>(r, ctx'). session_ok ctx') L"
  using assms
  by (auto simp: do_mount_def session_ok_def shell_inv_def accounted_def has_prefix_def intro!: gwp)

lemma session_umount:
  assumes "session_ok ctx L"
  shows "gwp ledger_step (do_umount ctx argv) (\<lambda>(r, ctx'). session_ok ctx') L"
  using assms
  by (auto simp: do_umount_def session_ok_def shell_inv_def accounted_def intro!: gwp)

lemma session_initialize:
  assumes "session_ok ctx L"
  shows "gwp ledger_step (do_initialize ctx argv) (\<lambda>(r, ctx'). session_ok ctx') L"
proof -
  have upd: "session_ok (ctx\<lparr>total_sectors := n\<rparr>) L" for n
    using assms by (auto simp: session_ok_def shell_inv_def accounted_def)
  show ?thesis
    unfolding do_initialize_def using assms upd
    by (auto intro!: gwp keepsD [OF keeps_simple(2)])
qed

lemma session_device:
  assumes "session_ok ctx L" "is_setup ctx = 0"
  shows "gwp ledger_step (do_device ctx argv) (\<lambda>(r, ctx'). session_ok ctx') L"
proof -
  have m: "mount ctx = 0" "at_handle (disk ctx) = - 1"
    using assms by (auto simp: session_ok_def shell_inv_def)
  then have L: "L = \<lparr>lg_ix = [], lg_host = [], lg_files = [], lg_mounts = []\<rparr>"
    using assms(1) by (simp add: session_ok_def accounted_def)
  have inv: "length (mount_point ctx) < 256" "length (path ctx) < 256" "has_prefix (path ctx) ''/''"
    using assms by (auto simp: session_ok_def shell_inv_def)
  show ?thesis
    unfolding do_device_def set_atad_device_path_def set_atad_device_handle_def hdlfs_start_def
    using m inv L
    by (auto simp: session_ok_def shell_inv_def accounted_def intro!: gwp keepsD [OF keeps_simple(2)])
qed

lemma session_exec:
  assumes "session_ok ctx L"
  shows "gwp ledger_step (exec ctx argv) (\<lambda>(r, ctx'). session_ok ctx') L"
proof (rule exec_gwp)
  fix c assume c: "c \<in> set CMD" and req: "permits ctx (cm_req c)"
  note keeps = keeps_simple keeps_transfers keeps_mkpart
  from c req show "gwp ledger_step (cm_process c ctx argv) (\<lambda>(r, ctx'). session_ok ctx') L"
    unfolding CMD_def list.set insert_iff empty_iff
    by (elim disjE FalseE; simp add: cmd_def keeps [THEN session_keeps, OF assms] session_cd [OF assms]
        session_mount [OF assms] session_umount [OF assms] session_initialize [OF assms]
        session_device [OF assms])
qed (use assms in auto)

text \<open>The states and histories a session goes through, one command after the other.\<close>

inductive session :: "shell_state \<Rightarrow> trace \<Rightarrow> bool" where
  session_boot: "session context_boot []"
| session_command:
    "session ctx tr \<Longrightarrow> exec ctx argv E tr = (Done (r, ctx'), tr') \<Longrightarrow> session ctx' tr'"

lemma session_ok_boot: "session_ok context_boot (ledger_of [])"
  by (simp add: session_ok_def shell_inv_def accounted_def context_boot_def atad_boot_def
      ledger_of_def has_prefix_def)

lemma session_ok_step:
  assumes "session_ok ctx (ledger_of tr)" "exec ctx argv E tr = (Done (r, ctx'), tr')"
  shows "session_ok ctx' (ledger_of tr')"
  using gwp_wp [OF session_exec [where argv = argv, OF assms(1) [unfolded ledger_of_def]],
    where E = E] assms(2)
  by (simp add: wp_def ledger_of_def)

lemma session_session_ok: "session ctx tr \<Longrightarrow> session_ok ctx (ledger_of tr)"
  by (induction rule: session.induct) (auto intro: session_ok_boot session_ok_step)

text \<open>C3. The invariant of a session. After any sequence of commands, whatever the device and
  the host answered: a partition is mounted only while a device is selected and its name starts
  with \<open>hdd0:\<close>; the current path starts with a slash; both fit their arrays; and the handles
  and mounts left open are exactly the disk of the selected device and the mounted partition.\<close>

theorem session_invariant:
  assumes "session ctx tr"
  shows "shell_inv ctx \<and> accounted ctx (ledger_of tr)"
  using session_session_ok [OF assms] by (simp add: session_ok_def)

definition session_env :: env where
  "session_env = \<lparr>answer = (\<lambda>tr c. case c of
       Host_open _ _ _ \<Rightarrow> code 3
     | Host_lseek _ _ _ \<Rightarrow> code (512 * 1024)
     | Ix_dopen _ \<Rightarrow> code 7
     | Ix_devctl _ _ _ _ \<Rightarrow> code 1023
     | _ \<Rightarrow> code 0), fuel = 1\<rparr>"

lemma session_device_run:
  "\<exists>tr'. exec context_boot [''device'', ''disk.img''] session_env [] =
     (Done (0, context_boot\<lparr>is_setup := 1, total_sectors := 1023,
        disk := \<lparr>at_handle = 3, at_hdd_length = 1023\<rparr>\<rparr>), tr')"
  by (simp add: exec_def CMD_def cmd_def check_requirements_ok context_boot_def
      do_device_def set_atad_device_path_def set_atad_device_handle_def hdlfs_start_def do_df_def
      df_body_def atad_boot_def io_simps session_env_def to_u32_def c_div_def Let_def req_defs
      permits_def)

theorem session_invariant_witness:
  "\<exists>tr. let ctx = context_boot\<lparr>is_setup := 1, total_sectors := 1023,
        disk := \<lparr>at_handle = 3, at_hdd_length = 1023\<rparr>\<rparr>
     in shell_inv ctx \<and> accounted ctx (ledger_of tr)"
  using session_device_run session_invariant [OF session_command [OF session_boot]]
  by (metis (no_types, lifting))

lemma session_body:
  assumes "session_ok ctx L"
  shows "gwp ledger_step (shell_body (prompt, ctx))
    (\<lambda>x L'. case x of Inl (_, ctx') \<Rightarrow> session_ok ctx' L' | Inr ctx' \<Rightarrow> session_ok ctx' L') L"
  using assms unfolding shell_body_def update_prompt_def
  by (intro gwp_bind gwp_basic gwp_call gwp_eputs gwp_if gwp_prod conjI impI;
    auto intro!: gwp gwp_mono [OF session_exec] split: pl_result.split)

lemma session_shell_loop:
  assumes "session_ok ctx L"
  shows "gwp ledger_step (shell_loop ctx) (\<lambda>(r, ctx'). session_ok ctx') L"
  unfolding shell_loop_def
  by (rule gwp_bind, rule gwp_loopM [where I = "\<lambda>(_, ctx') L'. session_ok ctx' L'"])
    (use assms in \<open>auto intro!: gwp gwp_mono [OF session_body] split: sum.splits\<close>)

text \<open>C30. When the shell ends, every handle of the session is closed, on the device and on the
  host (the disk image included), and \<open>pfs0:\<close> is unmounted, unless the unmount failed, which
  the context then shows.\<close>

theorem shell_gives_back:
  "wp shell E (\<lambda>(r, ctx) tr'. r = 0 \<and> ledger_of tr' =
     \<lparr>lg_ix = [], lg_host = [], lg_files = [], lg_mounts = (if mount ctx = 0 then [] else [''pfs0:''])\<rparr>) []"
proof -
  have boot: "session_ok context_boot \<lparr>lg_ix = [], lg_host = [], lg_files = [], lg_mounts = []\<rparr>"
    using session_ok_boot by (simp add: ledger_of_def)
  have loop: "gwp ledger_step (shell_loop context_boot)
      (\<lambda>(r, ctx) L. r = 0 \<and> session_ok ctx L) \<lparr>lg_ix = [], lg_host = [], lg_files = [], lg_mounts = []\<rparr>"
    unfolding shell_loop_def
    by (rule gwp_bind, rule gwp_loopM [where I = "\<lambda>(_, ctx') L'. session_ok ctx' L'"])
      (use boot in \<open>auto intro!: gwp gwp_mono [OF session_body] split: sum.splits\<close>)
  have "gwp ledger_step shell (\<lambda>(r, ctx) L. r = 0 \<and> L =
      \<lparr>lg_ix = [], lg_host = [], lg_files = [], lg_mounts = (if mount ctx = 0 then [] else [''pfs0:''])\<rparr>)
      \<lparr>lg_ix = [], lg_host = [], lg_files = [], lg_mounts = []\<rparr>"
    unfolding shell_def do_umount_def atad_close_def
    by (auto simp: session_ok_def accounted_def intro!: gwp gwp_mono [OF loop])
  then show ?thesis
    using gwp_wp [where st = ledger_step and tr = "[]" and m = shell and E = E]
    by (simp add: ledger_of_def split_def)
qed

end
