(* ===== verification/Shell_Cmds.thy ===== *)
theory Shell_Cmds
  imports Shell_Props
begin

text \<open>
  Properties of single commands: what a command can reach in each state, \<open>cd\<close>, the prompt,
  \<open>get\<close> and \<open>put\<close>, and the sizes \<open>mkpart\<close> allocates.
\<close>

subsection \<open>What a command can reach\<close>

text \<open>The paths a call passes to iomanX.\<close>

fun call_paths :: "call \<Rightarrow> string list" where
  "call_paths (Ix_open p _ _) = [p]"
| "call_paths (Ix_remove p) = [p]"
| "call_paths (Ix_mkdir p _) = [p]"
| "call_paths (Ix_rmdir p) = [p]"
| "call_paths (Ix_dopen p) = [p]"
| "call_paths (Ix_getstat p) = [p]"
| "call_paths (Ix_chstat p _ _) = [p]"
| "call_paths (Ix_format d b _) = d # (case b of None \<Rightarrow> [] | Some p \<Rightarrow> [p])"
| "call_paths (Ix_rename p _) = [p]"
| "call_paths (Ix_chdir p) = [p]"
| "call_paths (Ix_sync p _) = [p]"
| "call_paths (Ix_mount p d _) = [p, d]"
| "call_paths (Ix_umount p) = [p]"
| "call_paths (Ix_devctl p _ _ _) = [p]"
| "call_paths (Ix_symlink _ p) = [p]"
| "call_paths (Ix_readlink p _) = [p]"
| "call_paths _ = []"

definition off_pfs :: "call \<Rightarrow> bool" where
  "off_pfs c = (\<forall>p \<in> set (call_paths c). \<not> has_prefix p ''pfs0:'')"

text \<open>Calls to the host only.\<close>

fun host_only :: "call \<Rightarrow> bool" where
  "host_only (Host_getcwd _) = True"
| "host_only (Host_chdir _) = True"
| "host_only (Puts _) = True"
| "host_only (Eputs _) = True"
| "host_only _ = False"

text \<open>Calls that neither mount nor format the disk.\<close>

fun keeps_disk :: "call \<Rightarrow> bool" where
  "keeps_disk (Ix_mount _ _ _) = False"
| "keeps_disk (Ix_format d _ _) = (d \<noteq> ''hdd0:'')"
| "keeps_disk _ = True"

lemma emits_handlers:
  assumes "\<And>s. A (Puts s)" "\<And>s. A (Eputs s)"
  shows "A (Ix_dread dh) \<Longrightarrow> emits_only A (df_body dh u)"
    and "A (Ix_dread dh) \<Longrightarrow> emits_only A (list_dir_body dh m es)"
    and "A (Ix_dread dh) \<Longrightarrow> emits_only A (lspart_body dh m v)"
    and "A (Ix_dread dh) \<Longrightarrow> emits_only A (list_dir_objects dh m)"
    and "(\<And>s. A (Host_write out s)) \<Longrightarrow> A (Ix_read i 4096) \<Longrightarrow> emits_only A (get_body i out v)"
    and "(\<And>s. A (Ix_write out s)) \<Longrightarrow> A (Host_read i 32768) \<Longrightarrow> emits_only A (put_body i out t v)"
  by (auto simp: df_body_def list_dir_body_def lspart_body_def list_dir_objects_def get_body_def
      put_body_def Let_def assms intro!: emits)

lemma emits_mkpart_main:
  "(\<And>s. A (Puts s)) \<Longrightarrow> (\<And>s f. A (Ix_open (''hdd0:'' @ name @ s) f 0)) \<Longrightarrow>
     emits_only A (mkpart_main name ty sz fd i)"
proof (induction name ty sz fd i rule: mkpart_main.induct)
  case (1 name ty sz fd)
  then show ?case by (simp add: emits)
next
  case (2 name ty sz fd i)
  have o: "A (Ix_open (''hdd0:'' @ name @ '',,,'' @ sizesString ! i @ '','' @ ty) f 0)" for f
    by (rule "2.prems")
  show ?case
    using "2.prems" "2.IH" by (simp (no_asm_simp)) (intro conjI impI emits; simp add: o [simplified])
qed

lemma off_pfs_simps [simp]:
  "off_pfs (Puts s)" "off_pfs (Eputs s)" "off_pfs (Ix_dread dh)" "off_pfs (Ix_close fd)"
  "off_pfs (Ix_ioctl2 fd c a l)" "off_pfs (Host_getcwd k)" "off_pfs (Host_chdir s)"
  "off_pfs (Host_open s f m)" "off_pfs (Host_lseek fd i w)" "off_pfs (Init_apa ss)"
  "off_pfs (Init_pfs ss)" "off_pfs (Ix_AddDrv s)" "off_pfs (Ix_DelDrv s)"
  "off_pfs (Ix_open (CHR ''h'' # s) f m)" "off_pfs (Ix_remove (CHR ''h'' # s))"
  "off_pfs (Ix_rename (CHR ''h'' # s) t)" "off_pfs (Ix_dopen (CHR ''h'' # s))"
  "off_pfs (Ix_devctl (CHR ''h'' # s) c a l)"
  "off_pfs (Ix_format (CHR ''h'' # s) None a)"
  "off_pfs (Ix_format ''pfs:'' (Some (CHR ''h'' # s)) a)"
  by (auto simp: off_pfs_def has_prefix_iff)

lemma unmounted_handlers:
  assumes "mount ctx = 0"
  shows "emits_only off_pfs (do_lcd ctx argv)" "emits_only off_pfs (do_df ctx argv)"
    "emits_only off_pfs (do_ls ctx argv)" "emits_only off_pfs (do_rename ctx argv)"
    "emits_only off_pfs (do_rmpart ctx argv)" "emits_only off_pfs (do_help ctx argv)"
    "emits_only off_pfs (do_mkpart ctx argv)"
  using assms
  by (auto simp: do_lcd_def do_df_def do_ls_def do_rename_def do_rmpart_def do_help_def Let_def
      lspart_def mkpfs_def do_mkpart_def intro!: emits emits_handlers emits_mkpart_main)

lemma unmounted_setup_handlers:
  assumes "mount ctx = 0"
  shows "emits_only off_pfs (do_initialize ctx argv)" "emits_only off_pfs (do_device ctx argv)"
proof -
  have df: "emits_only off_pfs (do_df (ctx\<lparr>total_sectors := n\<rparr>) a)"
    "emits_only off_pfs (do_df (ctx\<lparr>disk := d, is_setup := s, total_sectors := n\<rparr>) a)" for n s d a
    using assms by (intro unmounted_handlers; simp)+
  show "emits_only off_pfs (do_initialize ctx argv)" "emits_only off_pfs (do_device ctx argv)"
    by (auto simp: do_initialize_def do_device_def set_atad_device_path_def mkpfs_def
        set_atad_device_handle_def hdlfs_start_def intro!: emits df)
qed

lemma mounted_handlers:
  "emits_only keeps_disk (do_lcd ctx argv)" "emits_only keeps_disk (do_mkpart ctx argv)"
  "emits_only keeps_disk (do_umount ctx argv)" "emits_only keeps_disk (do_ls ctx argv)"
  "emits_only keeps_disk (do_mkdir ctx argv)" "emits_only keeps_disk (do_rmdir ctx argv)"
  "emits_only keeps_disk (do_pwd ctx argv)" "emits_only keeps_disk (do_cd ctx argv)"
  "emits_only keeps_disk (do_get ctx argv)" "emits_only keeps_disk (do_put ctx argv)"
  "emits_only keeps_disk (do_rm ctx argv)" "emits_only keeps_disk (do_rmpart ctx argv)"
  "emits_only keeps_disk (do_df ctx argv)" "emits_only keeps_disk (do_rename ctx argv)"
  "emits_only keeps_disk (do_help ctx argv)"
  by (auto simp: do_lcd_def do_mkpart_def do_umount_def do_ls_def do_mkdir_def do_rmdir_def
      do_pwd_def do_cd_def do_get_def do_put_def do_rm_def do_rmpart_def do_df_def do_rename_def
      do_help_def lspart_def mkpfs_def Let_def
      intro!: emits emits_handlers emits_mkpart_main)

lemma hostly_handlers:
  "emits_only host_only (do_lcd ctx argv)" "emits_only host_only (do_help ctx argv)"
  by (auto simp: do_lcd_def do_help_def intro!: emits)

text \<open>C31. What a command can reach. While no partition is mounted, only \<open>mount\<close> addresses
  \<open>pfs0:\<close>; while no device is selected, only \<open>device\<close> addresses iomanX or a file at all; while
  a device is selected and a partition is mounted, no command mounts another partition or
  formats the disk.\<close>

theorem exec_confined:
  "(mount ctx = 0 \<and> argv ! 0 \<noteq> ''mount'' \<longrightarrow> emits_only off_pfs (exec ctx argv)) \<and>
   (is_setup ctx = 0 \<and> argv ! 0 \<noteq> ''device'' \<longrightarrow> emits_only host_only (exec ctx argv)) \<and>
   (is_setup ctx \<noteq> 0 \<and> mount ctx \<noteq> 0 \<longrightarrow> emits_only keeps_disk (exec ctx argv))"
proof (intro conjI impI)
  assume m: "mount ctx = 0 \<and> argv ! 0 \<noteq> ''mount''"
  show "emits_only off_pfs (exec ctx argv)"
  proof (rule exec_emits)
    fix c assume "c \<in> set CMD" "permits ctx (cm_req c)" "argv ! 0 = cm_name c"
    with m show "emits_only off_pfs (cm_process c ctx argv)"
      unfolding CMD_def list.set insert_iff empty_iff
      by (elim disjE FalseE; simp add: cmd_def unmounted_handlers unmounted_setup_handlers)
  qed simp
next
  assume m: "is_setup ctx = 0 \<and> argv ! 0 \<noteq> ''device''"
  show "emits_only host_only (exec ctx argv)"
  proof (rule exec_emits)
    fix c assume "c \<in> set CMD" "permits ctx (cm_req c)" "argv ! 0 = cm_name c"
    with m show "emits_only host_only (cm_process c ctx argv)"
      unfolding CMD_def list.set insert_iff empty_iff
      by (elim disjE FalseE; simp add: cmd_def hostly_handlers)
  qed simp
next
  assume m: "is_setup ctx \<noteq> 0 \<and> mount ctx \<noteq> 0"
  show "emits_only keeps_disk (exec ctx argv)"
  proof (rule exec_emits)
    fix c assume "c \<in> set CMD" "permits ctx (cm_req c)" "argv ! 0 = cm_name c"
    with m show "emits_only keeps_disk (cm_process c ctx argv)"
      unfolding CMD_def list.set insert_iff empty_iff
      by (elim disjE FalseE; simp add: cmd_def mounted_handlers)
  qed simp
qed

theorem exec_confined_witness:
  "emits_only off_pfs (exec context_boot [''df'']) \<and> emits_only host_only (exec context_boot [''df'']) \<and>
   emits_only keeps_disk (exec (context_boot\<lparr>is_setup := 1, mount := 1\<rparr>) [''df''])"
  using exec_confined [of context_boot "[''df'']"]
    exec_confined [of "context_boot\<lparr>is_setup := 1, mount := 1\<rparr>" "[''df'']"]
  by (simp add: context_boot_def)

subsection \<open>Changing the directory\<close>

lemma strrchr_last: "c \<notin> set b \<Longrightarrow> strrchr (a @ c # b) c = Some (length a)"
  by (induction a) (simp_all add: iffD2 [OF strrchr_None])

text \<open>\<open>cd x\<close> and then \<open>cd ..\<close> lead back: from a directory that is the root or does not end
  with a slash, going down into a name without a slash and up again yields the directory.\<close>

theorem cd_down_up:
  assumes "has_prefix cwd ''/''" "cwd = ''/'' \<or> last cwd \<noteq> CHR ''/''"
    and "CHR ''/'' \<notin> set x" "x \<noteq> ''..''"
  shows "\<exists>p. cd_path cwd x = Some p \<and> cd_path p ''..'' = Some cwd"
proof -
  obtain q where cwd: "cwd = CHR ''/'' # q" using assms(1) by (auto simp: has_slash_path)
  have x: "x \<noteq> ''/''" "x \<noteq> ''..''" "x \<noteq> ''../''" "\<not> has_prefix x ''/''"
    using assms(3,4) by (auto simp: has_slash_path)
  show ?thesis
  proof (cases q)
    case Nil
    with x assms(3) show ?thesis
      by (simp add: cd_path_def cwd iffD2 [OF strrchr_None])
  next
    case (Cons a q')
    then show ?thesis
      using strrchr_last [OF assms(3), of cwd] x by (simp add: cd_path_def cwd)
  qed
qed

theorem cd_down_up_witness:
  "\<exists>p. cd_path ''/saves'' ''ff7'' = Some p \<and> cd_path p ''..'' = Some ''/saves''"
  by (rule cd_down_up) (simp_all add: has_prefix_def)

text \<open>\<open>cd\<close> commits or rolls back: it asks iomanX to change to the new path below \<open>pfs0:\<close>;
  if that fails, the context is unchanged and the error is returned, otherwise the new path is
  the only change. It never writes through a null pointer in a session.\<close>

theorem cd_commits:
  assumes "shell_inv ctx" "length (argv ! 1) + length (path ctx) < 250"
  shows "\<exists>p r. cd_path (path ctx) (argv ! 1) = Some p \<and>
     r = answer E tr (Ix_chdir (''pfs0:'' @ p)) \<and>
     do_cd ctx argv E tr =
       (Done (rp_ret r, if rp_ret r < 0 then ctx else ctx\<lparr>path := p\<rparr>),
        tr @ [(Ix_chdir (''pfs0:'' @ p), r)])"
proof -
  have "has_prefix (path ctx) ''/''"
    using assms(1) by (simp add: shell_inv_def)
  then obtain p where p: "cd_path (path ctx) (argv ! 1) = Some p"
    using cd_path_Some by blast
  moreover from p assms(2) have "length p < 251"
    by (cases "argv ! 1 = ''/''") (auto simp: cd_path_def split: if_splits option.splits)
  ultimately show ?thesis
    by (simp add: do_cd_def io_simps)
qed

theorem cd_commits_witness:
  "\<exists>p r. cd_path (path context_boot) ([''cd'', ''saves''] ! 1) = Some p \<and>
     r = answer session_env [] (Ix_chdir (''pfs0:'' @ p)) \<and>
     do_cd context_boot [''cd'', ''saves''] session_env [] =
       (Done (rp_ret r, if rp_ret r < 0 then context_boot else context_boot\<lparr>path := p\<rparr>),
        [] @ [(Ix_chdir (''pfs0:'' @ p), r)])"
  by (rule cd_commits)
    (simp_all add: shell_inv_def context_boot_def atad_boot_def has_prefix_def)

text \<open>The prompt of a mounted partition. In a session the prompt is the partition, a colon
  and the path; it fits \<open>char prompt[256]\<close> exactly when their lengths add up to less than 258,
  and overruns the array otherwise, although each of the two fits its own array.\<close>

theorem prompt_fits:
  assumes "shell_inv ctx" "mount ctx \<noteq> 0"
  shows "update_prompt prompt ctx E tr =
     (if length (mount_point ctx) + length (path ctx) < 258
      then (Done (drop 5 (mount_point ctx) @ '':'' @ path ctx @ ''# ''), tr) else (Fault, tr))"
proof -
  obtain q where "mount_point ctx = ''hdd0:'' @ q"
    using assms by (auto simp: shell_inv_def has_prefix_iff)
  with assms show ?thesis
    by (simp add: update_prompt_def shell_inv_def io_simps)
qed

theorem prompt_fits_witness:
  "update_prompt ''> '' (context_boot\<lparr>is_setup := 1, mount := 1,
      mount_point := ''hdd0:'' @ replicate 200 (CHR ''a''),
      path := ''/'' @ replicate 200 (CHR ''b''),
      disk := \<lparr>at_handle = 3, at_hdd_length = 9\<rparr>\<rparr>) session_env [] = (Fault, [])"
  by (subst prompt_fits) (simp_all add: shell_inv_def context_boot_def has_prefix_def)

subsection \<open>Getting and putting files\<close>

interpretation get_copies: copy_loop "get_body in_fd out"
  "Ix_read in_fd 4096" "Host_write out" "\<lambda>len result. result = len" "\<lambda>r. ()"
  by unfold_locales (auto simp: get_body_def io_simps)

interpretation put_copies: copy_loop "put_body in_fd out tmp"
  "Host_read in_fd 32768" "Ix_write out" "\<lambda>len result. result = len" "\<lambda>r. ()"
  by unfold_locales (auto simp: put_body_def io_simps)

lemma gwp_copy_shell [gwp]:
  "(\<And>v x. Q v (a @ x, b @ x)) \<Longrightarrow> gwp moved_step (loopM (get_body i out) ()) Q (a, b)"
  "(\<And>v x. Q v (a @ x, b @ x)) \<Longrightarrow> gwp moved_step (loopM (put_body i out t) ()) Q (a, b)"
  by (rule get_copies.gwp_copy put_copies.gwp_copy, simp)+

text \<open>C37. Whatever the device and the host answer, when \<open>get\<close> or \<open>put\<close> returns, the bytes it
  handed to the writing side are exactly the bytes the reading side delivered, in order.\<close>

theorem transfers_faithful:
  "wp (do_get ctx argv) E (\<lambda>_ tr'. written (during tr tr') = taken (during tr tr')) tr \<and>
   wp (do_put ctx argv) E (\<lambda>_ tr'. written (during tr tr') = taken (during tr tr')) tr"
proof -
  have "faithful_copy (do_get ctx argv)" "faithful_copy (do_put ctx argv)"
    by (auto simp: faithful_copy_def do_get_def do_put_def intro!: gwp)
  then show ?thesis by (simp add: faithful_copy_wp)
qed

lemma get_loop_complete:
  assumes "serves E (Ix_read i 4096) (Host_write out) (\<lambda>len result. result = len) tr cs"
    "length cs < fuel E"
  shows "iterM (fuel E) (get_body i out) () E tr =
    (Done (), tr @ served E (Ix_read i 4096) (Host_write out) tr cs)"
  using get_copies.complete_iter [OF assms] by simp

lemma put_loop_complete:
  assumes "serves E (Host_read i 32768) (Ix_write out) (\<lambda>len result. result = len) tr cs"
    "length cs < fuel E"
  shows "iterM (fuel E) (put_body i out t) () E tr =
    (Done (), tr @ served E (Host_read i 32768) (Ix_write out) tr cs)"
  using put_copies.complete_iter [OF assms] by simp

lemma bindM_run_Done: "m E tr = (Done a, tr') \<Longrightarrow> bindM m f E tr = f a E tr'"
  by (simp add: bindM_def)

text \<open>C38. \<open>get\<close> copies a whole file: when both sides open, the file delivers the chunks \<open>cs\<close>
  and the host accepts each chunk in full, \<open>get\<close> ends with the return code of closing the local
  file and has written exactly the content of the file.\<close>

theorem get_complete:
  assumes "length (pfs_name ctx (argv ! 1)) < 256"
    and "returns E (Ix_open (pfs_name ctx (argv ! 1)) FIO_O_RDONLY 0) i" "0 \<le> i"
    and "returns E (Host_open (argv ! 1) (O_CREAT OR O_WRONLY) 0x1B4) out" "out \<noteq> - 1"
    and "serves E (Ix_read i 4096) (Host_write out) (\<lambda>len result. result = len)
      (tr @ [(Ix_open (pfs_name ctx (argv ! 1)) FIO_O_RDONLY 0, code i),
        (Host_open (argv ! 1) (O_CREAT OR O_WRONLY) 0x1B4, code out)]) cs"
      "length cs < fuel E"
    and "returns E (Host_close out) c"
  shows "\<exists>evs. do_get ctx argv E tr = (Done (c, ctx), tr @ evs) \<and> written evs = concat cs"
  using assms
  by (simp add: do_get_def io_simps bindM_run_Done [OF get_loop_complete]
      get_copies.served_written)

definition get_env :: env where
  "get_env = \<lparr>answer = (\<lambda>tr c. case c of
       Ix_open _ _ _ \<Rightarrow> code 2
     | Host_open _ _ _ \<Rightarrow> code 3
     | Ix_read _ _ \<Rightarrow> if Ix_read 2 4096 \<in> fst ` set tr then code 0 else code_data 3 ''abc''
     | Host_write _ s \<Rightarrow> code (int (length s))
     | _ \<Rightarrow> code 0), fuel = 2\<rparr>"

theorem get_complete_witness:
  "\<exists>evs. do_get context_boot [''get'', ''save''] get_env [] = (Done (0, context_boot), [] @ evs) \<and>
     written evs = concat [''abc'']"
  by (rule get_complete [where i = 2 and out = 3])
    (simp_all add: returns_def get_env_def Let_def got_def pfs_name_def context_boot_def)

text \<open>\<open>put\<close> copies a whole file to the partition in the same way.\<close>

theorem put_complete:
  assumes "length (pfs_name ctx (argv ! 1)) < 256"
    and "returns E (Host_open (argv ! 1) O_RDONLY 0) i" "i \<noteq> - 1"
    and "returns E (Ix_open (pfs_name ctx (argv ! 1)) (FIO_O_WRONLY OR FIO_O_CREAT) 0x1B6) out"
      "0 \<le> out"
    and "serves E (Host_read i 32768) (Ix_write out) (\<lambda>len result. result = len)
      (tr @ [(Host_open (argv ! 1) O_RDONLY 0, code i),
        (Ix_open (pfs_name ctx (argv ! 1)) (FIO_O_WRONLY OR FIO_O_CREAT) 0x1B6, code out)]) cs"
      "length cs < fuel E"
    and "returns E (Ix_close out) c"
  shows "\<exists>evs. do_put ctx argv E tr = (Done (c, ctx), tr @ evs) \<and> written evs = concat cs"
  using assms
  by (simp add: do_put_def io_simps bindM_run_Done [OF put_loop_complete]
      put_copies.served_written)

definition put_env :: env where
  "put_env = \<lparr>answer = (\<lambda>tr c. case c of
       Ix_open _ _ _ \<Rightarrow> code 2
     | Host_open _ _ _ \<Rightarrow> code 3
     | Host_read _ _ \<Rightarrow> if Host_read 3 32768 \<in> fst ` set tr then code 0 else code_data 3 ''abc''
     | Ix_write _ s \<Rightarrow> code (int (length s))
     | _ \<Rightarrow> code 0), fuel = 2\<rparr>"

theorem put_complete_witness:
  "\<exists>evs. do_put context_boot [''put'', ''save''] put_env [] = (Done (0, context_boot), [] @ evs) \<and>
     written evs = concat [''abc'']"
  by (rule put_complete [where i = 3 and out = 2])
    (simp_all add: returns_def put_env_def Let_def got_def pfs_name_def context_boot_def)

text \<open>\<open>get\<close> hides write errors: when the local file rejects the first chunk, \<open>get\<close> still
  returns the code of closing the file, because \<open>result\<close> is overwritten.\<close>

theorem get_hides_write_errors:
  assumes "length (pfs_name ctx (argv ! 1)) < 256"
    and "returns E (Ix_open (pfs_name ctx (argv ! 1)) FIO_O_RDONLY 0) i" "0 \<le> i"
    and "returns E (Host_open (argv ! 1) (O_CREAT OR O_WRONLY) 0x1B4) out" "out \<noteq> - 1"
    and "\<And>h. rp_ret (answer E h (Ix_read i 4096)) > 0"
    and "\<And>s. returns E (Host_write out s) (- 1)" "0 < fuel E"
    and "returns E (Host_close out) 0"
  shows "fst (do_get ctx argv E tr) = Done (0, ctx)"
proof -
  obtain n where "fuel E = Suc n" using assms(8) by (cases "fuel E") auto
  moreover have "- 1 \<noteq> rp_ret (answer E h (Ix_read i 4096))" for h
    using assms(6) [of h] by simp
  moreover have w: "answer E h (Host_write out s) = code (- 1)" for h s
    using assms(7) by simp
  ultimately show ?thesis
    using assms(1-6,9) by (simp add: do_get_def io_simps get_body_def w)
qed

definition full_disk_env :: env where
  "full_disk_env = \<lparr>answer = (\<lambda>tr c. case c of
       Ix_open _ _ _ \<Rightarrow> code 2
     | Host_open _ _ _ \<Rightarrow> code 3
     | Ix_read _ _ \<Rightarrow> code_data 3 ''abc''
     | Host_write _ s \<Rightarrow> code (- 1)
     | _ \<Rightarrow> code 0), fuel = 2\<rparr>"

theorem get_hides_write_errors_witness:
  "fst (do_get context_boot [''get'', ''save''] full_disk_env []) = Done (0, context_boot)"
  by (rule get_hides_write_errors [where i = 2 and out = 3])
    (simp_all add: returns_def full_disk_env_def pfs_name_def context_boot_def)

subsection \<open>The sizes mkpart allocates\<close>

text \<open>The size in MiB a size string stands for.\<close>

definition mb_of :: "string \<Rightarrow> nat" where
  "mb_of s = (case map_of (zip sizesString (map unat sizesMB)) s of None \<Rightarrow> 0 | Some n \<Rightarrow> n)"

lemma mb_of_sizes [simp]: "j < 13 \<Longrightarrow> mb_of (sizesString ! j) = unat (sizesMB ! j)"
proof -
  have "list_all (\<lambda>(s, n). mb_of s = unat n) (zip sizesString sizesMB)"
    by (simp add: mb_of_def sizesString_def sizesMB_def)
  then show "j < 13 \<Longrightarrow> ?thesis" by (simp add: list_all_length)
qed

lemma sizes_facts:
  assumes "j < 13"
  shows "8 dvd unat (sizesMB ! j)" "i \<le> j \<Longrightarrow> unat (sizesMB ! i) \<le> unat (sizesMB ! j)"
    "j < 9 \<Longrightarrow> unat (sizesMB ! j) \<le> 2048" "unat (sizesMB ! 0) = 8"
proof -
  have "list_all (\<lambda>n. 8 dvd unat n) sizesMB" "sorted (map unat sizesMB)"
    "list_all (\<lambda>n. unat n \<le> 2048) (take 9 sizesMB)"
    by (simp_all add: sizesMB_def)
  note facts = this
  show "8 dvd unat (sizesMB ! j)"
    using facts(1) assms by (simp add: list_all_length)
  show "i \<le> j \<Longrightarrow> unat (sizesMB ! i) \<le> unat (sizesMB ! j)"
    using sorted_nth_mono [OF facts(2), of i j] assms by simp
  show "j < 9 \<Longrightarrow> unat (sizesMB ! j) \<le> 2048"
    using facts(3) by (simp add: list_all_length)
  show "unat (sizesMB ! 0) = 8"
    by (simp add: sizesMB_def)
qed

text \<open>
  The partitions a history created for \<open>name\<close> of type \<open>ty\<close>: the sizes of the main partitions,
  the sizes of the sub-partitions, and whether a sub-partition was refused.
\<close>

type_synonym allocation = "nat list \<times> nat list \<times> bool"

definition main_mb :: "string \<Rightarrow> string \<Rightarrow> string \<Rightarrow> nat option" where
  "main_mb name ty p =
     map_option mb_of (find (\<lambda>s. p = ''hdd0:'' @ name @ '',,,'' @ s @ '','' @ ty) sizesString)"

fun alloc_step :: "string \<Rightarrow> string \<Rightarrow> allocation \<Rightarrow> call \<times> reply \<Rightarrow> allocation" where
  "alloc_step name ty (ms, ss, bad) (Ix_open p f _, r) =
     (case main_mb name ty p of
        Some n \<Rightarrow> if rp_ret r \<ge> 0 then (ms @ [n], ss, bad) else (ms, ss, bad)
      | None \<Rightarrow> (ms, ss, bad))"
| "alloc_step name ty (ms, ss, bad) (Ix_ioctl2 _ _ (Text_arg s) _, r) =
     (if rp_ret r \<ge> 0 then (ms, ss @ [mb_of s], bad) else (ms, ss, True))"
| "alloc_step name ty a _ = a"

definition allocation_of :: "string \<Rightarrow> string \<Rightarrow> trace \<Rightarrow> allocation" where
  "allocation_of name ty evs = foldl (alloc_step name ty) ([], [], False) evs"

lemma sizesString_distinct: "distinct sizesString"
  by (simp add: sizesString_def)

lemma main_mb_size:
  "i < 13 \<Longrightarrow>
     main_mb name ty (''hdd0:'' @ name @ '',,,'' @ sizesString ! i @ '','' @ ty) =
       Some (unat (sizesMB ! i))"
proof -
  assume i: "i < 13"
  have "find (\<lambda>s. sizesString ! i = s) sizesString = Some (sizesString ! i)"
    using i by (auto simp: find_Some_iff intro!: exI [of _ i]
      simp: nth_eq_iff_index_eq [OF sizesString_distinct])
  then show ?thesis
    using i by (simp add: main_mb_def)
qed

lemma gwp_alloc_puts [gwp]: "Q () a \<Longrightarrow> gwp (alloc_step name ty) (putsM s) Q a"
  by (rule gwp_putsM) simp

text \<open>The main partition: the largest listed size below \<open>i\<close> that is wanted and granted.\<close>

lemma gwp_alloc_main:
  "i \<le> 9 \<Longrightarrow> fd < 0 \<Longrightarrow> gwp (alloc_step name ty) (mkpart_main name ty sz fd i)
     (\<lambda>(result, i', partfd, sz') a.
        (partfd < 0 \<and> result < 0 \<and> a = ([], [], False)) \<or>
        (0 \<le> result \<and> 0 \<le> partfd \<and> i' < 9 \<and> sizesMB ! i' \<le> sz \<and> sz' = sz - sizesMB ! i' \<and>
         a = ([unat (sizesMB ! i')], [], False)))
     ([], [], False)"
proof (induction name ty sz fd i rule: mkpart_main.induct)
  case (1 name ty sz fd)
  then show ?case by (simp add: gwp)
next
  case (2 name ty sz fd i)
  note m = main_mb_size [of i name ty, simplified]
  show ?case
    using "2.prems" "2.IH"
    by (simp (no_asm_simp)) (intro conjI impI gwp; simp add: m not_le)
qed

text \<open>
  The sub-partitions: \<open>subs_left ms sz j ss rest\<close> holds of an allocation that has added to the
  sub-partitions \<open>ss\<close> sizes of at most \<open>sizesMB ! (j - 1)\<close> and left \<open>rest\<close> of \<open>sz\<close>.
\<close>

definition subs_left :: "nat list \<Rightarrow> u32 \<Rightarrow> nat \<Rightarrow> nat list \<Rightarrow> u32 \<Rightarrow> allocation \<Rightarrow> bool" where
  "subs_left ms sz j ss rest = (\<lambda>(ms', ss', bad'). ms' = ms \<and> (\<exists>new. ss' = ss @ new \<and>
     (\<forall>s \<in> set new. 0 < j \<and> s \<le> unat (sizesMB ! (j - 1)) \<and> 8 dvd s) \<and>
     sum_list new + unat rest = unat sz \<and> (bad' \<or> unat rest < 8)))"

lemma subs_left_down:
  assumes "j < 13" "subs_left ms sz j ss rest a"
  shows "subs_left ms sz (Suc j) ss rest a"
proof -
  have "s \<le> unat (sizesMB ! j)" if "0 < j" "s \<le> unat (sizesMB ! (j - 1))" for s
    using that sizes_facts(2) [OF assms(1), of "j - 1"] by linarith
  then show ?thesis
    using assms(2) unfolding subs_left_def by (cases a) fastforce
qed

lemma subs_left_more:
  assumes j: "j < 13" and le: "sizesMB ! j \<le> sz"
    and "subs_left ms (sz - sizesMB ! j) (Suc j) (ss @ [unat (sizesMB ! j)]) rest a"
  shows "subs_left ms sz (Suc j) ss rest a"
proof -
  have "unat (sz - sizesMB ! j) + unat (sizesMB ! j) = unat sz"
    using le by (simp add: unat_minus_less word_le_nat_alt)
  moreover obtain new bad' where "a = (ms, ss @ (unat (sizesMB ! j) # new), bad')"
    "\<forall>s \<in> set new. s \<le> unat (sizesMB ! j) \<and> 8 dvd s"
    "sum_list new + unat rest = unat (sz - sizesMB ! j)" "bad' \<or> unat rest < 8"
    using assms(3) by (cases a) (auto simp: subs_left_def)
  ultimately show ?thesis
    using sizes_facts(1) [OF j] by (simp add: subs_left_def)
qed

lemma gwp_alloc_subs:
  "j \<le> 13 \<Longrightarrow> (j = 0 \<longrightarrow> bad \<or> unat sz < 8) \<Longrightarrow>
   gwp (alloc_step name ty) (mkpart_subs fd sz j) (subs_left ms sz j ss) (ms, ss, bad)"
proof (induction fd sz j arbitrary: ss bad rule: mkpart_subs.induct)
  case (1 fd sz)
  then show ?case by (auto simp: subs_left_def intro!: gwp)
next
  case (2 fd sz j)
  have j: "j < 13" using "2.prems" by simp
  consider "sz = 0" | "0 < sz" "\<not> sizesMB ! j \<le> sz" | "0 < sz" "sizesMB ! j \<le> sz"
    by (auto simp: word_gt_0)
  then show ?case
  proof cases
    case 1
    then show ?thesis using j by (auto simp: subs_left_def intro!: gwp)
  next
    case le: 2
    have "j = 0 \<longrightarrow> bad \<or> unat sz < 8"
      using le(2) sizes_facts(4) [of 0] by (auto simp: word_le_nat_alt)
    then have "gwp (alloc_step name ty) (mkpart_subs fd sz j) (subs_left ms sz j ss) (ms, ss, bad)"
      using "2.IH"(3) j le by simp
    then show ?thesis using le j by (auto intro: gwp_mono subs_left_down)
  next
    case le: 3
    have ok: "gwp (alloc_step name ty) (mkpart_subs fd (sz - sizesMB ! j) (Suc j))
        (subs_left ms (sz - sizesMB ! j) (Suc j) ss') (ms, ss', bad')" for ss' bad'
      by (rule "2.IH"(1) [OF _ _ _ order_refl]) (use j le in auto)
    have no: "gwp (alloc_step name ty) (mkpart_subs fd sz j) (subs_left ms sz j ss) (ms, ss, True)"
      by (rule "2.IH"(2) [where x = "- 1"]) (use j le in auto)
    show ?thesis
      by (subst mkpart_subs.simps(2), intro gwp_if gwp_bind gwp_call gwp_alloc_puts)
        (use j le gwp_mono [OF ok subs_left_more [OF j le(2)]] gwp_mono [OF no subs_left_down [OF j]]
          in auto)
  qed
qed

lemma gwp_alloc_format:
  "(\<And>r. Q r a) \<Longrightarrow> gwp (alloc_step name ty) (mkpfs mp) Q a"
  unfolding mkpfs_def by (cases a) (auto intro!: gwp)

text \<open>What \<open>mkpart\<close> may have allocated for a size of \<open>sz\<close> MiB.\<close>

definition allocated :: "u32 \<Rightarrow> allocation \<Rightarrow> bool" where
  "allocated sz = (\<lambda>(ms, ss, refused).
     (ms = [] \<and> ss = []) \<or>
     (\<exists>m. ms = [m] \<and> m \<le> 2048 \<and> (\<forall>s \<in> set ss. s \<le> m) \<and> m + sum_list ss \<le> unat sz \<and>
        (\<not> refused \<longrightarrow> m + sum_list ss = 8 * (unat sz div 8))))"

lemma subs_left_allocated:
  assumes i: "i < 9" "sizesMB ! i \<le> sz"
    and "subs_left [unat (sizesMB ! i)] (sz - sizesMB ! i) (Suc i) [] rest a"
  shows "allocated sz a"
proof -
  obtain ss bad where a: "a = ([unat (sizesMB ! i)], ss, bad)"
    and ss: "\<forall>s \<in> set ss. s \<le> unat (sizesMB ! i) \<and> 8 dvd s"
    "sum_list ss + unat rest = unat (sz - sizesMB ! i)" "bad \<or> unat rest < 8"
    using assms(3) by (cases a) (auto simp: subs_left_def)
  have all: "unat (sizesMB ! i) + sum_list ss + unat rest = unat sz"
    using ss(2) i by (simp add: unat_minus_less word_le_nat_alt)
  have "8 dvd sum_list ss" using ss(1) by (induction ss) auto
  then have "8 dvd unat (sizesMB ! i) + sum_list ss"
    using sizes_facts(1) [of i] i by simp
  then obtain k where k: "unat (sizesMB ! i) + sum_list ss = 8 * k" by (elim dvdE)
  have "8 * k = 8 * (unat sz div 8)" if "unat rest < 8"
  proof -
    have "unat sz = unat rest + 8 * k" using all k by simp
    with that show ?thesis by simp
  qed
  then show ?thesis
    using ss all k sizes_facts(3) [of i] i by (auto simp: allocated_def a)
qed

lemma gwp_allocated_subs:
  "i < 9 \<Longrightarrow> sizesMB ! i \<le> sz \<Longrightarrow> gwp (alloc_step name ty)
     (mkpart_subs fd (sz - sizesMB ! i) (Suc i)) (\<lambda>_. allocated sz) ([unat (sizesMB ! i)], [], False)"
  by (rule gwp_mono [OF gwp_alloc_subs]) (auto intro: subs_left_allocated)

lemma gwp_do_mkpart:
  assumes "mkpart_size (argv ! 2) = Some sz"
  shows "gwp (alloc_step (argv ! 1) (argv ! 3)) (do_mkpart ctx argv) (\<lambda>_. allocated sz) ([], [], False)"
    (is "gwp ?st _ _ _")
proof -
  have none: "allocated sz' ([], [], False)" for sz' by (simp add: allocated_def)
  have probe: "main_mb (argv ! 1) (argv ! 3) (''hdd0:'' @ argv ! 1) = None"
    by (auto simp: main_mb_def find_None_iff)
  have fmt: "gwp ?st (if has_prefix (argv ! 3) ''PFS'' then mkpfs (argv ! 1) else retM 0) Q a"
    if "\<And>v. Q v a" for Q a
    using that by (auto intro!: gwp gwp_alloc_format)
  have rest: "gwp ?st (mkpart_main (argv ! 1) (argv ! 3) sz fd 9)
      (\<lambda>a. gwp ?st (case a of (result, i, partfd, size_in_mb) \<Rightarrow>
          bindM (if partfd \<ge> 0 then mkpart_subs partfd size_in_mb (Suc i) else retM size_in_mb)
             (\<lambda>_.
           if result \<ge> 0 then
             bindM (doM (Ix_close partfd)) (\<lambda>_.
             bindM (if has_prefix (argv ! 3) ''PFS'' then mkpfs (argv ! 1) else retM 0)
               (\<lambda>result. retM (result, ctx)))
           else retM (result, ctx))) (\<lambda>_. allocated sz)) ([], [], False)"
    if "fd < 0" for fd
  proof (rule gwp_mono [OF gwp_alloc_main], goal_cases)
    case (3 v a)
    obtain result i partfd sz' where v: "v = (result, i, partfd, sz')" by (cases v)
    show ?case
      using 3 by (auto simp: v none simp del: mkpart_subs.simps One_nat_def
          intro!: gwp_alloc_format gwp_bind gwp_if gwp_call fmt gwp_basic(1)
            gwp_mono [OF gwp_allocated_subs])
  qed (use that in simp_all)
  show ?thesis
    unfolding do_mkpart_def
    by (intro gwp_bind gwp_basic gwp_call gwp_if gwp_option gwp_alloc_puts gwp_eputs)
      (use assms rest in \<open>simp_all add: none probe [simplified]\<close>)
qed



subsection \<open>The capacity of \<open>df\<close>\<close>

text \<open>A disk of 64 GiB with one partition of 32 GiB.\<close>

definition half_full :: env where
  "half_full = \<lparr>answer = (\<lambda>tr c. case c of
       Ix_dopen _ \<Rightarrow> code 5
     | Ix_dread _ \<Rightarrow>
         if length tr < 2 then (code 1)\<lparr>rp_stat := zero_stat\<lparr>st_mode := 0x100, private_1 := 0x4000000\<rparr>\<rparr>
         else code 0
     | _ \<Rightarrow> code 0), fuel = Suc (Suc 0)\<rparr>"

text \<open>\<open>df\<close> computes the percentage with a product that wraps at 32 bits: the half-full disk is shown
  as used to 18 percent.\<close>

theorem df_capacity_wraps:
  assumes "mount ctx = 0" "total_sectors ctx = 0x7FFFFFF"
  shows "\<exists>tr. do_df ctx argv half_full [] = (Done (0, ctx), tr) \<and>
    Puts (df_line (''hdd0:                             '') ''GiB'' 64 32 32 18) \<in> fst ` set tr"
  using assms by (simp add: do_df_def df_body_def half_full_def zero_stat_def io_simps Let_def)

end
