(* ===== verification/Getline.thy ===== *)
theory Getline
  imports Prelude
begin

text \<open>
  The shell's own \<open>getline\<close> (\<open>src/src/shell.c\<close>), compiled where the C library has none. The
  stream is the list of the characters up to its end, the buffer is the pointer \<open>*lineptr\<close> (NULL
  or not) and its size \<open>*n\<close>; \<open>alloc\<close> answers \<open>malloc\<close> and \<open>realloc\<close> for a size. The tests for
  NULL arguments are left out, since the types of the model exclude them.
\<close>

datatype alloc_answer = Null | Kept | Moved

datatype getline_result =
    Failed
  | Line string nat
  | Overrun
  | Dangling

text \<open>
  The end of the loop: the NUL goes behind the line. \<open>out\<close> holds the characters stored, so
  \<open>p - bufptr\<close> is its length.
\<close>

definition getline_end :: "nat \<Rightarrow> string \<Rightarrow> getline_result" where
  "getline_end sz out = (if length out < sz then Line out sz else Overrun)"

text \<open>
  The loop. \<open>p - bufptr\<close> is compared with \<open>size - 1\<close> in the unsigned type \<open>size_t\<close>; when \<open>realloc\<close>
  moves the buffer, \<open>p\<close> still points into the old one, and the character is stored there.
\<close>

primrec getline_loop :: "(nat \<Rightarrow> alloc_answer) \<Rightarrow> string \<Rightarrow> nat \<Rightarrow> string \<Rightarrow> getline_result" where
  "getline_loop alloc [] sz out = getline_end sz out"
| "getline_loop alloc (c # cs) sz out =
     (let grow = length out > (sz + 2 ^ 64 - 1) mod 2 ^ 64;
          sz' = (if grow then sz + 128 else sz) in
      if grow \<and> alloc sz' = Null then Failed
      else if grow \<and> alloc sz' = Moved then Dangling
      else if sz' \<le> length out then Overrun
      else if c = CHR 0x0A then getline_end sz' (out @ [c])
      else getline_loop alloc cs sz' (out @ [c]))"

definition getline :: "(nat \<Rightarrow> alloc_answer) \<Rightarrow> string \<Rightarrow> bool \<Rightarrow> nat \<Rightarrow> getline_result" where
  "getline alloc stream lineptr n =
     (if stream = [] then Failed
      else if \<not> lineptr then
        (if alloc 128 = Null then Failed else getline_loop alloc stream 128 [])
      else getline_loop alloc stream n [])"

subsection \<open>What it stores\<close>

text \<open>The line at the front of a stream, its newline included.\<close>

fun first_line :: "string \<Rightarrow> string" where
  "first_line [] = []"
| "first_line (c # cs) = (if c = CHR 0x0A then [c] else c # first_line cs)"

text \<open>The size of the buffer after storing \<open>len\<close> characters: it grows by 128 when it is full.\<close>

definition grown :: "nat \<Rightarrow> nat \<Rightarrow> nat" where
  "grown sz len = (if len \<le> sz then sz else sz + 128 * ((len - sz + 127) div 128))"

lemma grown_step:
  "0 < sz \<Longrightarrow> k \<le> sz \<Longrightarrow> grown (if k = sz then sz + 128 else sz) (Suc k + m) = grown sz (Suc k + m)"
proof -
  have "(128 + m) div 128 = 1 + m div 128" by simp
  then show "0 < sz \<Longrightarrow> k \<le> sz \<Longrightarrow> ?thesis" by (auto simp: grown_def)
qed

lemma size_wrap: "0 < sz \<Longrightarrow> sz < 2 ^ 64 \<Longrightarrow> (sz + 2 ^ 64 - 1) mod 2 ^ 64 = sz - (1 :: nat)"
proof -
  assume "0 < sz" "sz < 2 ^ 64"
  then have "sz + 2 ^ 64 - 1 = (sz - 1) + 2 ^ 64 * 1" by simp
  then show ?thesis using \<open>sz < 2 ^ 64\<close> by (simp only: mod_mult_self2) simp
qed

lemma loop_in_place:
  "0 < sz \<Longrightarrow> length out \<le> sz \<Longrightarrow> sz + 128 * length s < 2 ^ 64 \<Longrightarrow>
     getline_loop (\<lambda>_. Kept) s sz out =
       getline_end (grown sz (length out + length (first_line s))) (out @ first_line s)"
proof (induction s arbitrary: sz out)
  case Nil
  then show ?case by (simp add: grown_def)
next
  case (Cons c cs)
  let ?sz = "if length out = sz then sz + 128 else sz"
  have "length out > (sz + 2 ^ 64 - 1) mod 2 ^ 64 \<longleftrightarrow> length out = sz"
    using Cons.prems by (subst size_wrap) auto
  then have "getline_loop (\<lambda>_. Kept) (c # cs) sz out =
      (if c = CHR 0x0A then getline_end ?sz (out @ [c]) else getline_loop (\<lambda>_. Kept) cs ?sz (out @ [c]))"
    using Cons.prems by (simp add: Let_def)
  moreover have "getline_loop (\<lambda>_. Kept) cs ?sz (out @ [c]) =
      getline_end (grown ?sz (Suc (length out) + length (first_line cs))) (out @ c # first_line cs)"
    using Cons.prems Cons.IH [of ?sz "out @ [c]"] by (auto split: if_splits)
  ultimately show ?case
    using Cons.prems grown_step [of sz "length out" "length (first_line cs)"] grown_step [of sz "length out" 0]
    by (auto simp: grown_def [of "sz + 128"] grown_def [of sz])
qed

lemma loop_moved:
  "alloc (sz + 128) = Moved \<Longrightarrow> 0 < sz \<Longrightarrow> sz < 2 ^ 64 \<Longrightarrow> length out \<le> sz \<Longrightarrow>
     getline_loop alloc s sz out =
       (if sz < length out + length (first_line s) then Dangling else getline_end sz (out @ first_line s))"
proof (induction s arbitrary: out)
  case (Cons c cs)
  have "length out > (sz + 2 ^ 64 - 1) mod 2 ^ 64 \<longleftrightarrow> length out = sz"
    using Cons.prems by (subst size_wrap) auto
  then show ?case
    using Cons.prems Cons.IH [of "out @ [c]"] by (cases "length out = sz") (auto simp: Let_def)
qed simp

lemma grown_fresh:
  assumes "0 < l"
  shows "grown 128 l = (if 128 dvd l then l else 128 * (l div 128 + 1))"
proof (cases "l \<le> 128")
  case True
  then show ?thesis using assms by (cases "l = 128") (auto simp: grown_def nat_dvd_not_less)
next
  case False
  then have g: "grown 128 l = 128 + 128 * ((l - 1) div 128)" by (simp add: grown_def)
  show ?thesis
  proof (cases "l mod 128 = 0")
    case True
    then obtain q where q: "l = 128 * q" "0 < q" using assms by (metis mod_0_imp_dvd dvdE gr0I mult_0_right)
    then obtain j where "q = Suc j" by (cases q) auto
    with q have "l - 1 = 127 + 128 * j" "l = 128 + 128 * j" by simp_all
    then show ?thesis using g by (simp add: div_add_self1)
  next
    case False
    define r where "r = l mod 128 - 1"
    have "r < 128" using mod_less_divisor [of 128 l] unfolding r_def by linarith
    have "l = 128 * (l div 128) + l mod 128" by simp
    then have "l - 1 = r + 128 * (l div 128)" using False unfolding r_def by linarith
    then have "(l - 1) div 128 = l div 128" using \<open>r < 128\<close> by simp
    then show ?thesis using g False by (simp add: dvd_eq_mod_eq_0)
  qed
qed

lemma less_fresh: "l < 128 * (l div 128 + 1)" for l :: nat
proof -
  have "l mod 128 < 128" by simp
  then show ?thesis using div_mult_mod_eq [of l 128] by (simp del: div_mult_mod_eq)
qed



end
