(* ===== verification/Bytes.thy ===== *)
theory Bytes
  imports Prelude
begin

text \<open>
  Structures as bytes: little-endian integers, fixed-size character fields, the C library
  calls \<open>strncpy\<close> and \<open>strtol\<close>, and octal fields.
\<close>

subsection \<open>Little-endian integers\<close>

fun le :: "nat \<Rightarrow> nat \<Rightarrow> string" where
  "le 0 v = []"
| "le (Suc n) v = char_of (v mod 256) # le n (v div 256)"

fun of_le :: "string \<Rightarrow> nat" where
  "of_le [] = 0"
| "of_le (c # cs) = of_char c + 256 * of_le cs"

lemma length_le [simp]: "length (le n v) = n"
  by (induction n arbitrary: v) auto

lemma of_le_le: "of_le (le n v) = v mod 256 ^ n"
proof (induction n arbitrary: v)
  case (Suc n)
  have "v mod 256 + 256 * (v div 256 mod 256 ^ n) = v mod (256 * 256 ^ n)"
    by (simp add: mod_mult2_eq)
  with Suc show ?case by simp
qed simp

lemma of_le_le_id [simp]: "v < 256 ^ n \<Longrightarrow> of_le (le n v) = v"
  by (simp add: of_le_le)

lemma of_le_less: "of_le s < 256 ^ length s"
proof (induction s)
  case (Cons c s)
  obtain k where k: "256 ^ length s = Suc (of_le s) + k"
    using Cons le_Suc_ex [of "Suc (of_le s)" "256 ^ length s"] by auto
  have "(of_char c :: nat) < 256" by simp
  then have "(of_char c :: nat) < 256 + 256 * k" by (rule trans_less_add1)
  then show ?case by (simp add: k)
qed simp

lemma le_of_le [simp]: "le (length s) (of_le s) = s"
  by (induction s) auto

lemma unat_less: "unat (w :: 'a :: len word) < 2 ^ LENGTH('a)"
  by simp

lemma of_le_u32 [simp]: "word_of_nat (of_le (le 4 (unat (w :: u32)))) = w"
  using unat_less [of w] by (subst of_le_le_id) simp_all

lemma of_le_u16 [simp]: "word_of_nat (of_le (le 2 (unat (w :: u16)))) = w"
  using unat_less [of w] by (subst of_le_le_id) simp_all

lemma of_le_byte [simp]: "word_of_nat (of_le (le 1 (unat (w :: byte)))) = w"
  using unat_less [of w] by (subst of_le_le_id) simp_all

subsection \<open>Fields\<close>

text \<open>The \<open>n\<close> bytes at offset \<open>k\<close>.\<close>

definition field :: "nat \<Rightarrow> nat \<Rightarrow> string \<Rightarrow> string" where
  "field k n b = take n (drop k b)"

lemma length_field [simp]: "k + n \<le> length b \<Longrightarrow> length (field k n b) = n"
  by (simp add: field_def)

lemma field_skip: "length a = m \<Longrightarrow> m \<le> k \<Longrightarrow> field k n (a @ b) = field (k - m) n b"
  by (simp add: field_def)

lemma field_here: "length a = n \<Longrightarrow> field 0 n (a @ b) = a"
  by (simp add: field_def)

text \<open>The C string in a field of \<open>n\<close> bytes that need not hold a NUL, as \<open>strncpy\<close> reads it.\<close>

definition field_str :: "nat \<Rightarrow> nat \<Rightarrow> string \<Rightarrow> string" where
  "field_str k n b = before_char (CHR 0x00) (field k n b)"

text \<open>\<open>memcpy\<close> of \<open>s\<close> to offset \<open>k\<close>; outside the array it is a fault (\<open>None\<close>).\<close>

definition put :: "nat \<Rightarrow> string \<Rightarrow> string \<Rightarrow> string option" where
  "put k s b = (if k + length s \<le> length b
     then Some (take k b @ s @ drop (k + length s) b) else None)"

text \<open>A field filled with a string and NULs (\<open>strncpy\<close> into a field of \<open>n\<close> bytes).\<close>

definition nul_pad :: "nat \<Rightarrow> string \<Rightarrow> string" where
  "nul_pad n s = take n s @ replicate (n - length s) (CHR 0x00)"

lemma length_nul_pad [simp]: "length (nul_pad n s) = n"
  by (simp add: nul_pad_def)

lemma before_nul_pad:
  "length s \<le> n \<Longrightarrow> CHR 0x00 \<notin> set s \<Longrightarrow> before_char (CHR 0x00) (nul_pad n s) = s"
proof -
  assume s: "length s \<le> n" "CHR 0x00 \<notin> set s"
  have "takeWhile (\<lambda>x. x \<noteq> CHR 0x00) (s @ r) = s @ takeWhile (\<lambda>x. x \<noteq> CHR 0x00) r" for r
    using s(2) by (intro takeWhile_append2) auto
  moreover have "takeWhile (\<lambda>x. x \<noteq> CHR 0x00) (replicate k (CHR 0x00)) = []" for k
    by (cases k) auto
  ultimately show ?thesis
    using s(1) by (simp add: before_char_def nul_pad_def)
qed

end
