(* ===== verification/Hdlfs_Info.thy ===== *)
theory Hdlfs_Info
  imports Bytes
begin

text \<open>
  The HDLoader game header (\<open>src/subprojects/hdlfs/hdlfs.h\<close>): the C structure of 1024 bytes that
  the driver reads from and writes to a partition, and its layout in memory.
\<close>

definition HDL_FS_MAGIC :: u32 where "HDL_FS_MAGIC = 0x1337"
definition HDL_INFO_MAGIC :: u32 where "HDL_INFO_MAGIC = 0xDEADFEED"
definition HDL_GAME_DATA_OFFSET :: int where "HDL_GAME_DATA_OFFSET = 0x100000"
definition HDLFS_GAME_TITLE_LEN :: nat where [simp]: "HDLFS_GAME_TITLE_LEN = 160"
definition HDLFS_STARTUP_PTH_LEN :: nat where [simp]: "HDLFS_STARTUP_PTH_LEN = 60"
definition HDLFS_DEVCTL_GET_STARTUP_PATH :: int where "HDLFS_DEVCTL_GET_STARTUP_PATH = 0x1000"
definition HDLFS_DEVCTL_GET_TITLE :: int where "HDLFS_DEVCTL_GET_TITLE = 0x1001"
definition HDLFS_DEVCTL_SET_TITLE :: int where "HDLFS_DEVCTL_SET_TITLE = 0x1002"

text \<open>Offsets in CD-ROM sectors, starts in disk sectors, sizes in bytes.\<close>

record part_specs_t =
  part_offset :: u32
  data_start :: u32
  part_size :: u32

record hdl_game_info =
  hi_magic :: u32
  hi_reserved :: u16
  hi_version :: u16
  gamename :: string
  hdl_compat_flags :: byte
  ops2l_compat_flags :: byte
  dma_type :: byte
  dma_mode :: byte
  startup :: string
  layer1_start :: u32
  discType :: u32
  num_partitions :: u32
  hi_part_specs :: "part_specs_t list"

record HDLFS_FormatArgs =
  fa_CompatFlags :: byte
  fa_DiscType :: byte
  fa_TRType :: byte
  fa_TRMode :: byte
  fa_NumSectors :: u32
  fa_Layer1Start :: u32
  fa_GameTitle :: string
  fa_StartupPath :: string

definition zero_spec :: part_specs_t where
  "zero_spec = \<lparr>part_offset = 0, data_start = 0, part_size = 0\<rparr>"

definition zero_info :: hdl_game_info where
  "zero_info = \<lparr>hi_magic = 0, hi_reserved = 0, hi_version = 0,
     gamename = replicate 160 (CHR 0x00), hdl_compat_flags = 0, ops2l_compat_flags = 0,
     dma_type = 0, dma_mode = 0, startup = replicate 60 (CHR 0x00), layer1_start = 0,
     discType = 0, num_partitions = 0, hi_part_specs = replicate 65 zero_spec\<rparr>"

text \<open>The array fields have the lengths of the C declarations.\<close>

definition wf_info :: "hdl_game_info \<Rightarrow> bool" where
  "wf_info h = (length (gamename h) = 160 \<and> length (startup h) = 60 \<and>
     length (hi_part_specs h) = 65)"

lemma wf_zero_info [simp]: "wf_info zero_info"
  by (simp add: wf_info_def zero_info_def)

subsection \<open>The layout\<close>

definition encode_spec :: "part_specs_t \<Rightarrow> string" where
  "encode_spec p = le 4 (unat (part_offset p)) @ le 4 (unat (data_start p)) @
     le 4 (unat (part_size p))"

definition decode_spec :: "string \<Rightarrow> part_specs_t" where
  "decode_spec b = \<lparr>part_offset = word_of_nat (of_le (field 0 4 b)),
     data_start = word_of_nat (of_le (field 4 4 b)), part_size = word_of_nat (of_le (field 8 4 b))\<rparr>"

definition encode_info :: "hdl_game_info \<Rightarrow> string" where
  "encode_info h = le 4 (unat (hi_magic h)) @ le 2 (unat (hi_reserved h)) @
     le 2 (unat (hi_version h)) @ gamename h @ le 1 (unat (hdl_compat_flags h)) @
     le 1 (unat (ops2l_compat_flags h)) @ le 1 (unat (dma_type h)) @ le 1 (unat (dma_mode h)) @
     startup h @ le 4 (unat (layer1_start h)) @ le 4 (unat (discType h)) @
     le 4 (unat (num_partitions h)) @ concat (map encode_spec (hi_part_specs h))"

definition decode_info :: "string \<Rightarrow> hdl_game_info" where
  "decode_info b = \<lparr>hi_magic = word_of_nat (of_le (field 0 4 b)),
     hi_reserved = word_of_nat (of_le (field 4 2 b)),
     hi_version = word_of_nat (of_le (field 6 2 b)),
     gamename = field 8 160 b,
     hdl_compat_flags = word_of_nat (of_le (field 168 1 b)),
     ops2l_compat_flags = word_of_nat (of_le (field 169 1 b)),
     dma_type = word_of_nat (of_le (field 170 1 b)),
     dma_mode = word_of_nat (of_le (field 171 1 b)),
     startup = field 172 60 b,
     layer1_start = word_of_nat (of_le (field 232 4 b)),
     discType = word_of_nat (of_le (field 236 4 b)),
     num_partitions = word_of_nat (of_le (field 240 4 b)),
     hi_part_specs = map (\<lambda>k. decode_spec (field (244 + 12 * k) 12 b)) [0..<65]\<rparr>"

lemma length_encode_spec [simp]: "length (encode_spec p) = 12"
  by (simp add: encode_spec_def)

lemma decode_encode_spec [simp]: "decode_spec (encode_spec p) = p"
  by (cases p) (simp add: decode_spec_def encode_spec_def field_def)

lemma length_encode_specs: "length (concat (map encode_spec ps)) = 12 * length ps"
  by (induction ps) auto

lemma field_encode_specs:
  "k < length ps \<Longrightarrow> field (12 * k) 12 (concat (map encode_spec ps)) = encode_spec (ps ! k)"
proof (induction ps arbitrary: k)
  case (Cons p ps)
  then show ?case
    by (cases k) (simp_all add: field_here field_skip)
qed simp

lemma length_encode_info: "wf_info h \<Longrightarrow> length (encode_info h) = 1024"
  by (simp add: encode_info_def wf_info_def length_encode_specs)

lemma encode_info_split:
  "wf_info h \<Longrightarrow> \<exists>a. length a = 244 \<and>
     encode_info h = a @ concat (map encode_spec (hi_part_specs h))"
  unfolding encode_info_def wf_info_def
  by (intro exI [of _ "le 4 (unat (hi_magic h)) @ le 2 (unat (hi_reserved h)) @
     le 2 (unat (hi_version h)) @ gamename h @ le 1 (unat (hdl_compat_flags h)) @
     le 1 (unat (ops2l_compat_flags h)) @ le 1 (unat (dma_type h)) @ le 1 (unat (dma_mode h)) @
     startup h @ le 4 (unat (layer1_start h)) @ le 4 (unat (discType h)) @
     le 4 (unat (num_partitions h))"]) simp

lemma decode_encode_specs:
  assumes "wf_info h"
  shows "map (\<lambda>k. decode_spec (field (244 + 12 * k) 12 (encode_info h))) [0..<65] = hi_part_specs h"
proof -
  obtain a where a: "length a = 244"
    "encode_info h = a @ concat (map encode_spec (hi_part_specs h))"
    using encode_info_split [OF assms] by blast
  have len: "length (hi_part_specs h) = 65" using assms by (simp add: wf_info_def)
  have "decode_spec (field (244 + 12 * k) 12 (encode_info h)) = hi_part_specs h ! k" if "k < 65" for k
    using that len by (simp add: a field_skip field_encode_specs)
  then show ?thesis
    using len by (intro nth_equalityI) simp_all
qed

lemma decode_encode_info:
  assumes "wf_info h"
  shows "decode_info (encode_info h) = h"
proof -
  have len: "length (gamename h) = 160" "length (startup h) = 60"
    using assms by (simp_all add: wf_info_def)
  have "field 0 4 (encode_info h) = le 4 (unat (hi_magic h))"
    "field 4 2 (encode_info h) = le 2 (unat (hi_reserved h))"
    "field 6 2 (encode_info h) = le 2 (unat (hi_version h))"
    "field 8 160 (encode_info h) = gamename h"
    "field 168 1 (encode_info h) = le 1 (unat (hdl_compat_flags h))"
    "field 169 1 (encode_info h) = le 1 (unat (ops2l_compat_flags h))"
    "field 170 1 (encode_info h) = le 1 (unat (dma_type h))"
    "field 171 1 (encode_info h) = le 1 (unat (dma_mode h))"
    "field 172 60 (encode_info h) = startup h"
    "field 232 4 (encode_info h) = le 4 (unat (layer1_start h))"
    "field 236 4 (encode_info h) = le 4 (unat (discType h))"
    "field 240 4 (encode_info h) = le 4 (unat (num_partitions h))"
    using len by (simp_all only: encode_info_def field_def drop_append take_append length_le
        length_append) (simp_all add: len)
  then show ?thesis
    by (intro hdl_game_info.equality)
      (simp_all add: decode_info_def decode_encode_specs [OF assms] del: One_nat_def)
qed

end
