(* ===== verification/Semap.thy ===== *)
theory Semap
  imports Hl_Props Atad
begin

text \<open>
  The semaphores of the emulated console (\<open>src/subprojects/fakeps2sdk/thsemap.c\<close>): a table of
  100 pointers to host semaphores. An entry of the model says whether the pointer is set. The
  abstract view is the set of live identifiers; the table implements an allocator on it.
\<close>

type_synonym semtab = "bool list"

definition SEMA_COUNT :: nat where [simp]: "SEMA_COUNT = 100"

definition sem_boot :: semtab where
  "sem_boot = replicate SEMA_COUNT False"

text \<open>The first free entry from \<open>i\<close> on, or \<open>SEMA_COUNT\<close>.\<close>

fun free_slot :: "semtab \<Rightarrow> nat" where
  "free_slot [] = 0"
| "free_slot (b # bs) = (if b then Suc (free_slot bs) else 0)"

definition CreateSema :: "semtab \<Rightarrow> (int \<times> semtab) io" where
  "CreateSema sem =
     (let i = free_slot sem in
      if i < SEMA_COUNT then
        bindM (codeM (Malloc 32)) (\<lambda>p.
        if p \<noteq> 0 then
          bindM (codeM (Sem_init i)) (\<lambda>retv.
          if retv \<noteq> - 1 then retM (int i, sem[i := True]) else retM (- 1, sem[i := False]))
        else retM (- 1, sem))
      else
        bindM (putsM (''too many semaphores allocated'' @ nl)) (\<lambda>_. retM (- 1, sem)))"

definition DeleteSema :: "semtab \<Rightarrow> int \<Rightarrow> (int \<times> semtab) io" where
  "DeleteSema sem semid =
     (if 0 \<le> semid \<and> semid < int SEMA_COUNT then
        (if sem ! nat semid then
           bindM (codeM (Sem_destroy (nat semid))) (\<lambda>retv.
           if retv = 0 then retM (0, sem[nat semid := False]) else retM (- 1, sem))
         else
           bindM (putsM (''DeleteSema: already freed: '' @ dec_int semid @ nl)) (\<lambda>_.
           retM (- 1, sem)))
      else
        bindM (putsM (''DeleteSema: invalid index: '' @ dec_int semid @ nl)) (\<lambda>_.
        retM (- 1, sem)))"

definition WaitSema :: "semtab \<Rightarrow> int \<Rightarrow> int io" where
  "WaitSema sem semid =
     (if 0 \<le> semid \<and> semid < int SEMA_COUNT then
        (if sem ! nat semid then codeM (Sem_wait (nat semid))
         else
           bindM (putsM (''WaitSema: already freed: '' @ dec_int semid @ nl)) (\<lambda>_. retM (- 1)))
      else
        bindM (putsM (''WaitSema: invalid index: '' @ dec_int semid @ nl)) (\<lambda>_. retM (- 1)))"

definition SignalSema :: "semtab \<Rightarrow> int \<Rightarrow> int io" where
  "SignalSema sem semid =
     (if 0 \<le> semid \<and> semid < int SEMA_COUNT then
        (if sem ! nat semid then codeM (Sem_post (nat semid))
         else
           bindM (putsM (''SignalSema: already freed: '' @ dec_int semid @ nl)) (\<lambda>_. retM (- 1)))
      else
        bindM (putsM (''SignalSema: invalid index: '' @ dec_int semid @ nl)) (\<lambda>_. retM (- 1)))"

subsection \<open>The allocator\<close>

definition live :: "semtab \<Rightarrow> nat set" where
  "live sem = {i. i < length sem \<and> sem ! i}"

lemma free_slot_le: "free_slot sem \<le> length sem"
  by (induction sem) auto

lemma free_slot_spec:
  "free_slot sem < length sem \<Longrightarrow> \<not> sem ! free_slot sem"
  "i < free_slot sem \<Longrightarrow> sem ! i"
  by (induction sem arbitrary: i; auto simp: nth_Cons split: nat.splits if_splits)+

lemma free_slot_full: "free_slot sem = length sem \<longleftrightarrow> live sem = {..<length sem}"
proof -
  have "live sem = {..<length sem} \<longleftrightarrow> (\<forall>i < length sem. sem ! i)"
    by (auto simp: live_def)
  also have "\<dots> \<longleftrightarrow> free_slot sem = length sem"
    using free_slot_spec [where sem = sem] free_slot_le [of sem] le_neq_implies_less by metis
  finally show ?thesis by simp
qed

lemma live_update:
  "i < length sem \<Longrightarrow> live (sem[i := True]) = insert i (live sem)"
  "live (sem[i := False]) = live sem - {i}"
  by (cases "i < length sem"; auto simp: live_def nth_list_update split: if_splits)+



subsection \<open>Lock discipline\<close>

text \<open>The semaphores a history has waited for and not yet posted.\<close>

fun held_step :: "nat list \<Rightarrow> call \<times> reply \<Rightarrow> nat list" where
  "held_step hs (Sem_wait i, r) = i # hs"
| "held_step hs (Sem_post i, r) = remove1 i hs"
| "held_step hs _ = hs"

text \<open>A program that gives back every semaphore it takes, on every path that returns.\<close>

definition lock_safe :: "'a io \<Rightarrow> bool" where
  "lock_safe m = (\<forall>hs. gwp held_step m (\<lambda>_ hs'. hs' = hs) hs)"

lemma lock_safe_wp:
  "lock_safe m \<Longrightarrow> wp m E (\<lambda>_ tr'. foldl held_step [] tr' = foldl held_step [] tr) tr"
  by (rule gwp_wp) (simp add: lock_safe_def)

lemma gwp_held_puts [gwp]: "Q () hs \<Longrightarrow> gwp held_step (putsM s) Q hs"
  unfolding putsM_def by (rule gwp_call) simp

text \<open>\<open>WaitSema\<close> and \<open>SignalSema\<close> of the same identifier with an unchanged table bracket.\<close>

definition took :: "semtab \<Rightarrow> int \<Rightarrow> nat list \<Rightarrow> nat list" where
  "took sem k hs = (if 0 \<le> k \<and> k < int SEMA_COUNT \<and> sem ! nat k then nat k # hs else hs)"

lemma gwp_wait: "(\<And>r. Q r (took sem k hs)) \<Longrightarrow> gwp held_step (WaitSema sem k) Q hs"
  by (auto simp: WaitSema_def took_def intro!: gwp)

lemma gwp_signal: "(\<And>r. Q r hs) \<Longrightarrow> gwp held_step (SignalSema sem k) Q (took sem k hs)"
  by (auto simp: SignalSema_def took_def intro!: gwp)

end
