(* ===== verification/Hdlfs.thy ===== *)
theory Hdlfs
  imports Hdlfs_Info Semap
begin

text \<open>
  The HDLoader filesystem driver (\<open>src/subprojects/hdlfs/main.c\<close>). A mounted game is a list of
  partitions that together hold one disc image; the driver keeps, per unit, the current sector
  and the partition it lies in. \<open>FD_List\<close> is the C array; an access beyond an array of the
  source is a fault. Debug output is not compiled.
\<close>

definition ENODEV :: int where "ENODEV = 19"
definition EINVAL :: int where "EINVAL = 22"
definition EIO :: int where "EIO = 5"
definition ENOMEM :: int where "ENOMEM = 12"
definition EMFILE :: int where "EMFILE = 24"
definition EROFS :: int where "EROFS = 30"

lemmas errno_defs = ENODEV_def EINVAL_def EIO_def ENOMEM_def EMFILE_def EROFS_def

record HDLFS_FileDescriptor =
  MountFD :: int
  SemaID :: int
  NumPartitions :: u16
  CurrentPartNum :: u16
  RelativeSectorNumber :: u32
  fd_offset :: u32
  fd_size :: u32
  part_specs :: "part_specs_t list"

definition MAX_AVAILABLE_FDs :: nat where [simp]: "MAX_AVAILABLE_FDs = 2"

definition zero_fd :: HDLFS_FileDescriptor where
  "zero_fd = \<lparr>MountFD = 0, SemaID = 0, NumPartitions = 0, CurrentPartNum = 0,
     RelativeSectorNumber = 0, fd_offset = 0, fd_size = 0, part_specs = replicate 65 zero_spec\<rparr>"

record hdl_state =
  FD_List :: "HDLFS_FileDescriptor list"
  hd_sems :: semtab

definition hdl_fd :: "hdl_state \<Rightarrow> nat \<Rightarrow> HDLFS_FileDescriptor" where
  "hdl_fd S u = FD_List S ! u"

definition set_fd :: "nat \<Rightarrow> HDLFS_FileDescriptor \<Rightarrow> hdl_state \<Rightarrow> hdl_state" where
  "set_fd u f S = S\<lparr>FD_List := (FD_List S)[u := f]\<rparr>"

definition mounted_unit :: "hdl_state \<Rightarrow> nat \<Rightarrow> bool" where
  "mounted_unit S u = (u < MAX_AVAILABLE_FDs \<and> MountFD (hdl_fd S u) \<ge> 0)"

subsection \<open>Starting and stopping\<close>

fun init_fds :: "nat list \<Rightarrow> hdl_state \<Rightarrow> hdl_state io" where
  "init_fds [] S = retM S"
| "init_fds (i # is) S =
     bindM (CreateSema (hd_sems S)) (\<lambda>(semid, sems).
     init_fds is (set_fd i ((hdl_fd S i)\<lparr>MountFD := - 1, SemaID := semid\<rparr>) S\<lparr>hd_sems := sems\<rparr>))"

definition hdlfs_init :: "hdl_state \<Rightarrow> (int \<times> hdl_state) io" where
  "hdlfs_init S =
     bindM (init_fds [0..<MAX_AVAILABLE_FDs]
         (S\<lparr>FD_List := replicate MAX_AVAILABLE_FDs zero_fd\<rparr>)) (\<lambda>S'. retM (0, S'))"

definition unmount :: "nat \<Rightarrow> hdl_state \<Rightarrow> (int \<times> hdl_state) io" where
  "unmount u S =
     (if mounted_unit S u then
        let f = hdl_fd S u in
        bindM (WaitSema (hd_sems S) (SemaID f)) (\<lambda>_.
        bindM (doM (Ix_ioctl2 (MountFD f) HIOCFLUSH No_arg 0)) (\<lambda>_.
        bindM (doM (Ix_close (MountFD f))) (\<lambda>_.
        bindM (SignalSema (hd_sems S) (SemaID f)) (\<lambda>_.
        retM (0, set_fd u (f\<lparr>MountFD := - 1\<rparr>) S)))))
      else retM (- ENODEV, S))"

fun deinit_fds :: "nat list \<Rightarrow> hdl_state \<Rightarrow> hdl_state io" where
  "deinit_fds [] S = retM S"
| "deinit_fds (i # is) S =
     bindM (if MountFD (hdl_fd S i) \<ge> 0 then bindM (unmount i S) (\<lambda>(_, S). retM S) else retM S)
       (\<lambda>S.
     bindM (DeleteSema (hd_sems S) (SemaID (hdl_fd S i))) (\<lambda>(_, sems).
     deinit_fds is (S\<lparr>hd_sems := sems\<rparr>)))"

definition hdlfs_deinit :: "hdl_state \<Rightarrow> (int \<times> hdl_state) io" where
  "hdlfs_deinit S = bindM (deinit_fds [0..<MAX_AVAILABLE_FDs] S) (\<lambda>S'. retM (0, S'))"

subsection \<open>Formatting\<close>

text \<open>
  The loop over the slices of the partition, from slice \<open>i\<close> on. It returns \<open>result\<close>,
  \<open>SectorNumber\<close> and the header.
\<close>

definition reserved_sectors :: "nat \<Rightarrow> u32" where
  "reserved_sectors i = (if i = 0 then 0x2000 else 4)"

definition slice_sectors :: "nat \<Rightarrow> int \<Rightarrow> u32 \<Rightarrow> u32 \<Rightarrow> u32" where
  "slice_sectors i sz NumberOfSectors SectorNumber =
     (let inpart = (to_u32 sz - reserved_sectors i) div 4;
          remaining = NumberOfSectors - SectorNumber
      in if inpart > remaining then remaining else inpart)"

function format_parts ::
    "int \<Rightarrow> u32 \<Rightarrow> nat \<Rightarrow> nat \<Rightarrow> int \<Rightarrow> u32 \<Rightarrow> hdl_game_info \<Rightarrow> (int \<times> u32 \<times> hdl_game_info) io" where
  "format_parts fd NumberOfSectors n i result SectorNumber h =
     (if i < n \<and> result \<ge> 0 then
        bindM (codeM (Ix_ioctl2 fd HIOCGETPARTSTART (Int_arg (word_of_nat i)) 4)) (\<lambda>result.
        if result \<ge> 0 then
          if 65 \<le> i then faultM
          else
            bindM (codeM (Ix_ioctl2 fd HIOCGETSIZE (Int_arg (word_of_nat i)) 4)) (\<lambda>sz.
            let inpart = slice_sectors i sz NumberOfSectors SectorNumber;
                start = to_u32 result + reserved_sectors i in
            if inpart \<ge> 0x200000 then
              retM (- EINVAL, SectorNumber,
                h\<lparr>hi_part_specs := (hi_part_specs h)[i := ((hi_part_specs h) ! i)
                  \<lparr>part_offset := SectorNumber, data_start := start\<rparr>]\<rparr>)
            else
              format_parts fd NumberOfSectors n (Suc i) result (SectorNumber + inpart)
                (h\<lparr>hi_part_specs := (hi_part_specs h)[i := \<lparr>part_offset = SectorNumber,
                  data_start = start, part_size = inpart * 2048\<rparr>]\<rparr>))
        else format_parts fd NumberOfSectors n (Suc i) result SectorNumber h)
      else retM (result, SectorNumber, h))"
  by pat_completeness auto
termination
  by (relation "measure (\<lambda>(fd, t, n, i, r, s, h). n - i)") auto

declare format_parts.simps [simp del]

definition format_header :: "HDLFS_FormatArgs \<Rightarrow> u32 \<Rightarrow> hdl_game_info" where
  "format_header a nparts = zero_info\<lparr>hi_magic := HDL_INFO_MAGIC, hi_version := 1,
     gamename := fa_GameTitle a, hdl_compat_flags := 0, ops2l_compat_flags := fa_CompatFlags a,
     dma_type := fa_TRType a, dma_mode := fa_TRMode a,
     startup := nul_pad 60 (before_char (CHR 0x00) (fa_StartupPath a)),
     layer1_start := fa_Layer1Start a, discType := ucast (fa_DiscType a),
     num_partitions := nparts\<rparr>"

definition hdlfs_format :: "string \<Rightarrow> HDLFS_FormatArgs \<Rightarrow> int io" where
  "hdlfs_format blockdev args =
     bindM (codeM (Ix_devctl blockdev HDIOC_MAXSECTOR No_arg 0)) (\<lambda>_.
     bindM (codeM (Ix_open blockdev FIO_O_WRONLY 0x1A4)) (\<lambda>fd.
     if fd \<ge> 0 then
       bindM (doM (Ix_lseek fd HDL_GAME_DATA_OFFSET SEEK_SET)) (\<lambda>_.
       bindM (codeM (Ix_ioctl2 fd HIOCNSUB No_arg 0)) (\<lambda>nsub.
       let nparts = to_u32 (nsub + 1) in
       bindM (format_parts fd (fa_NumSectors args) (unat nparts) 0 0 0 (format_header args nparts))
         (\<lambda>(result, SectorNumber, h).
       bindM
         (if result \<ge> 0 then
            if SectorNumber < fa_NumSectors args then retM (- ENOMEM)
            else bindM (codeM (Ix_write fd (encode_info h))) (\<lambda>w.
              retM (if w \<noteq> 1024 then - EIO else 0))
          else retM result) (\<lambda>result.
       bindM (doM (Ix_close fd)) (\<lambda>_. retM result)))))
     else retM fd))"

subsection \<open>Reading, writing and seeking\<close>

definition hdlfs_open :: "hdl_state \<Rightarrow> nat \<Rightarrow> int" where
  "hdlfs_open S u = (if mounted_unit S u then int u else - ENODEV)"

text \<open>
  The place of the next transfer: the current slice and the sectors left in it, moving on to
  the next slice when none are left (\<open>None\<close> beyond \<open>part_specs\<close>).
\<close>

definition spec_at :: "HDLFS_FileDescriptor \<Rightarrow> u16 \<Rightarrow> part_specs_t option" where
  "spec_at f p = (if unat p < length (part_specs f) then Some (part_specs f ! unat p) else None)"

definition io_place :: "HDLFS_FileDescriptor \<Rightarrow> (HDLFS_FileDescriptor \<times> u32) option" where
  "io_place f =
     (case spec_at f (CurrentPartNum f) of
        None \<Rightarrow> None
      | Some p \<Rightarrow>
          (let left = part_size p div 512 - RelativeSectorNumber f in
           if left < 1 then
             (case spec_at f (CurrentPartNum f + 1) of
                None \<Rightarrow> None
              | Some p' \<Rightarrow> Some (f\<lparr>CurrentPartNum := CurrentPartNum f + 1, RelativeSectorNumber := 0\<rparr>,
                  part_size p' div 512))
           else Some (f, left)))"

text \<open>
  One round of the transfer loop, over the descriptor, the sectors that remain, what is left of
  the buffer and the bytes read so far. The loop ends with the last \<open>result\<close>.
\<close>

definition io_body ::
    "u32 \<Rightarrow> HDLFS_FileDescriptor \<times> u32 \<times> string \<times> string \<times> int \<Rightarrow>
     ((HDLFS_FileDescriptor \<times> u32 \<times> string \<times> string \<times> int) +
      (HDLFS_FileDescriptor \<times> string \<times> int)) io" where
  "io_body mode = (\<lambda>(f, SectorsRemaining, buf, out, result).
     if SectorsRemaining > 0 then
       case io_place f of
         None \<Rightarrow> faultM
       | Some (f, left) \<Rightarrow>
           (let n = if SectorsRemaining > left then left else SectorsRemaining;
                bytes = unat n * 512;
                xf = \<lparr>xf_sub = ucast (CurrentPartNum f),
                  xf_sector = (if CurrentPartNum f = 0 then 0x2000 else 4) + RelativeSectorNumber f,
                  xf_size = n, xf_mode = mode,
                  xf_buffer = (if mode = 1 then Some (take bytes buf) else None)\<rparr> in
            if length buf < bytes then faultM
            else
              bindM (callM (Ix_ioctl2 (MountFD f) HIOCTRANSFER (Transfer_arg xf) 0)) (\<lambda>r.
              if rp_ret r < 0 then retM (Inr (f, out, rp_ret r))
              else retM (Inl (f\<lparr>fd_offset := fd_offset f + n,
                  RelativeSectorNumber := RelativeSectorNumber f + n\<rparr>,
                  SectorsRemaining - n, drop bytes buf,
                  (if mode = 1 then out else out @ rp_data r), rp_ret r))))
     else retM (Inr (f, out, result)))"

definition hdlfs_io_internal ::
    "nat \<Rightarrow> string option \<Rightarrow> int \<Rightarrow> u32 \<Rightarrow> hdl_state \<Rightarrow> (int \<times> string \<times> hdl_state) io" where
  "hdlfs_io_internal u buffer sz mode S =
     (case buffer of
        None \<Rightarrow> retM (- EINVAL, [], S)
      | Some buf \<Rightarrow>
          if sz mod 512 \<noteq> 0 then retM (- EINVAL, [], S)
          else
            let f = hdl_fd S u in
            bindM (WaitSema (hd_sems S) (SemaID f)) (\<lambda>_.
            bindM (loopM (io_body mode) (f, to_u32 (c_div sz 512), buf, [], 0))
              (\<lambda>(f', out, result).
            bindM (SignalSema (hd_sems S) (SemaID f)) (\<lambda>_.
            retM (if result < 0 then result else sz, out, set_fd u f' S)))))"

definition hdlfs_read ::
    "nat \<Rightarrow> u32 \<Rightarrow> string option \<Rightarrow> int \<Rightarrow> hdl_state \<Rightarrow> (int \<times> string \<times> hdl_state) io" where
  "hdlfs_read u fmode buffer sz S =
     (if fmode AND FIO_O_RDONLY \<noteq> 0 then hdlfs_io_internal u buffer sz 0 S
      else retM (- EINVAL, [], S))"

definition hdlfs_write ::
    "nat \<Rightarrow> u32 \<Rightarrow> string option \<Rightarrow> int \<Rightarrow> hdl_state \<Rightarrow> (int \<times> string \<times> hdl_state) io" where
  "hdlfs_write u fmode buffer sz S =
     (if fmode AND FIO_O_WRONLY \<noteq> 0 then hdlfs_io_internal u buffer sz 1 S
      else retM (- EROFS, [], S))"

definition slice_holds :: "part_specs_t \<Rightarrow> u32 \<Rightarrow> bool" where
  "slice_holds p off = (part_offset p \<le> off \<and> off < part_offset p + part_size p div 2048)"

definition seek_to :: "HDLFS_FileDescriptor \<Rightarrow> int \<Rightarrow> int \<Rightarrow> u32" where
  "seek_to f off whence =
     (if whence = SEEK_SET then to_u32 (off * 4)
      else if whence = SEEK_CUR then fd_offset f + to_u32 (off * 4)
      else if whence = SEEK_END then fd_size f - to_u32 (off * 4)
      else fd_offset f)"

definition hdlfs_lseek :: "nat \<Rightarrow> int \<Rightarrow> int \<Rightarrow> hdl_state \<Rightarrow> (int \<times> hdl_state) io" where
  "hdlfs_lseek u off whence S =
     (if mounted_unit S u then
        let f = hdl_fd S u in
        bindM (WaitSema (hd_sems S) (SemaID f)) (\<lambda>_.
        bindM
          (case find (\<lambda>i. slice_holds (part_specs f ! i) (to_u32 off))
               [0..<min (unat (NumPartitions f)) (length (part_specs f))] of
             Some i \<Rightarrow>
               let pos = seek_to f off whence in
               retM (uint (pos div 4),
                 f\<lparr>fd_offset := pos,
                   RelativeSectorNumber := pos - part_offset (part_specs f ! i) * 4,
                   CurrentPartNum := word_of_nat i\<rparr>)
           | None \<Rightarrow>
               if length (part_specs f) < unat (NumPartitions f) then faultM
               else retM (- EINVAL, f)) (\<lambda>(result, f').
        bindM (SignalSema (hd_sems S) (SemaID f)) (\<lambda>_.
        retM (result, set_fd u f' S))))
      else retM (- ENODEV, S))"

subsection \<open>Attributes and mounting\<close>

definition info_stat :: "hdl_game_info \<Rightarrow> iox_stat" where
  "info_stat h = zero_stat\<lparr>
     st_attr := push_bit 24 (ucast (dma_mode h)) OR push_bit 16 (ucast (dma_type h)) OR
       push_bit 8 (ucast (ops2l_compat_flags h)) OR ucast (hdl_compat_flags h),
     st_size := sum_list (map (\<lambda>p. part_size p div 2048)
       (take (unat (num_partitions h)) (hi_part_specs h))),
     private_0 := push_bit 16 (discType h) OR num_partitions h,
     private_1 := layer1_start h,
     private_5 := 0x2000\<rparr>"

text \<open>The outputs asked for: the stat structure, the title and the startup path, each into a
  buffer of the given length. What is returned are the bytes the driver wrote before the NUL.\<close>

definition hdlfs_getstat_filler ::
    "nat \<Rightarrow> bool \<Rightarrow> nat option \<Rightarrow> nat option \<Rightarrow> hdl_state \<Rightarrow>
     (int \<times> iox_stat \<times> string \<times> string) io" where
  "hdlfs_getstat_filler u want_stat title path S =
     (if mounted_unit S u then
        let f = hdl_fd S u in
        bindM (WaitSema (hd_sems S) (SemaID f)) (\<lambda>_.
        bindM (doM (Ix_lseek (MountFD f) HDL_GAME_DATA_OFFSET SEEK_SET)) (\<lambda>_.
        bindM (callM (Ix_read (MountFD f) 1024)) (\<lambda>r.
        bindM
          (if rp_ret r = 1024 then
             let h = decode_info (rp_data r) in
             if want_stat \<and> 65 < unat (num_partitions h) then faultM
             else if title = Some 0 \<or> path = Some 0 then faultM
             else retM (0, if want_stat then info_stat h else zero_stat,
               (case title of None \<Rightarrow> [] | Some n \<Rightarrow> take (min 160 n - 1) (gamename h)),
               (case path of None \<Rightarrow> []
                | Some n \<Rightarrow> before_char (CHR 0x00) (take (n - 1) (startup h))))
           else retM (- EIO, zero_stat, [], [])) (\<lambda>res.
        bindM (SignalSema (hd_sems S) (SemaID f)) (\<lambda>_. retM res)))))
      else retM (- ENODEV, zero_stat, [], []))"

definition hdlfs_getstat :: "nat \<Rightarrow> hdl_state \<Rightarrow> (int \<times> iox_stat) io" where
  "hdlfs_getstat u S =
     bindM (hdlfs_getstat_filler u True None None S) (\<lambda>(r, st, _, _). retM (r, st))"

definition chstat_info :: "iox_stat \<Rightarrow> u32 \<Rightarrow> hdl_game_info \<Rightarrow> hdl_game_info" where
  "chstat_info st flags h =
     (let h1 = (if flags AND FIO_CST_ATTR \<noteq> 0
         then h\<lparr>dma_mode := ucast (drop_bit 24 (st_attr st)),
           dma_type := ucast (drop_bit 16 (st_attr st)),
           ops2l_compat_flags := ucast (drop_bit 8 (st_attr st)),
           hdl_compat_flags := ucast (st_attr st)\<rparr>
         else h)
      in if flags AND FIO_CST_PRVT \<noteq> 0
         then h1\<lparr>discType := drop_bit 16 (private_0 st), layer1_start := private_1 st\<rparr>
         else h1)"

definition hdlfs_chstat :: "nat \<Rightarrow> iox_stat \<Rightarrow> u32 \<Rightarrow> hdl_state \<Rightarrow> int io" where
  "hdlfs_chstat u st flags S =
     (if mounted_unit S u then
        let f = hdl_fd S u in
        bindM (WaitSema (hd_sems S) (SemaID f)) (\<lambda>_.
        bindM (doM (Ix_lseek (MountFD f) HDL_GAME_DATA_OFFSET SEEK_SET)) (\<lambda>_.
        bindM (callM (Ix_read (MountFD f) 1024)) (\<lambda>r.
        bindM
          (if rp_ret r = 1024 then
             if flags AND (FIO_CST_MODE OR FIO_CST_SIZE OR FIO_CST_CT OR FIO_CST_AT OR FIO_CST_MT) = 0
             then
               bindM (doM (Ix_lseek (MountFD f) HDL_GAME_DATA_OFFSET SEEK_SET)) (\<lambda>_.
               bindM (codeM (Ix_write (MountFD f)
                   (encode_info (chstat_info st flags (decode_info (rp_data r)))))) (\<lambda>result.
               retM (if result \<noteq> 1024 then - EIO else result)))
             else retM (- EINVAL)
           else retM (- EIO)) (\<lambda>result.
        bindM (SignalSema (hd_sems S) (SemaID f)) (\<lambda>_. retM result)))))
      else retM (- ENODEV))"

fun sum_sizes :: "int \<Rightarrow> nat list \<Rightarrow> u32 \<Rightarrow> u32 io" where
  "sum_sizes fd [] acc = retM acc"
| "sum_sizes fd (i # is) acc =
     bindM (codeM (Ix_ioctl2 fd HIOCGETSIZE (Int_arg (word_of_nat i)) 4)) (\<lambda>sz.
     sum_sizes fd is (acc + to_u32 sz))"

definition hdlfs_mount :: "nat \<Rightarrow> string \<Rightarrow> u32 \<Rightarrow> hdl_state \<Rightarrow> (int \<times> hdl_state) io" where
  "hdlfs_mount u blockdev flags S =
     (if u < MAX_AVAILABLE_FDs then
        bindM (callM (Ix_getstat blockdev)) (\<lambda>r.
        if rp_ret r \<ge> 0 then
          if st_mode (rp_stat r) = HDL_FS_MAGIC then
            let f = hdl_fd S u in
            bindM (WaitSema (hd_sems S) (SemaID f)) (\<lambda>_.
            bindM (codeM (Ix_open blockdev
                (if flags = FIO_MT_RDWR then FIO_O_RDWR else FIO_O_RDONLY) 0x1A4)) (\<lambda>fd.
            bindM
              (if fd \<ge> 0 then
                 bindM (doM (Ix_lseek fd HDL_GAME_DATA_OFFSET SEEK_SET)) (\<lambda>_.
                 bindM (callM (Ix_read fd 1024)) (\<lambda>r.
                 if rp_ret r = 1024 then
                   bindM (codeM (Ix_ioctl2 fd HIOCNSUB No_arg 0)) (\<lambda>nsub.
                   let n = word_of_int (nsub + 1) :: u16 in
                   bindM (sum_sizes fd [0..<unat n] 0) (\<lambda>total.
                   retM (int u, f\<lparr>MountFD := fd, fd_size := total, NumPartitions := n,
                     fd_offset := 0, CurrentPartNum := 0, RelativeSectorNumber := 0,
                     part_specs := hi_part_specs (decode_info (rp_data r))\<rparr>)))
                 else retM (rp_ret r, f\<lparr>MountFD := fd\<rparr>)))
               else retM (fd, f\<lparr>MountFD := fd\<rparr>)) (\<lambda>(result, f').
            bindM (SignalSema (hd_sems S) (SemaID f)) (\<lambda>_.
            retM (result, set_fd u f' S)))))
          else retM (- EMFILE, S)
        else retM (rp_ret r, S))
      else retM (- ENODEV, S))"

definition hdlfs_umount :: "nat \<Rightarrow> hdl_state \<Rightarrow> (int \<times> hdl_state) io" where
  "hdlfs_umount u S = unmount u S"

definition title_info :: "string \<Rightarrow> hdl_game_info \<Rightarrow> hdl_game_info" where
  "title_info name h = h\<lparr>gamename := nul_pad 160 name\<rparr>"

definition hdlfs_UpdateGameTitle :: "nat \<Rightarrow> string \<Rightarrow> hdl_state \<Rightarrow> int io" where
  "hdlfs_UpdateGameTitle u name S =
     (if length name < HDLFS_GAME_TITLE_LEN then
        let fd = MountFD (hdl_fd S u) in
        bindM (doM (Ix_lseek fd HDL_GAME_DATA_OFFSET SEEK_SET)) (\<lambda>_.
        bindM (callM (Ix_read fd 1024)) (\<lambda>r.
        if rp_ret r = 1024 then
          bindM (doM (Ix_lseek fd HDL_GAME_DATA_OFFSET SEEK_SET)) (\<lambda>_.
          bindM (codeM (Ix_write fd (encode_info (title_info name (decode_info (rp_data r))))))
            (\<lambda>w. retM (if w \<noteq> 1024 then - EIO else 0)))
        else retM (- EIO)))
      else retM (- EINVAL))"

text \<open>\<open>devctl\<close>: the argument is the \<open>arglen\<close> bytes at \<open>arg\<close>, the result goes into a buffer of
  \<open>buflen\<close> bytes.\<close>

definition hdlfs_devctl :: "nat \<Rightarrow> int \<Rightarrow> string \<Rightarrow> nat \<Rightarrow> hdl_state \<Rightarrow> (int \<times> string) io" where
  "hdlfs_devctl u cmd arg buflen S =
     (if mounted_unit S u then
        if cmd = HDLFS_DEVCTL_GET_STARTUP_PATH then
          bindM (hdlfs_getstat_filler u False None (Some buflen) S) (\<lambda>(r, _, _, p). retM (r, p))
        else if cmd = HDLFS_DEVCTL_GET_TITLE then
          bindM (hdlfs_getstat_filler u False (Some buflen) None S) (\<lambda>(r, _, t, _). retM (r, t))
        else if cmd = HDLFS_DEVCTL_SET_TITLE then
          bindM (hdlfs_UpdateGameTitle u arg S) (\<lambda>r. retM (r, []))
        else retM (- EINVAL, [])
      else retM (- ENODEV, []))"

end
