(* ===== verification/Hdlfs_Props.thy ===== *)
theory Hdlfs_Props
  imports Hdlfs
begin

text \<open>
  The properties of the HDLoader driver: the header survives its layout, every operation gives
  its semaphore back, a formatted game is covered by its slices, a transfer never leaves its
  slice, and attributes and titles written are read back.
\<close>

subsection \<open>The header\<close>



lemma wf_title [simp]: "wf_info h \<Longrightarrow> wf_info (title_info name h)"
  by (simp add: wf_info_def title_info_def)

lemma wf_chstat [simp]: "wf_info h \<Longrightarrow> wf_info (chstat_info st flags h)"
  by (simp add: wf_info_def chstat_info_def Let_def)

lemma before_char_take:
  "c \<in> set (take n s) \<Longrightarrow> before_char c (take n s) = before_char c s"
proof (induction s arbitrary: n)
  case (Cons a s)
  then show ?case by (cases n) (auto simp: before_char_def)
qed simp

lemma take_nul_pad:
  assumes "length s \<le> k" "k \<le> m"
  shows "take k (nul_pad m s) @ [CHR 0x00] = nul_pad (Suc k) s"
proof -
  have "take k (nul_pad m s) = s @ replicate (k - length s) (CHR 0x00)"
    using assms by (simp add: nul_pad_def min_absorb1)
  then show ?thesis
    using assms by (simp add: nul_pad_def Suc_diff_le replicate_append_same)
qed



subsection \<open>Semaphores\<close>

lemma gwp_held_io [gwp]:
  assumes "\<And>v. Q v hs"
  shows "gwp held_step (loopM (io_body mode) s) Q hs"
proof (rule gwp_loopM [where I = "\<lambda>_ hs'. hs' = hs"])
  fix s' hs' assume "hs' = hs"
  then show "gwp held_step (io_body mode s')
      (\<lambda>x g'. case x of Inl s' \<Rightarrow> g' = hs | Inr r \<Rightarrow> Q r g') hs'"
    using assms by (auto simp: io_body_def Let_def intro!: gwp split: prod.splits)
qed simp

lemma gwp_held_sum [gwp]:
  "(\<And>v. Q v hs) \<Longrightarrow> gwp held_step (sum_sizes fd is acc) Q hs"
  by (induction fd "is" acc rule: sum_sizes.induct) (auto intro!: gwp)

lemma lock_safe_ops:
  "lock_safe (unmount u S)" "lock_safe (hdlfs_io_internal u buf sz mode S)"
  "lock_safe (hdlfs_lseek u off whence S)" "lock_safe (hdlfs_getstat_filler u st t p S)"
  "lock_safe (hdlfs_chstat u stat flags S)" "lock_safe (hdlfs_mount u dev mflags S)"
  by (auto simp: lock_safe_def unmount_def hdlfs_io_internal_def hdlfs_lseek_def
      hdlfs_getstat_filler_def hdlfs_chstat_def hdlfs_mount_def Let_def
      intro!: gwp gwp_wait gwp_signal split: option.splits)

text \<open>Every operation of the driver that takes the semaphore of a unit has posted it again
  when it returns, on every path, errors included: no operation leaves a unit locked.\<close>

theorem hdl_unlocks:
  "wp (hdlfs_umount u S) E (\<lambda>_ tr'. foldl held_step [] tr' = foldl held_step [] tr) tr \<and>
   wp (hdlfs_io_internal u buf sz mode S) E
     (\<lambda>_ tr'. foldl held_step [] tr' = foldl held_step [] tr) tr \<and>
   wp (hdlfs_lseek u off whence S) E (\<lambda>_ tr'. foldl held_step [] tr' = foldl held_step [] tr) tr \<and>
   wp (hdlfs_getstat_filler u st t p S) E
     (\<lambda>_ tr'. foldl held_step [] tr' = foldl held_step [] tr) tr \<and>
   wp (hdlfs_chstat u stat flags S) E
     (\<lambda>_ tr'. foldl held_step [] tr' = foldl held_step [] tr) tr \<and>
   wp (hdlfs_mount u dev mflags S) E
     (\<lambda>_ tr'. foldl held_step [] tr' = foldl held_step [] tr) tr"
  by (simp add: lock_safe_wp lock_safe_ops hdlfs_umount_def)

subsection \<open>Formatting\<close>

text \<open>
  The slices of a header cover a game of \<open>tot\<close> CD-ROM sectors: each slice starts where the
  one before ended, holds fewer than \<open>0x200000\<close> sectors (so that its size in bytes fits 32
  bits), and together they hold \<open>tot\<close> sectors.
\<close>

definition covers :: "part_specs_t list \<Rightarrow> nat \<Rightarrow> nat list \<Rightarrow> bool" where
  "covers ps n secs =
     (length secs = n \<and> n \<le> length ps \<and>
      (\<forall>i < n. unat (part_offset (ps ! i)) = sum_list (take i secs) \<and>
         unat (part_size (ps ! i)) = 2048 * (secs ! i) \<and> secs ! i < 0x200000))"

lemma slice_sectors_le:
  "SectorNumber \<le> tot \<Longrightarrow>
     unat (slice_sectors i sz tot SectorNumber) + unat SectorNumber \<le> unat tot"
proof -
  assume "SectorNumber \<le> tot"
  then have "unat (tot - SectorNumber) = unat tot - unat SectorNumber"
    "unat SectorNumber \<le> unat tot"
    by (simp_all add: unat_sub word_le_nat_alt)
  then show ?thesis
    by (auto simp: slice_sectors_def Let_def word_le_nat_alt not_less word_less_nat_alt)
qed

lemma covers_snoc:
  assumes "covers ps n secs" "n < length ps" "sum_list secs = unat sn"
    and "unat k < 0x200000" "p = \<lparr>part_offset = sn, data_start = d, part_size = k * 2048\<rparr>"
  shows "covers (ps[n := p]) (Suc n) (secs @ [unat k])"
proof -
  have "unat (k * 2048) = unat k * 2048"
    using assms(4) by (subst unat_mult_lem [THEN iffD1]) simp_all
  with assms show ?thesis
    by (auto simp: covers_def nth_append less_Suc_eq)
qed

lemma format_parts_covers:
  assumes "0 \<le> result \<Longrightarrow> covers (hi_part_specs h) i secs \<and> sum_list secs = unat sn"
    and "sn \<le> tot" "length (hi_part_specs h) = 65" "0 \<le> result \<Longrightarrow> i \<le> n"
  shows "wp (format_parts fd tot n i result sn h) E
    (\<lambda>(result', sn', h') tr'. wf_info h = wf_info h' \<and> num_partitions h' = num_partitions h \<and>
       (0 \<le> result' \<longrightarrow> sn' \<le> tot \<and>
         (\<exists>secs'. covers (hi_part_specs h') n secs' \<and> sum_list secs' = unat sn'))) tr"
  using assms
proof (induction fd tot n i result sn h arbitrary: secs tr rule: format_parts.induct)
  case (1 fd tot n i result sn h)
  show ?case
  proof (cases "i < n \<and> 0 \<le> result")
    case False
    with "1.prems" show ?thesis
      by (subst format_parts.simps) (auto simp: wp_simps)
  next
    case True
    note run = True
    have cov: "covers (hi_part_specs h) i secs" "sum_list secs = unat sn"
      using "1.prems" run by auto
    have bound: "unat (slice_sectors i sz tot sn) + unat sn \<le> unat tot" for sz
      using "1.prems"(2) by (rule slice_sectors_le)
    have plus: "unat (sn + slice_sectors i sz tot sn) = unat sn + unat (slice_sectors i sz tot sn)"
      for sz
      using bound [of sz] unat_less [of tot] by (intro unat_add_lem [THEN iffD1]) simp
    have go: "wp (format_parts fd tot n (Suc i) k (sn + slice_sectors i sz tot sn)
        (h\<lparr>hi_part_specs := (hi_part_specs h)[i := \<lparr>part_offset = sn, data_start = d,
          part_size = slice_sectors i sz tot sn * 2048\<rparr>]\<rparr>)) E
        (\<lambda>(result', sn', h') tr'. wf_info h = wf_info h' \<and> num_partitions h' = num_partitions h \<and>
         (0 \<le> result' \<longrightarrow> sn' \<le> tot \<and>
           (\<exists>secs'. covers (hi_part_specs h') n secs' \<and> sum_list secs' = unat sn'))) tr'"
      if k: "0 \<le> k" "\<not> 65 \<le> i" "\<not> 0x200000 \<le> slice_sectors i sz tot sn"
        "d = to_u32 k + reserved_sectors i" for k sz d tr'
    proof -
      let ?k = "slice_sectors i sz tot sn"
      have len: "i < length (hi_part_specs h)" using k(2) "1.prems"(3) by simp
      have small: "unat ?k < 0x200000" using k(3) by (simp add: word_le_nat_alt)
      note IH = "1.IH"(1) [OF run k(1,2) refl k(4) k(3), of "secs @ [unat ?k]"]
      show ?thesis
      proof (rule wp_mono [OF IH], goal_cases)
        case 1
        then show ?case
          using covers_snoc [OF cov(1) len cov(2) small refl] cov(2) by (simp add: plus)
      next
        case 2
        then show ?case using bound [of sz] by (simp add: word_le_nat_alt plus)
      next
        case 3
        then show ?case using "1.prems"(3) by simp
      next
        case 4
        then show ?case using run by simp
      next
        case (5 a tr')
        then show ?case by (auto simp: wf_info_def)
      qed
    qed
    have stop: "wp (format_parts fd tot n (Suc i) k sn h) E
        (\<lambda>(result', sn', h') tr'. wf_info h = wf_info h' \<and> num_partitions h' = num_partitions h \<and>
         (0 \<le> result' \<longrightarrow> sn' \<le> tot \<and>
           (\<exists>secs'. covers (hi_part_specs h') n secs' \<and> sum_list secs' = unat sn'))) tr'"
      if "\<not> 0 \<le> k" for k tr'
      using that by (subst format_parts.simps) (simp add: wp_simps)
    show ?thesis
      using run go stop "1.prems"(3)
      by (subst format_parts.simps) (simp add: wp_simps Let_def wf_info_def EINVAL_def)
  qed
qed

lemma wf_format_header [simp]:
  "length (fa_GameTitle args) = 160 \<Longrightarrow> wf_info (format_header args n)"
  "num_partitions (format_header args n) = n"
  by (simp_all add: format_header_def wf_info_def zero_info_def)

text \<open>C21. A successful format writes a header that describes the whole game: the slices lie
  one after the other, each below 4 GiB, and their sectors add up to the number asked for. If
  the partition is too small, or a slice too large, nothing is written and an error returned.\<close>

theorem hdl_format_covers:
  assumes "length (fa_GameTitle args) = 160"
  shows "wp (hdlfs_format blockdev args) E (\<lambda>r tr'. r = 0 \<longrightarrow>
     (\<exists>fd h w secs. (Ix_write fd (encode_info h), w) \<in> set tr' \<and> wf_info h \<and>
        covers (hi_part_specs h) (unat (num_partitions h)) secs \<and>
        sum_list secs = unat (fa_NumSectors args))) tr"
proof -
  have parts: "wp (format_parts fd (fa_NumSectors args) (unat n) 0 0 0 (format_header args n)) E
      (\<lambda>(result, sn, h) tr'. wf_info h \<and> num_partitions h = n \<and>
        (0 \<le> result \<longrightarrow> sn \<le> fa_NumSectors args \<and>
          (\<exists>secs. covers (hi_part_specs h) (unat n) secs \<and> sum_list secs = unat sn))) tr" for fd n tr
  proof (rule wp_mono [OF format_parts_covers [where secs = "[]"]], goal_cases)
    case 3
    then show ?case
      using wf_format_header(1) [OF assms, of n] by (simp add: wf_info_def)
  next
    case (5 a tr')
    then show ?case using wf_format_header(1) [OF assms, of n] by auto
  qed (simp_all add: covers_def)
  have whole: "sn = fa_NumSectors args" if "sn \<le> fa_NumSectors args" "\<not> sn < fa_NumSectors args" for sn
    using that by simp
  show ?thesis
    unfolding hdlfs_format_def
    by (intro vcg wp_mono [OF parts]; clarsimp simp: errno_defs split: if_splits)
      (metis whole not_less insert_iff)
qed

definition sample_args :: HDLFS_FormatArgs where
  "sample_args = \<lparr>fa_CompatFlags = 0, fa_DiscType = 1, fa_TRType = 0, fa_TRMode = 4,
     fa_NumSectors = 1000, fa_Layer1Start = 0, fa_GameTitle = nul_pad 160 ''Game'',
     fa_StartupPath = nul_pad 60 ''SLES_500.01''\<rparr>"

theorem hdl_format_covers_witness:
  "wp (hdlfs_format ''hdd0:PP.GAME'' sample_args) copyto_env (\<lambda>r tr'. r = 0 \<longrightarrow>
     (\<exists>fd h w secs. (Ix_write fd (encode_info h), w) \<in> set tr' \<and> wf_info h \<and>
        covers (hi_part_specs h) (unat (num_partitions h)) secs \<and>
        sum_list secs = unat (fa_NumSectors sample_args))) []"
  by (rule hdl_format_covers) (simp add: sample_args_def)

subsection \<open>Transfers\<close>

text \<open>
  The abstract view of a mounted game: its sectors numbered from 0 through all slices.
  \<open>flat\<close> is the number of the sector \<open>rel\<close> of slice \<open>cur\<close>.
\<close>

definition slice_len :: "part_specs_t \<Rightarrow> nat" where
  "slice_len p = unat (part_size p) div 512"

definition flat :: "part_specs_t list \<Rightarrow> nat \<Rightarrow> nat \<Rightarrow> nat" where
  "flat ps cur rel = sum_list (map slice_len (take cur ps)) + rel"

definition reserved_of :: "u32 \<Rightarrow> nat" where
  "reserved_of sub = (if sub = 0 then 0x2000 else 4)"

definition xfer_inside :: "part_specs_t list \<Rightarrow> hddIoctl2Transfer \<Rightarrow> bool" where
  "xfer_inside ps x = (unat (xf_sub x) < length ps \<and> reserved_of (xf_sub x) \<le> unat (xf_sector x) \<and>
     unat (xf_sector x) + unat (xf_size x) \<le>
       reserved_of (xf_sub x) + slice_len (ps ! unat (xf_sub x)))"

definition xfer_start :: "part_specs_t list \<Rightarrow> hddIoctl2Transfer \<Rightarrow> nat" where
  "xfer_start ps x = flat ps (unat (xf_sub x)) (unat (xf_sector x) - reserved_of (xf_sub x))"

text \<open>Transfers that lie inside their slices and follow one another from sector \<open>p\<close> on.\<close>

fun consecutive :: "part_specs_t list \<Rightarrow> nat \<Rightarrow> hddIoctl2Transfer list \<Rightarrow> bool" where
  "consecutive ps p [] = True"
| "consecutive ps p (x # xs) =
     (xfer_inside ps x \<and> xfer_start ps x = p \<and> consecutive ps (p + unat (xf_size x)) xs)"

definition moved_sectors :: "hddIoctl2Transfer list \<Rightarrow> nat" where
  "moved_sectors xs = sum_list (map (\<lambda>x. unat (xf_size x)) xs)"

lemma consecutive_snoc:
  "consecutive ps p (xs @ [x]) \<longleftrightarrow>
     consecutive ps p xs \<and> xfer_inside ps x \<and> xfer_start ps x = p + moved_sectors xs"
  by (induction xs arbitrary: p) (simp_all add: moved_sectors_def add.assoc)

fun xfer_step :: "hddIoctl2Transfer list \<Rightarrow> call \<times> reply \<Rightarrow> hddIoctl2Transfer list" where
  "xfer_step xs (Ix_ioctl2 _ _ (Transfer_arg x) _, r) = xs @ [x]"
| "xfer_step xs _ = xs"

definition transfers :: "trace \<Rightarrow> hddIoctl2Transfer list" where
  "transfers evs = foldl xfer_step [] evs"

text \<open>The descriptor points into its slice.\<close>

definition place_ok :: "HDLFS_FileDescriptor \<Rightarrow> bool" where
  "place_ok f = (length (part_specs f) = 65 \<and> unat (CurrentPartNum f) < 65 \<and>
     unat (RelativeSectorNumber f) \<le> slice_len (part_specs f ! unat (CurrentPartNum f)))"

definition flat_pos :: "HDLFS_FileDescriptor \<Rightarrow> nat" where
  "flat_pos f = flat (part_specs f) (unat (CurrentPartNum f)) (unat (RelativeSectorNumber f))"

lemma unat_div_512: "unat (a div 512 :: u32) = unat a div 512"
  by (simp add: unat_div)

lemma io_place_ok:
  assumes "place_ok f" "io_place f = Some (f', left)"
  shows "place_ok f'" "part_specs f' = part_specs f" "MountFD f' = MountFD f"
    "flat_pos f' = flat_pos f"
    "unat (RelativeSectorNumber f') + unat left =
       slice_len (part_specs f ! unat (CurrentPartNum f'))"
proof -
  let ?p = "part_specs f ! unat (CurrentPartNum f)"
  have here: "spec_at f (CurrentPartNum f) = Some ?p"
    using assms(1) by (simp add: spec_at_def place_ok_def)
  define left0 where "left0 = part_size ?p div 512 - RelativeSectorNumber f"
  have left0: "unat left0 = slice_len ?p - unat (RelativeSectorNumber f)"
    "unat (RelativeSectorNumber f) \<le> slice_len ?p"
    using assms(1) by (auto simp: left0_def place_ok_def slice_len_def unat_sub word_le_nat_alt unat_div_512)
  have result: "place_ok f' \<and> part_specs f' = part_specs f \<and> MountFD f' = MountFD f \<and>
    flat_pos f' = flat_pos f \<and> unat (RelativeSectorNumber f') + unat left =
       slice_len (part_specs f ! unat (CurrentPartNum f'))"
  proof (cases "left0 < 1")
    case False
    then have "f' = f" "left = left0"
      using assms(2) here by (auto simp: io_place_def Let_def left0_def)
    with left0 assms(1) show ?thesis by simp
  next
    case True
    then have zero: "unat left0 = 0" by (simp add: word_less_nat_alt)
    have next_num: "unat (CurrentPartNum f + 1) = Suc (unat (CurrentPartNum f))"
      using assms(1) by (subst unat_add_lem [THEN iffD1]) (simp_all add: place_ok_def)
    from True assms(2) here have f': "unat (CurrentPartNum f + 1) < length (part_specs f)"
      "f' = f\<lparr>CurrentPartNum := CurrentPartNum f + 1, RelativeSectorNumber := 0\<rparr>"
      "left = part_size (part_specs f ! unat (CurrentPartNum f + 1)) div 512"
      by (auto simp: io_place_def Let_def left0_def spec_at_def split: if_splits)
    have "flat_pos f' = flat_pos f"
      using f' assms(1) left0 zero
      by (simp add: flat_pos_def flat_def next_num take_Suc_conv_app_nth place_ok_def)
    with f' assms(1) show ?thesis
      by (simp add: place_ok_def next_num slice_len_def unat_div_512)
  qed
  then show "place_ok f'" "part_specs f' = part_specs f" "MountFD f' = MountFD f"
    "flat_pos f' = flat_pos f"
    "unat (RelativeSectorNumber f') + unat left =
       slice_len (part_specs f ! unat (CurrentPartNum f'))"
    by simp_all
qed

lemma gwp_xfer_sema:
  "(\<And>r. Q r xs) \<Longrightarrow> gwp xfer_step (WaitSema sem k) Q xs"
  "(\<And>r. Q r xs) \<Longrightarrow> gwp xfer_step (SignalSema sem k) Q xs"
  by (auto simp: WaitSema_def SignalSema_def putsM_def intro!: gwp)

lemma unat_ucast_u16: "unat (ucast (c :: u16) :: u32) = unat c"
  using unat_less [of c] by (simp add: unsigned_ucast_eq take_bit_nat_eq_self)

lemma ucast_u16_zero: "((ucast (c :: u16) :: u32) = 0) = (c = 0)"
  by (metis unat_ucast_u16 unsigned_0 unsigned_word_eqI)

lemma slice_len_le: "slice_len p \<le> 2 ^ 23"
  using unat_less [of "part_size p"] by (simp add: slice_len_def)

lemma unat_plus_small: "unat (a :: u32) + unat b \<le> 2 ^ 31 \<Longrightarrow> unat (a + b) = unat a + unat b"
  by (intro unat_add_lem [THEN iffD1]) simp

text \<open>One round: the transfer continues where the ones before ended.\<close>

definition io_inv ::
    "part_specs_t list \<Rightarrow> nat \<Rightarrow> nat \<Rightarrow> hddIoctl2Transfer list \<Rightarrow>
     HDLFS_FileDescriptor \<times> u32 \<times> string \<times> string \<times> int \<Rightarrow> hddIoctl2Transfer list \<Rightarrow> bool" where
  "io_inv ps p k xs0 s xs = (case s of (f, rem, buf, out, result) \<Rightarrow>
     place_ok f \<and> part_specs f = ps \<and> 0 \<le> result \<and>
     (\<exists>ys. xs = xs0 @ ys \<and> consecutive ps p ys \<and> flat_pos f = p + moved_sectors ys \<and>
        moved_sectors ys + unat rem = k))"

definition io_post ::
    "part_specs_t list \<Rightarrow> nat \<Rightarrow> nat \<Rightarrow> hddIoctl2Transfer list \<Rightarrow>
     HDLFS_FileDescriptor \<times> string \<times> int \<Rightarrow> hddIoctl2Transfer list \<Rightarrow> bool" where
  "io_post ps p k xs0 v xs = (case v of (f, out, result) \<Rightarrow>
     (\<exists>ys. xs = xs0 @ ys \<and> consecutive ps p ys \<and>
        (0 \<le> result \<longrightarrow> moved_sectors ys = k \<and> flat_pos f = p + k)))"

lemma io_body_inv:
  assumes "io_inv ps p k xs0 s xs"
  shows "gwp xfer_step (io_body mode s)
    (\<lambda>x xs'. case x of Inl s' \<Rightarrow> io_inv ps p k xs0 s' xs' | Inr v \<Rightarrow> io_post ps p k xs0 v xs') xs"
proof -
  obtain f rem buf out result where s: "s = (f, rem, buf, out, result)" by (cases s)
  obtain ys where inv: "place_ok f" "part_specs f = ps" "0 \<le> result" "xs = xs0 @ ys"
    "consecutive ps p ys" "flat_pos f = p + moved_sectors ys" "moved_sectors ys + unat rem = k"
    using assms by (auto simp: io_inv_def s)
  show ?thesis
  proof (cases "0 < rem")
    case False
    then have "rem = 0" by (simp add: word_gt_0)
    with inv show ?thesis by (auto simp: io_body_def s io_post_def intro!: gwp)
  next
    case True
    show ?thesis
    proof (cases "io_place f")
      case None
      with True show ?thesis by (simp add: io_body_def s gwp)
    next
      case (Some q)
      then obtain f' left where q: "io_place f = Some (f', left)" by (cases q) auto
      note place = io_place_ok [OF inv(1) q]
      define n where "n = (if rem > left then left else rem)"
      define x where "x = \<lparr>xf_sub = ucast (CurrentPartNum f'),
        xf_sector = (if CurrentPartNum f' = 0 then 0x2000 else 4) + RelativeSectorNumber f',
        xf_size = n, xf_mode = mode,
        xf_buffer = (if mode = 1 then Some (take (unat n * 512) buf) else None)\<rparr>"
      define g where "g = f'\<lparr>fd_offset := fd_offset f' + n,
        RelativeSectorNumber := RelativeSectorNumber f' + n\<rparr>"
      have sub: "unat (xf_sub x) = unat (CurrentPartNum f')" "(xf_sub x = 0) = (CurrentPartNum f' = 0)"
        by (simp_all add: x_def unat_ucast_u16 ucast_u16_zero)
      have n: "unat n \<le> unat left" "unat n \<le> unat rem"
        by (auto simp: n_def word_less_nat_alt)
      have len: "slice_len (ps ! unat (CurrentPartNum f')) \<le> 2 ^ 23"
        by (rule slice_len_le)
      have fit: "unat (RelativeSectorNumber f') + unat n \<le> slice_len (ps ! unat (CurrentPartNum f'))"
        using place(5) n inv(2) by simp
      have sector: "unat (xf_sector x) = reserved_of (xf_sub x) + unat (RelativeSectorNumber f')"
        using fit len by (simp add: x_def reserved_of_def sub(2) [unfolded x_def, simplified]
          unat_plus_small)
      have rel: "unat (RelativeSectorNumber f' + n) = unat (RelativeSectorNumber f') + unat n"
        using fit len by (simp add: unat_plus_small)
      have "xfer_inside ps x" "xfer_start ps x = p + moved_sectors ys"
        using place inv fit unfolding xfer_inside_def xfer_start_def sector sub(1)
        by (simp_all add: x_def place_ok_def flat_pos_def)
      then have cons: "consecutive ps p (ys @ [x])"
        using inv(5) by (simp add: consecutive_snoc)
      have nxt: "io_inv ps p k xs0 (g, rem - n, buf', out', res) (xs @ [x])" if "0 \<le> res" for buf' out' res
      proof -
        have "moved_sectors (ys @ [x]) = moved_sectors ys + unat n"
          by (simp add: moved_sectors_def x_def)
        moreover have "unat (rem - n) = unat rem - unat n"
          using n(2) by (simp add: unat_sub word_le_nat_alt)
        moreover have "place_ok g" "part_specs g = ps" "flat_pos g = flat_pos f' + unat n"
          using place inv fit rel by (simp_all add: g_def place_ok_def flat_pos_def flat_def)
        ultimately show ?thesis
          using that cons inv place n unfolding io_inv_def
          by (auto intro!: exI [of _ "ys @ [x]"])
      qed
      have bad: "io_post ps p k xs0 (f', out', res) (xs @ [x])" if "res < 0" for out' res
        using that cons inv(4) by (auto simp: io_post_def)
      have "io_body mode s = (if length buf < unat n * 512 then faultM
          else bindM (callM (Ix_ioctl2 (MountFD f') HIOCTRANSFER (Transfer_arg x) 0)) (\<lambda>r.
            if rp_ret r < 0 then retM (Inr (f', out, rp_ret r))
            else retM (Inl (g, rem - n, drop (unat n * 512) buf,
              (if mode = 1 then out else out @ rp_data r), rp_ret r))))"
        by (simp add: io_body_def s True q Let_def x_def n_def g_def cong: if_cong)
      then show ?thesis
        using nxt bad by (auto intro!: gwp)
    qed
  qed
qed


text \<open>C7. A read or write of a mounted game transfers, slice by slice, exactly the flat range
  of its sectors that starts at the current position: no transfer leaves its slice, whatever the
  device answers, and if the result is not an error the range has the length asked for.\<close>

theorem hdl_transfers_range:
  assumes "place_ok (hdl_fd S u)" "0 \<le> sz" "sz < 2 ^ 31"
  shows "wp (hdlfs_io_internal u (Some buf) sz mode S) E (\<lambda>(r, out, S') tr'.
     consecutive (part_specs (hdl_fd S u)) (flat_pos (hdl_fd S u)) (transfers (during tr tr')) \<and>
     (0 \<le> r \<longrightarrow> r = sz \<and> moved_sectors (transfers (during tr tr')) = nat sz div 512)) tr"
proof -
  let ?f = "hdl_fd S u"
  let ?ps = "part_specs ?f" and ?p = "flat_pos ?f"
  have k: "unat (to_u32 (c_div sz 512)) = nat sz div 512"
  proof -
    have "sz div 512 < 2 ^ 32" "0 \<le> sz div 512" using assms(2,3) by simp_all
    then have "uint (to_u32 (sz div 512)) = sz div 512" by simp
    then show ?thesis
      using assms(2) by (simp add: unat_eq_nat_uint nat_div_distrib)
  qed
  have loop: "gwp xfer_step (loopM (io_body mode) (?f, to_u32 (c_div sz 512), buf, [], 0))
      (io_post ?ps ?p (nat sz div 512) []) []"
    by (rule gwp_loopM [where I = "io_inv ?ps ?p (nat sz div 512) []", OF _ io_body_inv])
      (simp_all add: io_inv_def assms(1) k moved_sectors_def)
  have "gwp xfer_step (hdlfs_io_internal u (Some buf) sz mode S) (\<lambda>(r, out, S') xs.
     consecutive ?ps ?p xs \<and> (0 \<le> r \<longrightarrow> r = sz \<and> moved_sectors xs = nat sz div 512)) []"
    unfolding hdlfs_io_internal_def
    by (auto simp: Let_def EINVAL_def io_post_def intro!: gwp gwp_xfer_sema gwp_mono [OF loop])
  from gwpD [OF this, of E tr] show ?thesis
    by (cases "hdlfs_io_internal u (Some buf) sz mode S E tr")
      (auto simp: wp_def transfers_def split: outcome.splits)
qed

definition sample_state :: hdl_state where
  "sample_state = \<lparr>FD_List = [zero_fd\<lparr>MountFD := 3, NumPartitions := 2, CurrentPartNum := 1,
       RelativeSectorNumber := 8, fd_offset := 48, fd_size := 80,
       part_specs := \<lparr>part_offset = 0, data_start = 0x2000, part_size = 20480\<rparr> #
         \<lparr>part_offset = 10, data_start = 0x9004, part_size = 20480\<rparr> # replicate 63 zero_spec\<rparr>,
       zero_fd\<lparr>MountFD := - 1\<rparr>], hd_sems = sem_boot\<rparr>"

theorem hdl_transfers_range_witness:
  "wp (hdlfs_io_internal 0 (Some (replicate 1024 (CHR ''a''))) 1024 1 sample_state) copyto_env
     (\<lambda>(r, out, S') tr'.
     consecutive (part_specs (hdl_fd sample_state 0)) (flat_pos (hdl_fd sample_state 0))
       (transfers (during [] tr')) \<and>
     (0 \<le> r \<longrightarrow> r = 1024 \<and> moved_sectors (transfers (during [] tr')) = nat 1024 div 512)) []"
  by (rule hdl_transfers_range)
    (simp_all add: place_ok_def hdl_fd_def sample_state_def zero_fd_def slice_len_def)

subsection \<open>Seeking\<close>

lemma covers_len:
  assumes "covers ps n secs" "i < n"
  shows "slice_len (ps ! i) = 4 * (secs ! i)"
  using assms by (simp add: covers_def slice_len_def)

lemma covers_flat:
  assumes "covers ps n secs" "i \<le> n"
  shows "sum_list (map slice_len (take i ps)) = 4 * sum_list (take i secs)"
  using assms(2)
proof (induction i)
  case (Suc i)
  have "i < length ps" "i < length secs" using assms(1) Suc.prems by (auto simp: covers_def)
  then show ?case
    using Suc covers_len [OF assms(1), of i] by (simp add: take_Suc_conv_app_nth)
qed simp

lemma find_holds:
  assumes "k < n" "P k"
  shows "\<exists>i. find P [0..<n] = Some i \<and> i < n \<and> P i"
proof -
  have "find P [0..<n] \<noteq> None" using assms by (auto simp: find_None_iff)
  then show ?thesis by (auto simp: find_Some_iff)
qed

lemma sum_list_split:
  "off < sum_list xs \<Longrightarrow>
     \<exists>k < length xs. sum_list (take k xs) \<le> off \<and> off < sum_list (take k xs) + xs ! k"
  for off :: nat
proof (induction xs arbitrary: off)
  case (Cons x xs)
  show ?case
  proof (cases "off < x")
    case True
    then show ?thesis by (intro exI [of _ 0]) simp
  next
    case False
    then have "off - x < sum_list xs" using Cons.prems by simp
    from Cons.IH [OF this] obtain k where "k < length xs" "sum_list (take k xs) \<le> off - x"
      "off - x < sum_list (take k xs) + xs ! k"
      by blast
    with False show ?thesis by (intro exI [of _ "Suc k"]) auto
  qed
qed simp

lemma vcg_sema:
  "(\<And>r tr'. Q r tr') \<Longrightarrow> wp (WaitSema sem k) E Q tr"
  "(\<And>r tr'. Q r tr') \<Longrightarrow> wp (SignalSema sem k) E Q tr"
  by (auto simp: WaitSema_def SignalSema_def putsM_def intro!: vcg)

text \<open>The slice found for a sector of a game the slices cover.\<close>

lemma covers_holds:
  fixes off :: u32
  assumes "covers ps n secs" "i < n" "sum_list secs < 2 ^ 30"
  shows "slice_holds (ps ! i) off \<longleftrightarrow>
    sum_list (take i secs) \<le> unat off \<and> unat off < sum_list (take i secs) + secs ! i"
proof -
  have *: "unat (part_offset (ps ! i)) = sum_list (take i secs)"
    "unat (part_size (ps ! i)) = 2048 * (secs ! i)" "secs ! i < 0x200000"
    using assms(1,2) by (auto simp: covers_def)
  have "sum_list (take i secs) \<le> sum_list secs"
    using append_take_drop_id [of i secs] by (metis le_add1 sum_list_append)
  then have "unat (part_offset (ps ! i) + part_size (ps ! i) div 2048) =
      sum_list (take i secs) + secs ! i"
    using * assms(3) by (subst unat_plus_small) (simp_all add: unat_div)
  then show ?thesis
    by (simp add: slice_holds_def word_le_nat_alt word_less_nat_alt *)
qed

lemma covers_find:
  fixes off :: u32
  assumes "covers ps n secs" "unat off < sum_list secs" "sum_list secs < 2 ^ 30"
  shows "\<exists>i < n. find (\<lambda>i. slice_holds (ps ! i) off) [0..<n] = Some i \<and>
    unat (part_offset (ps ! i)) \<le> unat off \<and> unat off < unat (part_offset (ps ! i)) + secs ! i"
proof -
  have len: "length secs = n" using assms(1) by (simp add: covers_def)
  obtain k where "k < n" "slice_holds (ps ! k) off"
    using sum_list_split [OF assms(2)] covers_holds [OF assms(1) _ assms(3), of _ off] len by auto
  then obtain i where "find (\<lambda>i. slice_holds (ps ! i) off) [0..<n] = Some i" "i < n"
    "slice_holds (ps ! i) off"
    using find_holds [of k n "\<lambda>i. slice_holds (ps ! i) off"] by blast
  moreover have "unat (part_offset (ps ! i)) = sum_list (take i secs)"
    using assms(1) \<open>i < n\<close> by (simp add: covers_def)
  ultimately show ?thesis
    using covers_holds [OF assms(1) _ assms(3)] by auto
qed

text \<open>What \<open>SEEK_SET\<close> stores when a slice is found.\<close>

definition placed :: "HDLFS_FileDescriptor \<Rightarrow> nat \<Rightarrow> u32 \<Rightarrow> HDLFS_FileDescriptor" where
  "placed f i off = f\<lparr>fd_offset := off * 4,
     RelativeSectorNumber := off * 4 - part_offset (part_specs f ! i) * 4,
     CurrentPartNum := word_of_nat i\<rparr>"

lemma seek_set_run:
  fixes off :: u32
  assumes "mounted_unit S u" "unat off < 2 ^ 30" "n \<le> length (part_specs f)"
    and f: "f = hdl_fd S u" and n: "n = unat (NumPartitions f)"
    and find: "find (\<lambda>i. slice_holds (part_specs f ! i) off) [0..<n] = Some i"
  shows "hdlfs_lseek u (uint off) SEEK_SET S = bindM (WaitSema (hd_sems S) (SemaID f)) (\<lambda>_.
    bindM (SignalSema (hd_sems S) (SemaID f)) (\<lambda>_. retM (uint off, set_fd u (placed f i off) S)))"
proof -
  have "unat (off * 4) = 4 * unat off"
    using assms(2) by (subst unat_mult_lem [THEN iffD1]) simp_all
  then have "unat (off * 4 div 4) = unat off" by (simp add: unat_div)
  then have seek_div: "off * 4 div 4 = off" by (rule unsigned_word_eqI)
  have pos: "to_u32 (uint off * 4) = off * 4" "to_u32 (uint off) = off"
    by (simp_all add: to_u32_def)
  have lookup: "min (unat (NumPartitions f)) (length (part_specs f)) = n"
    using assms(3) n by simp
  show ?thesis
    by (simp only: hdlfs_lseek_def assms(1) if_True Let_def f [symmetric] lookup find
        bindM_retM option.case prod.case seek_to_def simp_thms pos seek_div placed_def)
qed

lemma placed_lands:
  assumes cov: "covers (part_specs f) n secs" and i: "i < n" "n \<le> 65" "length (part_specs f) = 65"
    and off: "unat off < 2 ^ 30" "unat (part_offset (part_specs f ! i)) \<le> unat off"
      "unat off < unat (part_offset (part_specs f ! i)) + secs ! i"
  shows "place_ok (placed f i off)" "flat_pos (placed f i off) = 4 * unat off"
proof -
  define base where "base = part_offset (part_specs f ! i)"
  have base: "unat base = sum_list (take i secs)" "unat base \<le> unat off" "unat off < unat base + secs ! i"
    using cov i off by (auto simp: covers_def base_def)
  have four: "unat (off * 4) = 4 * unat off" "unat (base * 4) = 4 * unat base"
    using off(1) base by (subst unat_mult_lem [THEN iffD1]; simp)+
  have rel: "unat (off * 4 - base * 4) = 4 * (unat off - unat base)"
    using base(2) four by (simp add: unat_sub word_le_nat_alt)
  have num: "unat (word_of_nat i :: u16) = i"
    using i by (simp add: unsigned_of_nat take_bit_nat_eq_self)
  show "place_ok (placed f i off)" "flat_pos (placed f i off) = 4 * unat off"
    using i base covers_len [OF cov i(1)] covers_flat [OF cov, of i]
    by (simp_all add: placed_def base_def [symmetric] place_ok_def flat_pos_def flat_def num rel)
qed

text \<open>C22. Seeking in a formatted game: when the slices cover the game, seeking to the CD-ROM
  sector \<open>off\<close> of it from its beginning returns \<open>off\<close> and leaves the unit at exactly that
  position of the flat game, inside a slice.\<close>

theorem hdl_seek_lands:
  fixes off :: u32
  assumes "mounted_unit S u" "length (FD_List S) = MAX_AVAILABLE_FDs"
    and "length (part_specs (hdl_fd S u)) = 65"
    and "covers (part_specs (hdl_fd S u)) (unat (NumPartitions (hdl_fd S u))) secs"
    and "unat off < sum_list secs" "sum_list secs < 2 ^ 30"
  shows "wp (hdlfs_lseek u (uint off) SEEK_SET S) E (\<lambda>(r, S') tr'.
     r = uint off \<and> place_ok (hdl_fd S' u) \<and> flat_pos (hdl_fd S' u) = 4 * unat off) tr"
proof -
  define f where "f = hdl_fd S u"
  define n where "n = unat (NumPartitions f)"
  note cov = assms(4) [folded f_def, folded n_def]
  have u: "u < length (FD_List S)" using assms(1,2) by (simp add: mounted_unit_def)
  have n: "n \<le> 65" "length (part_specs f) = 65"
    using cov assms(3) by (auto simp: covers_def f_def)
  have off: "unat off < 2 ^ 30" using assms(5,6) by simp
  obtain i where i: "i < n" "find (\<lambda>i. slice_holds (part_specs f ! i) off) [0..<n] = Some i"
    "unat (part_offset (part_specs f ! i)) \<le> unat off"
    "unat off < unat (part_offset (part_specs f ! i)) + secs ! i"
    using covers_find [OF cov assms(5,6)] by blast
  note lands = placed_lands [OF cov i(1) n off i(3,4)]
  have "hdl_fd (set_fd u (placed f i off) S) u = placed f i off"
    using u by (simp add: hdl_fd_def set_fd_def)
  then show ?thesis
    using n seek_set_run [OF assms(1) off _ f_def n_def i(2)]
    by (auto simp: lands intro!: vcg vcg_sema)
qed

theorem hdl_seek_lands_witness:
  "wp (hdlfs_lseek 0 (uint (12 :: u32)) SEEK_SET sample_state) copyto_env (\<lambda>(r, S') tr'.
     r = uint (12 :: u32) \<and> place_ok (hdl_fd S' 0) \<and> flat_pos (hdl_fd S' 0) = 4 * unat (12 :: u32)) []"
proof (rule hdl_seek_lands [where secs = "[10, 10]"])
  show "covers (part_specs (hdl_fd sample_state 0))
      (unat (NumPartitions (hdl_fd sample_state 0))) [10, 10]"
    by (simp add: covers_def hdl_fd_def sample_state_def less_2_cases_iff all_conj_distrib)
qed (simp_all add: sample_state_def hdl_fd_def mounted_unit_def)

text \<open>\<open>SEEK_CUR\<close> is misplaced: the driver picks the slice that holds the relative offset,
  not the target. In a game of two slices of 10 sectors, at CD-ROM sector 12, seeking by 0 from
  the current position reports sector 12, but the unit then points beyond the end of the first
  slice.\<close>

theorem hdl_seek_cur_misplaced:
  "\<exists>S'. fst (hdlfs_lseek 0 0 SEEK_CUR sample_state copyto_env []) = Done (12, S') \<and>
     CurrentPartNum (hdl_fd S' 0) = 0 \<and> \<not> place_ok (hdl_fd S' 0)"
proof -
  define f where "f = hdl_fd sample_state 0"
  have find: "find (\<lambda>i. slice_holds (part_specs f ! i) (to_u32 0))
      [0..<min (unat (NumPartitions f)) (length (part_specs f))] = Some 0"
    by (simp add: f_def hdl_fd_def sample_state_def slice_holds_def to_u32_def upt_rec)
  have "fst (hdlfs_lseek 0 0 SEEK_CUR sample_state copyto_env []) =
     Done (12, set_fd 0 (f\<lparr>fd_offset := 48, RelativeSectorNumber := 48, CurrentPartNum := 0\<rparr>)
       sample_state)"
    using find
    by (simp add: hdlfs_lseek_def mounted_unit_def Let_def WaitSema_def SignalSema_def io_simps
        flip: f_def)
      (simp add: f_def hdl_fd_def sample_state_def seek_to_def SEEK_SET_def SEEK_CUR_def io_simps
        to_u32_def sem_boot_def putsM_def zero_fd_def)
  then show ?thesis
    by (simp add: hdl_fd_def set_fd_def sample_state_def place_ok_def f_def slice_len_def zero_fd_def)
qed

subsection \<open>Mounting\<close>

text \<open>\<open>mount\<close> takes a short header for success: when reading the header of a HDL partition
  delivers \<open>k\<close> bytes instead of 1024, \<open>mount\<close> returns \<open>k\<close>, which is not an error code, and the
  unit counts as mounted with the slices it had before.\<close>

theorem hdl_mount_short_read:
  assumes "u < MAX_AVAILABLE_FDs" "length (FD_List S) = MAX_AVAILABLE_FDs"
    and "\<And>h. answer E h (Ix_getstat dev) = st" "0 \<le> rp_ret st"
      "st_mode (rp_stat st) = HDL_FS_MAGIC"
    and "returns E (Ix_open dev FIO_O_RDWR 0x1A4) fd" "0 \<le> fd"
    and "\<And>h. rp_ret (answer E h (Ix_read fd 1024)) = k" "0 \<le> k" "k < 1024"
  shows "wp (hdlfs_mount u dev FIO_MT_RDWR S) E (\<lambda>(r, S') tr'. r = k \<and> mounted_unit S' u \<and>
     part_specs (hdl_fd S' u) = part_specs (hdl_fd S u)) tr"
  using assms
  by (auto simp: hdlfs_mount_def wp_simps Let_def set_fd_def hdl_fd_def mounted_unit_def
      intro!: vcg_sema)

definition short_env :: env where
  "short_env = \<lparr>answer = (\<lambda>tr c. case c of
       Ix_getstat _ \<Rightarrow> (code 0)\<lparr>rp_stat := zero_stat\<lparr>st_mode := HDL_FS_MAGIC\<rparr>\<rparr>
     | Ix_open _ _ _ \<Rightarrow> code 4
     | Ix_read _ _ \<Rightarrow> code_data 512 (replicate 512 (CHR 0x00))
     | _ \<Rightarrow> code 0), fuel = 1\<rparr>"

theorem hdl_mount_short_read_witness:
  "wp (hdlfs_mount 1 ''hdd0:PP.GAME'' FIO_MT_RDWR sample_state) short_env
     (\<lambda>(r, S') tr'. r = 512 \<and> mounted_unit S' 1 \<and>
     part_specs (hdl_fd S' 1) = part_specs (hdl_fd sample_state 1)) []"
  by (rule hdl_mount_short_read [where fd = 4 and
        st = "(code 0)\<lparr>rp_stat := zero_stat\<lparr>st_mode := HDL_FS_MAGIC\<rparr>\<rparr>"])
    (simp_all add: short_env_def returns_def sample_state_def)

end
