(* ===== verification/Hdlfs_Driver.thy ===== *)
theory Hdlfs_Driver
  imports Hdlfs_Props "HOL-Library.Multiset"
begin

text \<open>
  The HDLoader driver as iomanX sees it: the table of its operations, the states any sequence of
  requests reaches, and what holds in all of them: no unit stays locked, and the handles open on
  the device are exactly those of the mounted units.
\<close>

subsection \<open>The table of operations\<close>

datatype hdl_request =
    Rq_init
  | Rq_deinit
  | Rq_format string HDLFS_FormatArgs
  | Rq_open nat
  | Rq_close
  | Rq_read nat u32 "string option" int
  | Rq_write nat u32 "string option" int
  | Rq_lseek nat int int
  | Rq_ioctl
  | Rq_remove
  | Rq_mkdir
  | Rq_rmdir
  | Rq_dopen
  | Rq_dclose
  | Rq_dread
  | Rq_getstat nat
  | Rq_chstat nat iox_stat u32
  | Rq_rename
  | Rq_chdir
  | Rq_sync
  | Rq_mount nat string u32
  | Rq_umount nat
  | Rq_lseek64
  | Rq_devctl nat int string nat
  | Rq_symlink
  | Rq_readlink
  | Rq_ioctl2

definition hdlfs_NulldevFunction :: int where "hdlfs_NulldevFunction = - EIO"
definition hdlfs_close :: int where "hdlfs_close = 0"
definition hdlfs_dopen :: int where "hdlfs_dopen = 0"
definition hdlfs_dclose :: int where "hdlfs_dclose = 0"
definition hdlfs_dread :: int where "hdlfs_dread = 0"

definition same_state :: "hdl_state \<Rightarrow> int io \<Rightarrow> (int \<times> hdl_state) io" where
  "same_state S m = bindM m (\<lambda>r. retM (r, S))"

fun hdlfs_functarray :: "hdl_request \<Rightarrow> hdl_state \<Rightarrow> (int \<times> hdl_state) io" where
  "hdlfs_functarray Rq_init S = hdlfs_init S"
| "hdlfs_functarray Rq_deinit S = hdlfs_deinit S"
| "hdlfs_functarray (Rq_format dev args) S = same_state S (hdlfs_format dev args)"
| "hdlfs_functarray (Rq_open u) S = retM (hdlfs_open S u, S)"
| "hdlfs_functarray Rq_close S = retM (hdlfs_close, S)"
| "hdlfs_functarray (Rq_read u fl buf sz) S = bindM (hdlfs_read u fl buf sz S) (\<lambda>(r, _, S'). retM (r, S'))"
| "hdlfs_functarray (Rq_write u fl buf sz) S = bindM (hdlfs_write u fl buf sz S) (\<lambda>(r, _, S'). retM (r, S'))"
| "hdlfs_functarray (Rq_lseek u off wh) S = hdlfs_lseek u off wh S"
| "hdlfs_functarray Rq_ioctl S = retM (hdlfs_NulldevFunction, S)"
| "hdlfs_functarray Rq_remove S = retM (hdlfs_NulldevFunction, S)"
| "hdlfs_functarray Rq_mkdir S = retM (hdlfs_NulldevFunction, S)"
| "hdlfs_functarray Rq_rmdir S = retM (hdlfs_NulldevFunction, S)"
| "hdlfs_functarray Rq_dopen S = retM (hdlfs_dopen, S)"
| "hdlfs_functarray Rq_dclose S = retM (hdlfs_dclose, S)"
| "hdlfs_functarray Rq_dread S = retM (hdlfs_dread, S)"
| "hdlfs_functarray (Rq_getstat u) S = bindM (hdlfs_getstat u S) (\<lambda>(r, _). retM (r, S))"
| "hdlfs_functarray (Rq_chstat u st fl) S = same_state S (hdlfs_chstat u st fl S)"
| "hdlfs_functarray Rq_rename S = retM (hdlfs_NulldevFunction, S)"
| "hdlfs_functarray Rq_chdir S = retM (hdlfs_NulldevFunction, S)"
| "hdlfs_functarray Rq_sync S = retM (hdlfs_NulldevFunction, S)"
| "hdlfs_functarray (Rq_mount u dev fl) S = hdlfs_mount u dev fl S"
| "hdlfs_functarray (Rq_umount u) S = hdlfs_umount u S"
| "hdlfs_functarray Rq_lseek64 S = retM (hdlfs_NulldevFunction, S)"
| "hdlfs_functarray (Rq_devctl u cmd arg n) S = bindM (hdlfs_devctl u cmd arg n S) (\<lambda>(r, _). retM (r, S))"
| "hdlfs_functarray Rq_symlink S = retM (hdlfs_NulldevFunction, S)"
| "hdlfs_functarray Rq_readlink S = retM (hdlfs_NulldevFunction, S)"
| "hdlfs_functarray Rq_ioctl2 S = retM (hdlfs_NulldevFunction, S)"

text \<open>
  What iomanX asks of an initialised driver: transfers only on files it has opened, so on existing
  units, and mounts only on units that are not mounted.
\<close>

fun allowed :: "hdl_state \<Rightarrow> hdl_request \<Rightarrow> bool" where
  "allowed S Rq_init = False"
| "allowed S Rq_deinit = False"
| "allowed S (Rq_read u fl buf sz) = (u < MAX_AVAILABLE_FDs)"
| "allowed S (Rq_write u fl buf sz) = (u < MAX_AVAILABLE_FDs)"
| "allowed S (Rq_mount u dev fl) = (\<not> mounted_unit S u)"
| "allowed S _ = True"

inductive hdl_reaches :: "env \<Rightarrow> hdl_state \<Rightarrow> trace \<Rightarrow> bool" for E where
  start: "hdlfs_init S0 E [] = (Done (r, S), tr) \<Longrightarrow> hdl_reaches E S tr"
| serve: "hdl_reaches E S tr \<Longrightarrow> allowed S req \<Longrightarrow>
    hdlfs_functarray req S E tr = (Done (r, S'), tr') \<Longrightarrow> hdl_reaches E S' tr'"

subsection \<open>Locks\<close>

lemma held_formats [gwp]:
  "(\<And>v. Q v hs) \<Longrightarrow> gwp held_step (format_parts fd t n i r s h) Q hs"
  by (induction fd t n i r s h rule: format_parts.induct)
    (subst format_parts.simps, auto simp: Let_def intro!: gwp)

lemma lock_safe_bracketed:
  "lock_safe m \<Longrightarrow> (\<And>v. Q v hs) \<Longrightarrow> gwp held_step m Q hs"
  by (rule gwp_mono [where Q = "\<lambda>_ hs'. hs' = hs"]) (auto simp: lock_safe_def)

lemmas held_ops [gwp] = lock_safe_ops [THEN lock_safe_bracketed]

lemma held_sems [gwp]:
  "(\<And>v. Q v hs) \<Longrightarrow> gwp held_step (CreateSema sem) Q hs"
  "(\<And>v. Q v hs) \<Longrightarrow> gwp held_step (DeleteSema sem k) Q hs"
  by (auto simp: CreateSema_def DeleteSema_def Let_def intro!: gwp)

lemma held_fds [gwp]:
  "(\<And>v. Q v hs) \<Longrightarrow> gwp held_step (init_fds is S) Q hs"
  "(\<And>v. Q v hs) \<Longrightarrow> gwp held_step (deinit_fds is S) Q hs"
  by (induction "is" arbitrary: S) (auto intro!: gwp)

lemma lock_safe_functarray: "lock_safe (hdlfs_functarray req S)"
  unfolding lock_safe_def
  by (cases req)
    (auto simp: hdlfs_init_def hdlfs_deinit_def hdlfs_format_def same_state_def hdlfs_read_def hdlfs_write_def
      hdlfs_getstat_def hdlfs_devctl_def hdlfs_UpdateGameTitle_def hdlfs_umount_def Let_def
      intro!: gwp)

subsection \<open>Handles\<close>

text \<open>The handles of the mounted units.\<close>

definition mounts_of :: "hdl_state \<Rightarrow> int multiset" where
  "mounts_of S = mset (filter (\<lambda>fd. 0 \<le> fd) (map MountFD (FD_List S)))"

definition hdl_inv :: "hdl_state \<Rightarrow> ledger \<Rightarrow> bool" where
  "hdl_inv S L = (length (FD_List S) = MAX_AVAILABLE_FDs \<and> mset (lg_ix L) = mounts_of S)"

lemma two_units:
  assumes "hdl_inv S L"
  obtains f0 f1 where "FD_List S = [f0, f1]"
  using assms by (auto simp: hdl_inv_def length_Suc_conv numeral_2_eq_2)

lemmas unit_simps = hdl_inv_def mounts_of_def mounted_unit_def set_fd_def hdl_fd_def less_Suc_eq numeral_2_eq_2

lemma hdl_inv_same:
  assumes "hdl_inv S L" "u < MAX_AVAILABLE_FDs" "MountFD f = MountFD (hdl_fd S u)"
  shows "hdl_inv (set_fd u f S) L"
proof -
  obtain f0 f1 where "FD_List S = [f0, f1]" by (rule two_units [OF assms(1)])
  then show ?thesis using assms by (auto simp: unit_simps)
qed

lemma hdl_inv_unmounted:
  assumes "hdl_inv S L" "mounted_unit S u"
  shows "hdl_inv (set_fd u (f\<lparr>MountFD := - 1\<rparr>) S) (L\<lparr>lg_ix := remove1 (MountFD (hdl_fd S u)) (lg_ix L)\<rparr>)"
proof -
  obtain f0 f1 where "FD_List S = [f0, f1]" by (rule two_units [OF assms(1)])
  then show ?thesis
    using assms by (auto simp: unit_simps)
qed

lemma hdl_inv_mounted:
  assumes "hdl_inv S L" "u < MAX_AVAILABLE_FDs" "\<not> mounted_unit S u" "MountFD f = fd" "0 \<le> fd"
  shows "hdl_inv (set_fd u f S) (L\<lparr>lg_ix := fd # lg_ix L\<rparr>)"
proof -
  obtain f0 f1 where "FD_List S = [f0, f1]" by (rule two_units [OF assms(1)])
  then show ?thesis
    using assms by (auto simp: unit_simps)
qed

lemma hdl_inv_not_mounted:
  assumes "hdl_inv S L" "u < MAX_AVAILABLE_FDs" "\<not> mounted_unit S u" "MountFD f < 0"
  shows "hdl_inv (set_fd u f S) L"
proof -
  obtain f0 f1 where "FD_List S = [f0, f1]" by (rule two_units [OF assms(1)])
  then show ?thesis
    using assms by (auto simp: unit_simps)
qed

lemma emits_hdl [emits]:
  "emits_only neutral (WaitSema sem k)" "emits_only neutral (SignalSema sem k)"
  "emits_only neutral (CreateSema sem)" "emits_only neutral (DeleteSema sem k)"
  "emits_only neutral (io_body mode s)" "emits_only neutral (hdlfs_getstat_filler u w t p S)"
  "emits_only neutral (hdlfs_chstat u st fl S)" "emits_only neutral (hdlfs_UpdateGameTitle u name S)"
  by (auto simp: WaitSema_def SignalSema_def CreateSema_def DeleteSema_def io_body_def
      hdlfs_getstat_filler_def hdlfs_chstat_def hdlfs_UpdateGameTitle_def Let_def intro!: emits split: prod.splits)

lemma emits_hdl_loops [emits]:
  "emits_only neutral (sum_sizes fd is acc)" "emits_only neutral (format_parts fd t n i r s h)"
proof -
  show "emits_only neutral (sum_sizes fd is acc)"
    by (induction fd "is" acc rule: sum_sizes.induct) (auto intro!: emits)
  show "emits_only neutral (format_parts fd t n i r s h)"
    by (induction fd t n i r s h rule: format_parts.induct)
      (subst format_parts.simps, auto simp: Let_def intro!: emits)
qed

lemma ledger_sems [gwp]:
  "(\<And>v. Q v L) \<Longrightarrow> gwp ledger_step (WaitSema sem k) Q L"
  "(\<And>v. Q v L) \<Longrightarrow> gwp ledger_step (SignalSema sem k) Q L"
  "(\<And>v. R v L) \<Longrightarrow> gwp ledger_step (CreateSema sem) R L"
  "(\<And>v. R v L) \<Longrightarrow> gwp ledger_step (DeleteSema sem k) R L"
  "(\<And>v. P v L) \<Longrightarrow> gwp ledger_step (sum_sizes fd is acc) P L"
  by (rule gwp_neutral, auto intro!: emits)+

lemma io_place_mount: "io_place f = Some (f', n) \<Longrightarrow> MountFD f' = MountFD f"
  by (auto simp: io_place_def Let_def split: option.splits if_splits)

lemma ledger_io_loop [gwp]:
  assumes "\<And>f' out r. MountFD f' = MountFD f \<Longrightarrow> Q (f', out, r) L"
  shows "gwp ledger_step (loopM (io_body mode) (f, n, buf, out, r)) Q L"
  by (rule gwp_loopM [where I = "\<lambda>(f', _) L'. L' = L \<and> MountFD f' = MountFD f"])
    (use assms in \<open>auto simp: io_body_def Let_def io_place_mount intro!: gwp split: prod.splits\<close>)

definition keeps_mounts :: "hdl_state \<Rightarrow> (int \<times> hdl_state) io \<Rightarrow> bool" where
  "keeps_mounts S m = (\<forall>L. hdl_inv S L \<longrightarrow> gwp ledger_step m (\<lambda>(_, S'). hdl_inv S') L)"

lemma keeps_mountsI: "(\<And>L. hdl_inv S L \<Longrightarrow> gwp ledger_step m (\<lambda>(_, S'). hdl_inv S') L) \<Longrightarrow> keeps_mounts S m"
  by (simp add: keeps_mounts_def)

lemma keeps_mounts_same: "balanced m \<Longrightarrow> keeps_mounts S (same_state S m)"
  by (auto simp: same_state_def intro!: keeps_mountsI gwp_bind gwp_balanced gwp)

lemma balanced_format: "balanced (hdlfs_format dev args)"
  by (auto simp: balanced_def hdlfs_format_def Let_def intro!: gwp gwp_neutral [OF emits_hdl_loops(2)])

lemma keeps_mounts_io: "u < MAX_AVAILABLE_FDs \<Longrightarrow>
    keeps_mounts S (bindM (hdlfs_io_internal u buf sz mode S) (\<lambda>(r, _, S'). retM (r, S')))"
  by (auto simp: hdlfs_io_internal_def Let_def intro!: keeps_mountsI gwp hdl_inv_same)

lemma keeps_mounts_lseek: "keeps_mounts S (hdlfs_lseek u off wh S)"
  by (auto simp: hdlfs_lseek_def mounted_unit_def Let_def intro!: keeps_mountsI gwp hdl_inv_same)

lemma keeps_mounts_mount: "\<not> mounted_unit S u \<Longrightarrow> keeps_mounts S (hdlfs_mount u dev fl S)"
  by (auto simp: hdlfs_mount_def Let_def hdl_inv_mounted hdl_inv_not_mounted intro!: keeps_mountsI gwp)

lemma keeps_mounts_unmount: "keeps_mounts S (unmount u S)"
  by (auto simp: unmount_def Let_def mounted_unit_def hdl_inv_unmounted intro!: keeps_mountsI gwp)

lemma keeps_mountsD: "keeps_mounts S m \<Longrightarrow> hdl_inv S L \<Longrightarrow>
    (\<And>r S' L'. hdl_inv S' L' \<Longrightarrow> Q (r, S') L') \<Longrightarrow> gwp ledger_step m Q L"
  by (rule gwp_mono [where Q = "\<lambda>(_, S'). hdl_inv S'"]) (auto simp: keeps_mounts_def)

lemma hdl_inv_sems [simp]: "hdl_inv (S\<lparr>hd_sems := sems\<rparr>) L = hdl_inv S L"
  by (simp add: hdl_inv_def mounts_of_def)

lemma keeps_mounts_only: "balanced m \<Longrightarrow> keeps_mounts S (bindM m (\<lambda>(r, _). retM (r, S)))"
  by (auto intro!: keeps_mountsI gwp_bind gwp_balanced gwp)

lemma balanced_stat:
  "balanced (hdlfs_getstat u S)" "balanced (hdlfs_devctl u cmd arg n S)" "balanced (hdlfs_chstat u st fl S)"
  by (auto simp: hdlfs_getstat_def hdlfs_devctl_def intro!: balanced_neutral emits)

lemma keeps_mounts_pure [simp]: "keeps_mounts S (retM (r, S))"
  "keeps_mounts S (bindM (retM (r, x, S)) (\<lambda>(r, _, S'). retM (r, S')))"
  by (auto intro!: keeps_mountsI gwp)

lemma keeps_mounts_functarray: "allowed S req \<Longrightarrow> keeps_mounts S (hdlfs_functarray req S)"
  by (cases req) (simp_all add: hdlfs_read_def hdlfs_write_def hdlfs_umount_def io_simps keeps_mounts_io
    keeps_mounts_lseek keeps_mounts_mount keeps_mounts_unmount keeps_mounts_same keeps_mounts_only
    balanced_format balanced_stat)

lemma gwp_init: "lg_ix L = [] \<Longrightarrow> gwp ledger_step (hdlfs_init S) (\<lambda>(_, S'). hdl_inv S') L"
  by (auto simp: hdlfs_init_def unit_simps intro!: gwp)

lemma gwp_deinit:
  assumes "hdl_inv S L"
  shows "gwp ledger_step (hdlfs_deinit S) (\<lambda>_ L'. mset (lg_ix L') = {#}) L"
proof -
  obtain f0 f1 where "FD_List S = [f0, f1]" by (rule two_units [OF assms])
  then show ?thesis
    using assms by (auto simp: hdlfs_deinit_def unmount_def unit_simps upt_rec Let_def simp del: mset_zero_iff intro!: gwp)
qed

subsection \<open>Reachable states\<close>

lemma gwp_reached:
  assumes "gwp st m Q (foldl st g0 tr)" "m E tr = (Done a, tr')"
  shows "Q a (foldl st g0 tr')"
  using gwp_wp [OF assms(1), of E] assms(2) by (simp add: wp_def)

lemma hdl_reaches_inv:
  assumes "hdl_reaches E S tr"
  shows "hdl_inv S (ledger_of tr) \<and> foldl held_step [] tr = []"
  using assms
proof induction
  case (start S0 r S tr)
  have "gwp ledger_step (hdlfs_init S0) (\<lambda>(_, S'). hdl_inv S') (ledger_of [])"
    by (rule gwp_init) (simp add: ledger_of_def)
  from gwp_reached [OF this [unfolded ledger_of_def] start] have "hdl_inv S (ledger_of tr)"
    by (simp add: ledger_of_def)
  moreover have "gwp held_step (hdlfs_functarray Rq_init S0) (\<lambda>_ hs. hs = []) (foldl held_step [] [])"
    using lock_safe_functarray [of Rq_init S0] by (simp add: lock_safe_def)
  from gwp_reached [OF this] start have "foldl held_step [] tr = []" by simp
  ultimately show ?case by simp
next
  case (serve S tr req r S' tr')
  have "gwp ledger_step (hdlfs_functarray req S) (\<lambda>(_, S'). hdl_inv S') (ledger_of tr)"
    using keeps_mounts_functarray [OF serve.hyps(2)] serve.IH by (simp add: keeps_mounts_def)
  from gwp_reached [OF this [unfolded ledger_of_def] serve.hyps(3)] have "hdl_inv S' (ledger_of tr')"
    by (simp add: ledger_of_def)
  moreover have "gwp held_step (hdlfs_functarray req S) (\<lambda>_ hs. hs = []) (foldl held_step [] tr)"
    using lock_safe_functarray [of req S] serve.IH by (simp add: lock_safe_def)
  from gwp_reached [OF this serve.hyps(3)] have "foldl held_step [] tr' = []" .
  ultimately show ?case by simp
qed


text \<open>A device whose game headers cannot be read whole: the unit is mounted all the same.\<close>

definition hdl_env :: env where
  "hdl_env = \<lparr>answer = (\<lambda>tr c. case c of
       Ix_getstat _ \<Rightarrow> (code 0)\<lparr>rp_stat := zero_stat\<lparr>st_mode := HDL_FS_MAGIC\<rparr>\<rparr>
     | Ix_open _ _ _ \<Rightarrow> code 4
     | Ix_read _ _ \<Rightarrow> code_data 512 (replicate 512 (CHR 0x00))
     | Malloc _ \<Rightarrow> code 9
     | _ \<Rightarrow> code 0), fuel = 1\<rparr>"

definition hdl_started :: hdl_state where
  "hdl_started = \<lparr>FD_List = [zero_fd\<lparr>MountFD := - 1, SemaID := 0\<rparr>, zero_fd\<lparr>MountFD := - 1, SemaID := 1\<rparr>],
     hd_sems = [True, True] @ replicate 98 False\<rparr>"

lemma create_run:
  "free_slot sem < 100 \<Longrightarrow> CreateSema sem hdl_env tr =
     (Done (int (free_slot sem), sem[free_slot sem := True]),
      tr @ [(Malloc 32, code 9), (Sem_init (free_slot sem), code 0)])"
  by (simp add: CreateSema_def hdl_env_def Let_def io_simps)

lemma hdl_started_reached: "\<exists>tr. hdl_reaches hdl_env hdl_started tr \<and> lg_ix (ledger_of tr) = []"
proof -
  have boot: "sem_boot = False # False # replicate 98 False"
    by (simp add: sem_boot_def eval_nat_numeral)
  have "\<exists>tr. hdlfs_init \<lparr>FD_List = [], hd_sems = sem_boot\<rparr> hdl_env [] = (Done (0, hdl_started), tr) \<and>
      lg_ix (ledger_of tr) = []"
    by (simp add: boot hdlfs_init_def bindM_def create_run upt_rec hdl_started_def set_fd_def
      hdl_fd_def ledger_of_def retM_def numeral_2_eq_2)
  then show ?thesis using hdl_reaches.start by blast
qed

definition hdl_mounted :: hdl_state where
  "hdl_mounted = set_fd 1 (zero_fd\<lparr>MountFD := 4, SemaID := 1\<rparr>) hdl_started"

lemma hdl_mount_run:
  "\<exists>evs. hdlfs_mount 1 ''hdd0:PP.GAME'' FIO_MT_RDWR hdl_started hdl_env tr = (Done (512, hdl_mounted), tr @ evs) \<and>
     foldl ledger_step L evs = L\<lparr>lg_ix := 4 # lg_ix L\<rparr>"
  by (simp add: hdlfs_mount_def WaitSema_def SignalSema_def hdl_env_def hdl_mounted_def hdl_started_def
    hdl_fd_def set_fd_def Let_def io_simps)


text \<open>A unit that is mounted again loses its handle: nothing but iomanX keeps it from happening.\<close>

theorem hdl_remount_leaks:
  "\<exists>tr'. hdlfs_mount 1 ''hdd0:PP.GAME'' FIO_MT_RDWR hdl_mounted hdl_env tr = (Done (512, hdl_mounted), tr') \<and>
     lg_ix (ledger_of tr') = 4 # lg_ix (ledger_of tr)"
  by (simp add: hdlfs_mount_def WaitSema_def SignalSema_def hdl_env_def hdl_mounted_def hdl_started_def
    hdl_fd_def set_fd_def Let_def io_simps)

end
