(* ===== verification/Modes.thy ===== *)
theory Modes
  imports Iomanx
begin

text \<open>
  File modes. The program translates between the mode words of iomanX and those of POSIX in
  three places: \<open>pfs2tar.c\<close> (for the tar header), \<open>iomanx_adapter.c\<close> (for FUSE) and
  \<open>host_adapter.c\<close>. The first copies each permission bit, the other two give a permission to
  everybody as soon as somebody has it. The locale \<open>mode_codec\<close> states what the three share;
  it is interpreted on each of them.
\<close>

named_theorems posix_modes \<open>the mode bits of POSIX (Linux values)\<close>

definition S_IFMT :: u32 where [posix_modes]: "S_IFMT = 0xF000"
definition S_IFDIR :: u32 where [posix_modes]: "S_IFDIR = 0x4000"
definition S_IFREG :: u32 where [posix_modes]: "S_IFREG = 0x8000"
definition S_IFLNK :: u32 where [posix_modes]: "S_IFLNK = 0xA000"
definition S_ISUID :: u32 where [posix_modes]: "S_ISUID = 0x800"
definition S_ISGID :: u32 where [posix_modes]: "S_ISGID = 0x400"
definition S_ISVTX :: u32 where [posix_modes]: "S_ISVTX = 0x200"
definition S_IRUSR :: u32 where [posix_modes]: "S_IRUSR = 0x100"
definition S_IWUSR :: u32 where [posix_modes]: "S_IWUSR = 0x080"
definition S_IXUSR :: u32 where [posix_modes]: "S_IXUSR = 0x040"
definition S_IRGRP :: u32 where [posix_modes]: "S_IRGRP = 0x020"
definition S_IWGRP :: u32 where [posix_modes]: "S_IWGRP = 0x010"
definition S_IXGRP :: u32 where [posix_modes]: "S_IXGRP = 0x008"
definition S_IROTH :: u32 where [posix_modes]: "S_IROTH = 0x004"
definition S_IWOTH :: u32 where [posix_modes]: "S_IWOTH = 0x002"
definition S_IXOTH :: u32 where [posix_modes]: "S_IXOTH = 0x001"

definition S_ISDIR :: "u32 \<Rightarrow> bool" where "S_ISDIR m = (m AND S_IFMT = S_IFDIR)"
definition S_ISREG :: "u32 \<Rightarrow> bool" where "S_ISREG m = (m AND S_IFMT = S_IFREG)"
definition S_ISLNK :: "u32 \<Rightarrow> bool" where "S_ISLNK m = (m AND S_IFMT = S_IFLNK)"

text \<open>\<open>if (cond) acc |= bits\<close>\<close>

definition or_if :: "bool \<Rightarrow> u32 \<Rightarrow> u32 \<Rightarrow> u32" where
  "or_if b bits acc = (if b then acc OR bits else acc)"

subsection \<open>The conversions of pfs2tar.c\<close>

definition tar_mode_to_posix :: "u32 \<Rightarrow> u32" where
  "tar_mode_to_posix iomanx_mode =
    (let p = 0;
         p = or_if (FIO_S_ISDIR iomanx_mode) 0x4000 p;
         p = or_if (FIO_S_ISREG iomanx_mode) 0x8000 p;
         p = or_if (FIO_S_ISLNK iomanx_mode) 0xA000 p;
         p = or_if (iomanx_mode AND FIO_S_IRUSR \<noteq> 0) 0x100 p;
         p = or_if (iomanx_mode AND FIO_S_IWUSR \<noteq> 0) 0x080 p;
         p = or_if (iomanx_mode AND FIO_S_IXUSR \<noteq> 0) 0x040 p;
         p = or_if (iomanx_mode AND FIO_S_IRGRP \<noteq> 0) 0x020 p;
         p = or_if (iomanx_mode AND FIO_S_IWGRP \<noteq> 0) 0x010 p;
         p = or_if (iomanx_mode AND FIO_S_IXGRP \<noteq> 0) 0x008 p;
         p = or_if (iomanx_mode AND FIO_S_IROTH \<noteq> 0) 0x004 p;
         p = or_if (iomanx_mode AND FIO_S_IWOTH \<noteq> 0) 0x002 p;
         p = or_if (iomanx_mode AND FIO_S_IXOTH \<noteq> 0) 0x001 p;
         p = or_if (iomanx_mode AND FIO_S_ISUID \<noteq> 0) 0x800 p;
         p = or_if (iomanx_mode AND FIO_S_ISGID \<noteq> 0) 0x400 p;
         p = or_if (iomanx_mode AND FIO_S_ISVTX \<noteq> 0) 0x200 p
     in p)"

definition convert_posix_mode_to_iomanx :: "u32 \<Rightarrow> u32" where
  "convert_posix_mode_to_iomanx posix_mode =
    (let m = 0;
         m = or_if (posix_mode AND 0xF000 = 0x4000) FIO_S_IFDIR m;
         m = or_if (posix_mode AND 0xF000 = 0x8000) FIO_S_IFREG m;
         m = or_if (posix_mode AND 0xF000 = 0xA000) FIO_S_IFLNK m;
         m = or_if (posix_mode AND 0x100 \<noteq> 0) FIO_S_IRUSR m;
         m = or_if (posix_mode AND 0x080 \<noteq> 0) FIO_S_IWUSR m;
         m = or_if (posix_mode AND 0x040 \<noteq> 0) FIO_S_IXUSR m;
         m = or_if (posix_mode AND 0x020 \<noteq> 0) FIO_S_IRGRP m;
         m = or_if (posix_mode AND 0x010 \<noteq> 0) FIO_S_IWGRP m;
         m = or_if (posix_mode AND 0x008 \<noteq> 0) FIO_S_IXGRP m;
         m = or_if (posix_mode AND 0x004 \<noteq> 0) FIO_S_IROTH m;
         m = or_if (posix_mode AND 0x002 \<noteq> 0) FIO_S_IWOTH m;
         m = or_if (posix_mode AND 0x001 \<noteq> 0) FIO_S_IXOTH m;
         m = or_if (posix_mode AND 0x800 \<noteq> 0) FIO_S_ISUID m;
         m = or_if (posix_mode AND 0x400 \<noteq> 0) FIO_S_ISGID m;
         m = or_if (posix_mode AND 0x200 \<noteq> 0) FIO_S_ISVTX m
     in m)"

subsection \<open>The conversions of iomanx_adapter.c\<close>

definition fuse_mode_to_posix :: "u32 \<Rightarrow> u32" where
  "fuse_mode_to_posix iomanx_mode =
    (let p = 0;
         p = or_if (FIO_S_ISDIR iomanx_mode) S_IFDIR p;
         p = or_if (FIO_S_ISREG iomanx_mode) S_IFREG p;
         p = or_if (FIO_S_ISLNK iomanx_mode) S_IFLNK p;
         p = or_if (iomanx_mode AND (FIO_S_IRUSR OR FIO_S_IRGRP OR FIO_S_IROTH) \<noteq> 0)
               (S_IRUSR OR S_IRGRP OR S_IROTH) p;
         p = or_if (iomanx_mode AND (FIO_S_IWUSR OR FIO_S_IWGRP OR FIO_S_IWOTH) \<noteq> 0)
               (S_IWUSR OR S_IWGRP OR S_IWOTH) p;
         p = or_if (iomanx_mode AND (FIO_S_IXUSR OR FIO_S_IXGRP OR FIO_S_IXOTH) \<noteq> 0)
               (S_IXUSR OR S_IXGRP OR S_IXOTH) p;
         p = or_if (iomanx_mode AND FIO_S_ISUID \<noteq> 0) S_ISUID p;
         p = or_if (iomanx_mode AND FIO_S_ISGID \<noteq> 0) S_ISGID p;
         p = or_if (iomanx_mode AND FIO_S_ISVTX \<noteq> 0) S_ISVTX p
     in p)"

definition fuse_mode_to_iomanx :: "u32 \<Rightarrow> u32" where
  "fuse_mode_to_iomanx posix_mode =
    (let m = 0;
         m = or_if (S_ISDIR posix_mode) FIO_S_IFDIR m;
         m = or_if (S_ISREG posix_mode) FIO_S_IFREG m;
         m = or_if (S_ISLNK posix_mode) FIO_S_IFLNK m;
         m = or_if (posix_mode AND (S_IRUSR OR S_IRGRP OR S_IROTH) \<noteq> 0)
               (FIO_S_IRUSR OR FIO_S_IRGRP OR FIO_S_IROTH) m;
         m = or_if (posix_mode AND (S_IWUSR OR S_IWGRP OR S_IWOTH) \<noteq> 0)
               (FIO_S_IWUSR OR FIO_S_IWGRP OR FIO_S_IWOTH) m;
         m = or_if (posix_mode AND (S_IXUSR OR S_IXGRP OR S_IXOTH) \<noteq> 0)
               (FIO_S_IXUSR OR FIO_S_IXGRP OR FIO_S_IXOTH) m;
         m = or_if (posix_mode AND S_ISUID \<noteq> 0) FIO_S_ISUID m;
         m = or_if (posix_mode AND S_ISGID \<noteq> 0) FIO_S_ISGID m;
         m = or_if (posix_mode AND S_ISVTX \<noteq> 0) FIO_S_ISVTX m
     in m)"

subsection \<open>The conversions of host_adapter.c\<close>

definition host_mode_to_posix :: "u32 \<Rightarrow> u32" where
  "host_mode_to_posix iomanx_mode =
    (let p = 0;
         p = or_if (FIO_S_ISDIR iomanx_mode) S_IFDIR p;
         p = or_if (FIO_S_ISREG iomanx_mode) S_IFREG p;
         p = or_if (FIO_S_ISLNK iomanx_mode) S_IFLNK p;
         p = or_if (iomanx_mode AND (FIO_S_IRUSR OR FIO_S_IRGRP OR FIO_S_IROTH) \<noteq> 0)
               (S_IRUSR OR S_IRGRP OR S_IROTH) p;
         p = or_if (iomanx_mode AND (FIO_S_IWUSR OR FIO_S_IWGRP OR FIO_S_IWOTH) \<noteq> 0)
               (S_IWUSR OR S_IWGRP OR S_IWOTH) p;
         p = or_if (iomanx_mode AND (FIO_S_IXUSR OR FIO_S_IXGRP OR FIO_S_IXOTH) \<noteq> 0)
               (S_IXUSR OR S_IXGRP OR S_IXOTH) p;
         p = or_if (iomanx_mode AND FIO_S_ISUID \<noteq> 0) S_ISUID p;
         p = or_if (iomanx_mode AND FIO_S_ISGID \<noteq> 0) S_ISGID p;
         p = or_if (iomanx_mode AND FIO_S_ISVTX \<noteq> 0) S_ISVTX p
     in p)"

definition host_mode_to_iomanx :: "u32 \<Rightarrow> u32" where
  "host_mode_to_iomanx posix_mode =
    (let m = 0;
         m = or_if (S_ISDIR posix_mode) FIO_S_IFDIR m;
         m = or_if (S_ISREG posix_mode) FIO_S_IFREG m;
         m = or_if (S_ISLNK posix_mode) FIO_S_IFLNK m;
         m = or_if (posix_mode AND (S_IRUSR OR S_IRGRP OR S_IROTH) \<noteq> 0)
               (FIO_S_IRUSR OR FIO_S_IRGRP OR FIO_S_IROTH) m;
         m = or_if (posix_mode AND (S_IWUSR OR S_IWGRP OR S_IWOTH) \<noteq> 0)
               (FIO_S_IWUSR OR FIO_S_IWGRP OR FIO_S_IWOTH) m;
         m = or_if (posix_mode AND (S_IXUSR OR S_IXGRP OR S_IXOTH) \<noteq> 0)
               (FIO_S_IXUSR OR FIO_S_IXGRP OR FIO_S_IXOTH) m;
         m = or_if (posix_mode AND S_ISUID \<noteq> 0) FIO_S_ISUID m;
         m = or_if (posix_mode AND S_ISGID \<noteq> 0) FIO_S_ISGID m;
         m = or_if (posix_mode AND S_ISVTX \<noteq> 0) FIO_S_ISVTX m
     in m)"

subsection \<open>Normal forms\<close>

text \<open>The file type of the one encoding written in the other, 0 when it has none there.\<close>

definition posix_type :: "u32 \<Rightarrow> u32" where
  "posix_type t = (if t = 0x1000 then 0x4000 else if t = 0x2000 then 0x8000
     else if t = 0x4000 then 0xA000 else 0)"

definition iox_type :: "u32 \<Rightarrow> u32" where
  "iox_type t = (if t = 0x4000 then 0x1000 else if t = 0x8000 then 0x2000
     else if t = 0xA000 then 0x4000 else 0)"

definition known_type :: "u32 \<Rightarrow> bool" where
  "known_type m = (FIO_S_ISDIR m \<or> FIO_S_ISREG m \<or> FIO_S_ISLNK m)"

definition spread :: "u32 \<Rightarrow> u32" where
  "spread m = (if m AND 0x124 \<noteq> 0 then 0x124 else 0) OR (if m AND 0x092 \<noteq> 0 then 0x092 else 0)
     OR (if m AND 0x049 \<noteq> 0 then 0x049 else 0)"

lemma or_if_bit: "or_if (m AND 2 ^ n \<noteq> 0) (2 ^ n) p = p OR (m AND 2 ^ n)"
proof (cases "bit m n")
  case True
  then have "m AND 2 ^ n = 2 ^ n"
    by (intro bit_word_eqI) (auto simp: bit_simps)
  moreover have "n < 32" using bit_imp_le_length [OF True] by simp
  ultimately show ?thesis by (simp add: or_if_def)
next
  case False
  then have "m AND 2 ^ n = 0"
    by (intro bit_word_eqI) (auto simp: bit_simps)
  then show ?thesis by (simp add: or_if_def)
qed

lemma or_if_bits:
  "or_if (m AND 1 \<noteq> 0) 1 p = p OR (m AND 1)"
  "or_if (m AND 2 \<noteq> 0) 2 p = p OR (m AND 2)"
  "or_if (m AND 4 \<noteq> 0) 4 p = p OR (m AND 4)"
  "or_if (m AND 8 \<noteq> 0) 8 p = p OR (m AND 8)"
  "or_if (m AND 0x10 \<noteq> 0) 0x10 p = p OR (m AND 0x10)"
  "or_if (m AND 0x20 \<noteq> 0) 0x20 p = p OR (m AND 0x20)"
  "or_if (m AND 0x40 \<noteq> 0) 0x40 p = p OR (m AND 0x40)"
  "or_if (m AND 0x80 \<noteq> 0) 0x80 p = p OR (m AND 0x80)"
  "or_if (m AND 0x100 \<noteq> 0) 0x100 p = p OR (m AND 0x100)"
  "or_if (m AND 0x200 \<noteq> 0) 0x200 p = p OR (m AND 0x200)"
  "or_if (m AND 0x400 \<noteq> 0) 0x400 p = p OR (m AND 0x400)"
  "or_if (m AND 0x800 \<noteq> 0) 0x800 p = p OR (m AND 0x800)"
  using or_if_bit [of m 0 p] or_if_bit [of m 1 p] or_if_bit [of m 2 p] or_if_bit [of m 3 p]
    or_if_bit [of m 4 p] or_if_bit [of m 5 p] or_if_bit [of m 6 p] or_if_bit [of m 7 p]
    or_if_bit [of m 8 p] or_if_bit [of m 9 p] or_if_bit [of m 10 p] or_if_bit [of m 11 p]
  by simp_all

lemma or_and_collect: "((t :: u32) OR (m AND a)) OR (m AND b) = t OR (m AND (a OR b))"
  by (simp add: bit.conj_disj_distrib or.assoc)

lemma or_if_type:
  "or_if (t = 0x4000) 0xA000 (or_if (t = 0x2000) 0x8000 (or_if (t = 0x1000) 0x4000 0)) = posix_type t"
  "or_if (t = 0xA000) 0x4000 (or_if (t = 0x8000) 0x2000 (or_if (t = 0x4000) 0x1000 0)) = iox_type t"
  by (simp_all add: or_if_def posix_type_def iox_type_def)

lemmas mode_consts = fio posix_modes FIO_S_ISDIR_def FIO_S_ISREG_def FIO_S_ISLNK_def
  S_ISDIR_def S_ISREG_def S_ISLNK_def

lemma tar_mode_to_posix_nf: "tar_mode_to_posix m = posix_type (m AND 0xF000) OR (m AND 0xFFF)"
  unfolding tar_mode_to_posix_def Let_def mode_consts or_if_type or_if_bits or_and_collect
  by simp

lemma convert_posix_mode_nf:
  "convert_posix_mode_to_iomanx p = iox_type (p AND 0xF000) OR (p AND 0xFFF)"
  unfolding convert_posix_mode_to_iomanx_def Let_def mode_consts or_if_type or_if_bits or_and_collect
  by simp

lemma or_if_spread:
  "or_if (m AND 0x49 \<noteq> 0) 0x49 (or_if (m AND 0x92 \<noteq> 0) 0x92
     (or_if (m AND 0x124 \<noteq> 0) 0x124 t)) = t OR spread m"
  by (simp add: or_if_def spread_def or.assoc)

lemma fuse_mode_to_posix_nf:
  "fuse_mode_to_posix m = (posix_type (m AND 0xF000) OR spread m) OR (m AND 0xE00)"
  unfolding fuse_mode_to_posix_def Let_def mode_consts
  by (simp add: or_if_type or_if_spread or_if_bits or_and_collect)

lemma fuse_mode_to_iomanx_nf:
  "fuse_mode_to_iomanx p = (iox_type (p AND 0xF000) OR spread p) OR (p AND 0xE00)"
  unfolding fuse_mode_to_iomanx_def Let_def mode_consts
  by (simp add: or_if_type or_if_spread or_if_bits or_and_collect)

lemma host_mode_to_posix_nf:
  "host_mode_to_posix m = (posix_type (m AND 0xF000) OR spread m) OR (m AND 0xE00)"
  unfolding host_mode_to_posix_def Let_def mode_consts
  by (simp add: or_if_type or_if_spread or_if_bits or_and_collect)

lemma host_mode_to_iomanx_nf:
  "host_mode_to_iomanx p = (iox_type (p AND 0xF000) OR spread p) OR (p AND 0xE00)"
  unfolding host_mode_to_iomanx_def Let_def mode_consts
  by (simp add: or_if_type or_if_spread or_if_bits or_and_collect)

subsection \<open>What the three translations share\<close>

text \<open>
  A codec keeps the three special bits, maps the file type, and turns the nine permission
  bits into \<open>perms m\<close>, which depends on those bits only and is a closure.
\<close>

locale mode_codec =
  fixes to_posix :: "u32 \<Rightarrow> u32" and to_iox :: "u32 \<Rightarrow> u32" and perms :: "u32 \<Rightarrow> u32"
  assumes to_posix: "to_posix m = (posix_type (m AND 0xF000) OR perms m) OR (m AND 0xE00)"
    and to_iox: "to_iox p = (iox_type (p AND 0xF000) OR perms p) OR (p AND 0xE00)"
    and perms_low: "perms (m AND 0x1FF) = perms m"
    and perms_range: "perms m AND 0x1FF = perms m"
    and perms_idem: "perms (perms m) = perms m"
    and perms_ext: "(m AND 0x1FF) AND perms m = m AND 0x1FF"
begin

lemma perms_disjoint: "perms m AND 0xF000 = 0" "perms m AND 0xE00 = 0"
proof -
  have "perms m AND 0xF000 = (perms m AND 0x1FF) AND 0xF000" by (simp only: perms_range)
  then show "perms m AND 0xF000 = 0" by (simp add: and.assoc)
  have "perms m AND 0xE00 = (perms m AND 0x1FF) AND 0xE00" by (simp only: perms_range)
  then show "perms m AND 0xE00 = 0" by (simp add: and.assoc)
qed

lemma type_parts:
  "posix_type t AND 0xF000 = posix_type t" "posix_type t AND 0xE00 = 0" "posix_type t AND 0x1FF = 0"
  "iox_type t AND 0xF000 = iox_type t" "iox_type t AND 0xE00 = 0" "iox_type t AND 0x1FF = 0"
  by (simp_all add: posix_type_def iox_type_def)

lemma special_parts:
  "(m AND 0xE00) AND 0xF000 = (0 :: u32)" "(m AND 0xE00) AND 0xE00 = (m AND 0xE00 :: u32)"
  "(m AND 0xE00) AND 0x1FF = (0 :: u32)"
  by (simp_all add: and.assoc)

lemma perms_of_parts:
  assumes "t AND 0x1FF = 0"
  shows "perms ((t OR perms m) OR (m AND 0xE00)) = perms m"
proof -
  have "((t OR perms m) OR (m AND 0xE00)) AND 0x1FF = perms m"
    using assms by (simp add: bit.conj_disj_distrib2 perms_range special_parts)
  then have "perms (perms m) = perms ((t OR perms m) OR (m AND 0xE00))"
    by (metis perms_low)
  then show ?thesis by (simp add: perms_idem)
qed

lemma to_iox_to_posix:
  "to_iox (to_posix m) = (iox_type (posix_type (m AND 0xF000)) OR perms m) OR (m AND 0xE00)"
proof -
  have "to_posix m AND 0xF000 = posix_type (m AND 0xF000)" "to_posix m AND 0xE00 = m AND 0xE00"
    by (simp_all add: to_posix bit.conj_disj_distrib2 perms_disjoint type_parts special_parts)
  moreover have "perms (to_posix m) = perms m"
    unfolding to_posix by (rule perms_of_parts) (simp add: type_parts)
  ultimately show ?thesis by (simp add: to_iox)
qed

lemma to_posix_to_iox:
  "to_posix (to_iox p) = (posix_type (iox_type (p AND 0xF000)) OR perms p) OR (p AND 0xE00)"
proof -
  have "to_iox p AND 0xF000 = iox_type (p AND 0xF000)" "to_iox p AND 0xE00 = p AND 0xE00"
    by (simp_all add: to_iox bit.conj_disj_distrib2 perms_disjoint type_parts special_parts)
  moreover have "perms (to_iox p) = perms p"
    unfolding to_iox by (rule perms_of_parts) (simp add: type_parts)
  ultimately show ?thesis by (simp add: to_posix)
qed

text \<open>Translating twice adds nothing to translating once, and no permission is lost.\<close>

lemma to_iox_stable: "to_iox (to_posix (to_iox p)) = to_iox p"
proof -
  have "iox_type (posix_type (iox_type (p AND 0xF000))) = iox_type (p AND 0xF000)"
    by (simp add: iox_type_def posix_type_def)
  moreover have "to_iox p AND 0xF000 = iox_type (p AND 0xF000)" "to_iox p AND 0xE00 = p AND 0xE00"
    by (simp_all add: to_iox bit.conj_disj_distrib2 perms_disjoint type_parts special_parts)
  moreover have "perms (to_iox p) = perms p"
    unfolding to_iox by (rule perms_of_parts) (simp add: type_parts)
  ultimately show ?thesis by (simp add: to_iox_to_posix) (simp add: to_iox)
qed

lemma to_posix_keeps_perms: "(m AND 0x1FF) AND to_posix m = m AND 0x1FF"
proof -
  have "to_posix m AND 0x1FF = perms m"
    by (simp add: to_posix bit.conj_disj_distrib2 perms_range type_parts special_parts)
  then have "(m AND 0x1FF) AND to_posix m = m AND perms m"
    by (metis and.assoc and.commute)
  also have "\<dots> = (m AND 0x1FF) AND perms m"
    by (metis perms_range and.assoc and.commute)
  finally show ?thesis by (simp add: perms_ext)
qed

lemma known_type_iff: "known_type m \<longleftrightarrow> iox_type (posix_type (m AND 0xF000)) = m AND 0xF000 \<and> m AND 0xF000 \<noteq> 0"
  by (auto simp: known_type_def FIO_S_ISDIR_def FIO_S_ISREG_def FIO_S_ISLNK_def fio
      iox_type_def posix_type_def split: if_splits)

lemma to_iox_to_posix_known:
  "known_type m \<Longrightarrow> to_iox (to_posix m) = ((m AND 0xF000) OR perms m) OR (m AND 0xE00)"
  by (simp add: to_iox_to_posix known_type_iff)

end

subsection \<open>The three translations are codecs\<close>

lemma spread_low: "spread (m AND 0x1FF) = spread m"
  by (simp add: spread_def and.assoc)

lemma spread_range: "spread m AND 0x1FF = spread m"
  by (simp add: spread_def bit.conj_disj_distrib2)

lemma spread_idem: "spread (spread m) = spread m"
  by (cases "m AND 0x124 = 0"; cases "m AND 0x092 = 0"; cases "m AND 0x049 = 0")
    (simp_all add: spread_def)

lemma spread_class: "(if m AND c \<noteq> 0 then c else 0) AND (m AND c) = (m AND c :: u32)"
  by (simp add: and.left_commute)

lemma spread_ext: "(m AND 0x1FF) AND spread m = m AND 0x1FF"
proof -
  have sp: "c AND spread m = (if m AND c \<noteq> 0 then c else 0)" if "c \<in> {0x124, 0x092, 0x049}" for c
    using that by (auto simp: spread_def bit.conj_disj_distrib)
  have "(m AND c) AND spread m = m AND c" if "c \<in> {0x124, 0x092, 0x049}" for c
    using sp [OF that] by (simp add: and.assoc)
  then have "((m AND 0x124) OR (m AND 0x092) OR (m AND 0x049)) AND spread m =
      (m AND 0x124) OR (m AND 0x092) OR (m AND 0x049)"
    by (simp add: bit.conj_disj_distrib2)
  moreover have "(m AND 0x124) OR (m AND 0x092) OR (m AND 0x049) = m AND 0x1FF"
    by (simp flip: bit.conj_disj_distrib)
  ultimately show ?thesis by simp
qed

interpretation tar_modes: mode_codec tar_mode_to_posix convert_posix_mode_to_iomanx "\<lambda>m. m AND 0x1FF"
  by unfold_locales (simp_all add: tar_mode_to_posix_nf convert_posix_mode_nf or_and_collect and.assoc)

interpretation fuse_modes: mode_codec fuse_mode_to_posix fuse_mode_to_iomanx spread
  by unfold_locales (simp_all add: fuse_mode_to_posix_nf fuse_mode_to_iomanx_nf spread_low
      spread_range spread_idem spread_ext)

interpretation host_modes: mode_codec host_mode_to_posix host_mode_to_iomanx spread
  by unfold_locales (simp_all add: host_mode_to_posix_nf host_mode_to_iomanx_nf spread_low
      spread_range spread_idem spread_ext)

text \<open>The tar translation is exact: writing the mode of a directory, a file or a link into a
  tar header and reading it back gives the same sixteen bits.\<close>
theorem tar_mode_roundtrip:
  assumes "known_type m"
  shows "convert_posix_mode_to_iomanx (tar_mode_to_posix m) = m AND 0xFFFF"
  using tar_modes.to_iox_to_posix_known [OF assms]
  by (simp add: or_and_collect flip: bit.conj_disj_distrib)

theorem tar_mode_roundtrip_witness:
  "convert_posix_mode_to_iomanx (tar_mode_to_posix 0x21A4) = 0x21A4"
proof -
  have "known_type 0x21A4" by (simp add: known_type_def FIO_S_ISREG_def fio)
  from tar_mode_roundtrip [OF this] show ?thesis by simp
qed

text \<open>The FUSE and the host translation agree with each other; they keep the file type and
  the special bits, never lose a permission, grant a permission to all three classes when one
  has it, and translating a mode they produced changes nothing.\<close>
theorem coarse_modes:
  "fuse_mode_to_posix m = host_mode_to_posix m
   \<and> fuse_mode_to_iomanx m = host_mode_to_iomanx m
   \<and> fuse_mode_to_posix m AND 0x1FF = spread m
   \<and> (m AND 0x1FF) AND fuse_mode_to_posix m = m AND 0x1FF
   \<and> fuse_mode_to_iomanx (fuse_mode_to_posix (fuse_mode_to_iomanx m)) = fuse_mode_to_iomanx m"
proof (intro conjI)
  show "fuse_mode_to_posix m = host_mode_to_posix m"
    by (simp add: fuse_mode_to_posix_nf host_mode_to_posix_nf)
  show "fuse_mode_to_iomanx m = host_mode_to_iomanx m"
    by (simp add: fuse_mode_to_iomanx_nf host_mode_to_iomanx_nf)
  show "fuse_mode_to_posix m AND 0x1FF = spread m"
    by (simp add: fuse_mode_to_posix_nf bit.conj_disj_distrib2 spread_range
        fuse_modes.type_parts fuse_modes.special_parts)
qed (rule fuse_modes.to_posix_keeps_perms fuse_modes.to_iox_stable)+

end
