(* ===== verification/Time_Conv.thy ===== *)
theory Time_Conv
  imports Iomanx
begin

text \<open>
  Time stamps. A PFS time stamp is eight bytes (unused, second, minute, hour, day, month, year
  in little endian); the host counts seconds from 1970, and the program keeps nine hours (the
  offset of Japan standard time) between the two.
  \<open>pfs2tar.c\<close> and \<open>iomanx_adapter.c\<close> convert in both directions through the C library's
  \<open>timegm\<close> and \<open>gmtime\<close>, \<open>host_adapter.c\<close> in one. The locale \<open>time_codec\<close> states what makes
  a pair of conversions inverse to each other; it is interpreted on both pairs.
\<close>

subsection \<open>The calendar of timegm and gmtime\<close>

record tm =
  tm_sec :: int
  tm_min :: int
  tm_hour :: int
  tm_mday :: int
  tm_mon :: int
  tm_year :: int

definition leap :: "int \<Rightarrow> bool" where
  "leap y = (y mod 4 = 0 \<and> (y mod 100 \<noteq> 0 \<or> y mod 400 = 0))"

definition ylen :: "int \<Rightarrow> int" where
  "ylen y = (if leap y then 366 else 365)"

definition mlens :: "int \<Rightarrow> int list" where
  "mlens y = [31, if leap y then 29 else 28, 31, 30, 31, 30, 31, 31, 30, 31, 30, 31]"

text \<open>Days from the first of January 1970 to the first of January of a year.\<close>

definition year_days :: "int \<Rightarrow> int" where
  "year_days y = 365 * (y - 1970) + (y - 1969) div 4 - (y - 1901) div 100 + (y - 1601) div 400"

definition timegm :: "tm \<Rightarrow> int" where
  "timegm t =
    (let y = 1900 + tm_year t + tm_mon t div 12; m = nat (tm_mon t mod 12);
         d = year_days y + sum_list (take m (mlens y)) + (tm_mday t - 1)
     in ((d * 24 + tm_hour t) * 60 + tm_min t) * 60 + tm_sec t)"

text \<open>The year of a day, and the day in it: whole cycles of 400 years, then year by year.\<close>

fun year_walk :: "nat \<Rightarrow> int \<Rightarrow> int \<Rightarrow> int \<times> int" where
  "year_walk 0 y d = (y, d)"
| "year_walk (Suc k) y d = (if d < ylen y then (y, d) else year_walk k (y + 1) (d - ylen y))"

definition year_of :: "int \<Rightarrow> int \<times> int" where
  "year_of d = year_walk 400 (1970 + 400 * (d div 146097)) (d mod 146097)"

fun month_walk :: "int list \<Rightarrow> int \<Rightarrow> nat \<times> int" where
  "month_walk [] d = (0, d)"
| "month_walk (l # ls) d =
     (if d < l then (0, d) else (case month_walk ls (d - l) of (m, e) \<Rightarrow> (Suc m, e)))"

text \<open>\<open>gmtime\<close> fails (NULL) when the year does not fit in an \<open>int\<close>.\<close>

definition gmtime :: "int \<Rightarrow> tm option" where
  "gmtime p =
    (let (y, yd) = year_of (p div 86400); (m, md) = month_walk (mlens y) yd; s = p mod 86400 in
     if - (2 ^ 31) \<le> y - 1900 \<and> y - 1900 < 2 ^ 31 then
       Some \<lparr>tm_sec = s mod 60, tm_min = s div 60 mod 60, tm_hour = s div 3600,
         tm_mday = md + 1, tm_mon = int m, tm_year = y - 1900\<rparr>
     else None)"

subsection \<open>The conversions\<close>

text \<open>The fields of a stamp; the year is \<open>t[6] | (t[7] << 8)\<close>.\<close>

definition stamp_tm :: "byte list \<Rightarrow> tm" where
  "stamp_tm t = \<lparr>tm_sec = uint (t ! 1), tm_min = uint (t ! 2), tm_hour = uint (t ! 3),
     tm_mday = uint (t ! 4), tm_mon = uint (t ! 5) - 1,
     tm_year = (uint (t ! 6) OR push_bit 8 (uint (t ! 7))) - 1900\<rparr>"

definition tm_stamp :: "tm \<Rightarrow> byte list" where
  "tm_stamp t = [0, word_of_int (tm_sec t), word_of_int (tm_min t), word_of_int (tm_hour t),
     word_of_int (tm_mday t), word_of_int (tm_mon t + 1), word_of_int (tm_year t + 1900),
     word_of_int (drop_bit 8 (tm_year t + 1900))]"

text \<open>\<open>pfs2tar.c\<close>; the NULL of \<open>gmtime\<close> is dereferenced there.\<close>

definition convert_iox_stat_time_to_posix :: "byte list \<Rightarrow> int" where
  "convert_iox_stat_time_to_posix t = timegm (stamp_tm t) + 9 * 60 * 60"

definition convert_posix_time_to_iox_time :: "int \<Rightarrow> byte list option" where
  "convert_posix_time_to_iox_time p =
     (case gmtime (p - 9 * 60 * 60) of None \<Rightarrow> None | Some t \<Rightarrow> Some (tm_stamp t))"

text \<open>\<open>iomanx_adapter.c\<close>, and \<open>host_adapter.c\<close> with the same body; when \<open>gmtime_r\<close> fails the local \<open>timeinfo\<close> keeps its old contents.\<close>

definition convert_time_to_posix :: "byte list \<Rightarrow> int" where
  "convert_time_to_posix t = timegm (stamp_tm t) + 9 * 60 * 60"

definition convert_time_to_iomanx :: "tm \<Rightarrow> int \<Rightarrow> byte list" where
  "convert_time_to_iomanx timeinfo p =
     (let t = (case gmtime (p - 9 * 60 * 60) of None \<Rightarrow> timeinfo | Some t \<Rightarrow> t) in
      [0, word_of_int (tm_sec t), word_of_int (tm_min t), word_of_int (tm_hour t),
       word_of_int (tm_mday t), word_of_int (tm_mon t + 1),
       word_of_int ((tm_year t + 1900) AND 0xFF),
       word_of_int (drop_bit 8 (tm_year t + 1900) AND 0xFF)])"

definition host_time_to_iomanx :: "tm \<Rightarrow> int \<Rightarrow> byte list" where
  "host_time_to_iomanx timeinfo p =
     (let t = (case gmtime (p - 9 * 60 * 60) of None \<Rightarrow> timeinfo | Some t \<Rightarrow> t) in
      [0, word_of_int (tm_sec t), word_of_int (tm_min t), word_of_int (tm_hour t),
       word_of_int (tm_mday t), word_of_int (tm_mon t + 1),
       word_of_int ((tm_year t + 1900) AND 0xFF),
       word_of_int (drop_bit 8 (tm_year t + 1900) AND 0xFF)])"

subsection \<open>The calendar\<close>

lemma div_step:
  fixes x n :: int
  assumes "0 < n"
  shows "(x + 1) div n = x div n + (if n dvd x + 1 then 1 else 0)"
proof -
  define q r where "q = x div n" and "r = x mod n"
  have x: "x = q * n + r" and r: "0 \<le> r" "r < n"
    using assms by (simp_all add: q_def r_def)
  show ?thesis
  proof (cases "r + 1 = n")
    case True
    then have "x + 1 = (q + 1) * n" by (simp add: x algebra_simps)
    moreover have "x div n = q" by (simp add: q_def)
    ultimately show ?thesis using assms by simp
  next
    case False
    then have "(x + 1) div n = q" "(x + 1) mod n = r + 1"
      using r by (simp_all add: x add.assoc)
    with r show ?thesis by (auto simp: q_def dvd_eq_mod_eq_0)
  qed
qed

lemma ylen_pos: "0 < ylen y" "ylen y \<le> 366"
  by (simp_all add: ylen_def)

lemma year_days_Suc: "year_days (y + 1) = year_days y + ylen y"
proof -
  define a b c where "a = (y - 1969) div 4" and "b = (y - 1901) div 100"
    and "c = (y - 1601) div 400"
  have "(y + 1 - 1969) div 4 = a + (if 4 dvd y then 1 else 0)"
    using div_step [of 4 "y - 1969"] dvd_diff_left_iff [of 4 1968 y] by (simp add: a_def)
  moreover have "(y + 1 - 1901) div 100 = b + (if 100 dvd y then 1 else 0)"
    using div_step [of 100 "y - 1901"] dvd_diff_left_iff [of 100 1900 y] by (simp add: b_def)
  moreover have "(y + 1 - 1601) div 400 = c + (if 400 dvd y then 1 else 0)"
    using div_step [of 400 "y - 1601"] dvd_diff_left_iff [of 400 1600 y] by (simp add: c_def)
  moreover have "year_days y = 365 * (y - 1970) + a - b + c"
    by (simp only: year_days_def a_def b_def c_def)
  moreover have "100 dvd y" if "400 dvd y" using that by (rule dvd_trans [rotated]) simp
  moreover have "4 dvd y" if "100 dvd y" using that by (rule dvd_trans [rotated]) simp
  ultimately show ?thesis
    unfolding year_days_def [of "y + 1"] ylen_def leap_def mod_eq_0_iff_dvd
    by (simp only: split: if_splits) auto
qed

lemma year_days_era: "year_days (1970 + 400 * e) = 146097 * e"
proof -
  have "(1 + (100 * e) * 4) div 4 = 100 * e" "(69 + (4 * e) * 100) div 100 = 4 * e"
    "(369 + e * 400) div 400 = e"
    by (simp_all del: div_mult_self1_is_m)
  then show ?thesis by (simp add: year_days_def algebra_simps)
qed

lemma year_days_mono: "year_days y \<le> year_days (y + int k)"
proof (induction k)
  case (Suc k)
  then show ?case
    using year_days_Suc [of "y + int k"] ylen_pos [of "y + int k"] by (simp add: algebra_simps)
qed simp

lemma year_days_less: "y < z \<Longrightarrow> year_days y + ylen y \<le> year_days z"
  using year_days_mono [of "y + 1" "nat (z - y - 1)"] year_days_Suc [of y] by (simp split: if_splits)

text \<open>A day has one year and one day in it.\<close>

lemma year_unique:
  assumes "year_days y + d = year_days z + e" "0 \<le> d" "d < ylen y" "0 \<le> e" "e < ylen z"
  shows "y = z \<and> d = e"
proof (cases y z rule: linorder_cases)
  case less
  from year_days_less [OF this] assms show ?thesis by linarith
next
  case greater
  from year_days_less [OF this] assms show ?thesis by linarith
qed (use assms in simp)

lemma year_walk:
  "0 \<le> d \<Longrightarrow> d < year_days (y + int k) - year_days y \<Longrightarrow> year_walk k y d = (z, e) \<Longrightarrow>
     year_days y + d = year_days z + e \<and> 0 \<le> e \<and> e < ylen z"
proof (induction k arbitrary: y d)
  case (Suc k)
  show ?case
  proof (cases "d < ylen y")
    case False
    then have "d - ylen y < year_days (y + 1 + int k) - year_days (y + 1)" "0 \<le> d - ylen y"
      using Suc.prems(2) year_days_Suc [of y] by (auto simp: algebra_simps)
    then show ?thesis
      using Suc.IH [of "d - ylen y" "y + 1"] Suc.prems(3) False year_days_Suc [of y] by simp
  qed (use Suc.prems in auto)
qed simp

lemma year_of:
  assumes "year_of d = (y, e)"
  shows "d = year_days y + e" "0 \<le> e" "e < ylen y"
proof -
  let ?y = "1970 + 400 * (d div 146097)"
  have "year_days (?y + int 400) = 146097 * (d div 146097 + 1)"
    using year_days_era [of "d div 146097 + 1"] by (simp add: algebra_simps)
  then have "d mod 146097 < year_days (?y + int 400) - year_days ?y"
    by (simp add: year_days_era algebra_simps)
  from year_walk [OF _ this assms [unfolded year_of_def]]
  show "d = year_days y + e" "0 \<le> e" "e < ylen y"
    by (simp_all add: year_days_era)
qed

lemma year_of_days: "0 \<le> d \<Longrightarrow> d < ylen y \<Longrightarrow> year_of (year_days y + d) = (y, d)"
proof -
  assume d: "0 \<le> d" "d < ylen y"
  obtain z e where "year_of (year_days y + d) = (z, e)" by fastforce
  with year_of [OF this] year_unique [of y d z e] d show ?thesis by simp
qed

lemma month_walk:
  "0 \<le> d \<Longrightarrow> d < sum_list ls \<Longrightarrow> month_walk ls d = (m, e) \<Longrightarrow>
     d = sum_list (take m ls) + e \<and> m < length ls \<and> 0 \<le> e \<and> e < ls ! m"
proof (induction ls arbitrary: d m e)
  case (Cons l ls)
  show ?case
  proof (cases "d < l")
    case False
    obtain m' e' where "month_walk ls (d - l) = (m', e')" by fastforce
    with Cons.IH [of "d - l" m' e'] Cons.prems False show ?thesis by auto
  qed (use Cons.prems in auto)
qed simp

lemma month_walk_sum:
  "m < length ls \<Longrightarrow> \<forall>l \<in> set ls. 0 \<le> l \<Longrightarrow> 0 \<le> e \<Longrightarrow> e < ls ! m \<Longrightarrow>
     month_walk ls (sum_list (take m ls) + e) = (m, e)"
proof (induction ls arbitrary: m)
  case (Cons l ls)
  show ?case
  proof (cases m)
    case (Suc k)
    have "0 \<le> sum_list (take k ls)"
      using Cons.prems(2) by (intro sum_list_nonneg) (auto dest: in_set_takeD)
    with Cons Suc show ?thesis by simp
  qed (use Cons.prems in simp)
qed simp

definition tm_ok :: "tm \<Rightarrow> bool" where
  "tm_ok t = (0 \<le> tm_sec t \<and> tm_sec t < 60 \<and> 0 \<le> tm_min t \<and> tm_min t < 60 \<and>
     0 \<le> tm_hour t \<and> tm_hour t < 24 \<and> 0 \<le> tm_mon t \<and> tm_mon t < 12 \<and>
     1 \<le> tm_mday t \<and> tm_mday t \<le> mlens (tm_year t + 1900) ! nat (tm_mon t) \<and>
     - (2 ^ 31) \<le> tm_year t \<and> tm_year t < 2 ^ 31)"

lemma length_mlens [simp]: "length (mlens y) = 12"
  by (simp add: mlens_def)

lemma sum_mlens [simp]: "sum_list (mlens y) = ylen y"
  by (simp add: mlens_def ylen_def)

lemma mlens_nonneg: "\<forall>l \<in> set (mlens y). 0 \<le> l" "\<forall>l \<in> set (mlens y). l \<le> 31"
  by (simp_all add: mlens_def)

lemma sum_take_le:
  fixes ls :: "int list"
  shows "\<forall>l \<in> set ls. 0 \<le> l \<Longrightarrow> m < length ls \<Longrightarrow> sum_list (take m ls) + ls ! m \<le> sum_list ls"
proof (induction ls arbitrary: m)
  case (Cons l ls)
  have "0 \<le> sum_list ls" using Cons.prems(1) by (intro sum_list_nonneg) auto
  with Cons show ?case by (cases m) auto
qed simp

lemma sixty:
  fixes h m s :: int
  assumes "0 \<le> s" "s < 60" "0 \<le> m" "m < 60" "0 \<le> h" "h < 24"
  shows "0 \<le> 3600 * h + 60 * m + s" "3600 * h + 60 * m + s < 86400"
    "(3600 * h + 60 * m + s) mod 60 = s" "(3600 * h + 60 * m + s) div 60 mod 60 = m"
    "(3600 * h + 60 * m + s) div 3600 = h"
proof -
  show b: "0 \<le> 3600 * h + 60 * m + s" "3600 * h + 60 * m + s < 86400" using assms by linarith+
  have "3600 * h + 60 * m + s = s + 60 * (60 * h + m)" by simp
  then show "(3600 * h + 60 * m + s) mod 60 = s" "(3600 * h + 60 * m + s) div 60 mod 60 = m"
    using assms by (simp_all only: mod_mult_self2 div_mult_self2 mod_pos_pos_trivial)
      (simp_all add: mod_pos_pos_trivial)
  have "3600 * h + 60 * m + s = (60 * m + s) + 3600 * h" "60 * m + s < 3600" using assms by auto
  then show "(3600 * h + 60 * m + s) div 3600 = h"
    using assms by (simp add: div_pos_pos_trivial)
qed

lemma gmtime_timegm: "tm_ok t \<Longrightarrow> gmtime (timegm t) = Some t"
proof -
  assume ok: "tm_ok t"
  define y m where "y = 1900 + tm_year t" and "m = nat (tm_mon t)"
  define d where "d = sum_list (take m (mlens y)) + (tm_mday t - 1)"
  define s where "s = 3600 * tm_hour t + 60 * tm_min t + tm_sec t"
  have b: "m < 12" "int m = tm_mon t" "0 \<le> tm_mday t - 1" "tm_mday t - 1 < mlens y ! m"
    using ok by (auto simp: tm_ok_def m_def y_def algebra_simps)
  have mon: "tm_mon t div 12 = 0" "nat (tm_mon t mod 12) = m"
    using ok by (auto simp: tm_ok_def m_def)
  note six = sixty [of "tm_sec t" "tm_min t" "tm_hour t"]
  have tg: "timegm t = 86400 * (year_days y + d) + s" and sb: "0 \<le> s" "s < 86400"
    and sd: "s mod 60 = tm_sec t" "s div 60 mod 60 = tm_min t" "s div 3600 = tm_hour t"
    using six ok by (simp_all add: tm_ok_def timegm_def Let_def m_def s_def d_def y_def add.assoc)
  have "0 \<le> sum_list (take m (mlens y))"
    using mlens_nonneg(1) [of y] by (intro sum_list_nonneg) (auto dest: in_set_takeD)
  then have d: "0 \<le> d" "d < ylen y"
    using sum_take_le [OF mlens_nonneg(1) [of y], of m] b by (simp_all add: d_def)
  have "timegm t div 86400 = year_days y + d" "timegm t mod 86400 = s"
    unfolding tg using sb by (simp_all del: distrib_left_numeral)
  moreover have "month_walk (mlens y) d = (m, tm_mday t - 1)"
    unfolding d_def using b mlens_nonneg(1) [of y] by (intro month_walk_sum) simp_all
  ultimately show ?thesis
    unfolding gmtime_def Let_def
    using ok b(2) sd by (simp only: year_of_days [OF d] prod.case) (simp add: tm_ok_def y_def)
qed

lemma timegm_gmtime: "gmtime p = Some t \<Longrightarrow> timegm t = p \<and> tm_ok t"
proof -
  assume g: "gmtime p = Some t"
  obtain y d where y: "year_of (p div 86400) = (y, d)" by fastforce
  obtain m e where m: "month_walk (mlens y) d = (m, e)" by fastforce
  define s where "s = p mod 86400"
  note yd = year_of [OF y]
  have md: "d = sum_list (take m (mlens y)) + e" "m < 12" "0 \<le> e" "e < mlens y ! m"
    using month_walk [OF yd(2) _ m] yd(3) by simp_all
  have s: "0 \<le> s" "s < 86400" by (simp_all add: s_def)
  have t: "t = \<lparr>tm_sec = s mod 60, tm_min = s div 60 mod 60, tm_hour = s div 3600,
      tm_mday = e + 1, tm_mon = int m, tm_year = y - 1900\<rparr>"
    and yb: "- (2 ^ 31) \<le> y - 1900" "y - 1900 < 2 ^ 31"
    using g by (auto simp: gmtime_def y m s_def Let_def split: if_splits)
  have mon: "int m div 12 = 0" "nat (int m mod 12) = m" using md(2) by simp_all
  have "timegm t = ((p div 86400 * 24 + s div 3600) * 60 + s div 60 mod 60) * 60 + s mod 60"
    by (simp add: timegm_def t mon Let_def yd(1) md(1) add.assoc)
  also have "\<dots> = 86400 * (p div 86400) + s"
  proof -
    have "s div 60 div 60 = s div 3600" using zdiv_zmult2_eq [of 60 s 60] by simp
    then have "s = (s div 3600 * 60 + s div 60 mod 60) * 60 + s mod 60"
      by (metis div_mult_mod_eq)
    then show ?thesis by (simp add: algebra_simps)
  qed
  also have "\<dots> = p" by (simp add: s_def)
  finally have "timegm t = p" .
  moreover have "0 \<le> s div 3600" "s div 3600 < 24"
    using s zdiv_mono1 [of s 86399 3600] by (simp_all add: pos_imp_zdiv_nonneg_iff)
  ultimately show ?thesis
    using md yb s by (simp add: tm_ok_def t)
qed

subsection \<open>Stamps\<close>

text \<open>A stamp as the program writes it: a valid time with a zero first byte.\<close>

definition stamp_ok :: "byte list \<Rightarrow> bool" where
  "stamp_ok t = (length t = 8 \<and> t ! 0 = 0 \<and> tm_ok (stamp_tm t))"

definition year16 :: "tm \<Rightarrow> bool" where
  "year16 t = (- 1900 \<le> tm_year t \<and> tm_year t < 2 ^ 16 - 1900)"

lemma year_bytes:
  "uint (a :: byte) OR push_bit 8 (uint (b :: byte)) = uint a + 256 * uint b"
proof -
  have "take_bit 8 (uint a) = uint a"
    using uint_bounded [of a] by (simp add: take_bit_int_eq_self)
  then show ?thesis
    using concat_bit_def [of 8 "uint a" "uint b"] concat_bit_eq [of 8 "uint a" "uint b"]
    by (simp add: push_bit_eq_mult)
qed

lemma byte_and_255: "(word_of_int (x AND 255) :: byte) = word_of_int x"
proof -
  have "x AND 255 = take_bit 8 x" by (simp add: take_bit_eq_mask mask_eq_exp_minus_1)
  then show ?thesis by (simp add: word_of_int_eq_iff)
qed

lemma uint_byte: "0 \<le> x \<Longrightarrow> x < 256 \<Longrightarrow> uint (word_of_int x :: byte) = x"
  by (simp add: uint_word_of_int)

lemma stamp_of_tm:
  assumes "tm_ok t" "year16 t"
  shows "stamp_tm (tm_stamp t) = t"
proof -
  define y where "y = tm_year t + 1900"
  have y: "0 \<le> y" "y < 65536" using assms(2) by (simp_all add: year16_def y_def)
  have "drop_bit 8 y = y div 256" by (simp add: drop_bit_eq_div)
  moreover have "0 \<le> y div 256" "y div 256 < 256"
    using y zdiv_mono1 [of y 65535 256] by (simp_all add: pos_imp_zdiv_nonneg_iff)
  moreover have "uint (word_of_int y :: byte) = y mod 256" by (simp add: uint_word_of_int)
  ultimately have "uint (word_of_int y :: byte) + 256 * uint (word_of_int (drop_bit 8 y) :: byte) = y"
    by (simp add: uint_byte)
  moreover have "tm_mday t < 256"
    using assms(1) mlens_nonneg(2) [of "tm_year t + 1900"]
    nth_mem [of "nat (tm_mon t)" "mlens (tm_year t + 1900)"] by (fastforce simp: tm_ok_def)
  moreover have "uint (word_of_int (tm_mon t + 1) :: byte) = tm_mon t + 1"
    using assms(1) by (intro uint_byte) (simp_all add: tm_ok_def)
  ultimately show ?thesis
    using assms(1) by (cases t) (simp add: stamp_tm_def tm_stamp_def tm_ok_def uint_byte year_bytes
      y_def del: of_int_add of_int_numeral)
qed

lemma tm_of_stamp:
  assumes "length t = 8" "t ! 0 = 0"
  shows "tm_stamp (stamp_tm t) = t"
proof -
  obtain a0 a1 a2 a3 a4 a5 a6 a7 where t: "t = [a0, a1, a2, a3, a4, a5, a6, a7]"
    using assms(1) by (auto simp: eval_nat_numeral length_Suc_conv)
  have "drop_bit 8 (uint a6 + 256 * uint a7) = uint a7"
    using uint_bounded [of a6] by (simp add: drop_bit_eq_div div_pos_pos_trivial)
  moreover have "(word_of_int (uint a6 + 256 * uint a7) :: byte) = a6"
  proof -
    have "(word_of_int (uint a6 + 256 * uint a7) :: byte) = word_of_int (uint a6)"
      unfolding word_of_int_eq_iff take_bit_eq_mod by simp
    then show ?thesis by simp
  qed
  ultimately show ?thesis
    using assms(2) by (simp add: t stamp_tm_def tm_stamp_def year_bytes del: of_int_add of_int_numeral)
qed

lemma year16_stamp: "year16 (stamp_tm t)"
  using uint_bounded [of "t ! 6"] uint_bounded [of "t ! 7"]
  by (simp add: year16_def stamp_tm_def year_bytes)

subsection \<open>Pairs of conversions\<close>

text \<open>The POSIX times whose year a stamp can hold: the years 0 to 65535, nine hours later.\<close>

definition in_stamp_range :: "int \<Rightarrow> bool" where
  "in_stamp_range p = (- 62167219200 \<le> p - 9 * 60 * 60 \<and> p - 9 * 60 * 60 < 2005949145600)"

lemma gmtime_range:
  assumes "in_stamp_range p"
  shows "\<exists>t. gmtime (p - 9 * 60 * 60) = Some t \<and> year16 t"
proof -
  define q where "q = p - 9 * 60 * 60"
  obtain y d where y: "year_of (q div 86400) = (y, d)" by fastforce
  obtain m e where m: "month_walk (mlens y) d = (m, e)" by fastforce
  have q: "- 719528 \<le> q div 86400" "q div 86400 < 23217004"
    using assms zdiv_mono1 [of "- 62167219200" q 86400] zdiv_mono1 [of q 2005949145599 86400]
    by (simp_all add: in_stamp_range_def q_def)
  have "year_days 0 = - 719528" "year_days 65536 = 23217004" by (simp_all add: year_days_def)
  then have "0 \<le> y" "y < 65536"
    using q year_of [OF y] year_days_less [of y 0] year_days_mono [of 65536 "nat (y - 65536)"]
    by (auto simp: not_le [symmetric])
  then have "\<exists>t. gmtime q = Some t \<and> year16 t"
    by (simp add: gmtime_def y m year16_def Let_def)
  then show ?thesis by (simp add: q_def)
qed

locale time_codec =
  fixes to_posix :: "byte list \<Rightarrow> int"
    and to_iox :: "int \<Rightarrow> byte list option"
  assumes to_posix: "to_posix s = timegm (stamp_tm s) + 9 * 60 * 60"
    and to_iox: "gmtime (p - 9 * 60 * 60) = Some t \<Longrightarrow> to_iox p = Some (tm_stamp t)"
begin

lemma stamp_inverse: "stamp_ok t \<Longrightarrow> to_iox (to_posix t) = Some t"
  by (simp add: stamp_ok_def to_posix to_iox gmtime_timegm tm_of_stamp)

lemma time_inverse:
  assumes "in_stamp_range p"
  shows "\<exists>t. to_iox p = Some t \<and> stamp_ok t \<and> to_posix t = p"
proof -
  obtain t where t: "gmtime (p - 9 * 60 * 60) = Some t" "year16 t"
    using gmtime_range [OF assms] by blast
  note g = timegm_gmtime [OF t(1)]
  have "stamp_ok (tm_stamp t)"
    using g stamp_of_tm [OF _ t(2)] by (simp add: stamp_ok_def) (simp add: tm_stamp_def)
  with g show ?thesis
    by (simp add: to_iox [OF t(1)] to_posix stamp_of_tm [OF _ t(2)])
qed

lemma stamps_distinct: "stamp_ok t \<Longrightarrow> stamp_ok u \<Longrightarrow> to_posix t = to_posix u \<Longrightarrow> t = u"
  using stamp_inverse by (metis option.inject)

end

lemma tm_stamp_masked:
  "[0, word_of_int (tm_sec t), word_of_int (tm_min t), word_of_int (tm_hour t),
     word_of_int (tm_mday t), word_of_int (tm_mon t + 1), word_of_int ((tm_year t + 1900) AND 0xFF),
     word_of_int (drop_bit 8 (tm_year t + 1900) AND 0xFF)] = tm_stamp t"
  by (simp add: tm_stamp_def byte_and_255)

interpretation tar_times: time_codec convert_iox_stat_time_to_posix convert_posix_time_to_iox_time
  by unfold_locales
    (simp_all add: convert_iox_stat_time_to_posix_def convert_posix_time_to_iox_time_def)

interpretation fuse_times: time_codec convert_time_to_posix
  "\<lambda>p. Some (convert_time_to_iomanx timeinfo p)" for timeinfo
  by unfold_locales
    (simp_all add: convert_time_to_posix_def convert_time_to_iomanx_def tm_stamp_masked Let_def
      del: of_int_add)

text \<open>Stamps written by the host file system driver are read by the other two programs.\<close>

interpretation host_times: time_codec convert_time_to_posix
  "\<lambda>p. Some (host_time_to_iomanx timeinfo p)" for timeinfo
  by unfold_locales
    (simp_all add: convert_time_to_posix_def host_time_to_iomanx_def tm_stamp_masked Let_def
      del: of_int_add)

text \<open>
  C19. Time stamps survive the trip to the host and back: a valid eight-byte stamp converted to
  POSIX time and back is the same stamp, in pfs2tar (header of the archive and back) and in the
  FUSE adapter (whatever was on the stack before \<open>gmtime_r\<close>).
\<close>

theorem stamp_roundtrip:
  assumes "stamp_ok t"
  shows "convert_posix_time_to_iox_time (convert_iox_stat_time_to_posix t) = Some t \<and>
    convert_time_to_iomanx timeinfo (convert_time_to_posix t) = t"
  using tar_times.stamp_inverse [OF assms] fuse_times.stamp_inverse [OF assms] by simp_all

text \<open>The 29th of February 2004, 23:59:58.\<close>

theorem stamp_roundtrip_witness:
  "stamp_ok [0, 58, 59, 23, 29, 2, 0xD4, 7] \<and>
   convert_posix_time_to_iox_time (convert_iox_stat_time_to_posix [0, 58, 59, 23, 29, 2, 0xD4, 7]) =
     Some [0, 58, 59, 23, 29, 2, 0xD4, 7]"
proof -
  have ok: "stamp_ok [0, 58, 59, 23, 29, 2, 0xD4, 7]"
    by (simp add: stamp_ok_def tm_ok_def stamp_tm_def year_bytes mlens_def leap_def)
  show ?thesis using stamp_roundtrip [OF ok] ok by simp
qed

text \<open>
  C20. In the other direction, every POSIX time of the years 0 to 65535 becomes a valid stamp
  from which the same second is read back: for pfs2tar, for the FUSE adapter and for stamps
  written by the host driver.
\<close>

theorem posix_time_roundtrip:
  assumes "in_stamp_range p"
  shows "(\<exists>t. convert_posix_time_to_iox_time p = Some t \<and> stamp_ok t \<and>
      convert_iox_stat_time_to_posix t = p) \<and>
    convert_time_to_posix (convert_time_to_iomanx timeinfo p) = p \<and>
    convert_time_to_posix (host_time_to_iomanx timeinfo p) = p"
  using tar_times.time_inverse [OF assms] fuse_times.time_inverse [OF assms]
    host_times.time_inverse [OF assms] by simp_all

theorem posix_time_roundtrip_witness:
  "in_stamp_range 1700000000 \<and>
   (\<exists>t. convert_posix_time_to_iox_time 1700000000 = Some t \<and> stamp_ok t \<and>
      convert_iox_stat_time_to_posix t = 1700000000)"
proof -
  have r: "in_stamp_range 1700000000" by (simp add: in_stamp_range_def)
  show ?thesis using posix_time_roundtrip [OF r] r by simp
qed

end
