(* ===== verification/Tar.thy ===== *)
theory Tar
  imports Modes Time_Conv Bytes Hl Atad
begin

text \<open>
  \<open>pfs2tar\<close> (\<open>src/src/pfs2tar.c\<close>): archiving the files of PFS partitions in a ustar file and
  restoring them. The header of a member is built and read as an array of 512 bytes, so that
  writes past its fields or its end are visible; the walk over a directory tree keeps the
  path in one buffer of 257 bytes. Messages on standard error are not modelled.
\<close>

subsection \<open>Fields of the header\<close>

abbreviation (input) NUL :: char where "NUL \<equiv> CHR 0x00"
abbreviation (input) H_NAME :: nat where "H_NAME \<equiv> 0"
abbreviation (input) H_MODE :: nat where "H_MODE \<equiv> 100"
abbreviation (input) H_SIZE :: nat where "H_SIZE \<equiv> 124"
abbreviation (input) H_MTIME :: nat where "H_MTIME \<equiv> 136"
abbreviation (input) H_CHK :: nat where "H_CHK \<equiv> 148"
abbreviation (input) H_TYPE :: nat where "H_TYPE \<equiv> 156"
abbreviation (input) H_LINK :: nat where "H_LINK \<equiv> 157"
abbreviation (input) H_MAGIC :: nat where "H_MAGIC \<equiv> 257"
abbreviation (input) H_VERS :: nat where "H_VERS \<equiv> 263"
abbreviation (input) H_NAME2 :: nat where "H_NAME2 \<equiv> 345"
abbreviation (input) H_END :: nat where "H_END \<equiv> 512"

text \<open>A write into the array \<open>b\<close>, a fault outside it.\<close>

definition putM :: "nat \<Rightarrow> string \<Rightarrow> string \<Rightarrow> string io" where
  "putM k s b = (case put k s b of None \<Rightarrow> faultM | Some b' \<Rightarrow> retM b')"

text \<open>\<open>%.<k>o\<close>, and what \<open>snprintf(p, n, ...)\<close> stores for a text.\<close>

definition fmt_o :: "nat \<Rightarrow> u32 \<Rightarrow> string" where
  "fmt_o k v = pad_left k (CHR ''0'') (digs 8 (unat v))"

definition snprintf :: "nat \<Rightarrow> string \<Rightarrow> string" where
  "snprintf n s = take (n - 1) s @ [NUL]"

text \<open>\<open>strtol(s, NULL, 8)\<close>, saturating at the bounds of a 64-bit \<open>long\<close>.\<close>

definition strtol8 :: "string \<Rightarrow> int" where
  "strtol8 s = (case dropWhile c_isspace s of
      [] \<Rightarrow> 0
    | c # cs \<Rightarrow>
        if c = CHR ''-'' then max (- (2 ^ 63)) (- int (num_prefix 8 0 cs))
        else min (2 ^ 63 - 1) (int (num_prefix 8 0 (if c = CHR ''+'' then cs else c # cs))))"

text \<open>The checksum sums \<open>char\<close>s, which are signed, in an \<open>unsigned int\<close>.\<close>

definition schar :: "char \<Rightarrow> int" where
  "schar c = (if (of_char c :: nat) < 128 then of_char c else of_char c - 256)"

definition tar_sum :: "string \<Rightarrow> u32" where
  "tar_sum b = fold (\<lambda>i sum. sum + (if H_CHK \<le> i \<and> i < H_CHK + 8 then 32 else to_u32 (schar (b ! i))))
     [0..<H_END] 0"

definition tar_checksum :: "string \<Rightarrow> string" where
  "tar_checksum b = snprintf 8 (fmt_o 7 (tar_sum b))"

subsection \<open>Archiving one object\<close>

text \<open>
  The split of a path longer than 100 bytes into the prefix field and the name field: the
  last slash before byte 155, starting from the first one. The name keeps its leading slash.
\<close>

definition next_slash :: "string \<Rightarrow> nat \<Rightarrow> nat option" where
  "next_slash path i = (case strchr (drop (Suc i) path) (CHR ''/'') of
      None \<Rightarrow> None | Some rest \<Rightarrow> Some (length path - length rest))"

lemma strchr_length: "strchr s c = Some r \<Longrightarrow> 0 < length r \<and> length r \<le> length s"
  by (induction s) (auto split: if_splits)

lemma next_slash_bound: "next_slash path i = Some j \<Longrightarrow> i < j \<and> j < length path"
  by (cases "i < length path") (auto simp: next_slash_def split: option.splits
      dest!: strchr_length intro!: diff_less)

function path_separate :: "string \<Rightarrow> nat \<Rightarrow> nat" where
  "path_separate path i =
     (if i \<ge> 512 \<or> i \<ge> length path then i
      else case next_slash path i of
        None \<Rightarrow> i
      | Some j \<Rightarrow> if j \<ge> 155 then i else path_separate path j)"
  by pat_completeness auto
termination
  by (relation "measure (\<lambda>(path, i). 155 - i)") (auto dest: next_slash_bound)

declare path_separate.simps [simp del]

text \<open>The name fields: \<open>None\<close> for a path the format has no room for (it is skipped).\<close>

definition split_name :: "string \<Rightarrow> (string \<times> string) option" where
  "split_name path =
     (if length path > 100 then
        (case strchr path (CHR ''/'') of
           None \<Rightarrow> None
         | Some rest \<Rightarrow>
             (let i = path_separate path (length path - length rest) in
              if i \<ge> 155 then None else Some (take i path, drop i path)))
      else Some ([], path))"

record path_info =
  orig_len :: nat
  path_prefix :: string

text \<open>The loop that writes the header and the blocks of a file; its state is \<open>l\<close> and \<open>b\<close>.\<close>

definition tar_blocks_body ::
    "int \<Rightarrow> int \<Rightarrow> int \<times> string \<Rightarrow> (int \<times> string + unit) io" where
  "tar_blocks_body tarfile f = (\<lambda>(l, b).
     let b = (if l < 512 then take (nat l) b @ replicate (H_END - nat l) NUL else b) in
     bindM (doM (F_write tarfile b)) (\<lambda>_.
     if f \<ge> 0 then
       bindM (callM (Ix_read f H_END)) (\<lambda>r.
       if rp_ret r > 0 then retM (Inl (rp_ret r, got r @ drop (length (got r)) b))
       else retM (Inr ()))
     else retM (Inr ())))"

text \<open>The header up to the name fields, and its fixed fields.\<close>

definition tar_name_fields :: "string \<times> string \<Rightarrow> string io" where
  "tar_name_fields = (\<lambda>(pre, name).
     bindM (putM H_SIZE (replicate 11 (CHR ''0'')) (replicate H_END NUL)) (\<lambda>b.
     bindM (putM H_MAGIC (''ustar'' @ [NUL]) b) (\<lambda>b.
     bindM (putM H_VERS ''00'' b) (\<lambda>b.
     bindM (putM H_NAME2 pre b) (\<lambda>b.
     putM H_NAME name b)))))"

definition tar_attr_fields :: "iox_stat \<Rightarrow> string \<Rightarrow> string io" where
  "tar_attr_fields st b =
     bindM (putM H_MODE (snprintf 8 (fmt_o 7 (tar_mode_to_posix (st_mode st)))) b) (\<lambda>b.
     putM H_MTIME (snprintf 12 (fmt_o 11 (to_u32 (convert_iox_stat_time_to_posix (st_mtime st))))) b)"

text \<open>The type of the object, with the handle of a regular file.\<close>

definition tar_type_fields :: "string \<Rightarrow> iox_stat \<Rightarrow> string \<Rightarrow> (int \<times> string) io" where
  "tar_type_fields in_path st b =
     (if FIO_S_ISREG (st_mode st) then
        bindM (putM H_TYPE ''0'' b) (\<lambda>b.
        bindM (putM H_SIZE (snprintf 12 (fmt_o 11 (st_size st))) b) (\<lambda>b.
        bindM (codeM (Ix_open in_path FIO_O_RDONLY 0)) (\<lambda>f. retM (f, b))))
      else if FIO_S_ISDIR (st_mode st) then
        bindM (putM H_TYPE ''5'' b) (\<lambda>b. retM (- 1, b))
      else if FIO_S_ISLNK (st_mode st) then
        bindM (putM H_TYPE ''2'' b) (\<lambda>b.
        bindM (callM (Ix_readlink in_path 100)) (\<lambda>r.
        bindM (putM H_LINK (take 100 (rp_data r)) b) (\<lambda>b. retM (- 1, b))))
      else retM (- 1, b))"

text \<open>Header and contents of one member, under the given names.\<close>

definition tar_member :: "int \<Rightarrow> string \<Rightarrow> iox_stat \<Rightarrow> string \<times> string \<Rightarrow> int io" where
  "tar_member tarfile in_path st names =
     bindM (tar_name_fields names) (\<lambda>b.
     bindM (tar_attr_fields st b) (\<lambda>b.
     bindM (tar_type_fields in_path st b) (\<lambda>(f, b).
     bindM (putM H_CHK (tar_checksum b) b) (\<lambda>b.
     bindM (loopM (tar_blocks_body tarfile f) (int H_END, b)) (\<lambda>_.
     bindM (doM (Ix_close f)) (\<lambda>_.
     retM 0))))))"

definition tar_c_file :: "int \<Rightarrow> path_info \<Rightarrow> string \<Rightarrow> iox_stat \<Rightarrow> int io" where
  "tar_c_file tarfile pi in_path st =
     (if FIO_S_ISREG (st_mode st) \<and> st_hisize st \<noteq> 0 then
        bindM (putsM (''(!) '' @ in_path @ '': too large file. Skipping.'' @ nl)) (\<lambda>_. retM 0)
      else
        let path = take 511 (path_prefix pi @ drop (orig_len pi) in_path) in
        if path = [] then retM 0
        else case split_name path of
          None \<Rightarrow>
            bindM (if strchr path (CHR ''/'') = None then
                putsM (''(!) '' @ in_path @ '': path is too long. Skipping.'' @ nl)
              else retM ()) (\<lambda>_. retM 0)
        | Some names \<Rightarrow> tar_member tarfile in_path st names)"

subsection \<open>Walking a directory tree\<close>

text \<open>
  \<open>do_wrapped_ftw\<close>: \<open>fn\<close> is called with the path and the stat of every object. \<open>pathbuf\<close> has
  257 bytes; a call writes only behind the path it is given and leaves that path there, so
  the path is a value. The bound on the name is computed in \<open>size_t\<close>. The recursion follows
  what the file system answers; the environment's fuel bounds its depth.
\<close>

definition IOMANX_PATH_MAX :: nat where "IOMANX_PATH_MAX = 256"

definition clear_line :: string where "clear_line = [CHR 0x0D, CHR 0x1B] @ ''[K''"

definition strip_slash :: "string \<Rightarrow> string" where
  "strip_slash path = (if path \<noteq> [] \<and> last path = CHR ''/'' then butlast path else path)"

text \<open>One entry of a directory; \<open>rec\<close> is the walk one level down.\<close>

definition ftw_body ::
    "(string \<Rightarrow> int io) \<Rightarrow> int \<Rightarrow> string \<Rightarrow> unit \<Rightarrow> (unit + int option) io" where
  "ftw_body rec d path = (\<lambda>_.
     bindM (callM (Ix_dread d)) (\<lambda>r.
     if rp_ret r = 0 \<or> rp_ret r = - 1 then retM (Inr None)
     else
       let name = rp_data r in
       if name = ''.'' \<or> name = ''..'' then retM (Inl ())
       else if unat (word_of_nat IOMANX_PATH_MAX - word_of_nat (length path) :: u64) \<le> length name
       then bindM (doM (Ix_close d)) (\<lambda>_. retM (Inr (Some (- 1))))
       else
         bindM (bufM (IOMANX_PATH_MAX + 1) (strip_slash path @ ''/'' @ name)) (\<lambda>child.
         bindM (putsM (clear_line @ ''     '' @ child)) (\<lambda>_.
         bindM (rec child) (\<lambda>res.
         if res \<noteq> 0 then bindM (doM (Ix_close d)) (\<lambda>_. retM (Inr (Some res)))
         else retM (Inl ()))))))"

fun do_wrapped_ftw :: "nat \<Rightarrow> (string \<Rightarrow> iox_stat \<Rightarrow> int io) \<Rightarrow> string \<Rightarrow> int io" where
  "do_wrapped_ftw 0 fn path = stuckM"
| "do_wrapped_ftw (Suc n) fn path =
     bindM (callM (Ix_getstat path)) (\<lambda>r.
     if rp_ret r < 0 then retM (- 1)
     else
       bindM (fn path (rp_stat r)) (\<lambda>res.
       if res \<noteq> 0 then retM res
       else if FIO_S_ISDIR (st_mode (rp_stat r)) then
         bindM (codeM (Ix_dopen path)) (\<lambda>d.
         if d \<ge> 0 then
           bindM (loopM (ftw_body (do_wrapped_ftw n fn) d path) ()) (\<lambda>x.
           case x of
             None \<Rightarrow>
               bindM (putsM clear_line) (\<lambda>_.
               bindM (doM (Ix_close d)) (\<lambda>_. retM 0))
           | Some res \<Rightarrow> retM res)
         else retM (- 1))
       else retM 0))"

definition wrapped_ftw ::
    "string \<Rightarrow> string \<Rightarrow> (path_info \<Rightarrow> string \<Rightarrow> iox_stat \<Rightarrow> int io) \<Rightarrow> int io" where
  "wrapped_ftw prefix path fn =
     (if length path > IOMANX_PATH_MAX then retM (- 1)
      else (\<lambda>E. do_wrapped_ftw (fuel E) (fn \<lparr>orig_len = length path, path_prefix = prefix\<rparr>) path E))"

subsection \<open>The partitions\<close>

text \<open>
  Both directions go over the main PFS partitions of the disk, mount each one that is asked
  for, and process it; \<open>job\<close> is the processing, given the prefix of its member names.
\<close>

definition is_pfs_part :: "iox_stat \<Rightarrow> bool" where
  "is_pfs_part st = (st_mode st = 0x0100 \<and> st_attr st \<noteq> 1)"

definition tar_part_body :: "int \<Rightarrow> int \<Rightarrow> string option \<Rightarrow> unit \<Rightarrow> (unit + unit) io" where
  "tar_part_body tarfile dh arg = (\<lambda>_.
     bindM (callM (Ix_dread dh)) (\<lambda>r.
     if rp_ret r = 0 \<or> rp_ret r = - 1 then retM (Inr ())
     else if is_pfs_part (rp_stat r) then
       bindM (putsM (''hdd0:'' @ rp_data r @ nl)) (\<lambda>_.
       if arg = None \<or> arg = Some (rp_data r) then
         let mount_point = take 255 (''hdd0:'' @ rp_data r) in
         bindM (codeM (Ix_mount ''pfs0:'' mount_point FIO_MT_RDONLY)) (\<lambda>result.
         if result < 0 then retM (Inl ())
         else
           bindM (wrapped_ftw (take 255 (rp_data r @ ''/'')) ''pfs0:/'' (tar_c_file tarfile)) (\<lambda>_.
           bindM (doM (Ix_umount ''pfs0:'')) (\<lambda>_.
           bindM (putsM nl) (\<lambda>_. retM (Inl ())))))
       else bindM (putsM nl) (\<lambda>_. retM (Inl ())))
     else retM (Inl ())))"

definition tar_part :: "int \<Rightarrow> string option \<Rightarrow> int io" where
  "tar_part tarfile arg =
     bindM (codeM (Ix_dopen ''hdd0:'')) (\<lambda>dh.
     if dh \<ge> 0 then
       bindM (loopM (tar_part_body tarfile dh arg) ()) (\<lambda>_.
       bindM (codeM (Ix_close dh)) (\<lambda>result.
       if result < 0 then
         bindM (putsM (''(!) dclose: failed with '' @ dec_int result @ nl)) (\<lambda>_. retM (- 1))
       else retM 0))
     else
       bindM (putsM (''(!) dopen: failed with '' @ dec_int dh @ nl)) (\<lambda>_. retM dh))"

subsection \<open>Restoring\<close>

text \<open>The directories above a path, from behind the mount point on, outermost first.\<close>

definition parent_dirs :: "string \<Rightarrow> string list" where
  "parent_dirs path = (let tmp = take (IOMANX_PATH_MAX - 1) path in
     map (\<lambda>k. take k tmp) (filter (\<lambda>k. tmp ! k = CHR ''/'') [6..<length tmp]))"

fun mkdirs :: "string list \<Rightarrow> unit io" where
  "mkdirs [] = retM ()"
| "mkdirs (d # ds) = bindM (doM (Ix_mkdir d 0x1FF)) (\<lambda>_. mkdirs ds)"

definition ensure_parent_dirs_exist :: "string \<Rightarrow> unit io" where
  "ensure_parent_dirs_exist path = mkdirs (parent_dirs path)"

text \<open>What \<open>restore_from_tar\<close> reads from a header.\<close>

record member =
  mb_name :: string
  mb_size :: u32
  mb_type :: char
  mb_mtime :: int
  mb_mode :: u32
  mb_link :: string

definition read_header :: "string \<Rightarrow> member" where
  "read_header header = \<lparr>mb_name = field_str H_NAME 100 header,
     mb_size = to_u32 (strtol8 (field_str H_SIZE 12 header)),
     mb_type = header ! H_TYPE,
     mb_mtime = strtol8 (field_str H_MTIME 12 header),
     mb_mode = to_u32 (strtol8 (field_str H_MODE 7 header)),
     mb_link = field_str H_LINK 100 header\<rparr>"

text \<open>The number of bytes to skip for the contents of a member, in 32 bits.\<close>

definition tar_skip :: "u32 \<Rightarrow> u32" where
  "tar_skip sz = ((sz + 511) div 512) * 512"

definition skip_member :: "int \<Rightarrow> member \<Rightarrow> unit io" where
  "skip_member tarfile m = doM (F_seek tarfile (uint (tar_skip (mb_size m))) SEEK_CUR)"

text \<open>Mode and time stamps of a restored object; the NULL of \<open>gmtime\<close> is dereferenced.\<close>

definition restore_attrs :: "string \<Rightarrow> member \<Rightarrow> unit io" where
  "restore_attrs full_path m =
     (case convert_posix_time_to_iox_time (mb_mtime m) of
        None \<Rightarrow> faultM
      | Some t \<Rightarrow>
          bindM (doM (Ix_chstat full_path
            (zero_stat\<lparr>st_mode := convert_posix_mode_to_iomanx (mb_mode m)\<rparr>) FIO_CST_MODE)) (\<lambda>_.
          doM (Ix_chstat full_path (zero_stat\<lparr>st_ctime := t, st_atime := t, st_mtime := t\<rparr>)
            (FIO_CST_MT OR FIO_CST_AT OR FIO_CST_CT))))"

text \<open>The contents; \<open>buf\<close> is what the read left in the buffer, its result is not looked at.\<close>

definition restore_data_body :: "int \<Rightarrow> int \<Rightarrow> u32 \<Rightarrow> (u32 + unit) io" where
  "restore_data_body tarfile fd = (\<lambda>remaining.
     if remaining > 0 then
       let chunk = (if remaining > 512 then 512 else remaining) in
       bindM (callM (F_read tarfile (unat chunk))) (\<lambda>r.
       bindM (doM (Ix_write fd (take (unat chunk) (rp_data r)))) (\<lambda>_.
       retM (Inl (remaining - chunk))))
     else retM (Inr ()))"

definition restore_file :: "int \<Rightarrow> string \<Rightarrow> member \<Rightarrow> unit io" where
  "restore_file tarfile full_path m =
     bindM (ensure_parent_dirs_exist full_path) (\<lambda>_.
     bindM (codeM (Ix_open full_path (FIO_O_WRONLY OR FIO_O_CREAT OR FIO_O_TRUNC) 0x1B6)) (\<lambda>fd.
     if fd < 0 then skip_member tarfile m
     else
       bindM (loopM (restore_data_body tarfile fd) (mb_size m)) (\<lambda>_.
       bindM (doM (Ix_close fd)) (\<lambda>_.
       bindM (restore_attrs full_path m) (\<lambda>_.
       bindM (putsM (''Restoring file: '' @ mb_name m @ '' (type: '' @ [mb_type m] @ '', size: '' @
           dec (unat (mb_size m)) @ '', mask: '' @ digs 8 (unat (mb_mode m)) @ '')'' @ nl)) (\<lambda>_.
       if mb_size m mod 512 \<noteq> 0 then
         doM (F_seek tarfile (uint (512 - mb_size m mod 512)) SEEK_CUR)
       else retM ()))))))"

definition restore_member :: "int \<Rightarrow> string \<Rightarrow> member \<Rightarrow> unit io" where
  "restore_member tarfile full_path m =
     (if mb_type m = CHR ''5'' then
        bindM (ensure_parent_dirs_exist full_path) (\<lambda>_.
        bindM (doM (Ix_mkdir full_path 0x1FF)) (\<lambda>_.
        restore_attrs full_path m))
      else if mb_type m = CHR ''2'' then
        bindM (ensure_parent_dirs_exist full_path) (\<lambda>_.
        bindM (codeM (Ix_symlink (mb_link m) full_path)) (\<lambda>res.
        if res < 0 then retM ()
        else putsM (''Restoring symlink: '' @ full_path @ '' -> '' @ mb_link m @ nl)))
      else if mb_type m = CHR ''0'' \<or> mb_type m = NUL then restore_file tarfile full_path m
      else skip_member tarfile m)"

definition restore_body ::
    "int \<Rightarrow> bool \<Rightarrow> string \<Rightarrow> string \<Rightarrow> unit \<Rightarrow> (unit + unit) io" where
  "restore_body tarfile overwrite_mode pfs_mount_path prefix_path = (\<lambda>_.
     bindM (callM (F_read tarfile 512)) (\<lambda>r.
     let header = nul_pad 512 (rp_data r); m = read_header header in
     if rp_ret r \<noteq> 512 \<or> header ! 0 = NUL then retM (Inr ())
     else if \<not> has_prefix (mb_name m) prefix_path then
       bindM (skip_member tarfile m) (\<lambda>_. retM (Inl ()))
     else
       let rel_path = drop (length prefix_path) (mb_name m) in
       if rel_path = [] then bindM (skip_member tarfile m) (\<lambda>_. retM (Inl ()))
       else
         let full_path = take 511 (pfs_mount_path @ rel_path) in
         bindM (if overwrite_mode then retM False
           else bindM (codeM (Ix_getstat full_path)) (\<lambda>res. retM (res = 0))) (\<lambda>exists.
         bindM
           (if exists then
              bindM (putsM (''Skipping existing file: '' @ mb_name m @ nl)) (\<lambda>_.
              skip_member tarfile m)
            else restore_member tarfile full_path m) (\<lambda>_.
         retM (Inl ())))))"

definition restore_from_tar :: "int \<Rightarrow> bool \<Rightarrow> string \<Rightarrow> string \<Rightarrow> int io" where
  "restore_from_tar tarfile overwrite_mode pfs_mount_path prefix_path =
     bindM (doM (F_seek tarfile 0 SEEK_SET)) (\<lambda>_.
     bindM (loopM (restore_body tarfile overwrite_mode pfs_mount_path prefix_path) ()) (\<lambda>_.
     retM 0))"

definition part_tar_body :: "int \<Rightarrow> bool \<Rightarrow> int \<Rightarrow> string option \<Rightarrow> unit \<Rightarrow> (unit + unit) io" where
  "part_tar_body tarfile overwrite_mode dh arg = (\<lambda>_.
     bindM (callM (Ix_dread dh)) (\<lambda>r.
     if rp_ret r = 0 \<or> rp_ret r = - 1 then retM (Inr ())
     else if is_pfs_part (rp_stat r) then
       bindM (putsM (''(hdd0:) '' @ rp_data r @ nl)) (\<lambda>_.
       if arg = None \<or> arg = Some (rp_data r) then
         let mount_point = take 255 (''hdd0:'' @ rp_data r) in
         bindM (codeM (Ix_mount ''pfs0:'' mount_point FIO_MT_RDWR)) (\<lambda>result.
         if result < 0 then retM (Inl ())
         else
           bindM (restore_from_tar tarfile overwrite_mode ''pfs0:/'' (take 255 (rp_data r @ ''/'')))
             (\<lambda>_.
           bindM (doM (Ix_umount ''pfs0:'')) (\<lambda>_. retM (Inl ()))))
       else retM (Inl ()))
     else retM (Inl ())))"

definition part_tar :: "int \<Rightarrow> bool \<Rightarrow> string option \<Rightarrow> int io" where
  "part_tar tarfile overwrite_mode arg =
     bindM (codeM (Ix_dopen ''hdd0:'')) (\<lambda>dh.
     if dh \<ge> 0 then
       bindM (loopM (part_tar_body tarfile overwrite_mode dh arg) ()) (\<lambda>_.
       bindM (codeM (Ix_close dh)) (\<lambda>result.
       if result < 0 then
         bindM (putsM (''(!) dclose: failed with '' @ dec_int result @ nl)) (\<lambda>_. retM (- 1))
       else retM 0))
     else
       bindM (putsM (''(!) dopen: failed with '' @ dec_int dh @ nl)) (\<lambda>_. retM dh))"

subsection \<open>The program\<close>

definition show_help :: "string \<Rightarrow> unit io" where
  "show_help progname =
     bindM (putsM (''usage: '' @ progname @ '' --backup <ps2_hdd_device_path> '' @
       ''[--partition <optional_partition_name>] [<tar_file>]'' @ nl)) (\<lambda>_.
     putsM (''usage: '' @ progname @ '' --restore <ps2_hdd_device_path> '' @
       ''--partition <mandatory_partition_name> <tar_file> [--overwrite]'' @ nl))"

text \<open>The name of the disk image without its directory and extension.\<close>

definition base_name :: "string \<Rightarrow> string" where
  "base_name hdd_path =
     (let filename = (case strrchr hdd_path (CHR ''/'') of
        Some i \<Rightarrow> drop (Suc i) hdd_path | None \<Rightarrow> hdd_path)
      in case strrchr filename (CHR ''.'') of Some i \<Rightarrow> take i filename | None \<Rightarrow> filename)"

text \<open>The partition asked for and the name of the archive; \<open>None\<close> when the partition is missing.\<close>

definition tar_args :: "string list \<Rightarrow> (string option \<times> string) option" where
  "tar_args argv =
     (if length argv \<ge> 4 then
        if argv ! 3 = ''--partition'' then
          if length argv < 5 then None
          else Some (Some (argv ! 4), take 1023
            (if length argv > 5 then argv ! 5
             else argv ! 4 @ ''_'' @ base_name (argv ! 2) @ ''.tar''))
        else Some (None, take 1023 (argv ! 3))
      else Some (None, take 1023 (base_name (argv ! 2) @ ''.tar'')))"

text \<open>After the work: an archive of at most 1024 bytes is removed, in either mode.\<close>

definition remove_if_empty :: "string \<Rightarrow> unit io" where
  "remove_if_empty tar_filename =
     bindM (codeM (F_open tar_filename ''rb'')) (\<lambda>check_file.
     if check_file \<noteq> 0 then
       bindM (doM (F_seek check_file 0 SEEK_END)) (\<lambda>_.
       bindM (codeM (F_tell check_file)) (\<lambda>len.
       bindM (doM (F_close check_file)) (\<lambda>_.
       if len \<le> 1024 then
         bindM (doM (Host_remove tar_filename)) (\<lambda>_.
         putsM (''Tar file empty, tar file removed: '' @ tar_filename @ nl))
       else retM ())))
     else retM ())"

definition tar_work :: "bool \<Rightarrow> bool \<Rightarrow> string \<Rightarrow> string \<Rightarrow> string option \<Rightarrow> int \<Rightarrow> unit io" where
  "tar_work backup_mode overwrite_mode hdd_path tar_filename partition_name tarfile =
     (if backup_mode then
        bindM (putsM (''Backing up from '' @ hdd_path @ '' to '' @ tar_filename @ nl)) (\<lambda>_.
        bindM (tar_part tarfile partition_name) (\<lambda>_.
        bindM (doM (F_write tarfile (replicate 512 NUL))) (\<lambda>_.
        doM (F_write tarfile (replicate 512 NUL)))))
      else
        bindM (putsM (''Restoring from '' @ tar_filename @ '' to '' @ hdd_path @ nl)) (\<lambda>_.
        bindM (part_tar tarfile overwrite_mode partition_name) (\<lambda>_. retM ())))"

text \<open>In backup mode an existing archive is an error.\<close>

definition tar_exists :: "string \<Rightarrow> bool io" where
  "tar_exists tar_filename =
     bindM (codeM (F_open tar_filename ''rb'')) (\<lambda>test_file.
     if test_file \<noteq> 0 then bindM (doM (F_close test_file)) (\<lambda>_. retM True)
     else retM False)"

definition tar_run :: "bool \<Rightarrow> bool \<Rightarrow> string \<Rightarrow> string option \<Rightarrow> string \<Rightarrow> int io" where
  "tar_run backup_mode overwrite_mode hdd_path partition_name tar_filename =
     bindM (if backup_mode then tar_exists tar_filename else retM False) (\<lambda>stop.
     if stop then retM 1
     else
       bindM (set_atad_device_path hdd_path atad_boot) (\<lambda>disk.
       bindM (codeM (Init_apa [''ps2hdd.irx'', ''-o'', ''2''])) (\<lambda>result.
       if result < 0 then retM 1
       else
         bindM (codeM (Init_pfs [''pfs.irx'', ''-m'', ''1'', ''-o'', ''32'', ''-n'', ''127''])) (\<lambda>result.
         if result < 0 then retM 1
         else
           bindM (codeM (F_open tar_filename (if backup_mode then ''wb'' else ''rb''))) (\<lambda>tarfile.
           if tarfile = 0 then retM 1
           else
             bindM (tar_work backup_mode overwrite_mode hdd_path tar_filename partition_name tarfile)
               (\<lambda>_.
             bindM (doM (F_close tarfile)) (\<lambda>_.
             bindM (remove_if_empty tar_filename) (\<lambda>_.
             bindM (atad_close disk) (\<lambda>_.
             retM 0)))))))))"

definition tar_main :: "string list \<Rightarrow> int io" where
  "tar_main argv =
     (if length argv < 3 then bindM (show_help (argv ! 0)) (\<lambda>_. retM 1)
      else if argv ! 1 \<noteq> ''--backup'' \<and> argv ! 1 \<noteq> ''--restore'' then
        bindM (show_help (argv ! 0)) (\<lambda>_. retM 1)
      else case tar_args argv of
        None \<Rightarrow> bindM (show_help (argv ! 0)) (\<lambda>_. retM 1)
      | Some (partition_name, tar_filename) \<Rightarrow>
          tar_run (argv ! 1 = ''--backup'') (''--overwrite'' \<in> set (tl argv)) (argv ! 2)
            partition_name tar_filename)"

end
