(* ===== verification/Tar_Handles.thy ===== *)
theory Tar_Handles
  imports Tar Ledger
begin

text \<open>
  The handles of pfs2tar: every file and directory opened on the device while archiving or
  restoring is closed again, on every path and whatever is answered; no host descriptor or
  stream is lost.
\<close>

definition same_handles :: "ledger \<Rightarrow> ledger \<Rightarrow> bool" where
  "same_handles L L' =
     (lg_ix L' = lg_ix L \<and> lg_host L' = lg_host L \<and> lg_files L' = lg_files L)"

lemma same_handles_refl [simp]: "same_handles L L"
  by (simp add: same_handles_def)

lemma same_handles_trans: "same_handles L L' \<Longrightarrow> same_handles L' L'' \<Longrightarrow> same_handles L L''"
  by (simp add: same_handles_def)

definition keeps_handles :: "'a io \<Rightarrow> bool" where
  "keeps_handles m = (\<forall>L. gwp ledger_step m (\<lambda>_. same_handles L) L)"

lemma gwp_keeps:
  assumes "keeps_handles m" "\<And>a L'. same_handles L L' \<Longrightarrow> Q a L'"
  shows "gwp ledger_step m Q L"
  using assms by (auto simp: keeps_handles_def intro: gwp_mono)

lemma keeps_neutral: "emits_only neutral m \<Longrightarrow> keeps_handles m"
  by (auto simp: keeps_handles_def intro!: gwp_neutral)

lemma keeps_loopM:
  assumes "\<And>s. keeps_handles (b s)"
  shows "keeps_handles (loopM b s)"
  unfolding keeps_handles_def
proof
  fix L
  show "gwp ledger_step (loopM b s) (\<lambda>_. same_handles L) L"
  proof (rule gwp_loopM [where I = "\<lambda>_. same_handles L"])
    fix t L' assume "same_handles L L'"
    then show "gwp ledger_step (b t) (\<lambda>x g'. case x of Inl s' \<Rightarrow> same_handles L g'
        | Inr r \<Rightarrow> same_handles L g') L'"
      by (intro gwp_keeps [OF assms]) (auto intro: same_handles_trans split: sum.splits)
  qed simp
qed

lemma keeps_handles_wp:
  "keeps_handles m \<Longrightarrow> wp m E (\<lambda>_ tr'. same_handles (ledger_of tr) (ledger_of tr')) tr"
  unfolding ledger_of_def by (rule gwp_wp) (simp add: keeps_handles_def)

subsection \<open>Archiving\<close>

lemma emits_putM [emits]: "emits_only A (putM k s b)"
  by (auto simp: putM_def intro!: emits)

lemma emits_blocks [emits]: "emits_only neutral (tar_blocks_body tarfile f s)"
  by (auto simp: tar_blocks_body_def Let_def split: prod.splits intro!: emits)

lemma emits_fields [emits]:
  "emits_only neutral (tar_name_fields names)" "emits_only neutral (tar_attr_fields st b)"
  by (auto simp: tar_name_fields_def tar_attr_fields_def split: prod.splits intro!: emits)

lemma gwp_putM [gwp]: "(\<And>b'. Q b' g) \<Longrightarrow> gwp st (putM k s b) Q g"
  by (auto simp: putM_def intro!: gwp)

lemma gwp_neutral_tar [gwp]:
  "(\<And>a. Q a L) \<Longrightarrow> gwp ledger_step (tar_name_fields names) Q L"
  "(\<And>a. Q a L) \<Longrightarrow> gwp ledger_step (tar_attr_fields st b) Q L"
  "(\<And>a. R a L) \<Longrightarrow> gwp ledger_step (loopM (tar_blocks_body tarfile f) s) R L"
  by (rule gwp_neutral, auto intro!: emits)+

lemma gwp_type_fields [gwp]:
  assumes "\<And>f b'. Q (f, b') (if f \<ge> 0 then L\<lparr>lg_ix := f # lg_ix L\<rparr> else L)"
  shows "gwp ledger_step (tar_type_fields p st b) Q L"
proof -
  have "Q (- 1, b') L" for b' using assms [of "- 1" b'] by simp
  moreover have "Q (rp_ret r, b') (ledger_step L (Ix_open p FIO_O_RDONLY 0, r))" for b' r
    using assms [of "rp_ret r" b'] by simp
  ultimately show ?thesis
    unfolding tar_type_fields_def by (intro gwp) simp_all
qed

lemma keeps_tar_member: "keeps_handles (tar_member tarfile p st names)"
  unfolding keeps_handles_def tar_member_def
  by (intro allI gwp) (auto simp: same_handles_def)

lemma keeps_tar_c_file: "keeps_handles (tar_c_file tarfile pi p st)"
  using keeps_tar_member
  by (auto simp: tar_c_file_def Let_def split: option.splits intro!: keeps_neutral emits)

lemma keeps_ftw:
  assumes fn: "\<And>p st. keeps_handles (fn p st)"
  shows "keeps_handles (do_wrapped_ftw n fn path)"
proof (induction n arbitrary: path)
  case (Suc n)
  have "gwp ledger_step (loopM (ftw_body (do_wrapped_ftw n fn) d path) ())
      (\<lambda>x L'. lg_host L' = lg_host L \<and> lg_files L' = lg_files L \<and>
        lg_ix L' = (if x = None then lg_ix L else remove1 d (lg_ix L))) L"
    if "0 \<le> d" for d L
  proof (rule gwp_loopM [where I = "\<lambda>_. same_handles L"])
    fix u L' assume "same_handles L L'"
    then show "gwp ledger_step (ftw_body (do_wrapped_ftw n fn) d path u)
      (\<lambda>x g'. case x of Inl s' \<Rightarrow> same_handles L g' | Inr x \<Rightarrow>
        lg_host g' = lg_host L \<and> lg_files g' = lg_files L \<and>
        lg_ix g' = (if x = None then lg_ix L else remove1 d (lg_ix L))) L'"
      using that unfolding ftw_body_def Let_def
      by (intro gwp gwp_keeps [OF Suc.IH]) (auto simp: same_handles_def)
  qed simp
  note loop = gwp_mono [OF this]
  show ?case
    unfolding keeps_handles_def do_wrapped_ftw.simps
    by (intro allI gwp gwp_keeps [OF fn] loop) (auto simp: same_handles_def)
qed (simp add: keeps_handles_def gwp)

lemma keeps_wrapped_ftw:
  assumes "\<And>pi p st. keeps_handles (fn pi p st)"
  shows "keeps_handles (wrapped_ftw prefix path fn)"
  unfolding keeps_handles_def wrapped_ftw_def
proof (intro allI gwp_if)
  fix L
  let ?fn = "fn \<lparr>orig_len = length path, path_prefix = prefix\<rparr>"
  show "gwp ledger_step (\<lambda>E :: env. do_wrapped_ftw (fuel E) ?fn path E) (\<lambda>_. same_handles L) L"
  proof (rule gwpI)
    fix E :: env and tr
    have "gwp ledger_step (do_wrapped_ftw (fuel E) ?fn path) (\<lambda>_. same_handles L) L"
      using keeps_ftw [OF assms] by (simp add: keeps_handles_def)
    from gwpD [OF this, of E tr] show "\<exists>evs. snd (do_wrapped_ftw (fuel E) ?fn path E tr) = tr @ evs \<and>
        (\<forall>a. fst (do_wrapped_ftw (fuel E) ?fn path E tr) = Done a \<longrightarrow>
           same_handles L (foldl ledger_step L evs))"
      by blast
  qed
qed (auto intro!: gwp)

lemma keeps_tar_part: "keeps_handles (tar_part tarfile arg)"
proof -
  have "keeps_handles (tar_part_body tarfile dh arg u)" for dh u
    unfolding keeps_handles_def tar_part_body_def Let_def
    by (intro allI gwp gwp_keeps [OF keeps_wrapped_ftw [OF keeps_tar_c_file]])
      (auto simp: same_handles_def)
  note loop = gwp_keeps [OF keeps_loopM, OF this]
  show ?thesis
    unfolding keeps_handles_def tar_part_def
    by (intro allI gwp loop) (auto simp: same_handles_def)
qed

subsection \<open>Restoring\<close>

lemma emits_mkdirs [emits]: "emits_only neutral (mkdirs ds)"
  by (induction ds) (auto intro!: emits)

lemma emits_restore [emits]:
  "emits_only neutral (ensure_parent_dirs_exist path)" "emits_only neutral (skip_member tarfile m)"
  "emits_only neutral (restore_attrs path m)" "emits_only neutral (restore_data_body tarfile fd s)"
  by (auto simp: ensure_parent_dirs_exist_def skip_member_def restore_attrs_def
    restore_data_body_def Let_def intro!: emits split: option.splits)

lemma gwp_neutral_restore [gwp]:
  "(\<And>a. Q a L) \<Longrightarrow> gwp ledger_step (ensure_parent_dirs_exist path) Q L"
  "(\<And>a. Q a L) \<Longrightarrow> gwp ledger_step (skip_member tarfile m) Q L"
  "(\<And>a. Q a L) \<Longrightarrow> gwp ledger_step (restore_attrs path m) Q L"
  "(\<And>a. R a L) \<Longrightarrow> gwp ledger_step (loopM (restore_data_body tarfile fd) s) R L"
  by (rule gwp_neutral, auto intro!: emits)+

lemma keeps_restore_member: "keeps_handles (restore_member tarfile path m)"
  unfolding keeps_handles_def restore_member_def restore_file_def
  by (intro allI gwp) (auto simp: same_handles_def)

lemma keeps_restore: "keeps_handles (restore_from_tar tarfile ow mp prefix)"
proof -
  have "keeps_handles (restore_body tarfile ow mp prefix u)" for u
    unfolding keeps_handles_def restore_body_def Let_def
    by (intro allI gwp gwp_keeps [OF keeps_restore_member]) (auto simp: same_handles_def)
  note loop = gwp_keeps [OF keeps_loopM, OF this]
  show ?thesis
    unfolding keeps_handles_def restore_from_tar_def
    by (intro allI gwp loop) (auto simp: same_handles_def)
qed

lemma keeps_part_tar: "keeps_handles (part_tar tarfile ow arg)"
proof -
  have "keeps_handles (part_tar_body tarfile ow dh arg u)" for dh u
    unfolding keeps_handles_def part_tar_body_def Let_def
    by (intro allI gwp gwp_keeps [OF keeps_restore]) (auto simp: same_handles_def)
  note loop = gwp_keeps [OF keeps_loopM, OF this]
  show ?thesis
    unfolding keeps_handles_def part_tar_def
    by (intro allI gwp loop) (auto simp: same_handles_def)
qed

text \<open>
  C29. Archiving and restoring give back every handle: whatever the device, the archive and the
  host answer, when \<open>tar_part\<close> or \<open>part_tar\<close> returns, exactly the handles, descriptors and
  streams are open that were open before, also after errors in the middle of a directory tree.
\<close>

theorem tar_gives_back:
  "wp (tar_part tarfile arg) E (\<lambda>_ tr'. same_handles (ledger_of tr) (ledger_of tr')) tr \<and>
   wp (part_tar tarfile overwrite arg) E (\<lambda>_ tr'. same_handles (ledger_of tr) (ledger_of tr')) tr"
  by (simp add: keeps_handles_wp keeps_tar_part keeps_part_tar)

end
