(* ===== verification/Tar_Header.thy ===== *)
theory Tar_Header
  imports Tar Copy_Loop
begin

text \<open>
  The header of an archive member: writing a field and reading it back, octal numbers, and the
  header \<open>tar_c_file\<close> builds as a pure function of the path, the stat structure and the link
  target, with what \<open>restore_from_tar\<close> reads from it.
\<close>

subsection \<open>Writes into the header\<close>

definition upd :: "nat \<Rightarrow> string \<Rightarrow> string \<Rightarrow> string" where
  "upd k s b = take k b @ s @ drop (k + length s) b"

lemma putM_run [io_simps]:
  "putM k s b = (if k + length s \<le> length b then retM (upd k s b) else faultM)"
  by (simp add: putM_def put_def upd_def)

lemma length_upd [simp]: "k + length s \<le> length b \<Longrightarrow> length (upd k s b) = length b"
  by (simp add: upd_def)

lemma nth_upd:
  "k + length s \<le> length b \<Longrightarrow> i < length b \<Longrightarrow>
     upd k s b ! i = (if k \<le> i \<and> i < k + length s then s ! (i - k) else b ! i)"
  by (auto simp: upd_def nth_append min_def)

lemma nth_upd_other:
  "k + length s \<le> length b \<Longrightarrow> i < length b \<Longrightarrow> i < k \<or> k + length s \<le> i \<Longrightarrow> upd k s b ! i = b ! i"
  by (auto simp: nth_upd)

lemma field_eqI:
  assumes "i + n \<le> length a" "i + n \<le> length b" "\<And>j. i \<le> j \<Longrightarrow> j < i + n \<Longrightarrow> a ! j = b ! j"
  shows "field i n a = field i n b"
  using assms by (intro nth_equalityI) (simp_all add: field_def)

lemma field_upd_other:
  assumes "k + length s \<le> length b" "i + n \<le> length b" "i + n \<le> k \<or> k + length s \<le> i"
  shows "field i n (upd k s b) = field i n b"
  using assms by (intro field_eqI) (auto simp: nth_upd)

lemma field_upd_same:
  assumes "k + length s \<le> length b" "k \<le> i" "i + n \<le> k + length s"
  shows "field i n (upd k s b) = field (i - k) n s"
  using assms by (intro nth_equalityI) (auto simp: field_def nth_upd)

lemma field_split: "i + n \<le> length b \<Longrightarrow> m \<le> n \<Longrightarrow> field i n b = field i m b @ field (i + m) (n - m) b"
  by (simp add: field_def) (metis add.commute drop_drop le_add_diff_inverse take_add)

lemma field_all: "field 0 (length s) s = s"
  by (simp add: field_def)

lemma field_zeros: "i + n \<le> m \<Longrightarrow> field i n (replicate m c) = replicate n c"
  by (simp add: field_def min_def)

text \<open>A field that holds a text and NULs.\<close>

lemma before_char_append: "c \<notin> set s \<Longrightarrow> before_char c (s @ c # r) = s"
  unfolding before_char_def by (subst takeWhile_append2) auto

lemma before_char_none: "c \<notin> set s \<Longrightarrow> before_char c s = s"
  unfolding before_char_def by (auto simp: takeWhile_eq_all_conv)

lemma before_char_zeros: "NUL \<notin> set s \<Longrightarrow> before_char NUL (s @ replicate n NUL) = s"
  by (cases n) (simp_all add: before_char_append before_char_none)

subsection \<open>Octal numbers\<close>

lemma digit_octal: "d < 8 \<Longrightarrow> digit_val 8 (digit d) = Some d"
  by (simp add: digit_val_def digit_def)

lemma digit_plain: "d < 8 \<Longrightarrow> digit d \<notin> {NUL, CHR ''-'', CHR ''+''} \<and> \<not> c_isspace (digit d)"
proof -
  assume "d < 8"
  moreover have "\<forall>d \<in> set [0..<8]. digit d \<noteq> NUL \<and> digit d \<noteq> CHR ''-'' \<and> digit d \<noteq> CHR ''+'' \<and>
      \<not> c_isspace (digit d)"
    by code_simp
  ultimately show ?thesis by (simp only: set_upt) simp
qed

lemma digs_octal_chars: "set (digs 8 n) \<subseteq> digit ` {..<8}"
proof (induction n rule: less_induct)
  case (less n)
  then show ?case by (subst digs.simps) auto
qed

lemma digs_nonempty [simp]: "digs b n \<noteq> []"
  by (subst digs.simps) simp

lemma length_digs_octal: "n < 8 ^ Suc k \<Longrightarrow> length (digs 8 n) \<le> Suc k"
proof (induction k arbitrary: n)
  case 0
  then show ?case by (subst digs.simps) simp
next
  case (Suc k)
  then have "n div 8 < 8 ^ Suc k" by (simp add: less_mult_imp_div_less mult.commute)
  with Suc.IH show ?case by (subst digs.simps) simp
qed

lemma num_prefix_append:
  "set a \<subseteq> digit ` {..<8} \<Longrightarrow> num_prefix 8 acc (a @ b) = num_prefix 8 (num_prefix 8 acc a) b"
  by (induction a arbitrary: acc) (auto simp: digit_octal)

lemma num_prefix_digs: "num_prefix 8 0 (digs 8 n) = n"
proof (induction n rule: less_induct)
  case (less n)
  show ?case
  proof (cases "n < 8")
    case True
    then show ?thesis by (subst digs.simps) (simp add: digit_octal)
  next
    case False
    then have "num_prefix 8 0 (digs 8 (n div 8) @ [digit (n mod 8)]) =
        8 * (n div 8) + n mod 8"
      using less [of "n div 8"] digs_octal_chars
      by (simp add: num_prefix_append digit_octal)
    with False show ?thesis by (subst digs.simps) simp
  qed
qed

lemma digit_0: "CHR ''0'' = digit 0"
  by code_simp

lemma fmt_o_chars: "set (fmt_o k v) \<subseteq> digit ` {..<8}"
  using digs_octal_chars [of "unat v"] by (auto simp: fmt_o_def pad_left_def digit_0)

lemma NUL_fmt_o: "NUL \<notin> set (fmt_o k v)"
  using fmt_o_chars [of k v] digit_plain by fastforce

lemma length_fmt_o: "unat v < 8 ^ Suc k \<Longrightarrow> length (fmt_o (Suc k) v) = Suc k"
  using length_digs_octal [of "unat v" k] by (simp add: fmt_o_def pad_left_def)

lemma num_prefix_zeros: "num_prefix 8 0 (replicate j (digit 0) @ s) = num_prefix 8 0 s"
  by (induction j) (simp_all add: digit_octal)

lemma strtol8_fmt_o: "strtol8 (fmt_o k v) = int (unat v)"
proof -
  have val: "num_prefix 8 0 (fmt_o k v) = unat v"
    by (simp add: fmt_o_def pad_left_def digit_0 num_prefix_zeros num_prefix_digs)
  obtain c cs where c: "fmt_o k v = c # cs"
    by (cases "fmt_o k v") (simp_all add: fmt_o_def pad_left_def)
  then obtain d where d: "c = digit d" "d < 8"
    using fmt_o_chars [of k v] by auto
  have "unat v < 4294967296" using unat_less [of v] by simp
  then have "int (unat v) \<le> 2 ^ 63 - 1" by (simp del: of_nat_unat)
  then have "min (2 ^ 63 - 1) (int (unat v)) = int (unat v)" by (rule min_absorb2)
  then show ?thesis
    using digit_plain [OF d(2)] val by (simp add: strtol8_def c del: of_nat_unat flip: d(1))
qed

subsection \<open>The header of a member\<close>

definition writes :: "(nat \<times> string) list \<Rightarrow> string \<Rightarrow> string" where
  "writes ws b = fold (\<lambda>(k, s). upd k s) ws b"

lemma writes_simps [simp]: "writes [] b = b" "writes ((k, s) # ws) b = writes ws (upd k s b)"
  by (simp_all add: writes_def)

lemma writes_append: "writes (vs @ ws) b = writes ws (writes vs b)"
  by (simp add: writes_def)

definition name_writes :: "string \<times> string \<Rightarrow> (nat \<times> string) list" where
  "name_writes = (\<lambda>(pre, name). [(H_SIZE, replicate 11 (CHR ''0'')), (H_MAGIC, ''ustar'' @ [NUL]),
     (H_VERS, ''00''), (H_NAME2, pre), (H_NAME, name)])"

definition attr_writes :: "iox_stat \<Rightarrow> (nat \<times> string) list" where
  "attr_writes st = [(H_MODE, snprintf 8 (fmt_o 7 (tar_mode_to_posix (st_mode st)))),
     (H_MTIME, snprintf 12 (fmt_o 11 (to_u32 (convert_iox_stat_time_to_posix (st_mtime st)))))]"

definition type_writes :: "iox_stat \<Rightarrow> string \<Rightarrow> (nat \<times> string) list" where
  "type_writes st link =
     (if FIO_S_ISREG (st_mode st) then
        [(H_TYPE, ''0''), (H_SIZE, snprintf 12 (fmt_o 11 (st_size st)))]
      else if FIO_S_ISDIR (st_mode st) then [(H_TYPE, ''5'')]
      else if FIO_S_ISLNK (st_mode st) then [(H_TYPE, ''2''), (H_LINK, link)]
      else [])"

definition member_header :: "string \<times> string \<Rightarrow> iox_stat \<Rightarrow> string \<Rightarrow> string" where
  "member_header names st link =
     (let b = writes (name_writes names @ attr_writes st @ type_writes st link) (replicate H_END NUL)
      in upd H_CHK (tar_checksum b) b)"

lemma length_snprintf [simp]: "0 < n \<Longrightarrow> n \<le> m \<Longrightarrow> length (snprintf n s) \<le> m"
  by (simp add: snprintf_def)

lemma length_checksum [simp]: "8 \<le> m \<Longrightarrow> length (tar_checksum b) \<le> m"
  by (simp add: tar_checksum_def)

lemma upd_512: "k + length s \<le> 512 \<Longrightarrow> length b = 512 \<Longrightarrow> length (upd k s b) = 512"
  by simp

lemma length_writes:
  "(\<forall>(k, s) \<in> set ws. k + length s \<le> 512) \<Longrightarrow> length b = 512 \<Longrightarrow> length (writes ws b) = 512"
  by (induction ws arbitrary: b) (auto simp: upd_512)

text \<open>The lengths that make every write of a header land inside it.\<close>

definition names_fit :: "string \<times> string \<Rightarrow> bool" where
  "names_fit names = (length (fst names) \<le> 154 \<and> length (snd names) \<le> 512)"

lemma header_writes_fit:
  "names_fit names \<Longrightarrow> \<forall>(k, s) \<in> set (name_writes names). k + length s \<le> 512"
  "\<forall>(k, s) \<in> set (attr_writes st). k + length s \<le> 512"
  "length link \<le> 100 \<Longrightarrow> \<forall>(k, s) \<in> set (type_writes st link). k + length s \<le> 512"
  by (auto simp: name_writes_def attr_writes_def type_writes_def names_fit_def)

lemma length_member_header:
  assumes "names_fit names" "length link \<le> 100"
  shows "length (member_header names st link) = 512"
proof -
  have "length (writes (name_writes names @ attr_writes st @ type_writes st link)
      (replicate 512 NUL)) = 512"
    using header_writes_fit(1) [OF assms(1)] header_writes_fit(2) [of st]
      header_writes_fit(3) [OF assms(2), of st]
    by (intro length_writes) auto
  then show ?thesis by (simp add: member_header_def Let_def upd_512)
qed

text \<open>The programs that build the header, on fields that fit.\<close>

lemma name_fields_run:
  assumes "names_fit names"
  shows "tar_name_fields names = retM (writes (name_writes names) (replicate H_END NUL))"
  using assms
  by (cases names)
    (simp add: tar_name_fields_def name_writes_def names_fit_def putM_run bindM_retM upd_512)

lemma attr_fields_run:
  "length b = 512 \<Longrightarrow> tar_attr_fields st b = retM (writes (attr_writes st) b)"
  by (simp add: tar_attr_fields_def attr_writes_def putM_run bindM_retM)

lemma type_fields_run:
  assumes "length b = 512"
  shows "FIO_S_ISREG (st_mode st) \<Longrightarrow> tar_type_fields p st b =
      bindM (codeM (Ix_open p FIO_O_RDONLY 0)) (\<lambda>f. retM (f, writes (type_writes st []) b))"
    "\<not> FIO_S_ISREG (st_mode st) \<Longrightarrow> \<not> FIO_S_ISLNK (st_mode st) \<Longrightarrow>
      tar_type_fields p st b = retM (- 1, writes (type_writes st []) b)"
    "FIO_S_ISLNK (st_mode st) \<Longrightarrow> tar_type_fields p st b =
      bindM (callM (Ix_readlink p 100)) (\<lambda>r. retM (- 1, writes (type_writes st (take 100 (rp_data r))) b))"
  using assms
  by (simp_all add: tar_type_fields_def type_writes_def putM_run bindM_retM
    FIO_S_ISREG_def FIO_S_ISDIR_def FIO_S_ISLNK_def fio min_le_iff_disj)

subsection \<open>Reading the header\<close>

lemma field_str_upd_other:
  assumes "k + length s \<le> length b" "i + n \<le> length b" "i + n \<le> k \<or> k + length s \<le> i"
  shows "field_str i n (upd k s b) = field_str i n b"
  by (simp add: field_str_def field_upd_other [OF assms])

text \<open>A number written with \<open>snprintf\<close> into its field.\<close>

lemma field_str_number:
  assumes "k + Suc n \<le> length b" "length d = n" "NUL \<notin> set d" "m = n \<or> m = Suc n"
  shows "field_str k m (upd k (snprintf (Suc n) d) b) = d"
proof -
  have "field k m (upd k (snprintf (Suc n) d) b) = take m (d @ [NUL])"
    using assms by (subst field_upd_same) (auto simp: snprintf_def field_def)
  then show ?thesis
    using assms before_char_append [of NUL d "[]"]
    by (auto simp: field_str_def before_char_none)
qed

lemma field_str_name:
  assumes "length name \<le> n" "NUL \<notin> set name" "k + n \<le> length b"
    and "field k n b = replicate n NUL"
  shows "field_str k n (upd k name b) = name"
proof -
  have "field k n (upd k name b) = name @ field (k + length name) (n - length name) b"
    using assms by (simp add: field_split [of k n _ "length name"] field_upd_same field_upd_other
      field_all)
  also have "field (k + length name) (n - length name) b = replicate (n - length name) NUL"
    using arg_cong [OF assms(4), of "drop (length name)"] assms(1)
    by (simp add: field_def drop_take add.commute)
  finally show ?thesis
    using assms(2) by (simp add: field_str_def before_char_zeros)
qed

text \<open>What \<open>restore_from_tar\<close> reads from the header of a member with a short name.\<close>

definition type_char :: "iox_stat \<Rightarrow> char" where
  "type_char st = (if FIO_S_ISREG (st_mode st) then CHR ''0''
     else if FIO_S_ISDIR (st_mode st) then CHR ''5''
     else if FIO_S_ISLNK (st_mode st) then CHR ''2'' else NUL)"

definition member_of :: "string \<Rightarrow> iox_stat \<Rightarrow> string \<Rightarrow> member" where
  "member_of name st link = \<lparr>mb_name = name,
     mb_size = (if FIO_S_ISREG (st_mode st) then st_size st else 0),
     mb_type = type_char st,
     mb_mtime = uint (to_u32 (convert_iox_stat_time_to_posix (st_mtime st))),
     mb_mode = tar_mode_to_posix (st_mode st),
     mb_link = (if type_char st = CHR ''2'' then link else [])\<rparr>"

lemma tar_mode_bound: "unat (tar_mode_to_posix m) < 8 ^ Suc 6"
proof -
  have "tar_mode_to_posix m = tar_mode_to_posix m AND 0xFFFF"
    by (simp add: tar_mode_to_posix_nf posix_type_def bit.conj_disj_distrib2 and.assoc)
  then have "tar_mode_to_posix m \<le> 0xFFFF"
    by (metis word_and_le1)
  then show ?thesis by (simp add: word_le_nat_alt)
qed

lemma u32_bound: "unat (v :: u32) < 8 ^ Suc 10"
  by (rule less_trans [OF unat_less]) simp

lemma fmt_o_zero: "replicate 11 (CHR ''0'') = fmt_o 11 0"
  by code_simp

lemma field_str_zeros: "field_str i n (replicate m NUL) = []"
  by (cases "min n (m - i)") (simp_all add: field_str_def field_def before_char_def)

lemma name_part:
  assumes "length name \<le> 100" "NUL \<notin> set name"
  defines "b \<equiv> writes (name_writes ([], name)) (replicate 512 NUL)"
  shows "length b = 512" "field_str H_NAME 100 b = name" "field_str H_SIZE 12 b = fmt_o 11 0"
    "field H_LINK 100 b = replicate 100 NUL" "field_str H_LINK 100 b = []" "b ! H_TYPE = NUL"
proof -
  show "length b = 512"
    using header_writes_fit(1) [of "([], name)"] assms by (auto simp: names_fit_def intro!: length_writes)
  show "field_str H_NAME 100 b = name"
    using assms by (simp add: name_writes_def field_str_name field_upd_other field_zeros upd_512)
  have "field H_SIZE 12 b = fmt_o 11 0 @ [NUL]"
    using assms
    by (simp add: name_writes_def field_split [of 124 12 _ 11] field_upd_other field_upd_same
      field_zeros upd_512 fmt_o_zero [symmetric] field_all [of "replicate 11 (CHR ''0'')", simplified])
  then show "field_str H_SIZE 12 b = fmt_o 11 0"
    using before_char_append [of NUL "fmt_o 11 0" "[]"] NUL_fmt_o by (simp add: field_str_def)
  show "field H_LINK 100 b = replicate 100 NUL"
    using assms by (simp add: name_writes_def field_upd_other field_zeros upd_512)
  show "field_str H_LINK 100 b = []"
    using assms by (simp add: name_writes_def field_str_upd_other field_str_zeros upd_512)
  show "b ! H_TYPE = NUL"
    using assms by (simp add: name_writes_def nth_upd upd_512)
qed

lemma attr_part:
  fixes st :: iox_stat
  assumes "length b = 512"
  defines "c \<equiv> writes (attr_writes st) b"
  shows "length c = 512"
    "field_str H_MODE 7 c = fmt_o 7 (tar_mode_to_posix (st_mode st))"
    "field_str H_MTIME 12 c = fmt_o 11 (to_u32 (convert_iox_stat_time_to_posix (st_mtime st)))"
    "field_str H_NAME 100 c = field_str H_NAME 100 b" "field_str H_SIZE 12 c = field_str H_SIZE 12 b"
    "field H_LINK 100 c = field H_LINK 100 b"
    "field_str H_LINK 100 c = field_str H_LINK 100 b" "c ! H_TYPE = b ! H_TYPE"
  using assms tar_mode_bound u32_bound
  by (simp_all add: attr_writes_def upd_512 field_str_upd_other field_upd_other nth_upd_other
    field_str_number [of _ 7, simplified] field_str_number [of _ 11, simplified]
    length_fmt_o [of _ 6, simplified] length_fmt_o [of _ 10, simplified] NUL_fmt_o)

lemma type_part:
  fixes st :: iox_stat
  assumes "length b = 512" "length link \<le> 100" "NUL \<notin> set link"
    and "field_str H_SIZE 12 b = fmt_o 11 0" "field_str H_LINK 100 b = []" "b ! H_TYPE = NUL"
    and "field H_LINK 100 b = replicate 100 NUL"
  defines "d \<equiv> writes (type_writes st link) b"
  shows "length d = 512" "field_str H_NAME 100 d = field_str H_NAME 100 b"
    "field_str H_SIZE 12 d = fmt_o 11 (if FIO_S_ISREG (st_mode st) then st_size st else 0)"
    "field_str H_MODE 7 d = field_str H_MODE 7 b" "field_str H_MTIME 12 d = field_str H_MTIME 12 b"
    "field_str H_LINK 100 d = (if type_char st = CHR ''2'' then link else [])"
    "d ! H_TYPE = type_char st"
proof -
  note field_rules = upd_512 field_str_upd_other nth_upd_other nth_upd field_upd_other
    field_str_number [of _ 11, simplified] length_fmt_o [of _ 10, simplified] NUL_fmt_o field_str_name
    type_char_def type_writes_def
  consider "FIO_S_ISREG (st_mode st)" | "\<not> FIO_S_ISREG (st_mode st)" "FIO_S_ISDIR (st_mode st)"
    | "\<not> FIO_S_ISREG (st_mode st)" "\<not> FIO_S_ISDIR (st_mode st)" "FIO_S_ISLNK (st_mode st)"
    | "\<not> FIO_S_ISREG (st_mode st)" "\<not> FIO_S_ISDIR (st_mode st)" "\<not> FIO_S_ISLNK (st_mode st)"
    by blast
  then have "length d = 512 \<and> field_str H_NAME 100 d = field_str H_NAME 100 b \<and>
    field_str H_SIZE 12 d = fmt_o 11 (if FIO_S_ISREG (st_mode st) then st_size st else 0) \<and>
    field_str H_MODE 7 d = field_str H_MODE 7 b \<and> field_str H_MTIME 12 d = field_str H_MTIME 12 b \<and>
    field_str H_LINK 100 d = (if type_char st = CHR ''2'' then link else []) \<and>
    d ! H_TYPE = type_char st"
    using assms u32_bound by cases (simp_all add: field_rules)
  then show "length d = 512" "field_str H_NAME 100 d = field_str H_NAME 100 b"
    "field_str H_SIZE 12 d = fmt_o 11 (if FIO_S_ISREG (st_mode st) then st_size st else 0)"
    "field_str H_MODE 7 d = field_str H_MODE 7 b" "field_str H_MTIME 12 d = field_str H_MTIME 12 b"
    "field_str H_LINK 100 d = (if type_char st = CHR ''2'' then link else [])"
    "d ! H_TYPE = type_char st"
    by blast+
qed

lemma read_member_header:
  assumes "length name \<le> 100" "NUL \<notin> set name" "length link \<le> 100" "NUL \<notin> set link"
  shows "read_header (member_header ([], name) st link) = member_of name st link"
proof -
  define b where "b = writes (name_writes ([], name)) (replicate 512 NUL)"
  define c where "c = writes (attr_writes st) b"
  define d where "d = writes (type_writes st link) c"
  note b = name_part [OF assms(1,2), folded b_def]
  note c = attr_part [OF b(1), of st, folded c_def]
  have d: "length d = 512" "field_str H_NAME 100 d = name"
    "field_str H_SIZE 12 d = fmt_o 11 (if FIO_S_ISREG (st_mode st) then st_size st else 0)"
    "field_str H_MODE 7 d = fmt_o 7 (tar_mode_to_posix (st_mode st))"
    "field_str H_MTIME 12 d = fmt_o 11 (to_u32 (convert_iox_stat_time_to_posix (st_mtime st)))"
    "field_str H_LINK 100 d = (if type_char st = CHR ''2'' then link else [])"
    "d ! H_TYPE = type_char st"
    using type_part [OF c(1) assms(3,4), where st = st, folded d_def] b c by simp_all
  have "member_header ([], name) st link = upd H_CHK (tar_checksum d) d"
    by (simp add: member_header_def writes_append b_def c_def d_def Let_def)
  then show ?thesis
    using d by (simp add: read_header_def member_of_def field_str_upd_other nth_upd_other
      strtol8_fmt_o to_u32_def)
qed

end
