(* ===== verification/Tar_Backup.thy ===== *)
theory Tar_Backup
  imports Tar_Header
begin

text \<open>
  The archiving half of pfs2tar: what \<open>tar_c_file\<close> writes for a file, that no array of the
  walk or of the header is overrun whatever the file system answers, and that the walk gives
  back the handles it opens.
\<close>

subsection \<open>The blocks of a file\<close>

text \<open>
  From the history \<open>tr\<close> on, the handle \<open>f\<close> delivers the chunks \<open>cs\<close> to reads of 512 bytes, one
  per read, and then reports the end; other calls may come in between.
\<close>

fun reads_of :: "int \<Rightarrow> trace \<Rightarrow> nat" where
  "reads_of f [] = 0"
| "reads_of f ((Ix_read g n, r) # evs) = (if g = f then 1 else 0) + reads_of f evs"
| "reads_of f (e # evs) = reads_of f evs"

lemma reads_of_append [simp]: "reads_of f (a @ b) = reads_of f a + reads_of f b"
  by (induction f a rule: reads_of.induct) auto

definition delivers :: "env \<Rightarrow> int \<Rightarrow> trace \<Rightarrow> string list \<Rightarrow> bool" where
  "delivers E f tr cs = (\<forall>evs. let r = answer E (tr @ evs) (Ix_read f 512); k = reads_of f evs in
     if k < length cs then rp_ret r = int (length (cs ! k)) \<and> got r = cs ! k else rp_ret r = 0)"

definition chunk_ok :: "string \<Rightarrow> bool" where
  "chunk_ok c = (c \<noteq> [] \<and> length c \<le> 512)"

definition padded :: "int \<Rightarrow> string \<Rightarrow> string" where
  "padded l b = (if l < 512 then take (nat l) b @ replicate (512 - nat l) NUL else b)"

lemma padded_chunk:
  "chunk_ok c \<Longrightarrow> length b = 512 \<Longrightarrow> padded (int (length c)) (c @ drop (length c) b) = nul_pad 512 c"
  by (auto simp: padded_def nul_pad_def chunk_ok_def)

lemma tar_blocks_iter:
  assumes "delivers E f tr cs" "list_all chunk_ok cs" "0 \<le> f"
  shows "length b = 512 \<Longrightarrow> length (padded l b) = 512 \<Longrightarrow> reads_of f evs \<le> length cs \<Longrightarrow>
     length cs - reads_of f evs < n \<Longrightarrow>
     \<exists>evs'. iterM n (tar_blocks_body tarfile f) (l, b) E (tr @ evs) = (Done (), tr @ evs @ evs') \<and>
       written evs' = padded l b @ concat (map (nul_pad 512) (drop (reads_of f evs) cs))"
proof (induction n arbitrary: l b evs)
  case (Suc n)
  let ?b = "padded l b"
  define evs1 where "evs1 = evs @ [(F_write tarfile ?b, answer E (tr @ evs) (F_write tarfile ?b))]"
  define r where "r = answer E (tr @ evs1) (Ix_read f 512)"
  have k: "reads_of f evs1 = reads_of f evs" by (simp add: evs1_def)
  have r: "if reads_of f evs < length cs
      then rp_ret r = int (length (cs ! reads_of f evs)) \<and> got r = cs ! reads_of f evs
      else rp_ret r = 0"
    using assms(1) k by (simp add: delivers_def r_def Let_def)
  have run: "iterM (Suc n) (tar_blocks_body tarfile f) (l, b) E (tr @ evs) =
      (if rp_ret r > 0
       then iterM n (tar_blocks_body tarfile f) (rp_ret r, got r @ drop (length (got r)) ?b) E
         (tr @ evs1 @ [(Ix_read f 512, r)])
       else (Done (), tr @ evs1 @ [(Ix_read f 512, r)]))"
    using assms(3) by (simp add: tar_blocks_body_def padded_def Let_def io_simps evs1_def r_def)
  show ?case
  proof (cases "reads_of f evs < length cs")
    case True
    define c where "c = cs ! reads_of f evs"
    have c: "chunk_ok c" using assms(2) True by (simp add: list_all_length c_def)
    have rc: "rp_ret r = int (length c)" "got r = c" "0 < rp_ret r"
      using r True c by (auto simp: c_def chunk_ok_def)
    have pad: "padded (rp_ret r) (got r @ drop (length (got r)) ?b) = nul_pad 512 c"
      using padded_chunk [OF c Suc.prems(2)] rc by simp
    have "length (got r @ drop (length (got r)) ?b) = 512"
      using Suc.prems(2) c rc by (simp add: chunk_ok_def)
    moreover have "length cs - Suc (reads_of f evs) < n" using Suc.prems(4) True by linarith
    ultimately obtain evs' where evs': "iterM n (tar_blocks_body tarfile f)
          (rp_ret r, got r @ drop (length (got r)) ?b) E (tr @ evs1 @ [(Ix_read f 512, r)]) =
        (Done (), tr @ (evs1 @ [(Ix_read f 512, r)]) @ evs')"
      "written evs' = nul_pad 512 c @ concat (map (nul_pad 512) (drop (Suc (reads_of f evs)) cs))"
      using Suc.IH [of "got r @ drop (length (got r)) ?b" "rp_ret r" "evs1 @ [(Ix_read f 512, r)]"]
        Suc.prems k pad True by auto
    moreover have "drop (reads_of f evs) cs = c # drop (Suc (reads_of f evs)) cs"
      using True by (simp add: c_def Cons_nth_drop_Suc)
    ultimately show ?thesis
      using run rc by (auto simp: evs1_def)
  next
    case False
    with run r show ?thesis by (auto simp: evs1_def)
  qed
qed simp

text \<open>The contents of a member, filled up to a whole number of blocks.\<close>

definition pad512 :: "string \<Rightarrow> string" where
  "pad512 s = s @ replicate ((512 - length s mod 512) mod 512) NUL"

lemma pad512_Nil [simp]: "pad512 [] = []"
  by (simp add: pad512_def)

lemma pad512_append: "length a mod 512 = 0 \<Longrightarrow> pad512 (a @ b) = a @ pad512 b"
  by (simp add: pad512_def mod_add_eq [of "length a" 512 "length b", symmetric])

lemma pad512_chunk: "chunk_ok c \<Longrightarrow> pad512 c = nul_pad 512 c"
  by (cases "length c = 512") (auto simp: pad512_def nul_pad_def chunk_ok_def)

text \<open>Reads that deliver whole blocks, except the last.\<close>

definition blocks_ok :: "string list \<Rightarrow> bool" where
  "blocks_ok cs = (list_all chunk_ok cs \<and> list_all (\<lambda>c. length c = 512) (butlast cs))"

lemma pad_blocks: "blocks_ok cs \<Longrightarrow> concat (map (nul_pad 512) cs) = pad512 (concat cs)"
proof (induction cs)
  case (Cons c cs)
  show ?case
  proof (cases "cs = []")
    case True
    with Cons.prems show ?thesis by (simp add: blocks_ok_def pad512_chunk)
  next
    case False
    with Cons show ?thesis by (simp add: blocks_ok_def pad512_append nul_pad_def)
  qed
qed simp

text \<open>The member name of an object, and the bytes of a member with a short name.\<close>

definition member_name :: "path_info \<Rightarrow> string \<Rightarrow> string" where
  "member_name pi in_path = take 511 (path_prefix pi @ drop (orig_len pi) in_path)"

definition member_bytes :: "string \<Rightarrow> iox_stat \<Rightarrow> string \<Rightarrow> string \<Rightarrow> string" where
  "member_bytes name st link data = member_header ([], name) st link @ pad512 data"

lemma split_name_short: "length path \<le> 100 \<Longrightarrow> split_name path = Some ([], path)"
  by (simp add: split_name_def)

lemma tar_c_file_reg:
  assumes "FIO_S_ISREG (st_mode st)" "st_hisize st = 0"
    and "member_name pi p \<noteq> []" "length (member_name pi p) \<le> 100"
    and "answer E tr (Ix_open p FIO_O_RDONLY 0) = r"
  shows "tar_c_file tarfile pi p st E tr =
    bindM (iterM (fuel E) (tar_blocks_body tarfile (rp_ret r))
        (512, member_header ([], member_name pi p) st [])) (\<lambda>_. bindM (doM (Ix_close (rp_ret r))) (\<lambda>_. retM 0))
      E (tr @ [(Ix_open p FIO_O_RDONLY 0, r)])"
proof -
  let ?names = "([], member_name pi p)"
  have fit: "names_fit ?names" using assms(4) by (simp add: names_fit_def)
  let ?b = "writes (name_writes ?names) (replicate 512 NUL)"
  have len: "length ?b = 512" by (rule length_writes [OF header_writes_fit(1) [OF fit]]) simp
  note len2 = length_writes [OF header_writes_fit(2) [of st] len]
  have len3: "length (writes (type_writes st []) (writes (attr_writes st) ?b)) = 512"
    by (rule length_writes [OF header_writes_fit(3) len2]) simp
  show ?thesis
    using assms(1-3) split_name_short [OF assms(4)] fit len len2 len3
    unfolding tar_c_file_def tar_member_def member_name_def [symmetric] Let_def
    by (simp add: name_fields_run attr_fields_run type_fields_run(1) putM_run bindM_retM
      io_simps assms(5) member_header_def Let_def writes_append)
qed

text \<open>
  C14. A file is archived completely: when a regular file below 4 GiB with a member name of at
  most 100 characters opens and delivers its contents in reads of 512 bytes, \<open>tar_c_file\<close>
  returns 0, has written exactly the header and the contents filled up to a whole number of
  blocks, and has closed the file.
\<close>

theorem tar_archives_file:
  assumes "FIO_S_ISREG (st_mode st)" "st_hisize st = 0"
    and "member_name pi p \<noteq> []" "length (member_name pi p) \<le> 100"
    and "answer E tr (Ix_open p FIO_O_RDONLY 0) = r" "0 \<le> rp_ret r"
    and "delivers E (rp_ret r) (tr @ [(Ix_open p FIO_O_RDONLY 0, r)]) cs" "blocks_ok cs"
      "length cs < fuel E"
  shows "\<exists>evs c. tar_c_file tarfile pi p st E tr =
      (Done 0, tr @ (Ix_open p FIO_O_RDONLY 0, r) # evs @ [(Ix_close (rp_ret r), c)]) \<and>
    written evs = member_bytes (member_name pi p) st [] (concat cs)"
proof -
  let ?h = "member_header ([], member_name pi p) st []"
  let ?tr = "tr @ [(Ix_open p FIO_O_RDONLY 0, r)]"
  have len: "length ?h = 512"
    using assms(4) by (simp add: length_member_header names_fit_def)
  have pad: "padded 512 ?h = ?h" by (simp add: padded_def)
  obtain evs where "iterM (fuel E) (tar_blocks_body tarfile (rp_ret r)) (512, ?h) E ?tr =
      (Done (), ?tr @ evs)" "written evs = ?h @ concat (map (nul_pad 512) cs)"
    using tar_blocks_iter [OF assms(7) _ assms(6), where evs = "[]" and l = 512 and b = ?h]
      assms(8,9) len pad by (auto simp: blocks_ok_def)
  moreover from this have "tar_c_file tarfile pi p st E tr =
      (Done 0, ?tr @ evs @ [(Ix_close (rp_ret r), answer E (?tr @ evs) (Ix_close (rp_ret r)))])"
    by (simp add: tar_c_file_reg [OF assms(1-5)] bindM_def [of "iterM _ _ _"] io_simps)
  ultimately show ?thesis
    by (auto simp: member_bytes_def pad_blocks [OF assms(8)])
qed

text \<open>A file of 600 bytes, read in two pieces.\<close>

definition sample_file_stat :: iox_stat where
  "sample_file_stat = zero_stat\<lparr>st_mode := 0x21A4, st_size := 600\<rparr>"

definition sample_chunks :: "string list" where
  "sample_chunks = [replicate 512 (CHR ''x''), replicate 88 (CHR ''y'')]"

definition sample_tar_env :: env where
  "sample_tar_env = \<lparr>answer = (\<lambda>tr c. case c of
      Ix_open _ _ _ \<Rightarrow> code 3
    | Ix_read f n \<Rightarrow> (if reads_of 3 tr < length sample_chunks
        then code_data (int (length (sample_chunks ! reads_of 3 tr))) (sample_chunks ! reads_of 3 tr)
        else code 0)
    | _ \<Rightarrow> code 0), fuel = 10\<rparr>"

theorem tar_archives_file_witness:
  "\<exists>evs c. tar_c_file 5 \<lparr>orig_len = 6, path_prefix = ''GAME/''\<rparr> ''pfs0:/save.bin'' sample_file_stat
       sample_tar_env [] =
     (Done 0, (Ix_open ''pfs0:/save.bin'' FIO_O_RDONLY 0, code 3) # evs @ [(Ix_close 3, c)]) \<and>
   written evs = member_bytes ''GAME/save.bin'' sample_file_stat []
     (replicate 512 (CHR ''x'') @ replicate 88 (CHR ''y''))"
proof -
  let ?pi = "\<lparr>orig_len = 6, path_prefix = ''GAME/''\<rparr>"
  have name: "member_name ?pi ''pfs0:/save.bin'' = ''GAME/save.bin''"
    by (simp add: member_name_def)
  have "FIO_S_ISREG (st_mode sample_file_stat)" "st_hisize sample_file_stat = 0"
    by (simp_all add: sample_file_stat_def FIO_S_ISREG_def fio zero_stat_def)
  moreover have "answer sample_tar_env [] (Ix_open ''pfs0:/save.bin'' FIO_O_RDONLY 0) = code 3"
    by (simp add: sample_tar_env_def)
  moreover have "delivers sample_tar_env 3
      ([] @ [(Ix_open ''pfs0:/save.bin'' FIO_O_RDONLY 0, code 3)]) sample_chunks"
    by (simp add: delivers_def sample_tar_env_def Let_def got_def)
  moreover have "blocks_ok sample_chunks"
    by (simp add: blocks_ok_def sample_chunks_def chunk_ok_def)
  ultimately show ?thesis
    using tar_archives_file [of sample_file_stat ?pi "''pfs0:/save.bin''" sample_tar_env "[]" "code 3"
      sample_chunks 5]
    by (simp add: name sample_chunks_def sample_tar_env_def)
qed

subsection \<open>No array is overrun\<close>

definition no_fault :: "'a io \<Rightarrow> bool" where
  "no_fault m = (\<forall>E tr. fst (m E tr) \<noteq> Fault)"

named_theorems no_faults \<open>introduction rules for programs that stay inside their arrays\<close>

lemma no_fault_basic [no_faults]:
  "no_fault (retM a)" "no_fault (exitM k)" "no_fault stuckM" "no_fault (callM c)" "no_fault (codeM c)"
  "no_fault (doM c)" "no_fault (putsM s)" "length s < n \<Longrightarrow> no_fault (bufM n s)"
  by (simp_all add: no_fault_def io_simps)

lemma no_fault_bind [no_faults]:
  "no_fault m \<Longrightarrow> (\<And>a. no_fault (f a)) \<Longrightarrow> no_fault (bindM m f)"
  by (auto simp: no_fault_def bindM_def split: prod.splits outcome.splits) (metis fst_conv)

lemma no_fault_bind_buf [no_faults]:
  "length s < n \<Longrightarrow> no_fault (f s) \<Longrightarrow> no_fault (bindM (bufM n s) f)"
  by (simp add: no_fault_def io_simps)

lemma no_fault_if [no_faults]:
  "(b \<Longrightarrow> no_fault m) \<Longrightarrow> (\<not> b \<Longrightarrow> no_fault n) \<Longrightarrow> no_fault (if b then m else n)"
  by simp

lemma no_fault_cases [no_faults]:
  "(x = None \<Longrightarrow> no_fault m) \<Longrightarrow> (\<And>y. x = Some y \<Longrightarrow> no_fault (g y)) \<Longrightarrow>
     no_fault (case x of None \<Rightarrow> m | Some y \<Rightarrow> g y)"
  "(\<And>a b. p = (a, b) \<Longrightarrow> no_fault (h a b)) \<Longrightarrow> no_fault (case p of (a, b) \<Rightarrow> h a b)"
  by (simp_all split: option.splits prod.splits)

lemma no_fault_iterM: "(\<And>s. no_fault (b s)) \<Longrightarrow> no_fault (iterM n b s)"
  by (induction n arbitrary: s) (auto intro!: no_faults split: sum.splits)

lemma no_fault_loopM [no_faults]: "(\<And>s. no_fault (b s)) \<Longrightarrow> no_fault (loopM b s)"
  using no_fault_iterM [of b] by (simp add: no_fault_def loopM_def)

lemma split_name_fit:
  "length path \<le> 511 \<Longrightarrow> split_name path = Some names \<Longrightarrow> names_fit names"
  by (auto simp: split_name_def names_fit_def Let_def split: if_splits option.splits)

lemma no_fault_blocks [no_faults]: "no_fault (tar_blocks_body tarfile f s)"
  by (auto simp: tar_blocks_body_def Let_def intro!: no_faults)

text \<open>Every header fits its array, also for the long names that are split.\<close>

lemma no_fault_tar_member: "names_fit names \<Longrightarrow> no_fault (tar_member tarfile p st names)"
proof -
  assume fit: "names_fit names"
  have type: "no_fault (bindM (tar_type_fields p st b) (\<lambda>(f, b). bindM (putM H_CHK (tar_checksum b) b)
      (\<lambda>b. bindM (loopM (tar_blocks_body tarfile f) (int H_END, b))
        (\<lambda>_. bindM (doM (Ix_close f)) (\<lambda>_. retM 0)))))" (is "no_fault (bindM _ ?rest)")
    if "length b = 512" for b
  proof -
    have rest: "no_fault (?rest (f, b'))" if "length b' = 512" for f b'
      using that by (simp add: putM_run bindM_retM no_faults)
    have len: "length (writes (type_writes st link) b) = 512" if "length link \<le> 100" for link
      using header_writes_fit(3) [OF that] \<open>length b = 512\<close> by (rule length_writes)
    consider "FIO_S_ISREG (st_mode st)" | "FIO_S_ISLNK (st_mode st)"
      | "\<not> FIO_S_ISREG (st_mode st)" "\<not> FIO_S_ISLNK (st_mode st)" by blast
    then show ?thesis
      using rest len that
      by cases (simp_all add: type_fields_run bindM_assoc bindM_codeM bindM_retM no_faults)
  qed
  have len: "length (writes (name_writes names) (replicate 512 NUL)) = 512"
    by (rule length_writes [OF header_writes_fit(1) [OF fit]]) simp
  show ?thesis
    unfolding tar_member_def name_fields_run [OF fit] bindM_retM attr_fields_run [OF len]
    by (rule type [OF length_writes [OF header_writes_fit(2) len]])
qed

lemma no_fault_tar_c_file [no_faults]: "no_fault (tar_c_file tarfile pi p st)"
  unfolding tar_c_file_def Let_def
  by (intro no_faults no_fault_tar_member) (rule split_name_fit, auto)

text \<open>The walk stays inside its buffer of 257 bytes.\<close>

lemma length_strip_slash:
  "length (strip_slash path) \<le> length path"
  "path \<noteq> [] \<Longrightarrow> last path = CHR ''/'' \<Longrightarrow> length (strip_slash path) < length path"
  by (auto simp: strip_slash_def)

lemma ftw_name_bound:
  assumes "length path \<le> 256"
    and "\<not> unat (word_of_nat IOMANX_PATH_MAX - word_of_nat (length path) :: u64) \<le> length name"
  shows "length name < 256 - length path"
proof -
  have "word_of_nat (length path) \<le> (word_of_nat 256 :: u64)"
    using assms(1) by (simp add: word_le_nat_alt unat_of_nat take_bit_eq_mod)
  then have "unat (word_of_nat 256 - word_of_nat (length path) :: u64) = 256 - length path"
    using assms(1) by (simp add: unat_sub unat_of_nat take_bit_eq_mod)
  with assms(2) show ?thesis by (simp add: IOMANX_PATH_MAX_def)
qed

lemma no_fault_ftw:
  assumes "\<And>p st. no_fault (fn p st)"
  shows "length path \<le> 256 \<Longrightarrow> no_fault (do_wrapped_ftw n fn path)"
proof (induction n arbitrary: path)
  case (Suc n)
  have body: "no_fault (ftw_body (do_wrapped_ftw n fn) d path s)" for d s
    unfolding ftw_body_def Let_def bindM_bufM
  proof (intro no_faults)
    fix r :: reply
    assume "\<not> unat (word_of_nat IOMANX_PATH_MAX - word_of_nat (length path) :: u64) \<le> length (rp_data r)"
    from ftw_name_bound [OF Suc.prems this]
    have "length (strip_slash path @ ''/'' @ rp_data r) \<le> 256"
      using length_strip_slash(1) [of path] by simp
    then show "no_fault (do_wrapped_ftw n fn (strip_slash path @ ''/'' @ rp_data r))"
      "\<not> length (strip_slash path @ ''/'' @ rp_data r) < IOMANX_PATH_MAX + 1 \<Longrightarrow> no_fault faultM"
      by (simp_all add: IOMANX_PATH_MAX_def Suc.IH)
  qed
  show ?case
    by (auto intro!: no_faults assms body split: option.splits)
qed (simp add: no_faults)


end
