(* ===== verification/Total.thy ===== *)
theory Total
  imports Prog
begin

text \<open>
  Total correctness: \<open>twp m E Q tr\<close> says that in environment \<open>E\<close>, after the history \<open>tr\<close>, the
  program \<open>m\<close> returns normally and the value and history satisfy \<open>Q\<close>. It is used where a
  program must reach its end: no exit, no fault, no loop that uses up its fuel.
\<close>

named_theorems twp \<open>introduction rules for total correctness\<close>

definition twp :: "'a io \<Rightarrow> env \<Rightarrow> ('a \<Rightarrow> trace \<Rightarrow> bool) \<Rightarrow> trace \<Rightarrow> bool" where
  "twp m E Q tr = (case m E tr of (Done a, tr') \<Rightarrow> Q a tr' | _ \<Rightarrow> False)"

lemma twpD: "twp m E Q tr \<Longrightarrow> \<exists>a tr'. m E tr = (Done a, tr') \<and> Q a tr'"
  by (auto simp: twp_def split: prod.splits outcome.splits)

lemma twpI: "m E tr = (Done a, tr') \<Longrightarrow> Q a tr' \<Longrightarrow> twp m E Q tr"
  by (simp add: twp_def)

lemma twp_mono: "twp m E Q tr \<Longrightarrow> (\<And>a tr'. Q a tr' \<Longrightarrow> R a tr') \<Longrightarrow> twp m E R tr"
  by (auto simp: twp_def split: prod.splits outcome.splits)

lemma twp_basic [twp]:
  "Q a tr \<Longrightarrow> twp (retM a) E Q tr"
  "R (answer E tr c) (tr @ [(c, answer E tr c)]) \<Longrightarrow> twp (callM c) E R tr"
  "S (rp_ret (answer E tr c)) (tr @ [(c, answer E tr c)]) \<Longrightarrow> twp (codeM c) E S tr"
  "T () (tr @ [(c, answer E tr c)]) \<Longrightarrow> twp (doM c) E T tr"
  "length s < n \<Longrightarrow> U s tr \<Longrightarrow> twp (bufM n s) E U tr"
  by (simp_all add: twp_def io_simps)

lemma twp_bind [twp]: "twp m E (\<lambda>a tr'. twp (f a) E Q tr') tr \<Longrightarrow> twp (bindM m f) E Q tr"
  by (auto simp: twp_def bindM_def split: prod.splits outcome.splits)

lemma twp_if [twp]:
  "(b \<Longrightarrow> twp m E Q tr) \<Longrightarrow> (\<not> b \<Longrightarrow> twp n E Q tr) \<Longrightarrow> twp (if b then m else n) E Q tr"
  by simp

lemma twp_let [twp]: "twp (f x) E Q tr \<Longrightarrow> twp (let y = x in f y) E Q tr"
  by simp

lemma twp_cases [twp]:
  "(x = None \<Longrightarrow> twp m E Q tr) \<Longrightarrow> (\<And>y. x = Some y \<Longrightarrow> twp (n y) E Q tr) \<Longrightarrow>
     twp (case x of None \<Rightarrow> m | Some y \<Rightarrow> n y) E Q tr"
  "(\<And>a b. p = (a, b) \<Longrightarrow> twp (g a b) E R tr) \<Longrightarrow> twp (case p of (a, b) \<Rightarrow> g a b) E R tr"
  by (auto split: option.splits prod.splits)

text \<open>One round of a loop, and a loop whose rounds decrease a measure.\<close>

lemma twp_iterM_Suc:
  assumes "twp (b s) E (\<lambda>x tr'. case x of Inl s' \<Rightarrow> twp (iterM n b s') E Q tr' | Inr r \<Rightarrow> Q r tr') tr"
  shows "twp (iterM (Suc n) b s) E Q tr"
  unfolding iterM.simps
  by (intro twp twp_mono [OF assms]) (auto intro: twp split: sum.splits)

lemma twp_iterM:
  assumes step: "\<And>s tr. I s tr \<Longrightarrow>
      twp (b s) E (\<lambda>x tr'. case x of Inl s' \<Rightarrow> I s' tr' \<and> V s' tr' < V s tr | Inr r \<Rightarrow> Q r tr') tr"
  shows "I s tr \<Longrightarrow> V s tr < n \<Longrightarrow> twp (iterM n b s) E Q tr"
proof (induction n arbitrary: s tr)
  case (Suc n)
  then show ?case
    by (intro twp_iterM_Suc twp_mono [OF step [OF Suc.prems(1)]]) (auto split: sum.splits)
qed simp

lemma twp_loopM: "twp (iterM (fuel E) b s) E Q tr \<Longrightarrow> twp (loopM b s) E Q tr"
  by (simp add: twp_def loopM_def)

end
