(* ===== verification/Tar_Restore.thy ===== *)
theory Tar_Restore
  imports Tar_Backup Total
begin

text \<open>
  The restoring half of pfs2tar, and the two halves together: the attributes of an object
  survive its header, and restoring an archive writes every file of the partition with exactly
  its contents.
\<close>


definition sample_link_stat :: iox_stat where
  "sample_link_stat = zero_stat\<lparr>st_mode := 0x41FF, st_mtime := [0, 58, 59, 23, 29, 2, 0xD4, 7]\<rparr>"


subsection \<open>The archive as a stream\<close>

text \<open>
  The summary of a history: the position in the archive, and the files opened on the device
  with their handles and what was written to them, the last one first. Bytes written to a
  handle go to the file it was last given to.
\<close>

type_synonym file_log = "(string \<times> int \<times> string) list"

type_synonym restored = "nat \<times> file_log"

fun add_data :: "int \<Rightarrow> string \<Rightarrow> file_log \<Rightarrow> file_log" where
  "add_data fd s [] = []"
| "add_data fd s ((q, h, t) # fs) =
     (if h = fd then (q, h, t @ s) # fs else (q, h, t) # add_data fd s fs)"

fun rs_step :: "int \<Rightarrow> restored \<Rightarrow> call \<times> reply \<Rightarrow> restored" where
  "rs_step tf (p, fs) (F_read h n, r) = (if h = tf then (p + nat (rp_ret r), fs) else (p, fs))"
| "rs_step tf (p, fs) (F_seek h off w, r) =
     (if h \<noteq> tf then (p, fs) else if w = SEEK_SET then (nat off, fs) else (p + nat off, fs))"
| "rs_step tf (p, fs) (Ix_open path f m, r) = (p, (path, rp_ret r, []) # fs)"
| "rs_step tf (p, fs) (Ix_write fd s, r) = (p, add_data fd s fs)"
| "rs_step tf (p, fs) _ = (p, fs)"

definition restored_in :: "int \<Rightarrow> trace \<Rightarrow> restored" where
  "restored_in tf tr = foldl (rs_step tf) (0, []) tr"

lemma restored_in_append [simp]:
  "restored_in tf (tr @ evs) = foldl (rs_step tf) (restored_in tf tr) evs"
  by (simp add: restored_in_def)

text \<open>The archive \<open>S\<close> behind the handle \<open>tf\<close>: a read delivers what follows the position.\<close>

definition streams :: "env \<Rightarrow> int \<Rightarrow> string \<Rightarrow> bool" where
  "streams E tf S = (\<forall>tr n. let d = take n (drop (fst (restored_in tf tr)) S) in
     answer E tr (F_read tf n) = code_data (int (length d)) d)"

lemma streamsD:
  assumes "streams E tf S" "restored_in tf tr = (p, fs)"
  shows "answer E tr (F_read tf n) =
    code_data (int (min n (length S - p))) (take n (drop p S))"
  using assms by (simp add: streams_def Let_def min.commute)

lemma data_loop:
  assumes S: "streams E tf S"
  shows "restored_in tf tr = (p, (q, fd, t) # fs) \<Longrightarrow> p + unat rem \<le> length S \<Longrightarrow>
    (unat rem + 511) div 512 < n \<Longrightarrow>
    twp (iterM n (restore_data_body tf fd) rem) E (\<lambda>_ tr'. restored_in tf tr' =
      (p + unat rem, (q, fd, t @ take (unat rem) (drop p S)) # fs)) tr"
proof (induction n arbitrary: tr p t rem)
  case (Suc n)
  show ?case
  proof (cases "rem = 0")
    case True
    then show ?thesis
      using Suc.prems by (intro twp_iterM_Suc) (auto simp: restore_data_body_def intro!: twp)
  next
    case False
    define c where "c = (if rem > 512 then 512 else rem)"
    have c: "unat c = min 512 (unat rem)" "c \<le> rem"
      by (auto simp: c_def word_le_nat_alt word_less_nat_alt)
    then have rest: "unat (rem - c) = unat rem - unat c" by (simp add: unat_sub)
    have pos: "0 < unat rem" using False by (simp add: unat_gt_0)
    define d where "d = take (unat c) (drop p S)"
    have len: "length d = unat c" using Suc.prems(2) c(1) by (simp add: d_def)
    have read: "answer E tr (F_read tf (unat c)) = code_data (int (unat c)) d"
      using streamsD [OF S Suc.prems(1), of "unat c"] Suc.prems(2) c(1)
      by (simp add: d_def min_def split: if_splits)
    have less: "(unat (rem - c) + 511) div 512 < n"
    proof (cases "unat rem \<le> 512")
      case True
      then have "1 \<le> (unat rem + 511) div 512" using pos by simp
      with Suc.prems(3) True c(1) rest show ?thesis by simp
    next
      case False
      then have "unat rem = unat (rem - c) + 512" using c(1) rest by simp
      then show ?thesis using Suc.prems(3) by simp
    qed
    have go_on: "twp (iterM n (restore_data_body tf fd) (rem - c)) E (\<lambda>_ tr'. restored_in tf tr' =
        (p + unat rem, (q, fd, t @ take (unat rem) (drop p S)) # fs)) tr'"
      if "restored_in tf tr' = (p + unat c, (q, fd, t @ d) # fs)" for tr'
    proof -
      have "p + unat c + unat (rem - c) = p + unat rem" using rest c(1) by simp
      moreover have "d @ take (unat (rem - c)) (drop (p + unat c) S) = take (unat rem) (drop p S)"
        using rest c(1) take_add [of "unat c" "unat rem - unat c" "drop p S"]
        by (simp add: d_def add.commute)
      ultimately show ?thesis
        using Suc.IH [OF that _ less] Suc.prems(2) by (simp add: add.assoc)
    qed
    define tr1 where "tr1 = tr @ [(F_read tf (unat c), code_data (int (unat c)) d)]"
    define tr2 where "tr2 = tr1 @ [(Ix_write fd d, answer E tr1 (Ix_write fd d))]"
    have "restore_data_body tf fd rem E tr = (Done (Inl (rem - c)), tr2)"
      using False word_gt_0 [of rem] len
      by (simp add: restore_data_body_def c_def [symmetric] read io_simps tr1_def tr2_def)
    moreover have "restored_in tf tr2 = (p + unat c, (q, fd, t @ d) # fs)"
      by (simp add: tr1_def tr2_def Suc.prems(1))
    ultimately show ?thesis
      by (intro twp_iterM_Suc) (rule twpI, assumption, simp add: go_on)
  qed
qed simp

subsection \<open>Restoring one member\<close>

text \<open>
  A member as it was archived: name, stat structure, link target and contents. The sizes leave
  room for the 32-bit arithmetic that skips the contents.
\<close>

record entry =
  en_name :: string
  en_stat :: iox_stat
  en_link :: string
  en_data :: string

definition entry_ok :: "entry \<Rightarrow> bool" where
  "entry_ok e = (en_name e \<noteq> [] \<and> length (en_name e) \<le> 100 \<and> NUL \<notin> set (en_name e) \<and>
     length (en_link e) \<le> 100 \<and> NUL \<notin> set (en_link e) \<and> known_type (st_mode (en_stat e)) \<and>
     length (en_data e) = (if FIO_S_ISREG (st_mode (en_stat e)) then unat (st_size (en_stat e)) else 0) \<and>
     length (en_data e) + 511 < 2 ^ 32)"

definition entry_header :: "entry \<Rightarrow> string" where
  "entry_header e = member_header ([], en_name e) (en_stat e) (en_link e)"

definition entry_bytes :: "entry \<Rightarrow> string" where
  "entry_bytes e = member_bytes (en_name e) (en_stat e) (en_link e) (en_data e)"

definition entry_member :: "entry \<Rightarrow> member" where
  "entry_member e = member_of (en_name e) (en_stat e) (en_link e)"

lemma length_pad512: "length (pad512 s) = (length s + 511) div 512 * 512"
proof -
  define q r where "q = length s div 512" and "r = length s mod 512"
  have s: "length s = q * 512 + r" "r < 512" by (simp_all add: q_def r_def)
  show ?thesis
  proof (cases "r = 0")
    case False
    then have "(q * 512 + r + 511) div 512 = q + 1" using s(2)
      by (intro div_nat_eqI) auto
    then show ?thesis using s False by (simp add: pad512_def)
  next
    case True
    have "(q * 512 + 511) div 512 = q" by (intro div_nat_eqI) auto
    then show ?thesis using s(1) True by (simp add: pad512_def)
  qed
qed

lemma tar_skip_unat: "unat v + 511 < 2 ^ 32 \<Longrightarrow> unat (tar_skip v) = (unat v + 511) div 512 * 512"
proof -
  assume b: "unat v + 511 < 2 ^ 32"
  then have sum: "unat (v + 511) = unat v + 511" by (simp add: unat_plus_if_size word_size)
  then have quot: "unat ((v + 511) div 512) = (unat v + 511) div 512" by (simp add: unat_div)
  have "(unat v + 511) div 512 * 512 < 2 ^ 32"
    using b by (rule order.strict_trans1 [rotated]) simp
  then show ?thesis
    unfolding tar_skip_def using quot
    by (subst unat_mult_lem [THEN iffD1]) (simp_all add: quot)
qed

lemma header_start: "length b = 512 \<Longrightarrow> field_str H_NAME 100 b \<noteq> [] \<Longrightarrow> b ! 0 \<noteq> NUL"
  by (cases b) (auto simp: field_str_def field_def before_char_def)

lemma entry_facts:
  assumes "entry_ok e"
  shows "length (entry_header e) = 512"
    and "read_header (entry_header e) = entry_member e"
    and "entry_header e ! 0 \<noteq> NUL"
    and "length (entry_bytes e) = 512 + unat (tar_skip (mb_size (entry_member e)))"
    and "unat (mb_size (entry_member e)) = length (en_data e)"
proof -
  show len: "length (entry_header e) = 512"
    unfolding entry_header_def using assms by (intro length_member_header) (auto simp: entry_ok_def names_fit_def)
  show read: "read_header (entry_header e) = entry_member e"
    unfolding entry_member_def entry_header_def using assms by (intro read_member_header) (auto simp: entry_ok_def)
  have "mb_name (read_header (entry_header e)) = en_name e"
    unfolding read by (simp add: entry_member_def member_of_def)
  then show "entry_header e ! 0 \<noteq> NUL"
    using header_start [OF len] assms by (simp add: read_header_def entry_ok_def)
  show sz: "unat (mb_size (entry_member e)) = length (en_data e)"
    using assms by (simp add: entry_member_def member_of_def entry_ok_def)
  then show "length (entry_bytes e) = 512 + unat (tar_skip (mb_size (entry_member e)))"
    using assms len
    by (subst tar_skip_unat) (simp_all add: entry_ok_def entry_bytes_def entry_header_def member_bytes_def length_pad512)
qed

text \<open>Steps that leave the summary alone.\<close>

lemma rs_step_idle: "\<forall>a n. c \<noteq> F_read a n \<Longrightarrow> \<forall>a n w. c \<noteq> F_seek a n w \<Longrightarrow>
    \<forall>a n k. c \<noteq> Ix_open a n k \<Longrightarrow> \<forall>a n. c \<noteq> Ix_write a n \<Longrightarrow> rs_step tf s (c, r) = s"
  by (cases c; cases s) auto

lemma twp_mkdirs [twp]:
  "(\<And>tr'. restored_in tf tr' = restored_in tf tr \<Longrightarrow> Q () tr') \<Longrightarrow> twp (mkdirs ds) E Q tr"
proof (induction ds arbitrary: tr)
  case (Cons d ds)
  show ?case
    unfolding mkdirs.simps
    by (intro twp Cons.IH Cons.prems) (simp add: rs_step_idle)
qed (simp add: twp)

lemma twp_parents:
  "(\<And>tr'. restored_in tf tr' = restored_in tf tr \<Longrightarrow> Q () tr') \<Longrightarrow>
     twp (ensure_parent_dirs_exist path) E Q tr"
  unfolding ensure_parent_dirs_exist_def by (rule twp_mkdirs)

lemma twp_restore_attrs:
  assumes "mb_mtime m = uint (t :: u32)"
    and "\<And>tr'. restored_in tf tr' = restored_in tf tr \<Longrightarrow> Q () tr'"
  shows "twp (restore_attrs path m) E Q tr"
proof -
  have "in_stamp_range (uint t)"
    using uint_bounded [of t] by (simp add: in_stamp_range_def)
  then obtain s where "convert_posix_time_to_iox_time (mb_mtime m) = Some s"
    using tar_times.time_inverse assms(1) by fastforce
  then show ?thesis
    by (cases "restored_in tf tr") (auto simp: restore_attrs_def intro!: twp assms(2))
qed

lemma twp_skip:
  assumes "restored_in tf tr = (p, fs)"
    and "\<And>tr'. restored_in tf tr' = (p + unat (tar_skip (mb_size m)), fs) \<Longrightarrow> Q () tr'"
  shows "twp (skip_member tf m) E Q tr"
  unfolding skip_member_def
  by (intro twp assms(2)) (simp add: assms(1) SEEK_CUR_def SEEK_SET_def)

text \<open>The contents of a file and the padding behind it.\<close>

lemma pad_seek:
  "size mod 512 \<noteq> 0 \<Longrightarrow> unat size + 511 < 2 ^ 32 \<Longrightarrow>
     unat size + unat (512 - size mod 512) = unat (tar_skip size)" for size :: u32
proof -
  assume a: "size mod 512 \<noteq> 0" "unat size + 511 < 2 ^ 32"
  define q r where "q = unat size div 512" and "r = unat size mod 512"
  have qr: "unat size = q * 512 + r" "r < 512" by (simp_all add: q_def r_def)
  have mod: "unat (size mod 512) = r" by (simp add: r_def unat_mod)
  then have "0 < r" using a(1) by (metis neq0_conv unat_eq_zero)
  have "unat (512 - size mod 512) = 512 - r"
    using mod qr(2) by (subst unat_sub) (simp_all add: word_le_nat_alt)
  moreover have "(q * 512 + r + 511) div 512 = q + 1"
    using \<open>0 < r\<close> qr(2) by (intro div_nat_eqI) auto
  ultimately show ?thesis
    unfolding tar_skip_unat [OF a(2)] using qr \<open>0 < r\<close> by simp
qed

lemma no_pad_seek:
  "size mod 512 = 0 \<Longrightarrow> unat size + 511 < 2 ^ 32 \<Longrightarrow> unat size = unat (tar_skip size)" for size :: u32
proof -
  assume a: "size mod 512 = 0" "unat size + 511 < 2 ^ 32"
  then have "unat size mod 512 = 0" using unat_mod [of size 512] by simp
  then obtain q where q: "unat size = q * 512" by auto
  have "(q * 512 + 511) div 512 = q" by (intro div_nat_eqI) auto
  then show ?thesis unfolding tar_skip_unat [OF a(2)] q by simp
qed

lemma twp_restore_file:
  assumes S: "streams E tf S" and tr: "restored_in tf tr = (p, fs)"
    and size: "unat (mb_size m) + 511 < 2 ^ 32" "p + unat (mb_size m) \<le> length S"
      "(unat (mb_size m) + 511) div 512 < fuel E"
    and time: "mb_mtime m = uint (t :: u32)"
    and opens: "\<And>tr. 0 \<le> rp_ret (answer E tr (Ix_open path (FIO_O_WRONLY OR FIO_O_CREAT OR FIO_O_TRUNC) 0x1B6))"
    and Q: "\<And>fd tr'. restored_in tf tr' = (p + unat (tar_skip (mb_size m)),
        (path, fd, take (unat (mb_size m)) (drop p S)) # fs) \<Longrightarrow> Q () tr'"
  shows "twp (restore_file tf path m) E Q tr"
proof -
  have data: "twp (loopM (restore_data_body tf fd) (mb_size m)) E (\<lambda>_ tr'. restored_in tf tr' =
      (p + unat (mb_size m), (path, fd, take (unat (mb_size m)) (drop p S)) # fs)) tr'"
    if "restored_in tf tr' = (p, (path, fd, []) # fs)" for fd tr'
    using data_loop [OF S that size(2,3)] by (intro twp_loopM) simp
  have pad: "p + unat (mb_size m) + unat (512 - mb_size m mod 512) = p + unat (tar_skip (mb_size m))"
    if "mb_size m mod 512 \<noteq> 0" using pad_seek [OF that size(1)] by simp
  show ?thesis
    unfolding restore_file_def putsM_def
    by (intro twp twp_parents [where tf = tf] twp_mono [OF data]
        twp_restore_attrs [OF time, where tf = tf] Q)
      (use opens in \<open>simp_all add: tr not_less [symmetric] rs_step_idle SEEK_CUR_def SEEK_SET_def
        pad no_pad_seek [OF _ size(1)]\<close>)
qed


text \<open>What restoring a member adds to the files.\<close>

definition restored_path :: "string \<Rightarrow> string \<Rightarrow> entry \<Rightarrow> string" where
  "restored_path mount prefix e = take 511 (mount @ drop (length prefix) (en_name e))"

definition to_restore :: "string \<Rightarrow> entry \<Rightarrow> bool" where
  "to_restore prefix e = (FIO_S_ISREG (st_mode (en_stat e)) \<and> has_prefix (en_name e) prefix \<and>
     en_name e \<noteq> prefix)"

text \<open>
  A device on which nothing stands in the way: files can be created, and without
  \<open>--overwrite\<close> no object exists yet.
\<close>

definition can_create :: "env \<Rightarrow> bool \<Rightarrow> bool" where
  "can_create E overwrite = (\<forall>tr path.
     0 \<le> rp_ret (answer E tr (Ix_open path (FIO_O_WRONLY OR FIO_O_CREAT OR FIO_O_TRUNC) 0x1B6)) \<and>
     (overwrite \<or> rp_ret (answer E tr (Ix_getstat path)) \<noteq> 0))"

lemma entry_time: "\<exists>t :: u32. mb_mtime (entry_member e) = uint t"
  by (auto simp: entry_member_def member_of_def)

lemma entry_type:
  assumes "entry_ok e"
  shows "mb_type (entry_member e) = CHR ''0'' \<and> FIO_S_ISREG (st_mode (en_stat e)) \<or>
    mb_type (entry_member e) \<in> {CHR ''5'', CHR ''2''} \<and> \<not> FIO_S_ISREG (st_mode (en_stat e))"
  using assms by (auto simp: entry_ok_def entry_member_def member_of_def type_char_def known_type_def)

lemma entry_data:
  assumes "entry_ok e" "drop p S = entry_bytes e @ rest"
  shows "take (length (en_data e)) (drop (p + 512) S) = en_data e"
    and "p + 512 + length (en_data e) \<le> length S"
proof -
  have "drop (p + 512) S = drop 512 (drop p S)" by (simp add: add.commute)
  also have "\<dots> = pad512 (en_data e) @ rest"
    using entry_facts(1) [OF assms(1)] by (simp add: assms(2) entry_bytes_def entry_header_def member_bytes_def)
  finally have d: "drop (p + 512) S = pad512 (en_data e) @ rest" .
  then show "take (length (en_data e)) (drop (p + 512) S) = en_data e" by (simp add: pad512_def)
  have "length (en_data e) \<le> length (drop (p + 512) S)" unfolding d by (simp add: pad512_def)
  moreover have "512 \<le> length (drop p S)"
    using entry_facts(4) [OF assms(1)] assms(2) by simp
  ultimately show "p + 512 + length (en_data e) \<le> length S" by simp
qed

lemma restore_entry:
  assumes S: "streams E tf S" and ok: "entry_ok e" and can: "can_create E ow"
    and here: "drop p S = entry_bytes e @ rest" and fuel: "length S < fuel E"
    and tr: "restored_in tf tr = (p + 512, fs)"
    and Q: "\<And>tr' fd. restored_in tf tr' = (p + length (entry_bytes e),
      if FIO_S_ISREG (st_mode (en_stat e)) then (path, fd, en_data e) # fs else fs) \<Longrightarrow> Q () tr'"
  shows "twp (restore_member tf path (entry_member e)) E Q tr"
proof -
  obtain t :: u32 where t: "mb_mtime (entry_member e) = uint t" using entry_time by blast
  note facts = entry_facts [OF ok] and data = entry_data [OF ok here]
  have small: "length (en_data e) + 511 < 2 ^ 32" using ok by (simp add: entry_ok_def)
  have len: "p + 512 + unat (tar_skip (mb_size (entry_member e))) = p + length (entry_bytes e)"
    using facts(4) by simp
  from entry_type [OF ok] show ?thesis
  proof (elim disjE conjE)
    assume type: "mb_type (entry_member e) = CHR ''0''" "FIO_S_ISREG (st_mode (en_stat e))"
    have "twp (restore_file tf path (entry_member e)) E Q tr"
      using small data fuel len type(2) can
      by (intro twp_restore_file [OF S tr _ _ _ t] Q) (auto simp: facts(5) can_create_def)
    with type show ?thesis by (simp add: restore_member_def)
  next
    assume type: "mb_type (entry_member e) \<in> {CHR ''5'', CHR ''2''}" "\<not> FIO_S_ISREG (st_mode (en_stat e))"
    then have "length (entry_bytes e) = 512"
      using ok len facts(5) by (simp add: tar_skip_unat entry_ok_def)
    with type(1) show ?thesis
      unfolding restore_member_def putsM_def
      by (intro twp twp_parents [where tf = tf] twp_restore_attrs [OF t, where tf = tf] Q)
        (auto simp: tr type(2) rs_step_idle)
  qed
qed


subsection \<open>Restoring an archive\<close>

definition archive :: "entry list \<Rightarrow> string" where
  "archive es = concat (map entry_bytes es) @ replicate 1024 NUL"

definition files_of :: "file_log \<Rightarrow> (string \<times> string) list" where
  "files_of fs = rev (map (\<lambda>(path, fd, s). (path, s)) fs)"

definition expected_files :: "string \<Rightarrow> string \<Rightarrow> entry list \<Rightarrow> (string \<times> string) list" where
  "expected_files mount prefix es =
     map (\<lambda>e. (restored_path mount prefix e, en_data e)) (filter (to_restore prefix) es)"

lemma expected_Cons:
  "expected_files mount prefix (e # es) = expected_files mount prefix [e] @ expected_files mount prefix es"
  by (simp add: expected_files_def)

lemma twp_bind_call:
  "twp (bindM (callM c) f) E Q tr = twp (f (answer E tr c)) E Q (tr @ [(c, answer E tr c)])"
  by (simp add: twp_def io_simps)

lemma nul_pad_full: "length h = 512 \<Longrightarrow> nul_pad 512 h = h"
  by (simp add: nul_pad_def)

text \<open>A read of the next header.\<close>

lemma next_header:
  assumes "streams E tf S" "restored_in tf tr = (p, fs)" "drop p S = h @ rest" "length h = 512"
  shows "answer E tr (F_read tf 512) = code_data 512 h"
proof -
  have "512 \<le> length (drop p S)" using assms(3,4) by simp
  moreover have "take 512 (drop p S) = h" using assms(3,4) by simp
  ultimately show ?thesis using streamsD [OF assms(1,2), of 512] by simp
qed

lemma restore_round:
  assumes S: "streams E tf S" and ok: "entry_ok e" and can: "can_create E ow"
    and here: "drop p S = entry_bytes e @ rest" and fuel: "length S < fuel E"
    and tr: "restored_in tf tr = (p, fs)"
    and Q: "\<And>tr' fs'. restored_in tf tr' = (p + length (entry_bytes e), fs') \<Longrightarrow>
      files_of fs' = files_of fs @ expected_files mount prefix [e] \<Longrightarrow> Q (Inl ()) tr'"
  shows "twp (restore_body tf ow mount prefix ()) E Q tr"
proof -
  note facts = entry_facts [OF ok]
  define tr1 where "tr1 = tr @ [(F_read tf 512, code_data 512 (entry_header e))]"
  have tr1: "restored_in tf tr1 = (p + 512, fs)" by (simp add: tr1_def tr)
  have read: "answer E tr (F_read tf 512) = code_data 512 (entry_header e)"
    using here facts(1) by (intro next_header [OF S tr]) (simp_all add: entry_bytes_def entry_header_def member_bytes_def)
  have name: "mb_name (entry_member e) = en_name e" by (simp add: entry_member_def member_of_def)
  have skip: "twp (bindM (skip_member tf (entry_member e)) (\<lambda>_. retM (Inl ()))) E Q tr'"
    if "restored_in tf tr' = (p + 512, fs)" "\<not> to_restore prefix e" for tr'
    using that facts(4)
    by (intro twp twp_skip [OF that(1)] Q) (simp_all add: expected_files_def add.assoc)
  define path where "path = take 511 (mount @ drop (length prefix) (en_name e))"
  have restore: "twp (restore_member tf path (entry_member e)) E (\<lambda>_. Q (Inl ())) tr'"
    if "restored_in tf tr' = (p + 512, fs)" "has_prefix (en_name e) prefix" "en_name e \<noteq> prefix" for tr'
    using that
    by (intro restore_entry [OF S ok can here fuel that(1)] Q)
      (auto simp: expected_files_def files_of_def to_restore_def restored_path_def path_def)
  have "twp (bindM (if ow then retM False
           else bindM (codeM (Ix_getstat path)) (\<lambda>res. retM (res = 0))) (\<lambda>exists.
         bindM (if exists then bindM (putsM s) (\<lambda>_. skip_member tf (entry_member e))
            else restore_member tf path (entry_member e)) (\<lambda>_. retM (Inl ())))) E Q tr1"
    if "has_prefix (en_name e) prefix" "en_name e \<noteq> prefix" for s
    using can that tr1
    by (intro twp twp_mono [OF restore]) (auto simp: can_create_def rs_step_idle)
  moreover have "en_name e = prefix" if "has_prefix (en_name e) prefix" "length (en_name e) \<le> length prefix"
    using that by (simp add: has_prefix_def)
  moreover have "en_name e \<noteq> prefix" if "length prefix < length (en_name e)"
    using that by auto
  moreover have "has_prefix (en_name e) prefix \<and> en_name e \<noteq> prefix" if "to_restore prefix e"
    using that by (simp add: to_restore_def)
  ultimately show ?thesis
    unfolding restore_body_def twp_bind_call read tr1_def [symmetric] code_simps Let_def
      nul_pad_full [OF facts(1)] facts(2) name path_def [symmetric]
    by (intro twp_if skip tr1) (auto simp: facts(3))
qed


lemma restore_rounds:
  assumes S: "streams E tf S" and can: "can_create E ow" and fuel: "length S < fuel E"
  shows "restored_in tf tr = (p, fs) \<Longrightarrow> drop p S = archive es \<Longrightarrow> list_all entry_ok es \<Longrightarrow>
    length es < n \<Longrightarrow> twp (iterM n (restore_body tf ow mount prefix) ()) E
      (\<lambda>_ tr'. files_of (snd (restored_in tf tr')) = files_of fs @ expected_files mount prefix es) tr"
proof (induction es arbitrary: n tr p fs)
  case Nil
  have zeros: "archive [] = replicate 512 NUL @ replicate 512 NUL"
    by (simp add: archive_def flip: replicate_add)
  have "answer E tr (F_read tf 512) = code_data 512 (replicate 512 NUL)"
    using Nil.prems(2) zeros by (intro next_header [OF S Nil.prems(1)]) simp_all
  then have "twp (restore_body tf ow mount prefix ()) E (\<lambda>x tr'. x = Inr () \<and> snd (restored_in tf tr') = fs) tr"
    by (simp add: restore_body_def twp_def io_simps nul_pad_def Nil.prems(1))
  then show ?case
    using Nil.prems(4)
    by (cases n) (auto simp del: iterM.simps intro!: twp_iterM_Suc elim!: twp_mono simp: expected_files_def)
next
  case (Cons e es)
  obtain k where n: "n = Suc k" using Cons.prems(4) by (cases n) auto
  have here: "drop p S = entry_bytes e @ archive es"
    using Cons.prems(2) by (simp add: archive_def)
  have rest: "drop (p + length (entry_bytes e)) S = archive es"
    using here by (metis append_eq_conv_conj drop_drop add.commute)
  show ?case
    unfolding n
  proof (intro twp_iterM_Suc restore_round [OF S _ can here fuel Cons.prems(1)])
    fix tr' fs'
    assume "restored_in tf tr' = (p + length (entry_bytes e), fs')"
      "files_of fs' = files_of fs @ expected_files mount prefix [e]"
    then show "case Inl () of Inl s' \<Rightarrow> twp (iterM k (restore_body tf ow mount prefix) s') E
        (\<lambda>_ tr'. files_of (snd (restored_in tf tr')) =
          files_of fs @ expected_files mount prefix (e # es)) tr' | Inr r \<Rightarrow>
        files_of (snd (restored_in tf tr')) = files_of fs @ expected_files mount prefix (e # es)"
      using Cons.IH [of tr' "p + length (entry_bytes e)" fs' k] rest Cons.prems(3,4) n
      by (simp add: expected_Cons [of mount prefix e es])
  qed (use Cons.prems(3) in simp)
qed

lemma length_archive: "list_all entry_ok es \<Longrightarrow> length es < length (archive es)"
proof (induction es)
  case (Cons e es)
  then show ?case using entry_facts(4) [of e] by (simp add: archive_def)
qed (simp add: archive_def)

text \<open>
  C1. Restoring gives back what was archived: given an archive made of the members of any
  objects with names of at most 100 characters, on a device where files can be created,
  \<open>restore_from_tar\<close> returns 0 and has written exactly the regular files below the prefix, in
  the order of the archive, each under its path and with exactly its contents.
\<close>

theorem archive_restored:
  assumes "streams E tf (archive es)" "list_all entry_ok es" "can_create E overwrite"
    and "length (archive es) < fuel E"
  shows "\<exists>tr'. restore_from_tar tf overwrite mount prefix E tr = (Done 0, tr') \<and>
    files_of (snd (restored_in tf tr')) =
      files_of (snd (restored_in tf tr)) @ expected_files mount prefix es"
proof -
  define tr1 where "tr1 = tr @ [(F_seek tf 0 SEEK_SET, answer E tr (F_seek tf 0 SEEK_SET))]"
  have start: "restored_in tf tr1 = (0, snd (restored_in tf tr))"
    by (cases "restored_in tf tr") (simp add: tr1_def)
  have "length es < fuel E" using length_archive [OF assms(2)] assms(4) by simp
  then have "twp (iterM (fuel E) (restore_body tf overwrite mount prefix) ()) E
      (\<lambda>_ tr'. files_of (snd (restored_in tf tr')) =
        files_of (snd (restored_in tf tr)) @ expected_files mount prefix es) tr1"
    by (intro restore_rounds [OF assms(1,3,4) start _ assms(2)]) simp_all
  then obtain u tr' where "iterM (fuel E) (restore_body tf overwrite mount prefix) () E tr1 = (Done u, tr')"
    "files_of (snd (restored_in tf tr')) =
      files_of (snd (restored_in tf tr)) @ expected_files mount prefix es"
    by (blast dest: twpD)
  then show ?thesis
    by (simp add: restore_from_tar_def io_simps bindM_def [of "iterM _ _ _"] flip: tr1_def)
qed

text \<open>A file and a directory of one partition and a file of another.\<close>

definition sample_entries :: "entry list" where
  "sample_entries =
     [\<lparr>en_name = ''GAME/a'', en_stat = zero_stat\<lparr>st_mode := 0x21A4, st_size := 3\<rparr>, en_link = [],
       en_data = ''abc''\<rparr>,
      \<lparr>en_name = ''GAME/sub'', en_stat = zero_stat\<lparr>st_mode := 0x11FF\<rparr>, en_link = [], en_data = []\<rparr>,
      \<lparr>en_name = ''SAVE/b'', en_stat = zero_stat\<lparr>st_mode := 0x21A4, st_size := 1\<rparr>, en_link = [],
       en_data = ''z''\<rparr>]"

definition archive_env :: "string \<Rightarrow> env" where
  "archive_env S = \<lparr>answer = (\<lambda>tr c. case c of
      F_read h n \<Rightarrow> let d = take n (drop (fst (restored_in h tr)) S) in code_data (int (length d)) d
    | Ix_getstat _ \<Rightarrow> code (- 2)
    | _ \<Rightarrow> code 4), fuel = Suc (length S)\<rparr>"

theorem archive_restored_witness:
  "\<exists>tr'. restore_from_tar 9 False ''pfs0:/'' ''GAME/'' (archive_env (archive sample_entries)) [] =
      (Done 0, tr') \<and>
    files_of (snd (restored_in 9 tr')) = [(''pfs0:/a'', ''abc'')]"
proof -
  have "streams (archive_env (archive sample_entries)) 9 (archive sample_entries)"
    by (simp add: streams_def archive_env_def Let_def)
  moreover have "can_create (archive_env (archive sample_entries)) False"
    by (simp add: can_create_def archive_env_def)
  moreover have "list_all entry_ok sample_entries"
    by (simp add: sample_entries_def entry_ok_def known_type_def FIO_S_ISREG_def FIO_S_ISDIR_def fio)
  moreover have "expected_files ''pfs0:/'' ''GAME/'' sample_entries = [(''pfs0:/a'', ''abc'')]"
    by (simp add: expected_files_def to_restore_def restored_path_def sample_entries_def has_prefix_def
      FIO_S_ISREG_def fio)
  moreover have "length (archive sample_entries) < fuel (archive_env (archive sample_entries))"
    by (simp add: archive_env_def)
  ultimately show ?thesis
    using archive_restored [of "archive_env (archive sample_entries)" 9 sample_entries False "''pfs0:/''" "''GAME/''" "[]"]
    by (simp add: restored_in_def files_of_def)
qed

end
