(* ===== verification/Pfsd_Rpc.thy ===== *)
theory Pfsd_Rpc
  imports Iomanx Bytes
begin

text \<open>
  The requests clients send to the daemon (\<open>src/src/pfsd_common.h\<close>): the bytes of
  \<open>pfsd_rpc_common_struct_t\<close> for each command, as \<open>SendRequest\<close> of \<open>pfsd_client.c\<close> builds them
  and as \<open>event_handler_func\<close> of \<open>pfsd.c\<close> reads them. Bytes the client does not initialise are
  taken from an arbitrary \<open>stack\<close>, indexed by their offset.
\<close>

type_synonym stack = "nat \<Rightarrow> char"

subsection \<open>Fields\<close>

definition le_int :: "nat \<Rightarrow> int \<Rightarrow> string" where
  "le_int n i = le n (nat (i mod 256 ^ n))"

text \<open>An \<open>int\<close>, an \<open>unsigned int\<close>, an \<open>int64_t\<close> and a \<open>char[1024]\<close> filled by \<open>strcpy\<close>.\<close>

definition f_int :: "int \<Rightarrow> string" where "f_int = le_int 4"

definition f_u32 :: "u32 \<Rightarrow> string" where "f_u32 w = le 4 (unat w)"

definition f_int64 :: "int \<Rightarrow> string" where "f_int64 = le_int 8"

definition f_bool :: "bool \<Rightarrow> string" where "f_bool b = f_int (if b then 1 else 0)"

definition f_name :: "stack \<Rightarrow> nat \<Rightarrow> string \<Rightarrow> string" where
  "f_name st k s = s @ CHR 0x00 # map st [k + length s + 1..<k + 1024]"

definition f_pad :: "stack \<Rightarrow> nat \<Rightarrow> string" where
  "f_pad st k = map st [k..<k + 4]"

text \<open>The same fields read at an offset of the received structure.\<close>

definition g_int :: "nat \<Rightarrow> string \<Rightarrow> int" where
  "g_int k p = sint (word_of_nat (of_le (field k 4 p)) :: u32)"

definition g_u32 :: "nat \<Rightarrow> string \<Rightarrow> u32" where
  "g_u32 k p = word_of_nat (of_le (field k 4 p))"

definition g_int64 :: "nat \<Rightarrow> string \<Rightarrow> int" where
  "g_int64 k p = sint (word_of_nat (of_le (field k 8 p)) :: u64)"

definition g_bool :: "nat \<Rightarrow> string \<Rightarrow> bool" where
  "g_bool k p = (g_int k p \<noteq> 0)"

text \<open>A name is read up to its NUL, wherever that is.\<close>

definition g_name :: "nat \<Rightarrow> string \<Rightarrow> string" where
  "g_name k p = before_char (CHR 0x00) (drop k p)"

subsection \<open>Requests\<close>

fun command_of :: "pfs_op \<Rightarrow> int" where
  "command_of (Op_open n f m) = 0"
| "command_of (Op_lseek fd off w) = 1"
| "command_of (Op_lseek64 fd off w) = 2"
| "command_of (Op_read fd p n) = 3"
| "command_of (Op_write fd p n) = 4"
| "command_of (Op_close fd) = 5"
| "command_of (Op_dopen n) = 6"
| "command_of (Op_dread fd p) = 7"
| "command_of (Op_dclose fd) = 8"
| "command_of (Op_chstat n p m) = 9"
| "command_of (Op_getstat n p) = 10"
| "command_of (Op_mkdir n m) = 11"
| "command_of (Op_rmdir n) = 12"
| "command_of (Op_chdir n) = 13"
| "command_of (Op_remove n) = 14"
| "command_of (Op_rename a b) = 15"
| "command_of (Op_ioctl fd c p) = 16"
| "command_of (Op_ioctl2 fd c p n q m) = 17"
| "command_of (Op_symlink a b) = 18"
| "command_of (Op_readlink n p m) = 19"
| "command_of (Op_sync n f) = 20"
| "command_of (Op_format d b p n) = 21"
| "command_of (Op_mount f d l p n) = 22"
| "command_of (Op_umount n) = 23"
| "command_of (Op_devctl n c p l q m) = 24"
| "command_of (Op_setreadahead e) = 25"
| "command_of Op_getreadahead = 26"
| "command_of (Op_getmountpoint n) = 27"
| "command_of (Op_transfer fd s t z m p) = 28"

text \<open>The payload; the offsets of \<open>stack\<close> count from its beginning.\<close>

fun rpc_payload :: "stack \<Rightarrow> pfs_op \<Rightarrow> string" where
  "rpc_payload st (Op_open n f m) = f_name st 0 n @ f_int f @ f_int m"
| "rpc_payload st (Op_lseek fd off w) = f_int fd @ f_int off @ f_int w"
| "rpc_payload st (Op_lseek64 fd off w) = f_int fd @ f_pad st 4 @ f_int64 off @ f_int w @ f_pad st 20"
| "rpc_payload st (Op_read fd p n) = f_int fd @ f_bool p @ f_int n"
| "rpc_payload st (Op_write fd p n) = f_int fd @ f_bool p @ f_int n"
| "rpc_payload st (Op_close fd) = f_int fd"
| "rpc_payload st (Op_dopen n) = f_name st 0 n"
| "rpc_payload st (Op_dread fd p) = f_int fd @ f_bool p"
| "rpc_payload st (Op_dclose fd) = f_int fd"
| "rpc_payload st (Op_chstat n p m) = f_name st 0 n @ f_bool p @ f_int m"
| "rpc_payload st (Op_getstat n p) = f_name st 0 n @ f_bool p"
| "rpc_payload st (Op_mkdir n m) = f_name st 0 n @ f_int m"
| "rpc_payload st (Op_rmdir n) = f_name st 0 n"
| "rpc_payload st (Op_chdir n) = f_name st 0 n"
| "rpc_payload st (Op_remove n) = f_name st 0 n"
| "rpc_payload st (Op_rename a b) = f_name st 0 a @ f_name st 1024 b"
| "rpc_payload st (Op_ioctl fd c p) = f_int fd @ f_int c @ f_bool p"
| "rpc_payload st (Op_ioctl2 fd c p n q m) = f_int fd @ f_int c @ f_bool p @ f_int n @ f_bool q @ f_int m"
| "rpc_payload st (Op_symlink a b) = f_name st 0 a @ f_name st 1024 b"
| "rpc_payload st (Op_readlink n p m) = f_name st 0 n @ f_bool p @ f_int m"
| "rpc_payload st (Op_sync n f) = f_name st 0 n @ f_int f"
| "rpc_payload st (Op_format d b p n) = f_name st 0 d @ f_name st 1024 b @ f_bool p @ f_int n"
| "rpc_payload st (Op_mount f d l p n) = f_name st 0 f @ f_name st 1024 d @ f_int l @ f_bool p @ f_int n"
| "rpc_payload st (Op_umount n) = f_name st 0 n"
| "rpc_payload st (Op_devctl n c p l q m) =
     f_name st 0 n @ f_int c @ f_bool p @ f_int l @ f_bool q @ f_int m"
| "rpc_payload st (Op_setreadahead e) = f_int e"
| "rpc_payload st Op_getreadahead = []"
| "rpc_payload st (Op_getmountpoint n) = f_name st 0 n"
| "rpc_payload st (Op_transfer fd s t z m p) =
     f_int fd @ f_u32 s @ f_u32 t @ f_u32 z @ f_u32 m @ f_bool p"

text \<open>The message: an unused word, the command and the payload.\<close>

definition request :: "stack \<Rightarrow> pfs_op \<Rightarrow> string" where
  "request st q = f_pad st 0 @ f_int (command_of q) @ rpc_payload (\<lambda>k. st (k + 8)) q"

text \<open>What the daemon finds in the structure for a command; \<open>None\<close> for an unknown one.\<close>

definition g_op :: "int \<Rightarrow> string \<Rightarrow> pfs_op option" where
  "g_op c p =
     (if c = 0 then Some (Op_open (g_name 0 p) (g_int 1024 p) (g_int 1028 p))
      else if c = 1 then Some (Op_lseek (g_int 0 p) (g_int 4 p) (g_int 8 p))
      else if c = 2 then Some (Op_lseek64 (g_int 0 p) (g_int64 8 p) (g_int 16 p))
      else if c = 3 then Some (Op_read (g_int 0 p) (g_bool 4 p) (g_int 8 p))
      else if c = 4 then Some (Op_write (g_int 0 p) (g_bool 4 p) (g_int 8 p))
      else if c = 5 then Some (Op_close (g_int 0 p))
      else if c = 6 then Some (Op_dopen (g_name 0 p))
      else if c = 7 then Some (Op_dread (g_int 0 p) (g_bool 4 p))
      else if c = 8 then Some (Op_dclose (g_int 0 p))
      else if c = 9 then Some (Op_chstat (g_name 0 p) (g_bool 1024 p) (g_int 1028 p))
      else if c = 10 then Some (Op_getstat (g_name 0 p) (g_bool 1024 p))
      else if c = 11 then Some (Op_mkdir (g_name 0 p) (g_int 1024 p))
      else if c = 12 then Some (Op_rmdir (g_name 0 p))
      else if c = 13 then Some (Op_chdir (g_name 0 p))
      else if c = 14 then Some (Op_remove (g_name 0 p))
      else if c = 15 then Some (Op_rename (g_name 0 p) (g_name 1024 p))
      else if c = 16 then Some (Op_ioctl (g_int 0 p) (g_int 4 p) (g_bool 8 p))
      else if c = 17 then Some (Op_ioctl2 (g_int 0 p) (g_int 4 p) (g_bool 8 p) (g_int 12 p)
        (g_bool 16 p) (g_int 20 p))
      else if c = 18 then Some (Op_symlink (g_name 0 p) (g_name 1024 p))
      else if c = 19 then Some (Op_readlink (g_name 0 p) (g_bool 1024 p) (g_int 1028 p))
      else if c = 20 then Some (Op_sync (g_name 0 p) (g_int 1024 p))
      else if c = 21 then Some (Op_format (g_name 0 p) (g_name 1024 p) (g_bool 2048 p) (g_int 2052 p))
      else if c = 22 then Some (Op_mount (g_name 0 p) (g_name 1024 p) (g_int 2048 p) (g_bool 2052 p)
        (g_int 2056 p))
      else if c = 23 then Some (Op_umount (g_name 0 p))
      else if c = 24 then Some (Op_devctl (g_name 0 p) (g_int 1024 p) (g_bool 1028 p) (g_int 1032 p)
        (g_bool 1036 p) (g_int 1040 p))
      else if c = 25 then Some (Op_setreadahead (g_int 0 p))
      else if c = 26 then Some Op_getreadahead
      else if c = 27 then Some (Op_getmountpoint (g_name 0 p))
      else if c = 28 then Some (Op_transfer (g_int 0 p) (g_u32 4 p) (g_u32 8 p) (g_u32 12 p)
        (g_u32 16 p) (g_bool 20 p))
      else None)"

definition decode_request :: "string \<Rightarrow> pfs_op option" where
  "decode_request m = g_op (g_int 4 m) (drop 8 m)"

subsection \<open>Reading back what was written\<close>

lemma length_f [simp]:
  "length (f_int i) = 4" "length (f_u32 w) = 4" "length (f_int64 j) = 8" "length (f_bool b) = 4"
  "length (f_pad st k) = 4" "length s < 1024 \<Longrightarrow> length (f_name st k s) = 1024"
  by (simp_all add: f_int_def f_u32_def f_int64_def f_bool_def f_pad_def f_name_def le_int_def)

definition in_int :: "int \<Rightarrow> bool" where
  "in_int i = (- (2 ^ 31) \<le> i \<and> i < 2 ^ 31)"

definition in_int64 :: "int \<Rightarrow> bool" where
  "in_int64 i = (- (2 ^ 63) \<le> i \<and> i < 2 ^ 63)"

lemma of_le_int: "int (of_le (le_int n i)) = i mod 256 ^ n"
proof -
  have "0 \<le> i mod 256 ^ n" by (rule pos_mod_sign) simp
  then have "int (nat (i mod 256 ^ n)) = i mod 256 ^ n" by (rule nat_0_le)
  then show ?thesis unfolding le_int_def of_le_le zmod_int by (simp add: of_nat_power)
qed

lemma word_of_le_int:
  assumes "256 ^ n = (2 :: int) ^ LENGTH('a)"
  shows "(word_of_nat (of_le (le_int n i)) :: 'a :: len word) = word_of_int i"
proof -
  have "word_of_nat (of_le (le_int n i)) = (word_of_int (int (of_le (le_int n i))) :: 'a word)"
    by simp
  also have "\<dots> = word_of_int i"
    unfolding of_le_int assms by (rule word_of_int_eq_iff [THEN iffD2]) (simp add: take_bit_eq_mod)
  finally show ?thesis .
qed

lemma sint64_id: "in_int64 i \<Longrightarrow> sint (word_of_int i :: u64) = i"
proof -
  assume b: "in_int64 i"
  have "sint (word_of_int i :: u64) = signed_take_bit 63 (take_bit 64 i)"
    by (simp only: sint_uint uint_word_of_int_eq) simp
  also have "\<dots> = signed_take_bit 63 i"
    by (simp only: signed_take_bit_take_bit) simp
  also have "\<dots> = i"
    using b by (simp only: in_int64_def signed_take_bit_int_eq_self)
  finally show ?thesis .
qed

text \<open>Each field at the front of a structure, and fields further on.\<close>

lemma g_here [simp]:
  "in_int i \<Longrightarrow> g_int 0 (f_int i @ r) = i"
  "in_int i \<Longrightarrow> g_int 0 (f_int i) = i"
  "in_int64 j \<Longrightarrow> g_int64 0 (f_int64 j @ r) = j"
  "g_bool 0 (f_bool b @ r) = b"
  "g_bool 0 (f_bool b) = b"
  "g_u32 0 (f_u32 w @ r) = w"
proof -
  have f: "field 0 (length a) (a @ r) = a" for a r by (simp add: field_def)
  have i: "g_int 0 (f_int i @ r) = i" if "in_int i" for i r
  proof -
    have "field 0 4 (f_int i @ r) = f_int i" using f [of "f_int i" r] by simp
    then have "g_int 0 (f_int i @ r) = sint (word_of_int i :: u32)"
      by (simp add: g_int_def f_int_def word_of_le_int)
    then show ?thesis using that to_s32_id [of i] by (simp add: in_int_def to_s32_def)
  qed
  then show "in_int i \<Longrightarrow> g_int 0 (f_int i @ r) = i" "in_int i \<Longrightarrow> g_int 0 (f_int i) = i"
    using i [of i "[]"] by simp_all
  show "in_int64 j \<Longrightarrow> g_int64 0 (f_int64 j @ r) = j"
  proof -
    assume j: "in_int64 j"
    have "field 0 8 (f_int64 j @ r) = f_int64 j" using f [of "f_int64 j" r] by simp
    then have "g_int64 0 (f_int64 j @ r) = sint (word_of_int j :: u64)"
      by (simp add: g_int64_def f_int64_def word_of_le_int)
    then show ?thesis using j by (simp add: sint64_id)
  qed
  have b: "g_bool 0 (f_bool b @ r) = b" for r
    using i [of 0 r] i [of 1 r] by (cases b) (simp_all add: g_bool_def f_bool_def in_int_def)
  then show "g_bool 0 (f_bool b @ r) = b" "g_bool 0 (f_bool b) = b" using b [of "[]"] by simp_all
  have "field 0 4 (f_u32 w @ r) = f_u32 w" using f [of "f_u32 w" r] by simp
  then show "g_u32 0 (f_u32 w @ r) = w" by (simp add: g_u32_def f_u32_def)
qed

lemma g_later:
  "length a \<le> k \<Longrightarrow> g_int k (a @ r) = g_int (k - length a) r"
  "length a \<le> k \<Longrightarrow> g_int64 k (a @ r) = g_int64 (k - length a) r"
  "length a \<le> k \<Longrightarrow> g_bool k (a @ r) = g_bool (k - length a) r"
  "length a \<le> k \<Longrightarrow> g_u32 k (a @ r) = g_u32 (k - length a) r"
  "length a \<le> k \<Longrightarrow> g_name k (a @ r) = g_name (k - length a) r"
  by (simp_all add: g_int_def g_int64_def g_bool_def g_u32_def g_name_def field_def)

lemma g_name_here [simp]:
  "CHR 0x00 \<notin> set s \<Longrightarrow> g_name 0 (f_name st k s @ r) = s"
  "CHR 0x00 \<notin> set s \<Longrightarrow> g_name 0 (f_name st k s) = s"
proof -
  have "before_char (CHR 0x00) (s @ CHR 0x00 # r) = s" if "CHR 0x00 \<notin> set s" for r
    using that unfolding before_char_def by (subst takeWhile_append2) auto
  then show "CHR 0x00 \<notin> set s \<Longrightarrow> g_name 0 (f_name st k s @ r) = s"
    "CHR 0x00 \<notin> set s \<Longrightarrow> g_name 0 (f_name st k s) = s"
    by (simp_all add: g_name_def f_name_def)
qed

text \<open>Requests the client functions can send: names that fit their fields, arguments of type \<open>int\<close>.\<close>

definition name_ok :: "string \<Rightarrow> bool" where
  "name_ok s = (length s < 1024 \<and> CHR 0x00 \<notin> set s)"

fun op_ok :: "pfs_op \<Rightarrow> bool" where
  "op_ok (Op_open n f m) = (name_ok n \<and> in_int f \<and> in_int m)"
| "op_ok (Op_lseek fd off w) = (in_int fd \<and> in_int off \<and> in_int w)"
| "op_ok (Op_lseek64 fd off w) = (in_int fd \<and> in_int64 off \<and> in_int w)"
| "op_ok (Op_read fd p n) = (in_int fd \<and> in_int n)"
| "op_ok (Op_write fd p n) = (in_int fd \<and> in_int n)"
| "op_ok (Op_close fd) = in_int fd"
| "op_ok (Op_dopen n) = name_ok n"
| "op_ok (Op_dread fd p) = in_int fd"
| "op_ok (Op_dclose fd) = in_int fd"
| "op_ok (Op_chstat n p m) = (name_ok n \<and> in_int m)"
| "op_ok (Op_getstat n p) = name_ok n"
| "op_ok (Op_mkdir n m) = (name_ok n \<and> in_int m)"
| "op_ok (Op_rmdir n) = name_ok n"
| "op_ok (Op_chdir n) = name_ok n"
| "op_ok (Op_remove n) = name_ok n"
| "op_ok (Op_rename a b) = (name_ok a \<and> name_ok b)"
| "op_ok (Op_ioctl fd c p) = (in_int fd \<and> in_int c)"
| "op_ok (Op_ioctl2 fd c p n q m) = (in_int fd \<and> in_int c \<and> in_int n \<and> in_int m)"
| "op_ok (Op_symlink a b) = (name_ok a \<and> name_ok b)"
| "op_ok (Op_readlink n p m) = (name_ok n \<and> in_int m)"
| "op_ok (Op_sync n f) = (name_ok n \<and> in_int f)"
| "op_ok (Op_format d b p n) = (name_ok d \<and> name_ok b \<and> in_int n)"
| "op_ok (Op_mount f d l p n) = (name_ok f \<and> name_ok d \<and> in_int l \<and> in_int n)"
| "op_ok (Op_umount n) = name_ok n"
| "op_ok (Op_devctl n c p l q m) = (name_ok n \<and> in_int c \<and> in_int l \<and> in_int m)"
| "op_ok (Op_setreadahead e) = in_int e"
| "op_ok Op_getreadahead = True"
| "op_ok (Op_getmountpoint n) = name_ok n"
| "op_ok (Op_transfer fd s t z m p) = in_int fd"

lemma g_rpc_payload:
  "op_ok q \<Longrightarrow> g_op (command_of q) (rpc_payload st q @ r) = Some q"
  by (cases q) (simp_all add: g_op_def g_later name_ok_def)

text \<open>
  The daemon understands its clients: whatever the uninitialised bytes of the client's
  structure and of the daemon's are, the request a client function builds, with names shorter
  than 1024 characters, is the one \<open>event_handler_func\<close> reads.
\<close>

theorem request_roundtrip:
  assumes "op_ok q"
  shows "decode_request (request st q @ rest) = Some q"
proof -
  have "in_int (command_of q)" by (cases q) (simp_all add: in_int_def)
  then show ?thesis
    using assms by (simp add: decode_request_def request_def g_later g_rpc_payload)
qed

theorem request_roundtrip_witness:
  "decode_request (request (\<lambda>_. CHR ''?'')
     (Op_mount ''pfs0:'' ''hdd0:__system'' 0 False (- 1)) @ ''xyz'') =
   Some (Op_mount ''pfs0:'' ''hdd0:__system'' 0 False (- 1))"
  by (rule request_roundtrip) (simp add: name_ok_def in_int_def)

end
