(* ===== verification/Pfsd.thy ===== *)
theory Pfsd
  imports Pfsd_Rpc Prog Hl
begin

text \<open>
  The PFS daemon (\<open>src/src/pfsd.c\<close>): a process that serves the PFS operations of several clients
  over a socket. It keeps the files its clients have opened, their mount points, renamed to
  those of the device, and the connections. A client is named by the descriptor of its
  connection. The operations themselves are calls of the PFS library; data pass through shared
  memory, which the library reads and writes through the pointer it is given. Consecutive
  messages on standard output are one call.
\<close>

subsection \<open>State\<close>

record openfile_item =
  of_fd :: int
  of_pid :: int
  of_mnt :: nat

record mountlist_item =
  ml_pid :: int
  ml_fsprefix :: string
  ml_containerpath :: string
  ml_devprefix :: string

text \<open>
  The three arrays with their counters; \<open>pd_junk\<close> is the value an uninitialised \<open>rpcret\<close> has.
  A slot of the mount list is free when its \<open>ml_pid\<close> is 0; its strings are then not read.
\<close>

record pfsd =
  pd_items :: "openfile_item list"
  pd_count :: int
  pd_mounts :: "mountlist_item list"
  pd_clients :: "int list"
  pd_nclients :: nat
  pd_socket :: int
  pd_debug :: bool
  pd_junk :: int

abbreviation (input) TABLE :: nat where "TABLE \<equiv> 32"

definition no_item :: openfile_item where
  "no_item = \<lparr>of_fd = 0, of_pid = 0, of_mnt = 0\<rparr>"

definition no_mount :: mountlist_item where
  "no_mount = \<lparr>ml_pid = 0, ml_fsprefix = [], ml_containerpath = [], ml_devprefix = []\<rparr>"

definition pfsd_boot :: "bool \<Rightarrow> int \<Rightarrow> pfsd" where
  "pfsd_boot debug junk = \<lparr>pd_items = replicate TABLE no_item, pd_count = 0,
     pd_mounts = replicate TABLE no_mount, pd_clients = replicate TABLE 0, pd_nclients = 0,
     pd_socket = 0, pd_debug = debug, pd_junk = junk\<rparr>"

text \<open>The files in use: the entries below the counter.\<close>

definition open_files :: "pfsd \<Rightarrow> openfile_item list" where
  "open_files d = take (nat (pd_count d)) (pd_items d)"

text \<open>The index of the first entry that satisfies \<open>P\<close>, the length of the list if there is none.\<close>

definition first :: "('a \<Rightarrow> bool) \<Rightarrow> 'a list \<Rightarrow> nat" where
  "first P xs = length (takeWhile (\<lambda>x. \<not> P x) xs)"

subsection \<open>Mount points and open files\<close>

definition find_free_mount_info :: "pfsd \<Rightarrow> nat" where
  "find_free_mount_info d = first (\<lambda>m. ml_pid m = 0) (pd_mounts d)"

definition umount_cleanup :: "nat \<Rightarrow> pfsd \<Rightarrow> pfsd" where
  "umount_cleanup i d = d\<lparr>pd_mounts := (pd_mounts d)[i := (pd_mounts d ! i)\<lparr>ml_pid := 0\<rparr>]\<rparr>"

definition dec2 :: "int \<Rightarrow> string" where
  "dec2 i = pad_left 2 (CHR '' '') (dec_int i)"

definition mount_lines :: "pfsd \<Rightarrow> string" where
  "mount_lines d = concat (map (\<lambda>m. '' pid'' @ dec2 (ml_pid m) @ '' '' @ ml_fsprefix m @ ''('' @
     ml_containerpath m @ '') --> '' @ ml_devprefix m @ nl) (filter (\<lambda>m. ml_pid m \<noteq> 0) (pd_mounts d)))"

definition openfile_line :: "pfsd \<Rightarrow> openfile_item \<Rightarrow> string" where
  "openfile_line d f = '' pid'' @ dec2 (of_pid f) @ '' fd'' @ dec2 (of_fd f) @ '' '' @
     (if of_mnt f < TABLE \<and> ml_pid (pd_mounts d ! of_mnt f) \<noteq> 0 then
        ''('' @ ml_fsprefix (pd_mounts d ! of_mnt f) @ '','' @ ml_devprefix (pd_mounts d ! of_mnt f) @ '')'' @ nl
      else '': Invalid MountPoint???'' @ nl)"

definition output_statistics :: "pfsd \<Rightarrow> unit io" where
  "output_statistics d =
     bindM (putsM (''MountList:'' @ (if mount_lines d = [] then '' No partition mounted.'' @ nl
       else nl @ mount_lines d))) (\<lambda>_.
     if pd_count d = 0 then putsM (''OpenFile: No file inuse.'' @ nl)
     else putsM (''OpenFile:'' @ nl @ concat (map (openfile_line d) (open_files d))))"

text \<open>The mount point of a client a name begins with.\<close>

definition client_mount :: "pfsd \<Rightarrow> int \<Rightarrow> string \<Rightarrow> nat" where
  "client_mount d in_pid name =
     first (\<lambda>m. ml_pid m = in_pid \<and> has_prefix name (ml_fsprefix m)) (pd_mounts d)"

text \<open>
  \<open>rpc_remap_name\<close> renames in the buffer that holds the name, of \<open>cap\<close> bytes. A name below no mount
  point of the client, but below the device's name of a mount point in use, is emptied.
\<close>

fun refuse_containers :: "mountlist_item list \<Rightarrow> int \<Rightarrow> string \<Rightarrow> string io" where
  "refuse_containers [] in_pid name = retM name"
| "refuse_containers (m # ms) in_pid name =
     (if ml_pid m \<noteq> 0 \<and> has_prefix name (ml_containerpath m) then
        bindM (putsM (''pid'' @ dec_int in_pid @ '' requesting invalid filename '' @ [CHR 0x27] @ name @
          [CHR 0x27] @ nl)) (\<lambda>_. refuse_containers ms in_pid [])
      else refuse_containers ms in_pid name)"

definition rpc_remap_name :: "nat \<Rightarrow> string \<Rightarrow> int \<Rightarrow> pfsd \<Rightarrow> string io" where
  "rpc_remap_name cap name in_pid d =
     (let i = client_mount d in_pid name in
      if i < length (pd_mounts d) then
        bufM cap (ml_containerpath (pd_mounts d ! i) @
          drop (length (ml_fsprefix (pd_mounts d ! i))) name)
      else refuse_containers (pd_mounts d) in_pid name)"

definition rpc_common_open :: "int \<Rightarrow> int \<Rightarrow> string \<Rightarrow> pfsd \<Rightarrow> pfsd io" where
  "rpc_common_open in_fd in_pid filename d =
     (let i = client_mount d in_pid filename in
      bindM (if i = length (pd_mounts d) \<and> \<not> has_prefix filename ''hdd'' then
          putsM (''Invalid filename '' @ [CHR 0x27] @ filename @ [CHR 0x27] @ '', fd'' @ dec_int in_fd @
            '' pid'' @ dec_int in_pid @ ''.'' @ nl)
        else retM ()) (\<lambda>_.
      if 0 \<le> pd_count d \<and> nat (pd_count d) < length (pd_items d) then
        retM (d\<lparr>pd_items := (pd_items d)[nat (pd_count d) :=
            \<lparr>of_fd = in_fd, of_pid = in_pid, of_mnt = i\<rparr>],
          pd_count := pd_count d + 1\<rparr>)
      else faultM))"

text \<open>The later entries move down one place; an unknown descriptor still counts one off.\<close>

definition rpc_common_close :: "int \<Rightarrow> int \<Rightarrow> pfsd \<Rightarrow> pfsd" where
  "rpc_common_close in_fd in_pid d =
     (let i = first (\<lambda>f. of_fd f = in_fd \<and> of_pid f = in_pid) (open_files d) in
      d\<lparr>pd_items := fold (\<lambda>k xs. xs[k := xs ! Suc k]) [i..<nat (pd_count d - 1)] (pd_items d),
        pd_count := pd_count d - 1\<rparr>)"

definition rpc_remap_fd :: "int \<Rightarrow> int \<Rightarrow> pfsd \<Rightarrow> int io" where
  "rpc_remap_fd in_fd in_pid d =
     (if \<exists>f \<in> set (open_files d). of_fd f = in_fd \<and> of_pid f = in_pid then retM in_fd
      else bindM (putsM (''pid'' @ dec_int in_pid @ '' requesting invalid fd'' @ dec_int in_fd @
        '' access!'' @ nl)) (\<lambda>_. retM (- 1)))"

subsection \<open>Commands with a state of their own\<close>

definition send :: "int \<Rightarrow> int \<Rightarrow> unit io" where
  "send in_pid rpcret = doM (Ipc (Sock_send in_pid (f_int rpcret)))"

text \<open>\<open>open\<close> and \<open>dopen\<close>; the comparison of the counter is one of unsigned numbers.\<close>

definition open_request :: "(string \<Rightarrow> pfs_op) \<Rightarrow> string \<Rightarrow> int \<Rightarrow> pfsd \<Rightarrow> pfsd io" where
  "open_request op name in_pid d =
     bindM (bufM 1200 name) (\<lambda>_.
     bindM (if 0 \<le> pd_count d \<and> pd_count d < int TABLE then
         bindM (rpc_remap_name 1200 name in_pid d) (\<lambda>name'. codeM (Pfs (op name')))
       else retM (- 24)) (\<lambda>rpcret.
     bindM (send in_pid rpcret) (\<lambda>_.
     if rpcret \<ge> 0 then rpc_common_open rpcret in_pid name d else retM d)))"

definition rpc_command_open :: "string \<Rightarrow> int \<Rightarrow> int \<Rightarrow> int \<Rightarrow> pfsd \<Rightarrow> pfsd io" where
  "rpc_command_open name flags mode = open_request (\<lambda>n. Op_open n flags mode) name"

definition rpc_command_dopen :: "string \<Rightarrow> int \<Rightarrow> pfsd \<Rightarrow> pfsd io" where
  "rpc_command_dopen = open_request Op_dopen"

definition close_request :: "(int \<Rightarrow> pfs_op) \<Rightarrow> int \<Rightarrow> int \<Rightarrow> pfsd \<Rightarrow> pfsd io" where
  "close_request op fd in_pid d =
     bindM (rpc_remap_fd fd in_pid d) (\<lambda>h.
     bindM (codeM (Pfs (op h))) (\<lambda>rpcret.
     bindM (retM (if rpcret = 0 then rpc_common_close fd in_pid d else d)) (\<lambda>d'.
     bindM (send in_pid rpcret) (\<lambda>_. retM d'))))"

definition rpc_command_close :: "int \<Rightarrow> int \<Rightarrow> pfsd \<Rightarrow> pfsd io" where
  "rpc_command_close = close_request Op_close"

definition rpc_command_dclose :: "int \<Rightarrow> int \<Rightarrow> pfsd \<Rightarrow> pfsd io" where
  "rpc_command_dclose = close_request Op_dclose"

text \<open>Mounting under the next free name \<open>pfs<i>:\<close> while the device answers \<open>EBUSY\<close>.\<close>

fun mount_slots :: "(string \<Rightarrow> pfs_op) \<Rightarrow> nat list \<Rightarrow> int \<times> string \<Rightarrow> (int \<times> string) io" where
  "mount_slots op [] res = retM res"
| "mount_slots op (i # is) (rpcret, fsname) =
     (if rpcret = - 16 then
        let fsname = ''pfs'' @ dec i @ '':'' in
        bindM (codeM (Pfs (op fsname))) (\<lambda>rpcret. mount_slots op is (rpcret, fsname))
      else retM (rpcret, fsname))"

definition mount_device ::
    "string \<Rightarrow> string \<Rightarrow> (string \<Rightarrow> pfs_op) \<Rightarrow> pfsd \<Rightarrow> (int \<times> string) io" where
  "mount_device fsname dev op d =
     bindM (codeM (Pfs (op fsname))) (\<lambda>rpcret.
     if rpcret = - 16 then
       let i = first (\<lambda>m. ml_pid m \<noteq> 0 \<and> ml_devprefix m = dev) (pd_mounts d) in
       if i < TABLE then retM (0, ml_containerpath (pd_mounts d ! i))
       else mount_slots op [0..<TABLE] (rpcret, fsname)
     else retM (rpcret, fsname))"

definition rpc_command_mount ::
    "string \<Rightarrow> string \<Rightarrow> int \<Rightarrow> bool \<Rightarrow> int \<Rightarrow> int \<Rightarrow> pfsd \<Rightarrow> pfsd io" where
  "rpc_command_mount fsname devname flag arg arglen in_pid d =
     bindM (bufM 1200 fsname) (\<lambda>_.
     bindM (bufM 1200 devname) (\<lambda>_.
     let dev = before_char (CHR '','') devname; free = find_free_mount_info d in
     bindM
       (if free < TABLE then
          if first (\<lambda>m. ml_pid m = in_pid \<and> ml_fsprefix m = fsname) (pd_mounts d) \<ge> TABLE then
            mount_device fsname dev (\<lambda>fs. Op_mount fs dev flag arg arglen) d
          else retM (- 16, fsname)
        else retM (- 24, fsname)) (\<lambda>(rpcret, container).
     bindM (retM (if rpcret = 0 then d\<lparr>pd_mounts := (pd_mounts d)[free := \<lparr>ml_pid = in_pid,
         ml_fsprefix = fsname, ml_containerpath = container, ml_devprefix = dev\<rparr>]\<rparr>
       else d)) (\<lambda>d'.
     bindM (send in_pid rpcret) (\<lambda>_. retM d')))))"

text \<open>The search for another mount of the same container, as it is written.\<close>

fun umount_scan :: "string \<Rightarrow> nat \<Rightarrow> nat \<Rightarrow> mountlist_item list \<Rightarrow> nat" where
  "umount_scan cont i k [] = k"
| "umount_scan cont i k (m # ms) =
     (if i = k \<and> (ml_pid m = 0 \<or> cont \<noteq> ml_containerpath m) then umount_scan cont i (Suc k) ms
      else k)"

definition rpc_command_umount :: "string \<Rightarrow> int \<Rightarrow> pfsd \<Rightarrow> pfsd io" where
  "rpc_command_umount fsname in_pid d =
     (let i = first (\<lambda>m. ml_pid m = in_pid \<and> fsname = ml_fsprefix m) (pd_mounts d);
          m = pd_mounts d ! i; who = ''pid'' @ dec_int in_pid @ '' '' @ fsname in
      if i = length (pd_mounts d) then
        bindM (putsM (who @ '' Unmount requested but not mounted.'' @ nl)) (\<lambda>_.
        bindM (send in_pid (- 19)) (\<lambda>_. retM d))
      else if \<exists>f \<in> set (open_files d). of_mnt f = i then
        bindM (putsM (who @ '' '' @ ml_devprefix m @ '' Umount requested but there are still opened files.'' @ nl))
          (\<lambda>_.
        bindM (output_statistics d) (\<lambda>_.
        bindM (send in_pid (- 16)) (\<lambda>_. retM d)))
      else
        let k = umount_scan (ml_containerpath m) i 0 (pd_mounts d) in
        bindM (if k < TABLE \<and> pd_debug d then
            putsM (who @ '' '' @ ml_devprefix m @ '' Unmount requested but another process is using.'' @ nl)
          else retM ()) (\<lambda>_.
        bindM (if k \<ge> TABLE then codeM (Pfs (Op_umount (ml_containerpath m))) else retM 0) (\<lambda>rpcret.
        bindM (send in_pid rpcret) (\<lambda>_.
        bindM (retM (if rpcret = 0 then umount_cleanup i d else d)) (\<lambda>d'.
        bindM (if k < TABLE \<and> pd_debug d then output_statistics d' else retM ()) (\<lambda>_. retM d'))))))"

definition rpc_command_getmountpoint :: "string \<Rightarrow> int \<Rightarrow> pfsd \<Rightarrow> unit io" where
  "rpc_command_getmountpoint path in_pid d =
     bindM (bufM 1200 path) (\<lambda>_.
     let i = first (\<lambda>m. ml_pid m = in_pid \<and> before_char (CHR '','') path = ml_devprefix m) (pd_mounts d);
         found = i < length (pd_mounts d) in
     bindM (doM (Ipc (Shm_write (if found then ml_fsprefix (pd_mounts d ! i) else [])))) (\<lambda>_.
     send in_pid (if found then 0 else - 19)))"


subsection \<open>Events\<close>

text \<open>A call with a descriptor of the client, and one with a name of the client, answered.\<close>

definition fd_request :: "(int \<Rightarrow> pfs_op) \<Rightarrow> int \<Rightarrow> int \<Rightarrow> pfsd \<Rightarrow> unit io" where
  "fd_request op fd in_pid d =
     bindM (rpc_remap_fd fd in_pid d) (\<lambda>h.
     bindM (codeM (Pfs (op h))) (\<lambda>rpcret. send in_pid rpcret))"

definition name_request :: "(string \<Rightarrow> pfs_op) \<Rightarrow> string \<Rightarrow> int \<Rightarrow> pfsd \<Rightarrow> unit io" where
  "name_request op name in_pid d =
     bindM (rpc_remap_name 1024 name in_pid d) (\<lambda>name'.
     bindM (codeM (Pfs (op name'))) (\<lambda>rpcret. send in_pid rpcret))"

definition names_request ::
    "(string \<Rightarrow> string \<Rightarrow> pfs_op) \<Rightarrow> string \<Rightarrow> string \<Rightarrow> int \<Rightarrow> pfsd \<Rightarrow> unit io" where
  "names_request op old new in_pid d =
     bindM (rpc_remap_name 1024 old in_pid d) (\<lambda>old'.
     bindM (rpc_remap_name 1024 new in_pid d) (\<lambda>new'.
     bindM (codeM (Pfs (op old' new'))) (\<lambda>rpcret. send in_pid rpcret)))"

definition plain_request :: "pfs_op \<Rightarrow> int \<Rightarrow> unit io" where
  "plain_request op in_pid = bindM (codeM (Pfs op)) (\<lambda>rpcret. send in_pid rpcret)"

text \<open>The \<open>switch\<close> over the commands.\<close>

fun dispatch :: "pfs_op \<Rightarrow> int \<Rightarrow> pfsd \<Rightarrow> pfsd io" where
  "dispatch (Op_open n f m) fd d = rpc_command_open n f m fd d"
| "dispatch (Op_lseek h off w) fd d = seqM (fd_request (\<lambda>h. Op_lseek h off w) h fd d) (retM d)"
| "dispatch (Op_lseek64 h off w) fd d =
     bindM (rpc_remap_fd h fd d) (\<lambda>h.
     bindM (codeM (Pfs (Op_lseek64 h off w))) (\<lambda>rpcret64.
     bindM (doM (Ipc (Sock_send fd (f_int64 rpcret64)))) (\<lambda>_. retM d)))"
| "dispatch (Op_read h p n) fd d = seqM (fd_request (\<lambda>h. Op_read h p n) h fd d) (retM d)"
| "dispatch (Op_write h p n) fd d = seqM (fd_request (\<lambda>h. Op_write h p n) h fd d) (retM d)"
| "dispatch (Op_close h) fd d = rpc_command_close h fd d"
| "dispatch (Op_dopen n) fd d = rpc_command_dopen n fd d"
| "dispatch (Op_dread h p) fd d = seqM (fd_request (\<lambda>h. Op_dread h p) h fd d) (retM d)"
| "dispatch (Op_dclose h) fd d = rpc_command_dclose h fd d"
| "dispatch (Op_chstat n p m) fd d = seqM (name_request (\<lambda>n. Op_chstat n p m) n fd d) (retM d)"
| "dispatch (Op_getstat n p) fd d = seqM (name_request (\<lambda>n. Op_getstat n p) n fd d) (retM d)"
| "dispatch (Op_mkdir n m) fd d = seqM (name_request (\<lambda>n. Op_mkdir n m) n fd d) (retM d)"
| "dispatch (Op_rmdir n) fd d = seqM (name_request Op_rmdir n fd d) (retM d)"
| "dispatch (Op_chdir n) fd d = seqM (name_request Op_chdir n fd d) (retM d)"
| "dispatch (Op_remove n) fd d = seqM (name_request Op_remove n fd d) (retM d)"
| "dispatch (Op_rename a b) fd d = seqM (names_request Op_rename a b fd d) (retM d)"
| "dispatch (Op_ioctl h c p) fd d = seqM (fd_request (\<lambda>h. Op_ioctl h c p) h fd d) (retM d)"
| "dispatch (Op_ioctl2 h c p n q m) fd d =
     seqM (fd_request (\<lambda>h. Op_ioctl2 h c p n q m) h fd d) (retM d)"
| "dispatch (Op_symlink a b) fd d = seqM (names_request Op_symlink a b fd d) (retM d)"
| "dispatch (Op_readlink n p m) fd d =
     seqM (name_request (\<lambda>n. Op_readlink n p m) n fd d) (retM d)"
| "dispatch (Op_sync n f) fd d = seqM (name_request (\<lambda>n. Op_sync n f) n fd d) (retM d)"
| "dispatch (Op_format dv b p n) fd d =
     bindM (bufM 1200 b) (\<lambda>_.
     bindM (plain_request (Op_format dv (before_char (CHR '','') b) p n) fd) (\<lambda>_. retM d))"
| "dispatch (Op_mount f dv l p n) fd d = rpc_command_mount f dv l p n fd d"
| "dispatch (Op_umount n) fd d = rpc_command_umount n fd d"
| "dispatch (Op_devctl n c p l q m) fd d =
     seqM (name_request (\<lambda>n. Op_devctl n c p l q m) n fd d) (retM d)"
| "dispatch (Op_setreadahead e) fd d = seqM (plain_request (Op_setreadahead e) fd) (retM d)"
| "dispatch Op_getreadahead fd d = seqM (plain_request Op_getreadahead fd) (retM d)"
| "dispatch (Op_getmountpoint n) fd d =
     bindM (rpc_command_getmountpoint n fd d) (\<lambda>_.
     bindM (send fd (pd_junk d)) (\<lambda>_. retM d))"
| "dispatch (Op_transfer h s t z m p) fd d =
     seqM (fd_request (\<lambda>h. Op_transfer h s t z m p) h fd d) (retM d)"

text \<open>The reply to the read is what the structure holds after it.\<close>

definition event_handler_func :: "nat \<Rightarrow> pfsd \<Rightarrow> pfsd io" where
  "event_handler_func pfd d =
     (let fd = pd_clients d ! pfd in
      bindM (callM (Ipc (Sock_recv fd 2072))) (\<lambda>r.
      if rp_ret r < 0 then retM d
      else case decode_request (rp_data r) of
          None \<Rightarrow> bindM (putsM (''Not supported function '' @ dec_int (g_int 4 (rp_data r)) @ ''.'' @ nl))
            (\<lambda>_. retM d)
        | Some op \<Rightarrow> dispatch op fd d))"

subsection \<open>Clients\<close>

text \<open>\<open>get_pid_from_socket_fd\<close> and \<open>capget\<close>: the process and its effective capabilities.\<close>

definition add_new_client :: "pfsd \<Rightarrow> pfsd io" where
  "add_new_client d =
     bindM (codeM (Ipc (Sock_accept (pd_socket d)))) (\<lambda>s.
     if s < 0 then retM d
     else if pd_nclients d \<ge> TABLE then
       bindM (putsM (''Too many clients.'' @ nl)) (\<lambda>_.
       bindM (doM (Host_close s)) (\<lambda>_. retM d))
     else
       bindM (codeM (Ipc (Sock_peer s))) (\<lambda>pid.
       if pid = - 1 then bindM (doM (Host_close s)) (\<lambda>_. retM d)
       else
         bindM (callM (Ipc (Cap_get pid))) (\<lambda>cap.
         if rp_ret cap \<noteq> 0 then bindM (doM (Host_close s)) (\<lambda>_. retM d)
         else if g_u32 0 (rp_data cap) AND 0x20000 = 0 then
           bindM (putsM (''Client does not have capability. disconnecting.'' @ nl)) (\<lambda>_.
           bindM (doM (Host_close s)) (\<lambda>_. retM d))
         else if Suc (pd_nclients d) < length (pd_clients d) then
           retM (d\<lparr>pd_clients := (pd_clients d)[pd_nclients d := s, Suc (pd_nclients d) := pd_socket d],
             pd_nclients := Suc (pd_nclients d)\<rparr>)
         else faultM)))"

text \<open>
  \<open>cleanup_client\<close>: closing the client's files; the index moves on only past a file of another
  client. \<open>quiet\<close> is \<open>outputflag\<close>, set until the first message.
\<close>

definition say_once :: "bool \<Rightarrow> int \<Rightarrow> string \<Rightarrow> unit io" where
  "say_once quiet pid text =
     putsM ((if quiet then dec_int pid @ '' terminated abnormally.'' @ nl else []) @ text @ nl)"

definition cleanup_files_body ::
    "int \<Rightarrow> nat \<times> bool \<times> pfsd \<Rightarrow> ((nat \<times> bool \<times> pfsd) + bool \<times> pfsd) io" where
  "cleanup_files_body fd = (\<lambda>(i, quiet, d).
     if int i < pd_count d then
       let f = pd_items d ! i in
       if of_pid f = fd then
         bindM (say_once quiet (of_pid f) (''Cleanup: Close '' @ dec_int (of_fd f))) (\<lambda>_.
         bindM (rpc_command_close (of_fd f) (of_pid f) d) (\<lambda>d'. retM (Inl (i, False, d'))))
       else retM (Inl (Suc i, quiet, d))
     else retM (Inr (quiet, d)))"

fun cleanup_mounts :: "int \<Rightarrow> nat list \<Rightarrow> bool \<Rightarrow> pfsd \<Rightarrow> (bool \<times> pfsd) io" where
  "cleanup_mounts fd [] quiet d = retM (quiet, d)"
| "cleanup_mounts fd (i # is) quiet d =
     (let m = pd_mounts d ! i in
      if ml_pid m = fd then
        bindM (bufM 1024 (ml_fsprefix m)) (\<lambda>fsname.
        bindM (say_once quiet (ml_pid m) (''Cleanup: Unmount '' @ fsname)) (\<lambda>_.
        bindM (rpc_command_umount fsname (ml_pid m) d) (\<lambda>d'. cleanup_mounts fd is False d')))
      else cleanup_mounts fd is quiet d)"

definition remove_client :: "nat \<Rightarrow> pfsd \<Rightarrow> pfsd" where
  "remove_client c d = d\<lparr>
     pd_clients := fold (\<lambda>i xs. xs[i := xs ! Suc i]) [c..<pd_nclients d] (pd_clients d),
     pd_nclients := pd_nclients d - 1\<rparr>"

definition cleanup_client :: "nat \<Rightarrow> pfsd \<Rightarrow> pfsd io" where
  "cleanup_client c d =
     (let fd = pd_clients d ! c in
      bindM (loopM (cleanup_files_body fd) (0, True, d)) (\<lambda>(quiet, d).
      bindM (cleanup_mounts fd [0..<TABLE] quiet d) (\<lambda>(quiet, d).
      bindM (if \<not> quiet \<and> pd_debug d then output_statistics d else retM ()) (\<lambda>_.
      bindM (doM (Host_close fd)) (\<lambda>_.
      if pd_nclients d < length (pd_clients d) then retM (remove_client c d) else faultM)))))"

subsection \<open>The main loop\<close>

text \<open>The bits of \<open>revents\<close> the answer to \<open>poll\<close> gives for a connection.\<close>

definition revents :: "string \<Rightarrow> nat \<Rightarrow> nat" where
  "revents s i = (if i < length s then of_char (s ! i) else 0)"

definition POLLIN :: nat where "POLLIN = 1"
definition POLLHUP :: nat where "POLLHUP = 16"
definition EINTR :: int where "EINTR = 4"

definition ready :: "string \<Rightarrow> nat \<Rightarrow> nat \<Rightarrow> bool" where
  "ready s i m = (revents s i AND m \<noteq> 0)"

text \<open>One round over the connections: \<open>True\<close> when a client was removed, which ends the round.\<close>

fun serve_clients :: "string \<Rightarrow> nat list \<Rightarrow> pfsd \<Rightarrow> (bool \<times> pfsd) io" where
  "serve_clients rv [] d = retM (False, d)"
| "serve_clients rv (i # is) d =
     (if ready rv i POLLHUP then bindM (cleanup_client i d) (\<lambda>d'. retM (True, d'))
      else if ready rv i POLLIN then bindM (event_handler_func i d) (serve_clients rv is)
      else serve_clients rv is d)"

definition poll_body :: "pfsd \<Rightarrow> (pfsd + pfsd) io" where
  "poll_body d =
     bindM (callM (Ipc (Sock_poll (take (Suc (pd_nclients d)) (pd_clients d))))) (\<lambda>r.
     if rp_ret r < 0 then retM (Inr d)
     else if ready (rp_data r) (pd_nclients d) POLLIN then
       bindM (add_new_client d) (\<lambda>d'. retM (Inl d'))
     else
       bindM (serve_clients (rp_data r) [0..<pd_nclients d] d) (\<lambda>(removed, d').
       retM (if removed then Inr d' else Inl d')))"

definition main_body :: "pfsd \<Rightarrow> (pfsd + int \<times> pfsd) io" where
  "main_body d =
     bindM (loopM poll_body d) (\<lambda>d.
     bindM (codeM (Posix P_errno)) (\<lambda>e.
     if e \<noteq> EINTR then retM (Inr (1, d))
     else if pd_debug d then retM (Inr (0, d))
     else retM (Inl d)))"

subsection \<open>Starting and stopping\<close>

definition PFSD_PATH :: string where "PFSD_PATH = ''/tmp/pfsd''"

text \<open>The semaphore, set to 1, and the shared memory; \<open>None\<close> when they cannot be had.\<close>

definition StartUp_Daemon :: "(int \<times> int) option io" where
  "StartUp_Daemon =
     bindM (codeM (Ipc (Sem_get True))) (\<lambda>SemId.
     if SemId < 0 then retM None
     else
       bindM (codeM (Ipc (Sem_set SemId))) (\<lambda>r.
       if r < 0 then retM None
       else
         bindM (codeM (Ipc (Shm_get 0x20000 True))) (\<lambda>ShmId.
         if ShmId < 0 then retM None
         else bindM (doM (Ipc (Shm_attach ShmId))) (\<lambda>_. retM (Some (SemId, ShmId))))))"

definition CleanUp_Daemon :: "int \<Rightarrow> int \<Rightarrow> int io" where
  "CleanUp_Daemon SemId ShmId =
     bindM (doM (Ipc (Sem_remove SemId))) (\<lambda>_.
     bindM (doM (Ipc Shm_detach)) (\<lambda>_.
     bindM (doM (Ipc (Shm_remove ShmId))) (\<lambda>_.
     bindM (doM (Host_remove PFSD_PATH)) (\<lambda>_. retM 0))))"

definition Connect_Daemon :: "int io" where
  "Connect_Daemon =
     bindM (codeM (Ipc Sock_new)) (\<lambda>s.
     if s < 0 then retM (- 1)
     else
       bindM (doM (Host_remove PFSD_PATH)) (\<lambda>_.
       bindM (codeM (Ipc (Sock_bind s PFSD_PATH))) (\<lambda>r.
       if r < 0 then retM (- 1)
       else
         bindM (doM (Posix (P_chmod PFSD_PATH 0x1FF))) (\<lambda>_.
         bindM (codeM (Ipc (Sock_listen s 5))) (\<lambda>r.
         if r < 0 then retM (- 1)
         else bindM (doM (Ipc Signal_ignore)) (\<lambda>_. retM s)))))) "

text \<open>\<open>main\<close> after \<open>scepfsInit\<close>, whose result is \<open>init\<close>.\<close>

definition pfsd_main :: "nat \<Rightarrow> int \<Rightarrow> int \<Rightarrow> int io" where
  "pfsd_main argc junk init =
     (if init < 0 then bindM (putsM (''PFSlib initialize failed.'' @ nl)) (\<lambda>_. retM 1)
      else
        bindM StartUp_Daemon (\<lambda>ids. case ids of None \<Rightarrow> retM 1 | Some (SemId, ShmId) \<Rightarrow>
        bindM Connect_Daemon (\<lambda>s.
        if s < 0 then retM 1
        else
          let d = pfsd_boot (argc \<ge> 2) junk in
          bindM (loopM main_body (d\<lparr>pd_socket := s, pd_clients := (pd_clients d)[0 := s]\<rparr>))
            (\<lambda>(result, d).
          if result \<noteq> 0 then retM result
          else bindM (output_statistics d) (\<lambda>_. CleanUp_Daemon SemId ShmId)))))"

end
