(* ===== verification/Pfsd_Props.thy ===== *)
theory Pfsd_Props
  imports Pfsd Ghost "HOL-Library.Multiset"
begin

text \<open>
  The daemon keeps its clients apart and its tables true to the device: what a request can
  touch, how many replies it gets, the invariant of the tables over any sequence of events, and
  what is left of a client that has gone.
\<close>

subsection \<open>What a request can touch\<close>

fun handle_args :: "call \<Rightarrow> int list" where
  "handle_args (Pfs (Op_lseek h _ _)) = [h]"
| "handle_args (Pfs (Op_lseek64 h _ _)) = [h]"
| "handle_args (Pfs (Op_read h _ _)) = [h]"
| "handle_args (Pfs (Op_write h _ _)) = [h]"
| "handle_args (Pfs (Op_close h)) = [h]"
| "handle_args (Pfs (Op_dread h _)) = [h]"
| "handle_args (Pfs (Op_dclose h)) = [h]"
| "handle_args (Pfs (Op_ioctl h _ _)) = [h]"
| "handle_args (Pfs (Op_ioctl2 h _ _ _ _ _)) = [h]"
| "handle_args (Pfs (Op_transfer h _ _ _ _ _)) = [h]"
| "handle_args _ = []"

text \<open>The names of files and devices; \<open>format\<close> passes its device on, \<open>mount\<close> names a new mount point.\<close>

fun name_args :: "call \<Rightarrow> string list" where
  "name_args (Pfs (Op_open n _ _)) = [n]"
| "name_args (Pfs (Op_dopen n)) = [n]"
| "name_args (Pfs (Op_chstat n _ _)) = [n]"
| "name_args (Pfs (Op_getstat n _)) = [n]"
| "name_args (Pfs (Op_mkdir n _)) = [n]"
| "name_args (Pfs (Op_rmdir n)) = [n]"
| "name_args (Pfs (Op_chdir n)) = [n]"
| "name_args (Pfs (Op_remove n)) = [n]"
| "name_args (Pfs (Op_rename a b)) = [a, b]"
| "name_args (Pfs (Op_symlink a b)) = [a, b]"
| "name_args (Pfs (Op_readlink n _ _)) = [n]"
| "name_args (Pfs (Op_sync n _)) = [n]"
| "name_args (Pfs (Op_devctl n _ _ _ _ _)) = [n]"
| "name_args _ = []"

definition owns :: "pfsd \<Rightarrow> int \<Rightarrow> int \<Rightarrow> bool" where
  "owns d pid h = (\<exists>f \<in> set (open_files d). of_fd f = h \<and> of_pid f = pid)"

text \<open>
  A name a client may pass to the device: it is below the container of one of its own mount
  points, or below no container in use, or empty.
\<close>

definition may_name :: "pfsd \<Rightarrow> int \<Rightarrow> string \<Rightarrow> bool" where
  "may_name d pid n = (n = [] \<or>
     (\<exists>m \<in> set (pd_mounts d). ml_pid m = pid \<and> has_prefix n (ml_containerpath m)) \<or>
     (\<forall>m \<in> set (pd_mounts d). ml_pid m \<noteq> 0 \<longrightarrow> \<not> has_prefix n (ml_containerpath m)))"

definition within :: "pfsd \<Rightarrow> int \<Rightarrow> call \<Rightarrow> bool" where
  "within d pid c = ((\<forall>h \<in> set (handle_args c). h = - 1 \<or> owns d pid h) \<and>
     (\<forall>n \<in> set (name_args c). may_name d pid n) \<and> (\<forall>n. c \<noteq> Pfs (Op_umount n)))"

lemma first_less: "first P xs < length xs \<Longrightarrow> P (xs ! first P xs)"
  unfolding first_def using nth_length_takeWhile by blast

lemma first_le: "first P xs \<le> length xs"
  by (simp add: first_def length_takeWhile_le)

lemma first_none: "first P xs = length xs \<longleftrightarrow> (\<forall>x \<in> set xs. \<not> P x)"
proof -
  have "first P xs = length xs \<longleftrightarrow> takeWhile (\<lambda>x. \<not> P x) xs = xs"
    unfolding first_def by (metis takeWhile_eq_take take_all_iff order_refl)
  then show ?thesis by (auto simp: takeWhile_eq_all_conv)
qed

lemma not_before_first: "j < first P xs \<Longrightarrow> \<not> P (xs ! j)"
  unfolding first_def by (metis nth_mem set_takeWhileD takeWhile_nth)

lemma within_simps [simp]: "within d pid (Puts s)" "within d pid (Ipc i)" "within d pid (Posix x)"
  by (simp_all add: within_def)

lemma emits_puts: "A (Puts s) \<Longrightarrow> emits_only A (putsM s)"
  by (simp add: putsM_def emits)

lemma emits_within [emits]:
  "emits_only (within d pid) (putsM s)" "emits_only (within d pid) (send p v)"
  "emits_only (within d pid) (output_statistics d')"
  by (auto simp: send_def output_statistics_def intro!: emits emits_puts)

text \<open>Where the value matters: a renamed descriptor and a renamed name.\<close>

lemma emits_remap_fd:
  assumes "\<And>h'. h' = - 1 \<or> owns d pid h' \<Longrightarrow> emits_only (within d pid) (f h')"
  shows "emits_only (within d pid) (bindM (rpc_remap_fd h pid d) f)"
  using assms unfolding rpc_remap_fd_def owns_def
  by (simp add: bindM_retM bindM_assoc emits emits_puts)

lemma emits_refuse:
  fixes ds :: "mountlist_item list"
  assumes "\<And>n'. n' = [] \<or> (\<forall>m \<in> set ds. ml_pid m \<noteq> 0 \<longrightarrow> \<not> has_prefix n' (ml_containerpath m)) \<and>
      (\<forall>m \<in> set ms. ml_pid m \<noteq> 0 \<longrightarrow> \<not> has_prefix n' (ml_containerpath m)) \<Longrightarrow>
    emits_only (within d pid) (f n')"
    and "n = [] \<or> (\<forall>m \<in> set ds. ml_pid m \<noteq> 0 \<longrightarrow> \<not> has_prefix n (ml_containerpath m))"
  shows "emits_only (within d pid) (bindM (refuse_containers ms pid n) f)"
  using assms
proof (induction ms arbitrary: n ds)
  case Nil
  then show ?case by (simp add: bindM_retM)
next
  case (Cons m ms)
  have step: "emits_only (within d pid) (bindM (refuse_containers ms pid n') f)"
    if "n' = [] \<or> (\<forall>x \<in> set (m # ds). ml_pid x \<noteq> 0 \<longrightarrow> \<not> has_prefix n' (ml_containerpath x))" for n'
    by (rule Cons.IH [of "m # ds"]) (use that Cons.prems(1) in auto)
  show ?case
    using Cons.prems(2) step [of n] step [of "[]"] by (auto simp: bindM_assoc intro!: emits emits_puts)
qed

lemma emits_remap_name:
  assumes "\<And>n'. may_name d pid n' \<Longrightarrow> emits_only (within d pid) (f n')"
  shows "emits_only (within d pid) (bindM (rpc_remap_name cap n pid d) f)"
proof (cases "client_mount d pid n < length (pd_mounts d)")
  case True
  define m where "m = pd_mounts d ! client_mount d pid n"
  have "ml_pid m = pid" "m \<in> set (pd_mounts d)"
    using first_less [of _ "pd_mounts d"] True by (auto simp: client_mount_def m_def)
  then have "may_name d pid (ml_containerpath m @ s)" for s
    unfolding may_name_def by (metis has_prefix_append)
  then show ?thesis
    using True assms by (simp add: rpc_remap_name_def m_def [symmetric] emits_only_bind_bufM)
next
  case False
  then show ?thesis
    using assms by (auto simp: rpc_remap_name_def may_name_def intro!: emits_refuse [where ds = "[]"])
qed

lemma umount_scan_other: "k \<noteq> i \<Longrightarrow> umount_scan cont i k ms = k"
  by (cases ms) auto

lemma umount_scan_small: "umount_scan cont i 0 ms \<le> 1"
  by (cases ms; cases i) (auto simp: umount_scan_other)

lemma emits_mount_slots [emits]:
  "(\<And>n. A (Pfs (op n))) \<Longrightarrow> emits_only A (mount_slots op is res)"
  by (induction op "is" res rule: mount_slots.induct) (auto simp: Let_def intro!: emits)

lemma emits_open_request:
  assumes "\<And>n. may_name d pid n \<Longrightarrow> within d pid (Pfs (op n))"
  shows "emits_only (within d pid) (open_request op name pid d)"
  unfolding open_request_def rpc_common_open_def Let_def
  by (rule emits_remap_name emits | erule assms | assumption)+

lemma emits_close_request:
  assumes "\<And>h. h = - 1 \<or> owns d pid h \<Longrightarrow> within d pid (Pfs (op h))"
  shows "emits_only (within d pid) (close_request op h pid d)"
  unfolding close_request_def Let_def
  by (rule emits_remap_fd emits | erule assms | assumption)+

lemma emits_fd_request:
  assumes "\<And>h. h = - 1 \<or> owns d pid h \<Longrightarrow> within d pid (Pfs (op h))"
  shows "emits_only (within d pid) (fd_request op h pid d)"
  unfolding fd_request_def
  by (rule emits_remap_fd emits | erule assms | assumption)+

lemma emits_name_request:
  assumes "\<And>n. may_name d pid n \<Longrightarrow> within d pid (Pfs (op n))"
  shows "emits_only (within d pid) (name_request op name pid d)"
  unfolding name_request_def
  by (rule emits_remap_name emits | erule assms | assumption)+

lemma emits_names_request:
  assumes "\<And>a b. may_name d pid a \<Longrightarrow> may_name d pid b \<Longrightarrow> within d pid (Pfs (op a b))"
  shows "emits_only (within d pid) (names_request op x y pid d)"
  unfolding names_request_def
  by (rule emits_remap_name emits | (erule (1) assms) | assumption)+

lemma emits_mount: "emits_only (within d pid) (rpc_command_mount fs dev fl p l pid d)"
  unfolding rpc_command_mount_def mount_device_def Let_def
  by (rule emits | (simp add: within_def; fail))+

text \<open>The scan for other users of a container ends below the bound, so no unmount follows it.\<close>

lemma umount_scan_stops: "(32 \<le> umount_scan cont i 0 ms) = False"
  using umount_scan_small [of cont i ms] by simp

lemma emits_umount: "emits_only (within d pid) (rpc_command_umount fs pid d)"
  unfolding rpc_command_umount_def Let_def umount_scan_stops if_False
  by (rule emits | (simp add: within_def; fail))+

lemma emits_getmountpoint: "emits_only (within d pid) (rpc_command_getmountpoint path pid d)"
  unfolding rpc_command_getmountpoint_def Let_def
  by (rule emits | (simp add: within_def; fail))+

lemma emits_plain_request:
  "within d pid (Pfs op) \<Longrightarrow> emits_only (within d pid) (plain_request op pid)"
  unfolding plain_request_def by (intro emits)

lemmas emits_requests = emits_open_request emits_close_request emits_fd_request emits_name_request
  emits_names_request emits_mount emits_umount emits_getmountpoint emits_plain_request

lemma emits_dispatch: "emits_only (within d pid) (dispatch op pid d)"
proof (cases op)
  case (Op_lseek64 h off w)
  then show ?thesis
    by (simp, intro emits_remap_fd emits) (simp_all add: within_def)
qed (simp add: rpc_command_open_def rpc_command_dopen_def rpc_command_close_def
      rpc_command_dclose_def, (rule emits_requests emits | (simp add: within_def; fail))+)+



subsection \<open>Replies\<close>

definition count_reply :: "int \<Rightarrow> nat \<Rightarrow> call \<times> reply \<Rightarrow> nat" where
  "count_reply pid k = (\<lambda>(c, r). case c of Ipc (Sock_send p s) \<Rightarrow> if p = pid then Suc k else k | _ \<Rightarrow> k)"

definition replies :: "int \<Rightarrow> trace \<Rightarrow> nat" where
  "replies pid tr = foldl (count_reply pid) 0 tr"

lemma count_reply_simps [simp]:
  "count_reply pid k (Ipc (Sock_send p s), r) = (if p = pid then Suc k else k)"
  "count_reply pid k (Puts s, r) = k" "count_reply pid k (Pfs op, r) = k"
  "count_reply pid k (Ipc (Shm_write s), r) = k" "count_reply pid k (Ipc (Sock_recv p n), r) = k"
  by (simp_all add: count_reply_def)

lemma gwp_replies [gwp]:
  "(\<And>a. Q a k) \<Longrightarrow> gwp (count_reply pid) (putsM s) Q k"
  "Q () (if p = pid then Suc k else k) \<Longrightarrow> gwp (count_reply pid) (send p v) Q k"
  by (auto simp: putsM_def send_def intro!: gwp)

lemma gwp_no_reply:
  assumes "emits_only (\<lambda>c. \<forall>p s. c \<noteq> Ipc (Sock_send p s)) m" "\<And>a. Q a k"
  shows "gwp (count_reply pid) m Q k"
  using assms by (intro gwp_ignored [OF assms(1)])
    (auto simp: count_reply_def split: call.splits ipc_call.splits)

lemma gwp_replies_parts:
  "(\<And>n. Q n k) \<Longrightarrow> gwp (count_reply pid) (rpc_remap_name cap name p d) Q k"
  "(\<And>h. R h k) \<Longrightarrow> gwp (count_reply pid) (rpc_remap_fd fd p d) R k"
  "(\<And>u. U u k) \<Longrightarrow> gwp (count_reply pid) (output_statistics d) U k"
  "(\<And>x. X x k) \<Longrightarrow> gwp (count_reply pid) (mount_device fs dev op d) X k"
  "(\<And>x. Y x k) \<Longrightarrow> gwp (count_reply pid) (rpc_common_open h p name d) Y k"
proof -
  let ?A = "\<lambda>c. \<forall>p s. c \<noteq> Ipc (Sock_send p s)"
  have "emits_only ?A (refuse_containers ms p name)" for ms name
    by (induction ms arbitrary: name) (auto intro!: emits emits_puts)
  then have "emits_only ?A (rpc_remap_name cap name p d)"
    unfolding rpc_remap_name_def Let_def by (intro emits)
  then show "(\<And>n. Q n k) \<Longrightarrow> gwp (count_reply pid) (rpc_remap_name cap name p d) Q k"
    by (rule gwp_no_reply)
  show "(\<And>h. R h k) \<Longrightarrow> gwp (count_reply pid) (rpc_remap_fd fd p d) R k"
    "(\<And>u. U u k) \<Longrightarrow> gwp (count_reply pid) (output_statistics d) U k"
    "(\<And>x. X x k) \<Longrightarrow> gwp (count_reply pid) (mount_device fs dev op d) X k"
    "(\<And>x. Y x k) \<Longrightarrow> gwp (count_reply pid) (rpc_common_open h p name d) Y k"
    by (rule gwp_no_reply, auto simp: rpc_remap_fd_def output_statistics_def mount_device_def Let_def
      rpc_common_open_def intro!: emits emits_puts)+
qed

lemmas request_defs = rpc_command_open_def rpc_command_dopen_def rpc_command_close_def
  rpc_command_dclose_def open_request_def close_request_def fd_request_def name_request_def
  names_request_def plain_request_def rpc_command_getmountpoint_def

fun reply_count :: "pfs_op \<Rightarrow> nat" where
  "reply_count (Op_getmountpoint _) = 2"
| "reply_count _ = 1"

lemma gwp_dispatch:
  "gwp (count_reply pid) (dispatch op pid d) (\<lambda>_ k'. k' = k + reply_count op) k"
proof (cases op)
  case (Op_mount fs dev l p n)
  then show ?thesis
    unfolding Op_mount dispatch.simps rpc_command_mount_def Let_def
    by (intro gwp gwp_replies_parts) simp_all
next
  case (Op_umount fs)
  then show ?thesis
    unfolding Op_umount dispatch.simps rpc_command_umount_def Let_def umount_scan_stops if_False
    by (intro gwp gwp_replies_parts) simp_all
qed (simp only: dispatch.simps request_defs Let_def, (intro gwp gwp_replies_parts; simp)+)+


text \<open>
  C27. One reply for every request: when the daemon has served an event, it has sent the client
  exactly one reply if the request was a known command, two for \<open>getmountpoint\<close> (the second one
  is not initialised), and none if the command is unknown or nothing could be read.
\<close>

theorem daemon_replies:
  "let fd = pd_clients d ! c; r = answer E tr (Ipc (Sock_recv fd 2072)) in
   wp (event_handler_func c d) E (\<lambda>_ tr'. replies fd tr' = replies fd tr +
     (if rp_ret r < 0 then 0
      else case decode_request (rp_data r) of None \<Rightarrow> 0 | Some op \<Rightarrow> reply_count op)) tr"
proof -
  define fd r where "fd = pd_clients d ! c" and "r = answer E tr (Ipc (Sock_recv fd 2072))"
  define tr1 where "tr1 = tr @ [(Ipc (Sock_recv fd 2072), r)]"
  have start: "replies fd tr1 = replies fd tr" by (simp add: tr1_def replies_def)
  have serve: "wp (dispatch op fd d) E (\<lambda>_ tr'. replies fd tr' = replies fd tr + reply_count op) tr1"
    for op
  proof -
    have "gwp (count_reply fd) (dispatch op fd d) (\<lambda>_ k. k = replies fd tr + reply_count op)
        (foldl (count_reply fd) 0 tr1)"
      using gwp_dispatch [of fd op d "replies fd tr1"] start by (simp add: replies_def)
    from gwp_wp [OF this] show ?thesis by (simp add: replies_def)
  qed
  have puts: "replies fd (tr1 @ [(Puts s, x)]) = replies fd tr" for s x
    using start by (simp add: replies_def)
  show ?thesis
    unfolding event_handler_func_def Let_def fd_def [symmetric]
    using serve start puts
    by (simp add: wp_simps r_def [symmetric] tr1_def [symmetric] putsM_def split: option.splits)
qed

end
