(* ===== verification/Pfsd_Tables.thy ===== *)
theory Pfsd_Tables
  imports Pfsd_Props
begin

text \<open>
  The tables of the daemon over any sequence of events: they stay in their bounds, every open
  file belongs to a mount point of its client, and the files in the table are those open on the
  device; when a client goes, everything of it goes and nothing else.
\<close>

subsection \<open>The files open on the device\<close>

text \<open>
  What the history says is open. Every successful \<open>open\<close> counts, and a \<open>close\<close> that succeeds
  gives one handle up.
\<close>

fun dev_step :: "int multiset \<Rightarrow> call \<times> reply \<Rightarrow> int multiset" where
  "dev_step H (Pfs (Op_open _ _ _), r) = (if rp_ret r \<ge> 0 then add_mset (rp_ret r) H else H)"
| "dev_step H (Pfs (Op_dopen _), r) = (if rp_ret r \<ge> 0 then add_mset (rp_ret r) H else H)"
| "dev_step H (Pfs (Op_close h), r) = (if rp_ret r = 0 then H - {#h#} else H)"
| "dev_step H (Pfs (Op_dclose h), r) = (if rp_ret r = 0 then H - {#h#} else H)"
| "dev_step H _ = H"

definition on_device :: "trace \<Rightarrow> int multiset" where
  "on_device tr = foldl dev_step {#} tr"

lemma on_device_append [simp]: "on_device (tr @ evs) = foldl dev_step (on_device tr) evs"
  by (simp add: on_device_def)

fun calm :: "call \<Rightarrow> bool" where
  "calm (Pfs (Op_open _ _ _)) = False"
| "calm (Pfs (Op_dopen _)) = False"
| "calm (Pfs (Op_close _)) = False"
| "calm (Pfs (Op_dclose _)) = False"
| "calm _ = True"

lemma dev_step_calm: "calm c \<Longrightarrow> dev_step H (c, r) = H"
  by (cases "(H, c, r)" rule: dev_step.cases) auto

lemma on_device_calm: "list_all (\<lambda>(c, r). calm c) evs \<Longrightarrow> foldl dev_step H evs = H"
  by (induction evs) (auto simp: dev_step_calm)

text \<open>A part of a program that opens and closes nothing.\<close>

lemma wp_calm:
  assumes "emits_only calm m" "\<And>a tr'. on_device tr' = on_device tr \<Longrightarrow> Q a tr'"
  shows "wp m E Q tr"
proof -
  obtain evs where "snd (m E tr) = tr @ evs" "list_all (\<lambda>(c, r). calm c) evs"
    using assms(1) unfolding emits_only_def list_all_iff by blast
  then show ?thesis
    using assms(2) on_device_calm [of evs] by (cases "m E tr") (simp add: wp_def split: outcome.splits)
qed

lemma emits_calm [emits]:
  "emits_only calm (putsM s)" "emits_only calm (send p v)" "emits_only calm (output_statistics d)"
  "emits_only calm (refuse_containers ms p name)" "emits_only calm (rpc_remap_name cap name p d)"
  "emits_only calm (rpc_remap_fd fd p d)"
  "(\<And>n. calm (Pfs (op n))) \<Longrightarrow> emits_only calm (mount_device fs dev op d)"
proof -
  show "emits_only calm (putsM s)" for s by (simp add: emits_puts)
  then show refuse: "emits_only calm (refuse_containers ms p name)" for ms name
    by (induction ms arbitrary: name) (auto intro!: emits)
  show "emits_only calm (send p v)" "emits_only calm (output_statistics d)"
    "emits_only calm (rpc_remap_name cap name p d)" "emits_only calm (rpc_remap_fd fd p d)"
    "(\<And>n. calm (Pfs (op n))) \<Longrightarrow> emits_only calm (mount_device fs dev op d)"
    by (auto simp: send_def output_statistics_def rpc_remap_name_def rpc_remap_fd_def
      mount_device_def Let_def intro!: emits emits_puts refuse)
qed

subsection \<open>The tables\<close>

definition item_ok :: "mountlist_item list \<Rightarrow> openfile_item \<Rightarrow> bool" where
  "item_ok ms f = (of_pid f \<noteq> 0 \<and>
     (of_mnt f < length ms \<longrightarrow> ml_pid (ms ! of_mnt f) = of_pid f))"

definition mounts_ok :: "mountlist_item list \<Rightarrow> bool" where
  "mounts_ok ms = (length ms = TABLE \<and> (\<forall>i < TABLE. \<forall>j < TABLE. i \<noteq> j \<longrightarrow> ml_pid (ms ! i) \<noteq> 0 \<longrightarrow>
     ml_pid (ms ! i) = ml_pid (ms ! j) \<longrightarrow> ml_fsprefix (ms ! i) \<noteq> ml_fsprefix (ms ! j)))"

definition tables_ok :: "pfsd \<Rightarrow> bool" where
  "tables_ok d = (length (pd_items d) = TABLE \<and> 0 \<le> pd_count d \<and> pd_count d \<le> int TABLE \<and>
     mounts_ok (pd_mounts d) \<and> list_all (item_ok (pd_mounts d)) (open_files d))"

text \<open>The tables are sound and name exactly the files that are open on the device.\<close>

definition accounted :: "pfsd \<Rightarrow> trace \<Rightarrow> bool" where
  "accounted d tr = (tables_ok d \<and> on_device tr = mset (map of_fd (open_files d)))"

lemma accounted_cong: "on_device tr' = on_device tr \<Longrightarrow> accounted d tr \<Longrightarrow> accounted d tr'"
  by (simp add: accounted_def)

text \<open>Moving the later entries down is removing an entry.\<close>

lemma shift_nth:
  "i \<le> m \<Longrightarrow> m < length xs \<Longrightarrow> length (fold (\<lambda>k xs. xs[k := xs ! Suc k]) [i..<m] xs) = length xs \<and>
   (\<forall>j < length xs. fold (\<lambda>k xs. xs[k := xs ! Suc k]) [i..<m] xs ! j =
     (if i \<le> j \<and> j < m then xs ! Suc j else xs ! j))"
proof (induction m)
  case (Suc m)
  show ?case
  proof (cases "i = Suc m")
    case False
    then have "i \<le> m" using Suc.prems by simp
    with Suc show ?thesis by (auto simp: nth_list_update less_Suc_eq)
  qed auto
qed simp

lemma length_shift: "length (fold (\<lambda>k xs. xs[k := xs ! Suc k]) ks xs) = length xs"
  by (induction ks arbitrary: xs) auto

definition drop_nth :: "nat \<Rightarrow> 'a list \<Rightarrow> 'a list" where
  "drop_nth i xs = take i xs @ drop (Suc i) xs"

lemma take_shift:
  assumes "i < n" "n \<le> length xs"
  shows "take (n - 1) (fold (\<lambda>k xs. xs[k := xs ! Suc k]) [i..<n - 1] xs) = drop_nth i (take n xs)"
proof (rule nth_equalityI)
  note s = shift_nth [of i "n - 1" xs]
  show len: "length (take (n - 1) (fold (\<lambda>k xs. xs[k := xs ! Suc k]) [i..<n - 1] xs)) =
      length (drop_nth i (take n xs))"
    using assms s by (simp add: drop_nth_def)
  fix j assume "j < length (take (n - 1) (fold (\<lambda>k xs. xs[k := xs ! Suc k]) [i..<n - 1] xs))"
  then have "j < n - 1" using assms s by simp
  then show "take (n - 1) (fold (\<lambda>k xs. xs[k := xs ! Suc k]) [i..<n - 1] xs) ! j =
      drop_nth i (take n xs) ! j"
    using assms s by (auto simp: drop_nth_def nth_append min_def)
qed

lemma mset_drop_nth: "i < length xs \<Longrightarrow> mset (drop_nth i xs) = mset xs - {#xs ! i#}"
proof -
  assume i: "i < length xs"
  have "mset xs = mset (take i xs) + mset (drop i xs)"
    by (metis append_take_drop_id mset_append)
  also have "drop i xs = xs ! i # drop (Suc i) xs" using i by (rule Cons_nth_drop_Suc [symmetric])
  finally show ?thesis by (simp add: drop_nth_def)
qed

lemma set_drop_nth: "set (drop_nth i xs) \<subseteq> set xs"
  by (auto simp: drop_nth_def dest: in_set_takeD in_set_dropD)

lemma drop_nth_filter: "i < length xs \<Longrightarrow> \<not> P (xs ! i) \<Longrightarrow> filter P (drop_nth i xs) = filter P xs"
proof -
  assume i: "i < length xs" "\<not> P (xs ! i)"
  have "filter P xs = filter P (take i xs) @ filter P (drop i xs)"
    by (metis append_take_drop_id filter_append)
  also have "drop i xs = xs ! i # drop (Suc i) xs" using i(1) by (rule Cons_nth_drop_Suc [symmetric])
  finally show ?thesis using i(2) by (simp add: drop_nth_def)
qed

subsection \<open>Opening and closing\<close>

definition added :: "int \<Rightarrow> int \<Rightarrow> string \<Rightarrow> pfsd \<Rightarrow> pfsd" where
  "added h pid name d = d\<lparr>pd_items := (pd_items d)[nat (pd_count d) :=
       \<lparr>of_fd = h, of_pid = pid, of_mnt = client_mount d pid name\<rparr>],
     pd_count := pd_count d + 1\<rparr>"

lemma open_files_added:
  assumes "tables_ok d" "pd_count d < int TABLE"
  shows "open_files (added h pid name d) =
    open_files d @ [\<lparr>of_fd = h, of_pid = pid, of_mnt = client_mount d pid name\<rparr>]"
proof -
  define n where "n = nat (pd_count d)"
  have n: "n < length (pd_items d)" "pd_count d = int n" "nat (pd_count d + 1) = Suc n"
    using assms by (auto simp: tables_ok_def n_def)
  show ?thesis
    using n by (simp add: open_files_def added_def take_Suc_conv_app_nth)
qed

lemma client_mount_ok:
  "client_mount d pid name < length (pd_mounts d) \<Longrightarrow>
     ml_pid (pd_mounts d ! client_mount d pid name) = pid"
  unfolding client_mount_def by (drule first_less) simp

lemma tables_added:
  assumes "tables_ok d" "pd_count d < int TABLE" "pid \<noteq> 0"
  shows "tables_ok (added h pid name d)"
proof -
  have "item_ok (pd_mounts d) \<lparr>of_fd = h, of_pid = pid, of_mnt = client_mount d pid name\<rparr>"
    using assms(3) client_mount_ok by (simp add: item_ok_def)
  then show ?thesis
    using assms(1,2) open_files_added [OF assms(1,2)] by (simp add: tables_ok_def) (simp add: added_def)
qed

lemma wp_common_open:
  assumes "tables_ok d" "pd_count d < int TABLE"
    and "\<And>tr'. on_device tr' = on_device tr \<Longrightarrow> Q (added h pid name d) tr'"
  shows "wp (rpc_common_open h pid name d) E Q tr"
proof -
  have "0 \<le> pd_count d \<and> nat (pd_count d) < length (pd_items d)"
    using assms(1,2) by (auto simp: tables_ok_def)
  then show ?thesis
    unfolding rpc_common_open_def Let_def added_def [symmetric] putsM_def
    using assms(3) by (simp add: wp_simps)
qed

text \<open>The file a client closes.\<close>

lemma owned_first:
  assumes "owns d pid h"
  defines "i \<equiv> first (\<lambda>f. of_fd f = h \<and> of_pid f = pid) (open_files d)"
  shows "i < length (open_files d)" "of_fd (open_files d ! i) = h" "of_pid (open_files d ! i) = pid"
proof -
  have "i \<noteq> length (open_files d)"
    using assms(1) unfolding i_def first_none owns_def by auto
  then show i: "i < length (open_files d)"
    using first_le [of _ "open_files d"] unfolding i_def by (metis le_neq_implies_less)
  show "of_fd (open_files d ! i) = h" "of_pid (open_files d ! i) = pid"
    using first_less [OF i [unfolded i_def]] by (simp_all add: i_def)
qed

lemma open_files_closed:
  assumes "tables_ok d" "owns d pid h"
  shows "open_files (rpc_common_close h pid d) =
    drop_nth (first (\<lambda>f. of_fd f = h \<and> of_pid f = pid) (open_files d)) (open_files d)"
proof -
  define n where "n = nat (pd_count d)"
  have n: "n \<le> length (pd_items d)" "pd_count d = int n" "nat (int n - 1) = n - 1"
    using assms(1) by (auto simp: tables_ok_def n_def)
  have "first (\<lambda>f. of_fd f = h \<and> of_pid f = pid) (open_files d) < n"
    using owned_first(1) [OF assms(2)] n(1,2) by (simp add: open_files_def)
  then show ?thesis
    using take_shift [OF _ n(1)] n by (simp add: open_files_def rpc_common_close_def Let_def)
qed

lemma accounted_closed:
  assumes "tables_ok d" "owns d pid h" "on_device tr = mset (map of_fd (open_files d)) - {#h#}"
  shows "accounted (rpc_common_close h pid d) tr"
proof -
  define i where "i = first (\<lambda>f. of_fd f = h \<and> of_pid f = pid) (open_files d)"
  note files = open_files_closed [OF assms(1,2), folded i_def]
  note i = owned_first [OF assms(2), folded i_def]
  have n: "nat (pd_count d - 1) < length (pd_items d)" "0 < pd_count d"
    using assms(1) i(1) by (auto simp: tables_ok_def open_files_def)
  have "mset (map of_fd (drop_nth i (open_files d))) = mset (map of_fd (open_files d)) - {#h#}"
    using mset_drop_nth [OF i(1)] i(1,2) by (simp add: image_mset_Diff)
  moreover have "list_all (item_ok (pd_mounts d)) (drop_nth i (open_files d))"
    using assms(1) set_drop_nth [of i "open_files d"] by (auto simp: tables_ok_def list_all_iff)
  moreover have "length (pd_items (rpc_common_close h pid d)) = length (pd_items d)"
    by (simp add: rpc_common_close_def Let_def length_shift)
  ultimately show ?thesis
    using assms(1,3) n(2) files by (simp add: accounted_def tables_ok_def)
      (simp add: rpc_common_close_def Let_def)
qed


subsection \<open>Every command keeps the tables\<close>

text \<open>The device refuses to close -1.\<close>

definition rejects :: "env \<Rightarrow> bool" where
  "rejects E = (\<forall>tr. rp_ret (answer E tr (Pfs (Op_close (- 1)))) \<noteq> 0 \<and>
     rp_ret (answer E tr (Pfs (Op_dclose (- 1)))) \<noteq> 0)"

lemma wp_keeps:
  assumes "emits_only calm m" "accounted d tr"
  shows "wp m E (\<lambda>_ tr'. accounted d tr') tr"
  using assms accounted_cong by (intro wp_calm) auto

lemma wp_open_request:
  assumes acc: "accounted d tr" and pid: "pid \<noteq> 0"
    and op: "\<And>n r H. dev_step H (Pfs (op n), r) = (if rp_ret r \<ge> 0 then add_mset (rp_ret r) H else H)"
  shows "wp (open_request op name pid d) E accounted tr"
proof -
  have asked: "wp (if 0 \<le> pd_count d \<and> pd_count d < int TABLE then
         bindM (rpc_remap_name 1200 name pid d) (\<lambda>name'. codeM (Pfs (op name')))
       else retM (- 24)) E (\<lambda>r tr'. if r \<ge> 0
         then pd_count d < int TABLE \<and> on_device tr' = add_mset r (on_device tr)
         else on_device tr' = on_device tr) tr"
    by (intro vcg wp_calm [OF emits_calm(5)]) (auto simp: op)
  have rest: "wp (bindM (send pid r) (\<lambda>_. if r \<ge> 0 then rpc_common_open r pid name d else retM d))
      E accounted tr'"
    if "if r \<ge> 0 then pd_count d < int TABLE \<and> on_device tr' = add_mset r (on_device tr)
      else on_device tr' = on_device tr" for r tr'
    unfolding wp_bindM
  proof (rule wp_calm [OF emits_calm(2)])
    fix u tr2 assume tr2: "on_device tr2 = on_device tr'"
    have t: "tables_ok d" using acc by (simp add: accounted_def)
    show "wp (if r \<ge> 0 then rpc_common_open r pid name d else retM d) E accounted tr2"
    proof (cases "r \<ge> 0")
      case True
      then have c: "pd_count d < int TABLE" "on_device tr2 = add_mset r (on_device tr)"
        using that tr2 by auto
      have "accounted (added r pid name d) tr3" if "on_device tr3 = on_device tr2" for tr3
        using acc c(2) that tables_added [OF t c(1) pid] open_files_added [OF t c(1)]
        by (simp add: accounted_def)
      then show ?thesis using True wp_common_open [OF t c(1)] by simp
    next
      case False
      then show ?thesis using acc accounted_cong that tr2 by (auto simp: wp_simps)
    qed
  qed
  show ?thesis
    unfolding open_request_def
    by (intro vcg wp_mono [OF asked] rest)
qed

lemma wp_remap_fd:
  assumes "owns d pid h \<Longrightarrow> Q h tr"
    and "\<And>tr'. \<not> owns d pid h \<Longrightarrow> on_device tr' = on_device tr \<Longrightarrow> Q (- 1) tr'"
  shows "wp (rpc_remap_fd h pid d) E Q tr"
  unfolding rpc_remap_fd_def putsM_def owns_def [symmetric]
  by (cases "owns d pid h") (use assms in \<open>simp_all add: wp_simps del: append_Cons\<close>)

lemma wp_close_request:
  assumes acc: "accounted d tr" and E: "\<And>tr. rp_ret (answer E tr (Pfs (op (- 1)))) \<noteq> 0"
    and op: "\<And>h r H. dev_step H (Pfs (op h), r) = (if rp_ret r = 0 then H - {#h#} else H)"
  shows "wp (close_request op h pid d) E accounted tr"
proof -
  have t: "tables_ok d" using acc by (simp add: accounted_def)
  have rest: "wp (bindM (codeM (Pfs (op h'))) (\<lambda>rpcret.
      bindM (retM (if rpcret = 0 then rpc_common_close h pid d else d)) (\<lambda>d'.
      bindM (send pid rpcret) (\<lambda>_. retM d')))) E accounted tr'"
    if h': "h' = - 1 \<or> h' = h \<and> owns d pid h" and tr': "on_device tr' = on_device tr" for h' tr'
  proof -
    define r where "r = answer E tr' (Pfs (op h'))"
    define d' where "d' = (if rp_ret r = 0 then rpc_common_close h pid d else d)"
    have fin: "accounted d' tr2" if tr2: "on_device tr2 = on_device (tr' @ [(Pfs (op h'), r)])" for tr2
    proof (cases "rp_ret r = 0")
      case True
      then have "h' = h" "owns d pid h" using h' E by (auto simp: r_def)
      then show ?thesis
        using accounted_closed [OF t, of pid h tr2] True acc tr' tr2 by (simp add: d'_def op accounted_def)
    next
      case False
      then show ?thesis using acc tr' tr2 by (simp add: d'_def op accounted_def)
    qed
    show ?thesis
      unfolding wp_bindM wp_basic r_def [symmetric] d'_def [symmetric]
      by (intro wp_calm [OF emits_calm(2)] fin) simp
  qed
  show ?thesis
    unfolding close_request_def wp_bindM
    by (rule wp_remap_fd) (use rest in \<open>simp_all add: wp_bindM\<close>)
qed

lemma mounts_ok_add:
  assumes "mounts_ok ms" "k < TABLE" "\<forall>m \<in> set ms. \<not> (ml_pid m = pid \<and> ml_fsprefix m = fs)"
  shows "mounts_ok (ms[k := \<lparr>ml_pid = pid, ml_fsprefix = fs, ml_containerpath = c, ml_devprefix = dv\<rparr>])"
  using assms by (auto simp: mounts_ok_def nth_list_update all_set_conv_all_nth)

lemma accounted_mount:
  assumes acc: "accounted d tr" and pid: "pid \<noteq> 0" and free: "find_free_mount_info d < TABLE"
    and new: "first (\<lambda>m. ml_pid m = pid \<and> ml_fsprefix m = fs) (pd_mounts d) \<ge> TABLE"
  shows "accounted (d\<lparr>pd_mounts := (pd_mounts d)[find_free_mount_info d := \<lparr>ml_pid = pid,
    ml_fsprefix = fs, ml_containerpath = c, ml_devprefix = dv\<rparr>]\<rparr>) tr"
proof -
  define k where "k = find_free_mount_info d"
  define ms where "ms = pd_mounts d"
  define m where "m = \<lparr>ml_pid = pid, ml_fsprefix = fs, ml_containerpath = c, ml_devprefix = dv\<rparr>"
  have ok: "mounts_ok ms" "list_all (item_ok ms) (open_files d)"
    using acc by (simp_all add: accounted_def tables_ok_def ms_def)
  then have len: "length ms = TABLE" by (simp add: mounts_ok_def)
  have unused: "ml_pid (ms ! k) = 0"
    using first_less [of _ ms] free len by (simp add: k_def find_free_mount_info_def ms_def)
  have "first (\<lambda>m. ml_pid m = pid \<and> ml_fsprefix m = fs) ms = length ms"
    using new len first_le by (metis le_antisym ms_def)
  then have "mounts_ok (ms[k := m])"
    using mounts_ok_add [OF ok(1), of k pid fs] free by (simp add: first_none k_def m_def)
  moreover have "item_ok (ms[k := m]) f" if "item_ok ms f" for f
    using that unused len by (cases "of_mnt f = k") (auto simp: item_ok_def)
  then have "list_all (item_ok (ms[k := m])) (open_files d)"
    using ok(2) by (simp add: list_all_iff)
  ultimately show ?thesis
    using acc unfolding k_def [symmetric] m_def [symmetric] ms_def [symmetric]
    by (simp add: accounted_def tables_ok_def open_files_def)
qed

lemma wp_mount:
  assumes acc: "accounted d tr" and pid: "pid \<noteq> 0"
  shows "wp (rpc_command_mount fs dv fl p l pid d) E accounted tr"
proof -
  define free where "free = find_free_mount_info d"
  have asked: "wp (if free < TABLE then
          if first (\<lambda>m. ml_pid m = pid \<and> ml_fsprefix m = fs) (pd_mounts d) \<ge> TABLE then
            mount_device fs (before_char (CHR '','') dv) (\<lambda>f. Op_mount f (before_char (CHR '','') dv) fl p l) d
          else retM (- 16, fs)
        else retM (- 24, fs)) E (\<lambda>(r, c) tr'. on_device tr' = on_device tr \<and> (r = 0 \<longrightarrow> free < TABLE \<and>
          first (\<lambda>m. ml_pid m = pid \<and> ml_fsprefix m = fs) (pd_mounts d) \<ge> TABLE)) tr"
    by (intro vcg wp_calm [OF emits_calm(7)]) auto
  define new where "new r c = (if r = 0 then d\<lparr>pd_mounts := (pd_mounts d)[free := \<lparr>ml_pid = pid,
    ml_fsprefix = fs, ml_containerpath = c, ml_devprefix = before_char (CHR '','') dv\<rparr>]\<rparr> else d)"
    for r :: int and c
  have store: "wp (case x of (r, c) \<Rightarrow> bindM (retM (new r c)) (\<lambda>d'. bindM (send pid r) (\<lambda>_. retM d')))
      E accounted tr'"
    if "case x of (r, c) \<Rightarrow> on_device tr' = on_device tr \<and> (r = 0 \<longrightarrow> free < TABLE \<and>
      first (\<lambda>m. ml_pid m = pid \<and> ml_fsprefix m = fs) (pd_mounts d) \<ge> TABLE)" for x tr'
  proof -
    obtain r c where x: "x = (r, c)" by (cases x)
    have "accounted (new r c) tr2" if "on_device tr2 = on_device tr'" for tr2
      using that \<open>case x of (r, c) \<Rightarrow> _ r c\<close> accounted_cong [OF _ acc, of tr2]
        accounted_mount [OF _ pid, of d tr2 fs]
      by (simp add: x new_def free_def)
    then show ?thesis by (simp add: x) (intro vcg wp_calm [OF emits_calm(2)])
  qed
  show ?thesis
    unfolding rpc_command_mount_def Let_def free_def [symmetric] new_def [symmetric] wp_bindM wp_basic
    by (intro impI wp_mono [OF asked] store [unfolded wp_bindM wp_basic])
      (simp split: prod.splits)
qed

lemma mounts_ok_free:
  assumes "mounts_ok ms" shows "mounts_ok (ms[i := (ms ! i)\<lparr>ml_pid := 0\<rparr>])"
  unfolding mounts_ok_def
proof (intro conjI allI impI)
  fix j k
  assume jk: "j < TABLE" "k < TABLE" "j \<noteq> k" "ml_pid (ms[i := (ms ! i)\<lparr>ml_pid := 0\<rparr>] ! j) \<noteq> 0"
    "ml_pid (ms[i := (ms ! i)\<lparr>ml_pid := 0\<rparr>] ! j) = ml_pid (ms[i := (ms ! i)\<lparr>ml_pid := 0\<rparr>] ! k)"
  have len: "length ms = TABLE" using assms by (simp add: mounts_ok_def)
  then have "j \<noteq> i" "k \<noteq> i" using jk by (auto simp: nth_list_update)
  then show "ml_fsprefix (ms[i := (ms ! i)\<lparr>ml_pid := 0\<rparr>] ! j) \<noteq>
      ml_fsprefix (ms[i := (ms ! i)\<lparr>ml_pid := 0\<rparr>] ! k)"
    using assms jk by (simp add: mounts_ok_def)
qed (use assms in \<open>simp add: mounts_ok_def\<close>)

lemma accounted_umount:
  assumes acc: "accounted d tr" and unused: "\<not> (\<exists>f \<in> set (open_files d). of_mnt f = i)"
  shows "accounted (umount_cleanup i d) tr"
proof -
  have ok: "mounts_ok (pd_mounts d)" "list_all (item_ok (pd_mounts d)) (open_files d)"
    using acc by (simp_all add: accounted_def tables_ok_def)
  have "item_ok ((pd_mounts d)[i := m]) f" if "f \<in> set (open_files d)" for f m
  proof -
    have "of_mnt f \<noteq> i" "item_ok (pd_mounts d) f" using that unused ok(2) by (auto simp: list_all_iff)
    then show ?thesis by (simp add: item_ok_def)
  qed
  then have "list_all (item_ok ((pd_mounts d)[i := m])) (open_files d)" for m
    by (simp add: list_all_iff)
  then show ?thesis
    using acc mounts_ok_free [OF ok(1), of i]
    by (simp add: accounted_def tables_ok_def open_files_def umount_cleanup_def)
qed

lemma wp_umount:
  assumes acc: "accounted d tr"
  shows "wp (rpc_command_umount fs pid d) E (\<lambda>d' tr'. accounted d' tr') tr"
proof -
  define i where "i = first (\<lambda>m. ml_pid m = pid \<and> fs = ml_fsprefix m) (pd_mounts d)"
  have keep: "accounted d tr'" if "on_device tr' = on_device tr" for tr'
    using accounted_cong [OF that acc] .
  have freed: "accounted (umount_cleanup i d) tr'"
    if "on_device tr' = on_device tr" "\<not> (\<exists>f \<in> set (open_files d). of_mnt f = i)" for tr'
    using accounted_umount [OF keep [OF that(1)] that(2)] .
  show ?thesis
    unfolding rpc_command_umount_def Let_def umount_scan_stops if_False i_def [symmetric]
    by (intro vcg wp_calm [OF emits_calm(1)] wp_calm [OF emits_calm(2)] wp_calm [OF emits_calm(3)])
      (simp_all add: keep freed)
qed

lemma emits_calm_requests:
  "(\<And>h. calm (Pfs (op h))) \<Longrightarrow> emits_only calm (fd_request op fd pid d)"
  "(\<And>n. calm (Pfs (op' n))) \<Longrightarrow> emits_only calm (name_request op' n pid d)"
  "(\<And>a b. calm (Pfs (op'' a b))) \<Longrightarrow> emits_only calm (names_request op'' a b pid d)"
  "calm (Pfs q) \<Longrightarrow> emits_only calm (plain_request q pid)"
  "emits_only calm (rpc_command_getmountpoint n pid d)"
  unfolding fd_request_def name_request_def names_request_def plain_request_def
    rpc_command_getmountpoint_def Let_def
  by (intro emits; simp)+

lemma wp_seq_keeps:
  assumes "emits_only calm m" "accounted d tr"
  shows "wp (seqM m (retM d)) E accounted tr"
  unfolding wp_bindM wp_basic by (rule wp_keeps [OF assms])

lemma wp_dispatch:
  assumes acc: "accounted d tr" and pid: "pid \<noteq> 0" and E: "rejects E"
  shows "wp (dispatch op pid d) E accounted tr"
proof (cases op)
  case (Op_open n f m)
  then show ?thesis using wp_open_request [OF acc pid] by (simp add: rpc_command_open_def)
next
  case (Op_dopen n)
  then show ?thesis using wp_open_request [OF acc pid] by (simp add: rpc_command_dopen_def)
next
  case (Op_close h)
  then show ?thesis
    using wp_close_request [OF acc] E by (simp add: rpc_command_close_def rejects_def)
next
  case (Op_dclose h)
  then show ?thesis
    using wp_close_request [OF acc] E by (simp add: rpc_command_dclose_def rejects_def)
next
  case (Op_mount f dv l p n)
  then show ?thesis using wp_mount [OF acc pid] by simp
next
  case (Op_umount n)
  then show ?thesis using wp_umount [OF acc] by simp
next
  case (Op_lseek64 h off w)
  have "emits_only calm (bindM (rpc_remap_fd h pid d) (\<lambda>h.
      bindM (codeM (Pfs (Op_lseek64 h off w))) (\<lambda>r. doM (Ipc (Sock_send pid (f_int64 r))))))"
    by (intro emits; simp)
  from wp_seq_keeps [OF this acc] show ?thesis by (simp add: Op_lseek64 bindM_assoc)
next
  case (Op_format dv b p n)
  then show ?thesis
    using wp_seq_keeps [OF emits_calm_requests(4) acc] by (simp add: wp_bindM wp_basic)
next
  case (Op_getmountpoint n)
  have "emits_only calm (bindM (rpc_command_getmountpoint n pid d) (\<lambda>_. send pid (pd_junk d)))"
    by (intro emits emits_calm_requests)
  from wp_seq_keeps [OF this acc] show ?thesis by (simp add: Op_getmountpoint bindM_assoc)
qed (simp_all add: wp_seq_keeps [OF emits_calm_requests(1) acc] wp_seq_keeps [OF emits_calm_requests(2) acc]
    wp_seq_keeps [OF emits_calm_requests(3) acc] wp_seq_keeps [OF emits_calm_requests(4) acc])

lemma wp_event:
  assumes acc: "accounted d tr" and pid: "pd_clients d ! c \<noteq> 0" and E: "rejects E"
  shows "wp (event_handler_func c d) E accounted tr"
proof -
  define fd where "fd = pd_clients d ! c"
  have serve: "wp (dispatch op fd d) E accounted tr'" if "on_device tr' = on_device tr" for op tr'
    using wp_dispatch [OF accounted_cong [OF that acc] _ E] pid by (simp add: fd_def)
  show ?thesis
    unfolding event_handler_func_def Let_def fd_def [symmetric]
    by (intro vcg serve wp_calm [OF emits_calm(1)]) (use acc in \<open>simp_all add: accounted_def\<close>)
qed


subsection \<open>Leaving a client\<close>

definition conn :: "pfsd \<Rightarrow> int list \<times> nat \<times> int" where
  "conn d = (pd_clients d, pd_nclients d, pd_socket d)"

lemma wp_any: "(\<And>a tr'. Q a tr') \<Longrightarrow> wp m E Q tr"
  by (simp add: wp_def split: prod.splits outcome.splits)

lemma wp_conj: "wp m E P tr \<Longrightarrow> wp m E Q tr \<Longrightarrow> wp m E (\<lambda>a tr'. P a tr' \<and> Q a tr') tr"
  by (simp add: wp_def split: prod.splits outcome.splits)

lemma wp_close_either:
  "wp (close_request op h pid d) E (\<lambda>d' tr'. d' = d \<or> d' = rpc_common_close h pid d) tr"
  unfolding close_request_def
  by (intro vcg wp_any [of _ "rpc_remap_fd _ _ _"] wp_any [of _ "send _ _"]) auto

lemma conn_closed [simp]: "conn (rpc_common_close h pid d) = conn d"
  "pd_mounts (rpc_common_close h pid d) = pd_mounts d"
  by (simp_all add: conn_def rpc_common_close_def Let_def)

definition others :: "int \<Rightarrow> pfsd \<Rightarrow> openfile_item list" where
  "others fd d = filter (\<lambda>f. of_pid f \<noteq> fd) (open_files d)"

text \<open>The state of the loop that closes the files of \<open>fd\<close>, at index \<open>i\<close>.\<close>

definition leaving :: "int \<Rightarrow> pfsd \<Rightarrow> nat \<Rightarrow> pfsd \<Rightarrow> trace \<Rightarrow> bool" where
  "leaving fd d0 i d tr = (accounted d tr \<and> conn d = conn d0 \<and> pd_mounts d = pd_mounts d0 \<and>
     others fd d = others fd d0 \<and> int i \<le> pd_count d \<and>
     (\<forall>f \<in> set (take i (open_files d)). of_pid f \<noteq> fd))"

lemma leaving_closed:
  assumes l: "leaving fd d0 i d tr" and i: "int i < pd_count d" and pid: "of_pid (pd_items d ! i) = fd"
    and acc: "accounted d' tr'"
    and d': "d' = d \<or> d' = rpc_common_close (of_fd (pd_items d ! i)) fd d"
  shows "leaving fd d0 i d' tr'"
  using d'
proof
  assume "d' = d"
  then show ?thesis using l acc by (simp add: leaving_def)
next
  define h where "h = of_fd (pd_items d ! i)"
  assume "d' = rpc_common_close (of_fd (pd_items d ! i)) fd d"
  then have d': "d' = rpc_common_close h fd d" by (simp add: h_def)
  have t: "tables_ok d" using l by (simp add: leaving_def accounted_def)
  have "open_files d ! i = pd_items d ! i" "i < length (open_files d)"
    using t i by (auto simp: open_files_def tables_ok_def)
  then have owns: "owns d fd h" using pid by (metis h_def nth_mem owns_def)
  define k where "k = first (\<lambda>f. of_fd f = h \<and> of_pid f = fd) (open_files d)"
  note k = owned_first [OF owns, folded k_def]
  note files = open_files_closed [OF t owns, folded k_def d']
  have "i \<le> k"
  proof (rule ccontr)
    assume "\<not> i \<le> k"
    then have "open_files d ! k \<in> set (take i (open_files d))"
      using k(1) by (metis in_set_conv_nth length_take min_less_iff_conj not_le nth_take)
    then show False using l k(3) by (auto simp: leaving_def)
  qed
  moreover have "int (length (open_files d)) = pd_count d" using t by (auto simp: tables_ok_def open_files_def)
  moreover have "pd_count d' = pd_count d - 1" by (simp add: d' rpc_common_close_def Let_def)
  moreover have "take i (open_files d') = take i (open_files d)"
    using \<open>i \<le> k\<close> k(1) by (simp add: files drop_nth_def)
  moreover have "others fd d' = others fd d"
    using drop_nth_filter [OF k(1), of "\<lambda>f. of_pid f \<noteq> fd"] k(3) by (simp add: others_def files)
  ultimately show ?thesis
    using l acc k(1) by (simp add: leaving_def d')
qed

lemma leaving_end:
  assumes "leaving fd d0 i d tr" "\<not> int i < pd_count d"
  shows "accounted d tr \<and> conn d = conn d0 \<and> pd_mounts d = pd_mounts d0 \<and> open_files d = others fd d0"
proof -
  have "take i (open_files d) = open_files d"
    using assms(2) by (simp add: open_files_def)
  then have "\<forall>f \<in> set (open_files d). of_pid f \<noteq> fd"
    using assms(1) by (simp add: leaving_def)
  then have "others fd d = open_files d" by (simp add: others_def filter_id_conv)
  then show ?thesis using assms(1) by (simp add: leaving_def)
qed

lemma leaving_next:
  assumes l: "leaving fd d0 i d tr" and i: "int i < pd_count d" and pid: "of_pid (pd_items d ! i) \<noteq> fd"
  shows "leaving fd d0 (Suc i) d tr"
proof -
  have "i < nat (pd_count d)" "i < length (pd_items d)"
    using l i by (auto simp: leaving_def accounted_def tables_ok_def)
  then have "take (Suc i) (open_files d) = take i (open_files d) @ [pd_items d ! i]"
    by (simp add: open_files_def take_Suc_conv_app_nth)
  then show ?thesis using l i pid by (auto simp: leaving_def)
qed

lemma wp_cleanup_files:
  assumes acc: "accounted d tr" and E: "rejects E"
  shows "wp (loopM (cleanup_files_body fd) (0, q, d)) E (\<lambda>(q', d') tr'. accounted d' tr' \<and>
    conn d' = conn d \<and> pd_mounts d' = pd_mounts d \<and> open_files d' = others fd d) tr"
proof (rule wp_loopM [where I = "\<lambda>(i, q, d') tr'. leaving fd d i d' tr'"], goal_cases)
  case 1
  then show ?case using acc by (simp add: leaving_def accounted_def tables_ok_def)
next
  case (2 s tr)
  obtain i q d' where s: "s = (i, q, d')" by (cases s)
  have l: "leaving fd d i d' tr" using 2 by (simp add: s)
  have say: "emits_only calm (say_once q p t)" for p t by (simp add: say_once_def emits)
  have close: "wp (rpc_command_close h fd d') E (\<lambda>d'' tr'. accounted d'' tr' \<and>
      (d'' = d' \<or> d'' = rpc_common_close h fd d')) tr'" if "on_device tr' = on_device tr" for h tr'
  proof -
    have "accounted d' tr'" using l accounted_cong [OF that] by (simp add: leaving_def)
    then show ?thesis
      unfolding rpc_command_close_def
      using E by (intro wp_conj wp_close_request wp_close_either) (simp_all add: rejects_def)
  qed
  have "wp (bindM (say_once q fd t) (\<lambda>_. bindM (rpc_command_close (of_fd (pd_items d' ! i)) fd d')
      (\<lambda>d''. retM (Inl (i, False, d''))))) E (\<lambda>x tr'. case x of Inl s' \<Rightarrow>
        (case s' of (i, q, d') \<Rightarrow> \<lambda>tr'. leaving fd d i d' tr') tr' | Inr r \<Rightarrow> P r tr') tr"
    if "int i < pd_count d'" "of_pid (pd_items d' ! i) = fd" for t P
    unfolding wp_bindM wp_basic using leaving_closed [OF l that]
    by (intro wp_calm [OF say] wp_mono [OF close]) auto
  then show ?case
    using leaving_end [OF l] leaving_next [OF l]
    by (auto simp: s cleanup_files_body_def Let_def wp_basic)
qed

text \<open>Unmounting what is left; no file of the client is open any more.\<close>

lemma wp_umount_free:
  assumes acc: "accounted d tr" and fd: "fd \<noteq> 0" and gone: "\<forall>f \<in> set (open_files d). of_pid f \<noteq> fd"
    and i: "i < TABLE" "ml_pid (pd_mounts d ! i) = fd"
    and Q: "\<And>tr'. on_device tr' = on_device tr \<Longrightarrow> Q (umount_cleanup i d) tr'"
  shows "wp (rpc_command_umount (ml_fsprefix (pd_mounts d ! i)) fd d) E Q tr"
proof -
  define fs where "fs = ml_fsprefix (pd_mounts d ! i)"
  have ok: "mounts_ok (pd_mounts d)" "list_all (item_ok (pd_mounts d)) (open_files d)"
    using acc by (simp_all add: accounted_def tables_ok_def)
  then have len: "length (pd_mounts d) = TABLE" by (simp add: mounts_ok_def)
  define j where "j = first (\<lambda>m. ml_pid m = fd \<and> fs = ml_fsprefix m) (pd_mounts d)"
  have "j \<noteq> length (pd_mounts d)"
    unfolding j_def first_none using i len by (auto simp: fs_def intro!: bexI [of _ "pd_mounts d ! i"])
  then have "j < length (pd_mounts d)" using first_le [of _ "pd_mounts d"] j_def by (metis le_neq_implies_less)
  then have j: "j < TABLE" "ml_pid (pd_mounts d ! j) = fd" "ml_fsprefix (pd_mounts d ! j) = fs"
    using first_less [of "\<lambda>m. ml_pid m = fd \<and> fs = ml_fsprefix m" "pd_mounts d"] len
    by (simp_all add: j_def)
  then have "j = i" using ok(1) i fd unfolding mounts_ok_def fs_def by metis
  moreover have "\<not> (\<exists>f \<in> set (open_files d). of_mnt f = i)"
    using ok(2) gone i len by (auto simp: list_all_iff item_ok_def)
  ultimately show ?thesis
    unfolding rpc_command_umount_def Let_def umount_scan_stops if_False fs_def [symmetric] j_def [symmetric]
    using len i(1)
    by (intro vcg wp_calm [OF emits_calm(1)] wp_calm [OF emits_calm(2)] wp_calm [OF emits_calm(3)])
      (auto intro: Q)
qed

definition released_mounts :: "int \<Rightarrow> nat list \<Rightarrow> mountlist_item list \<Rightarrow> mountlist_item list" where
  "released_mounts fd is ms = fold (\<lambda>i ms. if ml_pid (ms ! i) = fd then ms[i := (ms ! i)\<lparr>ml_pid := 0\<rparr>] else ms) is ms"

lemma wp_cleanup_mounts:
  "accounted d tr \<Longrightarrow> fd \<noteq> 0 \<Longrightarrow> \<forall>f \<in> set (open_files d). of_pid f \<noteq> fd \<Longrightarrow> \<forall>i \<in> set is. i < TABLE \<Longrightarrow>
   wp (cleanup_mounts fd is q d) E (\<lambda>(q', d') tr'. accounted d' tr' \<and> conn d' = conn d \<and>
     open_files d' = open_files d \<and> pd_mounts d' = released_mounts fd is (pd_mounts d)) tr"
proof (induction "is" arbitrary: d q tr)
  case Nil
  then show ?case by (simp add: wp_simps released_mounts_def)
next
  case (Cons i "is")
  show ?case
  proof (cases "ml_pid (pd_mounts d ! i) = fd")
    case False
    then show ?thesis using Cons by (simp add: Let_def released_mounts_def)
  next
    case True
    define d' where "d' = umount_cleanup i d"
    have same: "open_files d' = open_files d" "conn d' = conn d"
      by (simp_all add: d'_def umount_cleanup_def open_files_def conn_def)
    have unused: "\<not> (\<exists>f \<in> set (open_files d). of_mnt f = i)"
      using Cons.prems True by (auto simp: accounted_def tables_ok_def mounts_ok_def list_all_iff item_ok_def)
    have rest: "wp (cleanup_mounts fd is False d') E (\<lambda>(q', d') tr'. accounted d' tr' \<and> conn d' = conn d \<and>
      open_files d' = open_files d \<and> pd_mounts d' = released_mounts fd (i # is) (pd_mounts d)) tr'"
      if "on_device tr' = on_device tr" for tr'
      using Cons.IH [of d' tr' False] Cons.prems accounted_umount [OF accounted_cong [OF that] unused]
        True same by (simp add: released_mounts_def d'_def umount_cleanup_def)
    have say: "emits_only calm (say_once q p t)" for p t by (simp add: say_once_def emits)
    show ?thesis
      unfolding cleanup_mounts.simps Let_def if_P [OF True] wp_bindM wp_basic
      using Cons.prems True rest
      by (intro impI wp_calm [OF say] wp_umount_free) (auto simp: d'_def accounted_def)
  qed
qed

lemma released_mounts_upto:
  "n \<le> length ms \<Longrightarrow> fd \<noteq> 0 \<Longrightarrow> released_mounts fd [0..<n] ms =
     map (\<lambda>m. if ml_pid m = fd then m\<lparr>ml_pid := 0\<rparr> else m) (take n ms) @ drop n ms"
proof (induction n)
  case (Suc n)
  then have IH: "released_mounts fd [0..<n] ms =
     map (\<lambda>m. if ml_pid m = fd then m\<lparr>ml_pid := 0\<rparr> else m) (take n ms) @ drop n ms" by simp
  have n: "n < length ms" using Suc.prems by simp
  have "drop n ms = ms ! n # drop (Suc n) ms" using n by (rule Cons_nth_drop_Suc [symmetric])
  then have "released_mounts fd [0..<n] ms ! n = ms ! n"
    using n by (simp add: IH nth_append)
  moreover have "released_mounts fd [0..<Suc n] ms = (if ml_pid (released_mounts fd [0..<n] ms ! n) = fd
      then (released_mounts fd [0..<n] ms)[n := (released_mounts fd [0..<n] ms ! n)\<lparr>ml_pid := 0\<rparr>]
      else released_mounts fd [0..<n] ms)"
    by (simp add: released_mounts_def)
  ultimately show ?case
    using n by (simp add: IH take_Suc_conv_app_nth list_update_append Cons_nth_drop_Suc [symmetric])
qed (simp add: released_mounts_def)

lemma wp_cleanup_client:
  assumes acc: "accounted d tr" and E: "rejects E"
    and n: "pd_nclients d < TABLE" "length (pd_clients d) = TABLE" and fd: "pd_clients d ! c = fd" "fd \<noteq> 0"
  shows "wp (cleanup_client c d) E (\<lambda>d' tr'. accounted d' tr' \<and> open_files d' = others fd d \<and>
     pd_mounts d' = map (\<lambda>m. if ml_pid m = fd then m\<lparr>ml_pid := 0\<rparr> else m) (pd_mounts d) \<and>
     conn d' = conn (remove_client c d)) tr"
proof -
  define ms where "ms = map (\<lambda>m. if ml_pid m = fd then m\<lparr>ml_pid := 0\<rparr> else m) (pd_mounts d)"
  define Q where "Q d' tr' = (accounted d' tr' \<and> open_files d' = others fd d \<and> pd_mounts d' = ms \<and>
     conn d' = conn (remove_client c d))" for d' tr'
  have ms: "released_mounts fd [0..<TABLE] (pd_mounts d) = ms"
    using acc released_mounts_upto [of TABLE "pd_mounts d" fd] fd(2)
    by (simp add: accounted_def tables_ok_def mounts_ok_def ms_def)
  have final: "Q (remove_client c d2) tr2"
    if d2: "accounted d2 tr1" "conn d2 = conn d" "open_files d2 = others fd d" "pd_mounts d2 = ms"
      and tr2: "on_device tr2 = on_device tr1" for d2 tr1 tr2
    using d2 accounted_cong [OF tr2 d2(1)]
    by (simp add: Q_def accounted_def tables_ok_def remove_client_def open_files_def conn_def)
  have tail: "wp (bindM (if \<not> q \<and> pd_debug d2 then output_statistics d2 else retM ()) (\<lambda>_.
      bindM (doM (Host_close fd)) (\<lambda>_.
      if pd_nclients d2 < length (pd_clients d2) then retM (remove_client c d2) else faultM))) E Q tr1"
    if "accounted d2 tr1" "conn d2 = conn d" "open_files d2 = others fd d" "pd_mounts d2 = ms" for q d2 tr1
    by (intro vcg wp_calm [OF emits_calm(3)] final [OF that]) simp_all
  have mounts: "wp (cleanup_mounts fd [0..<TABLE] q d1) E (\<lambda>(q', d2) tr'. accounted d2 tr' \<and>
      conn d2 = conn d \<and> open_files d2 = others fd d \<and> pd_mounts d2 = ms) tr1"
    if "accounted d1 tr1 \<and> conn d1 = conn d \<and> pd_mounts d1 = pd_mounts d \<and> open_files d1 = others fd d"
    for q d1 tr1
    using that wp_cleanup_mounts [of d1 tr1 fd "[0..<TABLE]" q E] fd ms by (simp add: others_def)
  have rest: "wp (bindM (cleanup_mounts fd [0..<TABLE] q d1) (\<lambda>(q, d2).
      bindM (if \<not> q \<and> pd_debug d2 then output_statistics d2 else retM ()) (\<lambda>_.
      bindM (doM (Host_close fd)) (\<lambda>_.
      if pd_nclients d2 < length (pd_clients d2) then retM (remove_client c d2) else faultM)))) E Q tr1"
    if "accounted d1 tr1 \<and> conn d1 = conn d \<and> pd_mounts d1 = pd_mounts d \<and> open_files d1 = others fd d"
    for q d1 tr1
    by (rule vcg_compound(1), rule wp_mono [OF mounts [OF that]]) (clarsimp simp: tail)
  show ?thesis
    unfolding Q_def [symmetric] ms_def [symmetric] cleanup_client_def Let_def fd(1)
    by (rule vcg_compound(1), rule wp_mono [OF wp_cleanup_files [OF acc E]]) (clarsimp simp: rest)
qed

text \<open>
  C23. A client that goes leaves nothing behind: when \<open>cleanup_client\<close> returns, the files and mount
  points of the client have left the tables, the files were closed on the device, its
  connection is removed (the listening socket stays the last one), and everything of the other
  clients is as before.
\<close>

theorem cleanup_removes:
  assumes "accounted d tr" "rejects E"
    and "c < pd_nclients d" "pd_nclients d < TABLE" "length (pd_clients d) = TABLE" "pd_clients d ! c \<noteq> 0"
  shows "wp (cleanup_client c d) E (\<lambda>d' tr'. let fd = pd_clients d ! c in
     accounted d' tr' \<and>
     open_files d' = filter (\<lambda>f. of_pid f \<noteq> fd) (open_files d) \<and>
     pd_mounts d' = map (\<lambda>m. if ml_pid m = fd then m\<lparr>ml_pid := 0\<rparr> else m) (pd_mounts d) \<and>
     take (Suc (pd_nclients d')) (pd_clients d') = drop_nth c (take (Suc (pd_nclients d)) (pd_clients d))) tr"
proof -
  have "take (Suc (pd_nclients (remove_client c d))) (pd_clients (remove_client c d)) =
      drop_nth c (take (Suc (pd_nclients d)) (pd_clients d))"
    using take_shift [of c "Suc (pd_nclients d)" "pd_clients d"] assms(3-5) by (simp add: remove_client_def)
  then show ?thesis
    using assms(6) unfolding Let_def
    by (intro wp_mono [OF wp_cleanup_client [OF assms(1,2,4,5) refl]]) (auto simp: others_def conn_def)
qed

subsection \<open>The connections\<close>

lemma wp_seq_conn: "wp (seqM m (retM d)) E (\<lambda>d' tr'. conn d' = conn d) tr"
  by (simp add: wp_bindM wp_basic wp_any)

lemma wp_open_conn: "wp (open_request op name pid d) E (\<lambda>d' tr'. conn d' = conn d) tr"
  unfolding open_request_def rpc_common_open_def Let_def
  by (intro vcg wp_any [of _ "rpc_remap_name _ _ _ _"] wp_any [of _ "send _ _"] wp_any [of _ "putsM _"])
    (simp_all add: conn_def)

lemma wp_mount_conn: "wp (rpc_command_mount fs dv fl p l pid d) E (\<lambda>d' tr'. conn d' = conn d) tr"
  unfolding rpc_command_mount_def Let_def
  by (intro vcg wp_any [of _ "mount_device _ _ _ _"] wp_any [of _ "send _ _"]) (simp_all add: conn_def)

lemma wp_umount_conn: "wp (rpc_command_umount fs pid d) E (\<lambda>d' tr'. conn d' = conn d) tr"
  unfolding rpc_command_umount_def Let_def
  by (intro vcg wp_any [of _ "output_statistics _"] wp_any [of _ "send _ _"] wp_any [of _ "putsM _"])
    (simp_all add: conn_def umount_cleanup_def)

lemma wp_close_conn: "wp (close_request op h pid d) E (\<lambda>d' tr'. conn d' = conn d) tr"
  by (rule wp_mono [OF wp_close_either]) auto

lemma wp_dispatch_conn: "wp (dispatch op fd d) E (\<lambda>d' tr'. conn d' = conn d) tr"
proof (cases op)
  case (Op_lseek64 h off w)
  then show ?thesis by (simp add: wp_bindM wp_basic wp_any)
next
  case (Op_format dv b p n)
  then show ?thesis by (simp add: wp_bindM wp_basic wp_any)
next
  case (Op_getmountpoint n)
  then show ?thesis by (simp add: wp_bindM wp_basic wp_any)
qed (simp_all add: wp_seq_conn wp_open_conn wp_mount_conn wp_umount_conn wp_close_conn
    rpc_command_open_def rpc_command_dopen_def rpc_command_close_def rpc_command_dclose_def)

lemma wp_event_conn: "wp (event_handler_func c d) E (\<lambda>d' tr'. conn d' = conn d) tr"
  unfolding event_handler_func_def Let_def
  by (intro vcg wp_dispatch_conn wp_any [of _ "putsM _"]) simp_all

definition clients_ok :: "pfsd \<Rightarrow> bool" where
  "clients_ok d = (length (pd_clients d) = TABLE \<and> pd_nclients d < TABLE \<and>
     0 \<notin> set (take (pd_nclients d) (pd_clients d)))"

definition pfsd_inv :: "pfsd \<Rightarrow> trace \<Rightarrow> bool" where
  "pfsd_inv d tr = (accounted d tr \<and> clients_ok d)"

text \<open>Descriptor 0 is in use, so no connection gets it.\<close>

definition accepts :: "env \<Rightarrow> bool" where
  "accepts E = (\<forall>tr s. rp_ret (answer E tr (Ipc (Sock_accept s))) \<noteq> 0)"

lemma clients_ok_cong: "conn d' = conn d \<Longrightarrow> clients_ok d' = clients_ok d"
  by (simp add: clients_ok_def conn_def)

lemma client_nonzero: "clients_ok d \<Longrightarrow> c < pd_nclients d \<Longrightarrow> pd_clients d ! c \<noteq> 0"
  by (auto simp: clients_ok_def in_set_conv_nth)

lemma wp_event_inv:
  assumes "pfsd_inv d tr" "c < pd_nclients d" "rejects E"
  shows "wp (event_handler_func c d) E (\<lambda>d' tr'. pfsd_inv d' tr' \<and> pd_nclients d' = pd_nclients d) tr"
proof -
  have "wp (event_handler_func c d) E (\<lambda>d' tr'. accounted d' tr' \<and> conn d' = conn d) tr"
    using assms client_nonzero by (intro wp_conj wp_event wp_event_conn) (auto simp: pfsd_inv_def)
  then show ?thesis
    using assms(1) by (elim wp_mono) (simp add: pfsd_inv_def conn_def clients_ok_def)
qed

lemma wp_cleanup_inv:
  assumes "pfsd_inv d tr" "c < pd_nclients d" "rejects E"
  shows "wp (cleanup_client c d) E (\<lambda>d' tr'. pfsd_inv d' tr') tr"
proof -
  have ok: "accounted d tr" "pd_nclients d < TABLE" "length (pd_clients d) = TABLE" "clients_ok d"
    using assms(1) by (auto simp: pfsd_inv_def clients_ok_def)
  define n where "n = pd_nclients d"
  have "take (n - 1) (drop_nth c (take (Suc n) (pd_clients d))) = drop_nth c (take n (pd_clients d))"
    using assms(2) ok(2,3) unfolding n_def [symmetric]
    by (cases "Suc c = n") (auto simp: drop_nth_def take_Suc_conv_app_nth min_def)
  moreover have "take n (pd_clients (remove_client c d)) = drop_nth c (take (Suc n) (pd_clients d))"
    using take_shift [of c "Suc n" "pd_clients d"] assms(2) ok(2,3) by (simp add: remove_client_def n_def)
  ultimately have "set (take (n - 1) (pd_clients (remove_client c d))) \<subseteq> set (take n (pd_clients d))"
    using set_drop_nth by (metis diff_le_self min.absorb1 take_take)
  then have "clients_ok (remove_client c d)"
    using ok(4) by (auto simp: clients_ok_def remove_client_def length_shift n_def)
  then show ?thesis
    using wp_cleanup_client [OF ok(1) assms(3) ok(2,3) refl client_nonzero [OF ok(4) assms(2)]]
    by (elim wp_mono) (simp add: pfsd_inv_def conn_def clients_ok_def)
qed

lemma wp_add_client:
  assumes inv: "pfsd_inv d tr" and E: "accepts E"
  shows "wp (add_new_client d) E (\<lambda>d' tr'. pfsd_inv d' tr') tr"
proof -
  define s where "s = rp_ret (answer E tr (Ipc (Sock_accept (pd_socket d))))"
  have s: "s \<noteq> 0" using E by (simp add: s_def accepts_def)
  have keep: "pfsd_inv d tr'" if "on_device tr' = on_device tr" for tr'
    using inv accounted_cong [OF that] by (simp add: pfsd_inv_def)
  have new: "pfsd_inv (d\<lparr>pd_clients := (pd_clients d)[pd_nclients d := s, Suc (pd_nclients d) := pd_socket d],
             pd_nclients := Suc (pd_nclients d)\<rparr>) tr'"
    if "on_device tr' = on_device tr" "Suc (pd_nclients d) < length (pd_clients d)" for tr'
  proof -
    have "take (Suc (pd_nclients d)) ((pd_clients d)[pd_nclients d := s, Suc (pd_nclients d) := pd_socket d]) =
        take (pd_nclients d) (pd_clients d) @ [s]"
      using that(2) by (simp add: take_Suc_conv_app_nth)
    then show ?thesis
      using keep [OF that(1)] that(2) s
      by (simp add: pfsd_inv_def clients_ok_def accounted_def tables_ok_def open_files_def)
  qed
  show ?thesis
    unfolding add_new_client_def wp_bindM wp_basic s_def [symmetric]
    by (intro vcg wp_calm [OF emits_calm(1)]) (simp_all add: keep new)
qed

lemma wp_serve_clients:
  assumes "rejects E"
  shows "pfsd_inv d tr \<Longrightarrow> \<forall>i \<in> set is. i < pd_nclients d \<Longrightarrow>
    wp (serve_clients rv is d) E (\<lambda>(removed, d') tr'. pfsd_inv d' tr') tr"
proof (induction "is" arbitrary: d tr)
  case (Cons i "is")
  have i: "i < pd_nclients d" using Cons.prems(2) by simp
  have hup: "wp (bindM (cleanup_client i d) (\<lambda>d'. retM (True, d'))) E (\<lambda>(removed, d') tr'. pfsd_inv d' tr') tr"
    unfolding wp_bindM wp_basic by (simp add: wp_cleanup_inv [OF Cons.prems(1) i assms])
  have "wp (bindM (event_handler_func i d) (serve_clients rv is)) E (\<lambda>(removed, d') tr'. pfsd_inv d' tr') tr"
    unfolding wp_bindM
    by (rule wp_mono [OF wp_event_inv [OF Cons.prems(1) i assms]]) (use Cons in auto)
  then show ?case using hup Cons by simp
qed (simp add: wp_basic)

text \<open>One call of \<open>poll\<close> and what follows it.\<close>

lemma wp_poll_body:
  assumes inv: "pfsd_inv d tr" and E: "rejects E" "accepts E"
  shows "wp (poll_body d) E (\<lambda>x tr'. case x of Inl d' \<Rightarrow> pfsd_inv d' tr' | Inr d' \<Rightarrow> pfsd_inv d' tr') tr"
proof -
  have keep: "pfsd_inv d (tr @ [(Ipc (Sock_poll fds), r)])" for fds r
    using inv by (simp add: pfsd_inv_def accounted_def)
  have add: "wp (bindM (add_new_client d) (\<lambda>d'. retM (Inl d'))) E (\<lambda>x tr'. case x of
      Inl d' \<Rightarrow> pfsd_inv d' tr' | Inr d' \<Rightarrow> pfsd_inv d' tr') tr'" if "pfsd_inv d tr'" for tr'
    using wp_add_client [OF that E(2)] by (simp add: wp_bindM wp_basic)
  have serve: "wp (bindM (serve_clients rv [0..<pd_nclients d] d) (\<lambda>(removed, d').
       retM (if removed then Inr d' else Inl d'))) E (\<lambda>x tr'. case x of
      Inl d' \<Rightarrow> pfsd_inv d' tr' | Inr d' \<Rightarrow> pfsd_inv d' tr') tr'" if "pfsd_inv d tr'" for tr' rv
    unfolding wp_bindM
    by (rule wp_mono [OF wp_serve_clients [OF E(1) that]]) (auto simp: wp_basic)
  show ?thesis
    unfolding poll_body_def by (intro vcg add serve) (simp_all add: keep)
qed

text \<open>
  The states the main loop reaches: after each round of \<open>poll\<close>, and after \<open>poll\<close> was
  interrupted, when the daemon does not run for debugging.
\<close>

inductive daemon_reaches :: "env \<Rightarrow> pfsd \<times> trace \<Rightarrow> pfsd \<times> trace \<Rightarrow> bool" for E s where
  start: "daemon_reaches E s s"
| round: "daemon_reaches E s (d, tr) \<Longrightarrow> poll_body d E tr = (Done (Inl d'), tr') \<Longrightarrow>
    daemon_reaches E s (d', tr')"
| again: "daemon_reaches E s (d, tr) \<Longrightarrow> main_body d E tr = (Done (Inl d'), tr') \<Longrightarrow>
    daemon_reaches E s (d', tr')"

lemma wp_main_body:
  assumes "rejects E" "accepts E" "pfsd_inv d tr"
  shows "wp (main_body d) E (\<lambda>x tr'. case x of Inl d' \<Rightarrow> pfsd_inv d' tr' | Inr (r, d') \<Rightarrow> pfsd_inv d' tr') tr"
proof -
  have "wp (loopM poll_body d) E pfsd_inv tr"
    by (rule wp_loopM [where I = pfsd_inv, OF assms(3) wp_poll_body [OF _ assms(1,2)]])
  then show ?thesis
    unfolding main_body_def wp_bindM
    by (rule wp_mono) (auto simp: wp_simps pfsd_inv_def accounted_def)
qed

definition pfsd_started :: "bool \<Rightarrow> int \<Rightarrow> int \<Rightarrow> pfsd" where
  "pfsd_started debug junk s =
     (pfsd_boot debug junk)\<lparr>pd_socket := s, pd_clients := (pd_clients (pfsd_boot debug junk))[0 := s]\<rparr>"

lemma started_inv: "on_device tr = {#} \<Longrightarrow> pfsd_inv (pfsd_started debug junk s) tr"
  by (simp add: pfsd_inv_def accounted_def tables_ok_def clients_ok_def pfsd_started_def pfsd_boot_def
    open_files_def mounts_ok_def no_mount_def)


text \<open>A device that opens files as descriptor 3, and a privileged client on descriptor 5.\<close>

definition pfsd_env :: env where
  "pfsd_env = \<lparr>answer = (\<lambda>tr c. case c of
      Ipc (Sock_poll _) \<Rightarrow> code_data 1 [CHR 0x01]
    | Ipc (Sock_accept _) \<Rightarrow> code 5
    | Ipc (Sock_peer _) \<Rightarrow> code 100
    | Ipc (Cap_get _) \<Rightarrow> code_data 0 (f_u32 0x20000)
    | Pfs (Op_close h) \<Rightarrow> code (if h = 3 then 0 else - 9)
    | Pfs (Op_dclose h) \<Rightarrow> code (if h = 3 then 0 else - 9)
    | _ \<Rightarrow> code 3), fuel = 5\<rparr>"

lemma pfsd_env_ok: "rejects pfsd_env" "accepts pfsd_env"
  by (simp_all add: rejects_def accepts_def pfsd_env_def)


text \<open>A daemon with one client, on descriptor 5, that has mounted a partition and opened a file.\<close>

definition pfsd_busy :: pfsd where
  "pfsd_busy = (pfsd_started False 0 4)\<lparr>
     pd_items := (replicate TABLE no_item)[0 := \<lparr>of_fd = 3, of_pid = 5, of_mnt = 0\<rparr>], pd_count := 1,
     pd_mounts := (replicate TABLE no_mount)[0 := \<lparr>ml_pid = 5, ml_fsprefix = ''pfs0:'',
       ml_containerpath = ''pfs0:'', ml_devprefix = ''hdd0:__system''\<rparr>],
     pd_clients := (replicate TABLE 0)[0 := 5, 1 := 4], pd_nclients := 1\<rparr>"

theorem cleanup_removes_witness:
  "wp (cleanup_client 0 pfsd_busy) pfsd_env (\<lambda>d' tr'. open_files d' = [] \<and>
     pd_mounts d' ! 0 = (pd_mounts pfsd_busy ! 0)\<lparr>ml_pid := 0\<rparr> \<and>
     take (Suc (pd_nclients d')) (pd_clients d') = [4]) [(Pfs (Op_open ''pfs0:/vmlinux'' 1 0), code 3)]"
proof -
  define tr where "tr = [(Pfs (Op_open ''pfs0:/vmlinux'' 1 0), code 3)]"
  have files: "open_files pfsd_busy = [\<lparr>of_fd = 3, of_pid = 5, of_mnt = 0\<rparr>]"
    by (simp add: open_files_def pfsd_busy_def numeral_eq_Suc)
  have "mounts_ok (pd_mounts pfsd_busy)"
    by (auto simp: mounts_ok_def pfsd_busy_def nth_list_update no_mount_def)
  then have "accounted pfsd_busy tr"
    by (simp add: accounted_def tables_ok_def files item_ok_def tr_def on_device_def)
      (simp add: pfsd_busy_def)
  then have "wp (cleanup_client 0 pfsd_busy) pfsd_env (\<lambda>d' tr'. let fd = pd_clients pfsd_busy ! 0 in
     accounted d' tr' \<and>
     open_files d' = filter (\<lambda>f. of_pid f \<noteq> fd) (open_files pfsd_busy) \<and>
     pd_mounts d' = map (\<lambda>m. if ml_pid m = fd then m\<lparr>ml_pid := 0\<rparr> else m) (pd_mounts pfsd_busy) \<and>
     take (Suc (pd_nclients d')) (pd_clients d') =
       drop_nth 0 (take (Suc (pd_nclients pfsd_busy)) (pd_clients pfsd_busy))) tr"
    by (rule cleanup_removes) (simp_all add: pfsd_env_ok, simp_all add: pfsd_busy_def)
  then show ?thesis
    unfolding tr_def [symmetric]
    by (elim wp_mono) (simp add: Let_def files, simp add: pfsd_busy_def drop_nth_def numeral_eq_Suc)
qed

end
