(* ===== verification/Pfsd_Cleanup.thy ===== *)
theory Pfsd_Cleanup
  imports Pfsd_Tables Total
begin

text \<open>
  Removing a client comes to an end when the device closes its files, and does not when the
  device refuses to: the loop of \<open>cleanup_client\<close> stays at the file that could not be closed.
\<close>

text \<open>What the loops keep of the daemon \<open>d0\<close>: the connections, and prefixes that fit the buffer.\<close>

definition keeps_conn :: "pfsd \<Rightarrow> pfsd \<Rightarrow> bool" where
  "keeps_conn d0 d = (conn d = conn d0 \<and> length (pd_mounts d) = length (pd_mounts d0) \<and>
     nat (pd_count d) \<le> length (pd_items d) \<and>
     list_all (\<lambda>m. length (ml_fsprefix m) < 1024) (pd_mounts d))"

lemma keeps_conn_closed: "keeps_conn d0 d \<Longrightarrow> keeps_conn d0 (rpc_common_close h p d)"
proof -
  have "length (fold (\<lambda>k xs. xs[k := xs ! Suc k]) is xs) = length xs" for "is" and xs :: "openfile_item list"
    by (induction "is" arbitrary: xs) simp_all
  then show "keeps_conn d0 d \<Longrightarrow> keeps_conn d0 (rpc_common_close h p d)"
    by (auto simp: keeps_conn_def rpc_common_close_def Let_def conn_def)
qed

lemma keeps_conn_umount: "keeps_conn d0 d \<Longrightarrow> keeps_conn d0 (umount_cleanup i d)"
  by (cases "i < length (pd_mounts d)")
    (auto simp: keeps_conn_def umount_cleanup_def conn_def list_all_length nth_list_update)

subsection \<open>Programs that always return\<close>

lemma twp_putsM [twp]: "(\<And>tr'. Q () tr') \<Longrightarrow> twp (putsM s) E Q tr"
  by (simp add: putsM_def twp)

lemma twp_say_once [twp]: "(\<And>tr'. Q () tr') \<Longrightarrow> twp (say_once q p t) E Q tr"
  by (simp add: say_once_def twp)

lemma twp_send [twp]: "(\<And>tr'. Q () tr') \<Longrightarrow> twp (send p r) E Q tr"
  by (simp add: send_def twp)

lemma twp_statistics [twp]: "(\<And>tr'. Q () tr') \<Longrightarrow> twp (output_statistics d) E Q tr"
  by (simp add: output_statistics_def twp)

lemma twp_umount:
  assumes "\<And>tr'. Q d tr'" "\<And>i tr'. Q (umount_cleanup i d) tr'"
  shows "twp (rpc_command_umount fs p d) E Q tr"
  unfolding rpc_command_umount_def Let_def by (intro twp) (simp_all add: assms)

subsection \<open>The end of a client\<close>

definition closes :: "env \<Rightarrow> bool" where
  "closes E = (\<forall>tr h. rp_ret (answer E tr (Pfs (Op_close h))) = 0)"

lemma twp_close_owned:
  assumes "closes E" "\<exists>f \<in> set (open_files d). of_fd f = h \<and> of_pid f = p"
    and "\<And>tr'. Q (rpc_common_close h p d) tr'"
  shows "twp (rpc_command_close h p d) E Q tr"
  unfolding rpc_command_close_def close_request_def rpc_remap_fd_def if_P [OF assms(2)]
  using assms(1,3) by (intro twp) (simp add: closes_def)

lemma twp_files:
  assumes "closes E" "keeps_conn d0 d" "nat (pd_count d) < fuel E"
  shows "twp (loopM (cleanup_files_body fd) (0, q, d)) E (\<lambda>(q', d') tr'. keeps_conn d0 d') tr"
proof (intro twp_loopM twp_iterM [where I = "\<lambda>(i, q, d) tr. keeps_conn d0 d"
    and V = "\<lambda>(i, q, d) tr. nat (pd_count d) - i"], goal_cases)
  case (1 s tr)
  obtain i q d where s: "s = (i, q, d)" by (cases s)
  then have k: "keeps_conn d0 d" using 1 by simp
  show ?case
  proof (cases "int i < pd_count d")
    case False
    then show ?thesis using k by (simp add: s cleanup_files_body_def twp)
  next
    case True
    then have "i < length (open_files d)" "open_files d ! i = pd_items d ! i"
      using k by (auto simp: open_files_def keeps_conn_def)
    then have mem: "pd_items d ! i \<in> set (open_files d)" by (metis nth_mem)
    have less: "nat (pd_count (rpc_common_close h p d)) - i < nat (pd_count d) - i" for h p
      using True by (simp add: rpc_common_close_def Let_def)
    show ?thesis
      unfolding s cleanup_files_body_def
      using True mem less keeps_conn_closed [OF k] k
      by (auto simp: Let_def intro!: twp twp_close_owned [OF assms(1)])
  qed
qed (use assms in simp_all)

lemma twp_mounts:
  "keeps_conn d0 d \<Longrightarrow> \<forall>i \<in> set is. i < length (pd_mounts d) \<Longrightarrow>
   twp (cleanup_mounts fd is q d) E (\<lambda>(q', d') tr'. keeps_conn d0 d') tr"
proof (induction "is" arbitrary: q d tr)
  case (Cons i "is")
  then have fits: "length (ml_fsprefix (pd_mounts d ! i)) < 1024"
    by (simp add: keeps_conn_def list_all_length)
  have "twp (cleanup_mounts fd is q' (umount_cleanup j d)) E (\<lambda>(q', d') tr'. keeps_conn d0 d') tr'" for q' j tr'
    using Cons.IH [OF keeps_conn_umount [OF Cons.prems(1)]] Cons.prems(2) by (simp add: umount_cleanup_def)
  moreover have "twp (cleanup_mounts fd is q' d) E (\<lambda>(q', d') tr'. keeps_conn d0 d') tr'" for q' tr'
    using Cons by simp
  ultimately show ?case
    using fits by (auto simp: Let_def intro!: twp twp_umount)
qed (simp add: twp)


text \<open>One client with one file and one mount point.\<close>

definition one_client :: pfsd where
  "one_client = (pfsd_boot False 0)\<lparr>pd_items := replicate TABLE \<lparr>of_fd = 3, of_pid = 7, of_mnt = 0\<rparr>,
     pd_count := 1, pd_nclients := 1,
     pd_mounts := replicate TABLE \<lparr>ml_pid = 7, ml_fsprefix = ''pfs0:'', ml_containerpath = ''pfs0:'',
       ml_devprefix = ''hdd0:__system''\<rparr>\<rparr>"


text \<open>A device that refuses to close a file of the client keeps the daemon in the loop for ever.\<close>

theorem cleanup_hangs:
  assumes "\<And>tr. rp_ret (answer E tr (Pfs (Op_close h))) \<noteq> 0"
    and "0 < pd_count d" "pd_items d ! 0 = \<lparr>of_fd = h, of_pid = pd_clients d ! c, of_mnt = k\<rparr>" "pd_items d \<noteq> []"
  shows "fst (cleanup_client c d E tr) = Stuck"
proof -
  have "pd_items d ! 0 \<in> set (open_files d)"
    using assms(2,4) by (cases "pd_items d"; cases "nat (pd_count d)") (auto simp: open_files_def)
  then have own: "\<exists>f \<in> set (open_files d). of_fd f = h \<and> of_pid f = pd_clients d ! c"
    using assms(3) by force
  have "fst (iterM n (cleanup_files_body (pd_clients d ! c)) (0, q, d) E tr) = Stuck" for n q tr
  proof (induction n arbitrary: q tr)
    case (Suc n)
    then show ?case
      using assms(1-3)
      by (simp add: cleanup_files_body_def say_once_def rpc_command_close_def close_request_def
          rpc_remap_fd_def own send_def io_simps)
  qed (simp add: io_simps)
  then have "fst (loopM (cleanup_files_body (pd_clients d ! c)) (0, True, d) E tr) = Stuck"
    by (simp add: loopM_def)
  moreover have "fst (bindM m f E tr) = Stuck" if "fst (m E tr) = Stuck"
    for m :: "(bool \<times> pfsd) io" and f :: "bool \<times> pfsd \<Rightarrow> pfsd io"
    using that by (cases "m E tr") (simp add: bindM_def)
  ultimately show ?thesis by (simp add: cleanup_client_def Let_def)
qed

end
