(* ===== verification/Pfsd_Client.thy ===== *)
theory Pfsd_Client
  imports Pfsd_Rpc Prog Hl
begin

text \<open>
  The client side of the daemon (\<open>src/src/pfsd_client.c\<close>). A request takes the lock, puts
  the data the daemon shall read into the shared memory, sends the request, waits for the
  reply, takes the data the daemon has written from the shared memory and releases the lock.
  A pointer argument is an option, \<open>None\<close> for NULL; a function with an output buffer returns what
  it copied there beside the code. \<open>cl_stack\<close> stands for uninitialised bytes. Messages of
  \<open>perror\<close> are not modelled.
\<close>

record pfsd_client =
  cl_SemID :: int
  cl_ShmID :: int
  cl_Cfd :: int
  cl_SharedMemorySize :: u64
  cl_stack :: stack

definition client_boot :: "stack \<Rightarrow> pfsd_client" where
  "client_boot st = \<lparr>cl_SemID = 0, cl_ShmID = 0, cl_Cfd = 0, cl_SharedMemorySize = 0, cl_stack = st\<rparr>"

subsection \<open>Connection\<close>

definition Connect :: "pfsd_client \<Rightarrow> (int \<times> pfsd_client) io" where
  "Connect c =
     bindM (codeM (Ipc Sock_new)) (\<lambda>fd.
     let c = c\<lparr>cl_Cfd := fd\<rparr> in
     if fd < 0 then retM (- 1, c)
     else
       bindM (codeM (Ipc (Sock_bind fd []))) (\<lambda>r.
       if r < 0 then retM (- 1, c)
       else
         bindM (codeM (Ipc (Sock_connect fd ''/tmp/pfsd''))) (\<lambda>r.
         if r < 0 then retM (- 1, c) else retM (0, c))))"

definition GetShmSize :: "pfsd_client \<Rightarrow> u64 io" where
  "GetShmSize c = bindM (codeM (Ipc (Shm_size (cl_ShmID c)))) (\<lambda>n. retM (word_of_int n))"

definition StartUp :: "pfsd_client \<Rightarrow> (int \<times> pfsd_client) io" where
  "StartUp c =
     bindM (Connect c) (\<lambda>(r, c).
     if r < 0 then
       bindM (putsM (''Can'' @ [CHR 0x27] @ ''t connect to pfsd.'' @ nl)) (\<lambda>_. retM (- 1, c))
     else
       bindM (codeM (Ipc (Sem_get False))) (\<lambda>sem.
       let c = c\<lparr>cl_SemID := sem\<rparr> in
       if sem < 0 then retM (- 2, c)
       else
         bindM (codeM (Ipc (Shm_get 0 False))) (\<lambda>shm.
         let c = c\<lparr>cl_ShmID := shm\<rparr> in
         if shm < 0 then retM (- 3, c)
         else
           bindM (doM (Ipc (Shm_attach shm))) (\<lambda>_.
           bindM (GetShmSize c) (\<lambda>n.
           let c = c\<lparr>cl_SharedMemorySize := n\<rparr> in
           if sint (ucast n :: u32) \<le> 0 then retM (- 5, c) else retM (0, c))))))"

definition CleanUp :: "pfsd_client \<Rightarrow> unit io" where
  "CleanUp c = bindM (doM (Ipc Shm_detach)) (\<lambda>_. doM (Host_close (cl_Cfd c)))"

definition scepfsdInit :: "pfsd_client \<Rightarrow> (int \<times> pfsd_client) io" where
  "scepfsdInit c = StartUp c"

definition scepfsdExit :: "pfsd_client \<Rightarrow> unit io" where
  "scepfsdExit c = CleanUp c"

subsection \<open>One exchange\<close>

definition RequireLock :: "pfsd_client \<Rightarrow> unit io" where
  "RequireLock c = doM (Ipc (Sem_op (cl_SemID c) (- 1)))"

definition ReleaseLock :: "pfsd_client \<Rightarrow> unit io" where
  "ReleaseLock c = doM (Ipc (Sem_op (cl_SemID c) 1))"

definition SendRequest :: "pfsd_client \<Rightarrow> pfs_op \<Rightarrow> unit io" where
  "SendRequest c op = doM (Ipc (Sock_send (cl_Cfd c) (request (cl_stack c) op)))"

text \<open>The bytes of the answer over what the variable held before.\<close>

definition receive :: "pfsd_client \<Rightarrow> nat \<Rightarrow> string io" where
  "receive c n =
     bindM (callM (Ipc (Sock_recv (cl_Cfd c) n))) (\<lambda>r.
     retM (got r @ drop (length (got r)) (map (cl_stack c) [0..<n])))"

definition ReceiveReply :: "pfsd_client \<Rightarrow> int io" where
  "ReceiveReply c = bindM (receive c 4) (\<lambda>s. retM (g_int 0 s))"

definition ReceiveReplyLong :: "pfsd_client \<Rightarrow> int io" where
  "ReceiveReplyLong c = bindM (receive c 4) (\<lambda>s. retM (g_int 0 s))"

definition ReceiveReplyLongLong :: "pfsd_client \<Rightarrow> int io" where
  "ReceiveReplyLongLong c = bindM (receive c 8) (\<lambda>s. retM (g_int64 0 s))"

text \<open>
  \<open>memcpy\<close> of \<open>n\<close> bytes to and from the shared memory; beyond the end of either object it is a
  fault. A length given as an \<open>int\<close> is converted to \<open>size_t\<close>.
\<close>

definition shm_put :: "pfsd_client \<Rightarrow> string \<Rightarrow> int \<Rightarrow> unit io" where
  "shm_put c s n =
     (if 0 \<le> n \<and> nat n \<le> length s \<and> nat n \<le> unat (cl_SharedMemorySize c) then
        doM (Ipc (Shm_write (take (nat n) s)))
      else faultM)"

definition shm_get :: "pfsd_client \<Rightarrow> int \<Rightarrow> string io" where
  "shm_get c n =
     (if 0 \<le> n \<and> nat n \<le> unat (cl_SharedMemorySize c) then
        bindM (callM (Ipc (Shm_read (nat n)))) (\<lambda>r. retM (rp_data r))
      else faultM)"

text \<open>A request with nothing in the shared memory.\<close>

definition plain_exchange :: "pfsd_client \<Rightarrow> pfs_op \<Rightarrow> int io" where
  "plain_exchange c op =
     bindM (RequireLock c) (\<lambda>_.
     bindM (SendRequest c op) (\<lambda>_.
     bindM (ReceiveReply c) (\<lambda>ret.
     bindM (ReleaseLock c) (\<lambda>_. retM ret))))"

text \<open>A request with \<open>n\<close> bytes of an argument, unless the pointer is NULL or \<open>n\<close> is 0.\<close>

definition put_arg :: "pfsd_client \<Rightarrow> string option \<Rightarrow> int \<Rightarrow> unit io" where
  "put_arg c arg n = (case arg of None \<Rightarrow> retM () | Some s \<Rightarrow> if n = 0 then retM () else shm_put c s n)"

definition get_buf :: "pfsd_client \<Rightarrow> bool \<Rightarrow> int \<Rightarrow> string option io" where
  "get_buf c buf n =
     (if buf \<and> n \<noteq> 0 then bindM (shm_get c n) (\<lambda>s. retM (Some s)) else retM None)"

definition data_exchange ::
    "pfsd_client \<Rightarrow> pfs_op \<Rightarrow> string option \<Rightarrow> int \<Rightarrow> bool \<Rightarrow> int \<Rightarrow> (int \<times> string option) io" where
  "data_exchange c op arg arglen buf buflen =
     bindM (RequireLock c) (\<lambda>_.
     bindM (put_arg c arg arglen) (\<lambda>_.
     bindM (SendRequest c op) (\<lambda>_.
     bindM (ReceiveReply c) (\<lambda>ret.
     bindM (get_buf c buf buflen) (\<lambda>out.
     bindM (ReleaseLock c) (\<lambda>_. retM (ret, out)))))))"

subsection \<open>Names\<close>

text \<open>\<open>strcpy\<close> into one and two fields of 1024 bytes.\<close>

definition name_exchange :: "pfsd_client \<Rightarrow> (string \<Rightarrow> pfs_op) \<Rightarrow> string \<Rightarrow> int io" where
  "name_exchange c op name = bindM (bufM 1024 name) (\<lambda>m_name. plain_exchange c (op m_name))"

definition names_exchange :: "pfsd_client \<Rightarrow> (string \<Rightarrow> string \<Rightarrow> pfs_op) \<Rightarrow> string \<Rightarrow> string \<Rightarrow> int io" where
  "names_exchange c op old new =
     bindM (bufM 1024 old) (\<lambda>m_old.
     bindM (bufM 1024 new) (\<lambda>m_new. plain_exchange c (op m_old m_new)))"

definition scepfsdOpen :: "pfsd_client \<Rightarrow> string \<Rightarrow> int \<Rightarrow> int \<Rightarrow> int io" where
  "scepfsdOpen c name flags mode = name_exchange c (\<lambda>n. Op_open n flags mode) name"

definition scepfsdDopen :: "pfsd_client \<Rightarrow> string \<Rightarrow> int io" where
  "scepfsdDopen c name = name_exchange c Op_dopen name"

definition scepfsdMkdir :: "pfsd_client \<Rightarrow> string \<Rightarrow> int \<Rightarrow> int io" where
  "scepfsdMkdir c name mode = name_exchange c (\<lambda>n. Op_mkdir n mode) name"

definition scepfsdRmdir :: "pfsd_client \<Rightarrow> string \<Rightarrow> int io" where
  "scepfsdRmdir c name = name_exchange c Op_rmdir name"

definition scepfsdChdir :: "pfsd_client \<Rightarrow> string \<Rightarrow> int io" where
  "scepfsdChdir c name = name_exchange c Op_chdir name"

definition scepfsdRemove :: "pfsd_client \<Rightarrow> string \<Rightarrow> int io" where
  "scepfsdRemove c name = name_exchange c Op_remove name"

definition scepfsdRename :: "pfsd_client \<Rightarrow> string \<Rightarrow> string \<Rightarrow> int io" where
  "scepfsdRename c old new = names_exchange c Op_rename old new"

definition scepfsdSymlink :: "pfsd_client \<Rightarrow> string \<Rightarrow> string \<Rightarrow> int io" where
  "scepfsdSymlink c old new = names_exchange c Op_symlink old new"

definition scepfsdSync :: "pfsd_client \<Rightarrow> string \<Rightarrow> int \<Rightarrow> int io" where
  "scepfsdSync c dev flag = name_exchange c (\<lambda>n. Op_sync n flag) dev"

definition scepfsdUmount :: "pfsd_client \<Rightarrow> string \<Rightarrow> int io" where
  "scepfsdUmount c fsname = name_exchange c Op_umount fsname"

subsection \<open>Descriptors and settings\<close>

definition scepfsdLseek :: "pfsd_client \<Rightarrow> int \<Rightarrow> int \<Rightarrow> int \<Rightarrow> int io" where
  "scepfsdLseek c fd offset whence =
     bindM (RequireLock c) (\<lambda>_.
     bindM (SendRequest c (Op_lseek fd offset whence)) (\<lambda>_.
     bindM (ReceiveReplyLong c) (\<lambda>ret.
     bindM (ReleaseLock c) (\<lambda>_. retM ret))))"

definition scepfsdLseek64 :: "pfsd_client \<Rightarrow> int \<Rightarrow> int \<Rightarrow> int \<Rightarrow> int io" where
  "scepfsdLseek64 c fd offset whence =
     bindM (RequireLock c) (\<lambda>_.
     bindM (SendRequest c (Op_lseek64 fd offset whence)) (\<lambda>_.
     bindM (ReceiveReplyLongLong c) (\<lambda>ret.
     bindM (ReleaseLock c) (\<lambda>_. retM ret))))"

definition scepfsdClose :: "pfsd_client \<Rightarrow> int \<Rightarrow> int io" where
  "scepfsdClose c fd = plain_exchange c (Op_close fd)"

definition scepfsdDclose :: "pfsd_client \<Rightarrow> int \<Rightarrow> int io" where
  "scepfsdDclose c fd = plain_exchange c (Op_dclose fd)"

definition scepfsdSetReadAhead :: "pfsd_client \<Rightarrow> int \<Rightarrow> int io" where
  "scepfsdSetReadAhead c enabled = plain_exchange c (Op_setreadahead enabled)"

definition scepfsdGetReadAhead :: "pfsd_client \<Rightarrow> int io" where
  "scepfsdGetReadAhead c = plain_exchange c Op_getreadahead"

subsection \<open>Data\<close>

definition iox_stat_size :: int where "iox_stat_size = 64"
definition iox_dirent_size :: int where "iox_dirent_size = 324"

text \<open>The pointer is not tested before the copy.\<close>

definition scepfsdDread :: "pfsd_client \<Rightarrow> int \<Rightarrow> bool \<Rightarrow> (int \<times> string) io" where
  "scepfsdDread c fd iox_dirent =
     bindM (RequireLock c) (\<lambda>_.
     bindM (SendRequest c (Op_dread fd iox_dirent)) (\<lambda>_.
     bindM (ReceiveReply c) (\<lambda>ret.
     bindM (if iox_dirent then shm_get c iox_dirent_size else faultM) (\<lambda>s.
     bindM (ReleaseLock c) (\<lambda>_. retM (ret, s))))))"

definition scepfsdChstat :: "pfsd_client \<Rightarrow> string \<Rightarrow> string option \<Rightarrow> int \<Rightarrow> int io" where
  "scepfsdChstat c name stat statmask =
     bindM (bufM 1024 name) (\<lambda>n.
     bindM (data_exchange c (Op_chstat n (stat \<noteq> None) statmask) stat iox_stat_size False 0) (\<lambda>(ret, _).
     retM ret))"

definition scepfsdGetstat :: "pfsd_client \<Rightarrow> string \<Rightarrow> bool \<Rightarrow> (int \<times> string option) io" where
  "scepfsdGetstat c name stat =
     bindM (bufM 1024 name) (\<lambda>n.
     data_exchange c (Op_getstat n stat) None 0 stat iox_stat_size)"

definition scepfsdIoctl :: "pfsd_client \<Rightarrow> int \<Rightarrow> int \<Rightarrow> string option \<Rightarrow> int io" where
  "scepfsdIoctl c fd cmd arg =
     bindM (data_exchange c (Op_ioctl fd cmd (arg \<noteq> None)) arg 1024 False 0) (\<lambda>(ret, _). retM ret)"

text \<open>
  The transfer command has a structure as its argument and copies both ways; every other
  command copies the argument and the buffer.
\<close>

definition scepfsdIoctl2_transfer :: "pfsd_client \<Rightarrow> int \<Rightarrow> hddIoctl2Transfer \<Rightarrow> (int \<times> string option) io" where
  "scepfsdIoctl2_transfer c fd xfer =
     (let op = Op_transfer fd (xf_sub xfer) (xf_sector xfer) (xf_size xfer) (xf_mode xfer)
            (xf_buffer xfer \<noteq> None) in
      case xf_buffer xfer of None \<Rightarrow> retM (- 22, None)
      | Some b \<Rightarrow>
          if xf_size xfer > 0x100 then retM (- 22, None)
          else
            bindM (RequireLock c) (\<lambda>_.
            bindM (shm_put c b (uint (push_bit 9 (xf_size xfer)))) (\<lambda>_.
            bindM (SendRequest c op) (\<lambda>_.
            bindM (ReceiveReply c) (\<lambda>ret.
            bindM (shm_get c (uint (push_bit 9 (xf_size xfer)))) (\<lambda>s.
            bindM (ReleaseLock c) (\<lambda>_. retM (ret, Some s))))))))"

definition scepfsdIoctl2 ::
    "pfsd_client \<Rightarrow> int \<Rightarrow> int \<Rightarrow> ioarg \<Rightarrow> nat \<Rightarrow> bool \<Rightarrow> nat \<Rightarrow> (int \<times> string option) io" where
  "scepfsdIoctl2 c fd command arg arglen buf buflen =
     (if command = 0x6832 then
        (case arg of Transfer_arg xfer \<Rightarrow> scepfsdIoctl2_transfer c fd xfer | _ \<Rightarrow> faultM)
      else
        let bytes = (case arg of Text_arg s \<Rightarrow> Some s | _ \<Rightarrow> None) in
        data_exchange c
          (Op_ioctl2 fd command (bytes \<noteq> None) (to_s32 (int arglen)) buf (to_s32 (int buflen)))
          bytes (int arglen) buf (int buflen))"

definition scepfsdReadlink :: "pfsd_client \<Rightarrow> string \<Rightarrow> bool \<Rightarrow> nat \<Rightarrow> (int \<times> string option) io" where
  "scepfsdReadlink c name buf buflen =
     bindM (bufM 1024 name) (\<lambda>n.
     data_exchange c (Op_readlink n buf (to_s32 (int buflen))) None 0 buf (int buflen))"

definition scepfsdFormat :: "pfsd_client \<Rightarrow> string \<Rightarrow> string \<Rightarrow> string option \<Rightarrow> nat \<Rightarrow> int io" where
  "scepfsdFormat c dev blockdev arg arglen =
     bindM (bufM 1024 dev) (\<lambda>d.
     bindM (bufM 1024 blockdev) (\<lambda>b.
     bindM (data_exchange c (Op_format d b (arg \<noteq> None) (to_s32 (int arglen))) arg (int arglen) False 0)
       (\<lambda>(ret, _). retM ret)))"

definition scepfsdMount ::
    "pfsd_client \<Rightarrow> string \<Rightarrow> string \<Rightarrow> int \<Rightarrow> string option \<Rightarrow> nat \<Rightarrow> int io" where
  "scepfsdMount c fsname devname flag arg arglen =
     bindM (bufM 1024 fsname) (\<lambda>f.
     bindM (bufM 1024 devname) (\<lambda>d.
     bindM (data_exchange c (Op_mount f d flag (arg \<noteq> None) (to_s32 (int arglen))) arg (int arglen) False 0)
       (\<lambda>(ret, _). retM ret)))"

definition scepfsdDevctl ::
    "pfsd_client \<Rightarrow> string \<Rightarrow> int \<Rightarrow> string option \<Rightarrow> nat \<Rightarrow> bool \<Rightarrow> nat \<Rightarrow> (int \<times> string option) io" where
  "scepfsdDevctl c name cmd arg arglen buf buflen =
     bindM (bufM 1024 name) (\<lambda>n.
     data_exchange c (Op_devctl n cmd (arg \<noteq> None) (to_s32 (int arglen)) buf (to_s32 (int buflen)))
       arg (int arglen) buf (int buflen))"

text \<open>\<open>strcpy\<close> from the shared memory into \<open>out_newmap\<close>, of \<open>cap\<close> bytes.\<close>

definition scepfsdGetMountPoint :: "pfsd_client \<Rightarrow> string \<Rightarrow> nat option \<Rightarrow> (int \<times> string option) io" where
  "scepfsdGetMountPoint c in_oldmap out_newmap =
     bindM (bufM 1024 in_oldmap) (\<lambda>p.
     bindM (RequireLock c) (\<lambda>_.
     bindM (SendRequest c (Op_getmountpoint p)) (\<lambda>_.
     bindM (ReceiveReply c) (\<lambda>ret.
     bindM (case out_newmap of None \<Rightarrow> retM None
       | Some cap \<Rightarrow>
           bindM (callM (Ipc (Shm_read (unat (cl_SharedMemorySize c))))) (\<lambda>r.
           bindM (bufM cap (before_char (CHR 0x00) (rp_data r))) (\<lambda>s. retM (Some s)))) (\<lambda>out.
     bindM (ReleaseLock c) (\<lambda>_. retM (ret, out)))))))"

subsection \<open>Reading and writing in chunks\<close>

text \<open>
  The buffer a caller passes is \<open>Some\<close> of its contents. A chunk is a call of the same function
  with a size that fits, which does not recurse again: \<open>read_once\<close> and \<open>write_once\<close>. The remaining
  size is a \<open>size_t\<close>, from which an \<open>int\<close> is subtracted.
\<close>

definition overwrite :: "nat \<Rightarrow> string \<Rightarrow> string \<Rightarrow> string io" where
  "overwrite k s buf =
     (if k + length s \<le> length buf then retM (take k buf @ s @ drop (k + length s) buf) else faultM)"

definition size_left :: "u64 \<Rightarrow> int \<Rightarrow> u64" where
  "size_left sz chunked = sz - word_of_int chunked"

definition as_int :: "u64 \<Rightarrow> int" where
  "as_int n = sint (ucast n :: u32)"

text \<open>The last part of both functions, with \<open>ptr\<close> at the place \<open>k\<close> of the buffer.\<close>

definition read_once :: "pfsd_client \<Rightarrow> int \<Rightarrow> string option \<Rightarrow> nat \<Rightarrow> int \<Rightarrow> (int \<times> string option) io" where
  "read_once c fd ptr k m_size =
     bindM (RequireLock c) (\<lambda>_.
     bindM (SendRequest c (Op_read fd (ptr \<noteq> None) m_size)) (\<lambda>_.
     bindM (ReceiveReply c) (\<lambda>ret.
     bindM (case ptr of None \<Rightarrow> retM None
       | Some buf \<Rightarrow>
           bindM (shm_get c m_size) (\<lambda>s.
           bindM (overwrite k (take (nat m_size) s) buf) (\<lambda>buf'. retM (Some buf')))) (\<lambda>ptr'.
     bindM (ReleaseLock c) (\<lambda>_. retM (ret, ptr'))))))"

definition write_once :: "pfsd_client \<Rightarrow> int \<Rightarrow> string option \<Rightarrow> nat \<Rightarrow> int \<Rightarrow> int io" where
  "write_once c fd ptr k m_size =
     bindM (RequireLock c) (\<lambda>_.
     bindM (case ptr of None \<Rightarrow> retM () | Some buf \<Rightarrow> shm_put c (drop k buf) m_size) (\<lambda>_.
     bindM (SendRequest c (Op_write fd (ptr \<noteq> None) m_size)) (\<lambda>_.
     bindM (ReceiveReply c) (\<lambda>ret.
     bindM (ReleaseLock c) (\<lambda>_. retM ret)))))"

text \<open>
  The loop over the chunks; it is left with the code to return at once, or with the number of
  bytes moved. Advancing a NULL pointer is a fault.
\<close>

definition read_chunk ::
    "pfsd_client \<Rightarrow> int \<Rightarrow> u64 \<Rightarrow> int \<times> string option \<Rightarrow>
     ((int \<times> string option) + int option \<times> int \<times> string option) io" where
  "read_chunk c fd sz = (\<lambda>(chunked_size, ptr).
     if cl_SharedMemorySize c < size_left sz chunked_size then
       if ptr = None \<and> chunked_size \<noteq> 0 then faultM
       else
         bindM (read_once c fd ptr (nat chunked_size) (as_int (cl_SharedMemorySize c))) (\<lambda>(result, ptr).
         if result < 0 then retM (Inr (Some result, chunked_size, ptr))
         else if result < as_int (cl_SharedMemorySize c) then
           retM (Inr (Some (result + chunked_size), chunked_size, ptr))
         else retM (Inl (to_s32 (chunked_size + result), ptr)))
     else retM (Inr (None, chunked_size, ptr)))"

definition write_chunk ::
    "pfsd_client \<Rightarrow> int \<Rightarrow> string option \<Rightarrow> u64 \<Rightarrow> int \<Rightarrow> (int + int option \<times> int) io" where
  "write_chunk c fd ptr sz = (\<lambda>chunked_size.
     if cl_SharedMemorySize c < size_left sz chunked_size then
       if ptr = None \<and> chunked_size \<noteq> 0 then faultM
       else
         bindM (write_once c fd ptr (nat chunked_size) (as_int (cl_SharedMemorySize c))) (\<lambda>result.
         if result < 0 then retM (Inr (Some result, chunked_size))
         else if result < as_int (cl_SharedMemorySize c) then
           retM (Inr (Some (result + chunked_size), chunked_size))
         else retM (Inl (to_s32 (chunked_size + result))))
     else retM (Inr (None, chunked_size)))"

text \<open>The last chunk is copied at \<open>ptr\<close> itself, not behind the chunks before it.\<close>

definition scepfsdRead :: "pfsd_client \<Rightarrow> int \<Rightarrow> string option \<Rightarrow> u64 \<Rightarrow> (int \<times> string option) io" where
  "scepfsdRead c fd ptr sz =
     bindM (loopM (read_chunk c fd sz) (0, ptr)) (\<lambda>(early, chunked_size, ptr).
     case early of Some r \<Rightarrow> retM (r, ptr)
     | None \<Rightarrow>
         bindM (read_once c fd ptr 0 (as_int (size_left sz chunked_size))) (\<lambda>(ret, ptr).
         retM (to_s32 (ret + chunked_size), ptr)))"

definition scepfsdWrite :: "pfsd_client \<Rightarrow> int \<Rightarrow> string option \<Rightarrow> u64 \<Rightarrow> int io" where
  "scepfsdWrite c fd ptr sz =
     bindM (loopM (write_chunk c fd ptr sz) 0) (\<lambda>(early, chunked_size).
     case early of Some r \<Rightarrow> retM r
     | None \<Rightarrow>
         bindM (write_once c fd ptr 0 (as_int (size_left sz chunked_size))) (\<lambda>ret.
         retM (to_s32 (ret + chunked_size))))"

end
