(* ===== verification/Client_Props.thy ===== *)
theory Client_Props
  imports Pfsd_Client Ghost Pfsd
begin

text \<open>
  The lock of the client library: between two requests it is free, and the socket and the
  shared memory are used only while it is held.
\<close>

text \<open>Calls on what the clients share.\<close>

fun shared_channel :: "call \<Rightarrow> bool" where
  "shared_channel (Ipc (Sock_send fd s)) = True"
| "shared_channel (Ipc (Sock_recv fd n)) = True"
| "shared_channel (Ipc (Shm_read n)) = True"
| "shared_channel (Ipc (Shm_write s)) = True"
| "shared_channel _ = False"

record lock_state =
  lk_held :: bool
  lk_fine :: bool

text \<open>
  The state of the semaphore \<open>sem\<close> after a history, and whether every step so far was in order:
  no second acquisition, no release without one, no use of the channel outside.
\<close>

definition lock_step :: "int \<Rightarrow> lock_state \<Rightarrow> call \<times> reply \<Rightarrow> lock_state" where
  "lock_step sem L = (\<lambda>(c, r).
     if c = Ipc (Sem_op sem (- 1)) then \<lparr>lk_held = True, lk_fine = lk_fine L \<and> \<not> lk_held L\<rparr>
     else if c = Ipc (Sem_op sem 1) then \<lparr>lk_held = False, lk_fine = lk_fine L \<and> lk_held L\<rparr>
     else if shared_channel c then L\<lparr>lk_fine := lk_fine L \<and> lk_held L\<rparr>
     else L)"

definition unlocked :: lock_state where
  "unlocked = \<lparr>lk_held = False, lk_fine = True\<rparr>"

definition locked :: lock_state where
  "locked = \<lparr>lk_held = True, lk_fine = True\<rparr>"

definition lock_after :: "int \<Rightarrow> trace \<Rightarrow> lock_state" where
  "lock_after sem tr = foldl (lock_step sem) unlocked tr"

lemma lock_step_simps [simp]:
  "lock_step sem unlocked (Ipc (Sem_op sem (- 1)), r) = locked"
  "lock_step sem locked (Ipc (Sem_op sem 1), r) = unlocked"
  "shared_channel c \<Longrightarrow> lock_step sem locked (c, r) = locked"
  by (auto simp: lock_step_def unlocked_def locked_def)

text \<open>A program that starts and ends with the lock free.\<close>

definition keeps_lock :: "pfsd_client \<Rightarrow> 'a io \<Rightarrow> bool" where
  "keeps_lock c m = gwp (lock_step (cl_SemID c)) m (\<lambda>_ L. L = unlocked) unlocked"

lemma lock_gwp [gwp]:
  "Q () locked \<Longrightarrow> gwp (lock_step (cl_SemID c)) (RequireLock c) Q unlocked"
  "Q () unlocked \<Longrightarrow> gwp (lock_step (cl_SemID c)) (ReleaseLock c) Q locked"
  "Q () locked \<Longrightarrow> gwp (lock_step (cl_SemID c)) (SendRequest c op) Q locked"
  "(\<And>i. R i locked) \<Longrightarrow> gwp (lock_step (cl_SemID c)) (ReceiveReply c) R locked"
  "(\<And>i. R i locked) \<Longrightarrow> gwp (lock_step (cl_SemID c)) (ReceiveReplyLong c) R locked"
  "(\<And>i. R i locked) \<Longrightarrow> gwp (lock_step (cl_SemID c)) (ReceiveReplyLongLong c) R locked"
  "Q () locked \<Longrightarrow> gwp (lock_step (cl_SemID c)) (shm_put c s n) Q locked"
  "(\<And>s. S s locked) \<Longrightarrow> gwp (lock_step (cl_SemID c)) (shm_get c n) S locked"
  by (auto simp: RequireLock_def ReleaseLock_def SendRequest_def ReceiveReply_def ReceiveReplyLong_def
      ReceiveReplyLongLong_def receive_def shm_put_def shm_get_def intro!: gwp)

lemma put_get_gwp [gwp]:
  "Q () locked \<Longrightarrow> gwp (lock_step (cl_SemID c)) (put_arg c arg n) Q locked"
  "(\<And>s. S s locked) \<Longrightarrow> gwp (lock_step (cl_SemID c)) (get_buf c buf m) S locked"
  by (auto simp: put_arg_def get_buf_def intro!: gwp)

lemma exchange_gwp [gwp]:
  "(\<And>i. R i unlocked) \<Longrightarrow> gwp (lock_step (cl_SemID c)) (plain_exchange c op) R unlocked"
  "(\<And>i. S i unlocked) \<Longrightarrow>
     gwp (lock_step (cl_SemID c)) (data_exchange c op arg arglen buf buflen) S unlocked"
  by (auto simp: plain_exchange_def data_exchange_def intro!: gwp)

lemma chunk_gwp [gwp]:
  "(\<And>i. S i unlocked) \<Longrightarrow> gwp (lock_step (cl_SemID c)) (read_once c fd ptr k n) S unlocked"
  "(\<And>i. R i unlocked) \<Longrightarrow> gwp (lock_step (cl_SemID c)) (write_once c fd ptr k n) R unlocked"
  by (auto simp: read_once_def write_once_def overwrite_def intro!: gwp)

lemma chunks_gwp [gwp]:
  assumes "\<And>v. Q v unlocked" "\<And>v. R v unlocked"
  shows "gwp (lock_step (cl_SemID c)) (loopM (read_chunk c fd sz) s) Q unlocked"
    and "gwp (lock_step (cl_SemID c)) (loopM (write_chunk c fd ptr sz) k) R unlocked"
  by (rule gwp_loopM [where I = "\<lambda>_ L. L = unlocked"],
      auto simp: read_chunk_def write_chunk_def assms intro!: gwp)+

text \<open>A call of the library, described by the operation it asks for and its data.\<close>

fun client_call :: "pfsd_client \<Rightarrow> pfs_op \<Rightarrow> string option \<Rightarrow> int io" where
  "client_call c (Op_open n f m) ptr = scepfsdOpen c n f m"
| "client_call c (Op_lseek fd off w) ptr = scepfsdLseek c fd off w"
| "client_call c (Op_lseek64 fd off w) ptr = scepfsdLseek64 c fd off w"
| "client_call c (Op_read fd p n) ptr = bindM (scepfsdRead c fd ptr (word_of_int n)) (\<lambda>(r, _). retM r)"
| "client_call c (Op_write fd p n) ptr = scepfsdWrite c fd ptr (word_of_int n)"
| "client_call c (Op_close fd) ptr = scepfsdClose c fd"
| "client_call c (Op_dopen n) ptr = scepfsdDopen c n"
| "client_call c (Op_dread fd p) ptr = bindM (scepfsdDread c fd p) (\<lambda>(r, _). retM r)"
| "client_call c (Op_dclose fd) ptr = scepfsdDclose c fd"
| "client_call c (Op_chstat n p m) ptr = scepfsdChstat c n ptr m"
| "client_call c (Op_getstat n p) ptr = bindM (scepfsdGetstat c n p) (\<lambda>(r, _). retM r)"
| "client_call c (Op_mkdir n m) ptr = scepfsdMkdir c n m"
| "client_call c (Op_rmdir n) ptr = scepfsdRmdir c n"
| "client_call c (Op_chdir n) ptr = scepfsdChdir c n"
| "client_call c (Op_remove n) ptr = scepfsdRemove c n"
| "client_call c (Op_rename a b) ptr = scepfsdRename c a b"
| "client_call c (Op_ioctl fd cmd p) ptr = scepfsdIoctl c fd cmd ptr"
| "client_call c (Op_ioctl2 fd cmd p n q m) ptr =
     bindM (scepfsdIoctl2 c fd cmd (case ptr of None \<Rightarrow> No_arg | Some s \<Rightarrow> Text_arg s) (nat n) q (nat m))
       (\<lambda>(r, _). retM r)"
| "client_call c (Op_symlink a b) ptr = scepfsdSymlink c a b"
| "client_call c (Op_readlink n p m) ptr = bindM (scepfsdReadlink c n p (nat m)) (\<lambda>(r, _). retM r)"
| "client_call c (Op_sync n f) ptr = scepfsdSync c n f"
| "client_call c (Op_format d b p n) ptr = scepfsdFormat c d b ptr (nat n)"
| "client_call c (Op_mount f d l p n) ptr = scepfsdMount c f d l ptr (nat n)"
| "client_call c (Op_umount n) ptr = scepfsdUmount c n"
| "client_call c (Op_devctl n cmd p l q m) ptr =
     bindM (scepfsdDevctl c n cmd ptr (nat l) q (nat m)) (\<lambda>(r, _). retM r)"
| "client_call c (Op_setreadahead e) ptr = scepfsdSetReadAhead c e"
| "client_call c Op_getreadahead ptr = scepfsdGetReadAhead c"
| "client_call c (Op_getmountpoint n) ptr =
     bindM (scepfsdGetMountPoint c n (map_option length ptr)) (\<lambda>(r, _). retM r)"
| "client_call c (Op_transfer fd s t z m p) ptr =
     bindM (scepfsdIoctl2 c fd 0x6832 (Transfer_arg
       \<lparr>xf_sub = s, xf_sector = t, xf_size = z, xf_mode = m, xf_buffer = ptr\<rparr>) 0 False 0)
       (\<lambda>(r, _). retM r)"

lemmas client_defs = scepfsdOpen_def scepfsdLseek_def scepfsdLseek64_def scepfsdRead_def
  scepfsdWrite_def scepfsdClose_def scepfsdDopen_def scepfsdDread_def scepfsdDclose_def
  scepfsdChstat_def scepfsdGetstat_def scepfsdMkdir_def scepfsdRmdir_def scepfsdChdir_def
  scepfsdRemove_def scepfsdRename_def scepfsdIoctl_def scepfsdIoctl2_def
  scepfsdIoctl2_transfer_def scepfsdSymlink_def scepfsdReadlink_def scepfsdSync_def
  scepfsdFormat_def scepfsdMount_def scepfsdUmount_def scepfsdDevctl_def
  scepfsdSetReadAhead_def scepfsdGetReadAhead_def scepfsdGetMountPoint_def
  name_exchange_def names_exchange_def

lemma client_call_gwp [gwp]:
  assumes "\<And>i. R i unlocked"
  shows "gwp (lock_step (cl_SemID c)) (client_call c op ptr) R unlocked"
  by (cases op; cases ptr) (auto simp: client_defs Let_def assms intro!: gwp)

text \<open>A client's session: one call after the other.\<close>

fun client_session :: "pfsd_client \<Rightarrow> (pfs_op \<times> string option) list \<Rightarrow> int list io" where
  "client_session c [] = retM []"
| "client_session c ((op, ptr) # calls) =
     bindM (client_call c op ptr) (\<lambda>r. bindM (client_session c calls) (\<lambda>rs. retM (r # rs)))"

lemma client_session_gwp:
  "(\<And>v. R v unlocked) \<Longrightarrow> gwp (lock_step (cl_SemID c)) (client_session c calls) R unlocked"
proof (induction calls arbitrary: R)
  case (Cons call calls)
  then show ?case by (cases call) (simp add: gwp_bind gwp_basic client_call_gwp)
qed (simp add: gwp)

text \<open>C11. The client library's locking: over any sequence of calls, whatever the daemon answers,
  requests, replies and shared memory are touched only while the lock is held, the lock is never
  taken twice or released without being held, and it is free when a call returns.\<close>

theorem client_locking:
  "wp (client_session c calls) E (\<lambda>_ tr. lock_after (cl_SemID c) tr = unlocked) []"
  unfolding lock_after_def
  by (rule gwp_wp) (auto intro!: client_session_gwp)

subsection \<open>The last chunk\<close>

text \<open>
  A daemon with four bytes of shared memory that answers a read with \<open>abcd\<close> first and \<open>ef\<close> then: the
  second chunk is copied over the first.
\<close>

definition two_chunks :: env where
  "two_chunks = \<lparr>answer = (\<lambda>tr c. case c of
      Ipc (Sock_recv fd n) \<Rightarrow> code_data 4 (f_int (if length tr < 5 then 4 else 2))
    | Ipc (Shm_read n) \<Rightarrow> code_data 0 (if length tr < 5 then ''abcd'' else ''ef'')
    | _ \<Rightarrow> code 0), fuel = 2\<rparr>"

lemma got_int: "got (code_data 4 (f_int i)) = f_int i"
  by (simp add: got_def code_data_def)

lemma two_chunks_read:
  assumes "cl_SharedMemorySize c = 4" "k + n \<le> length buf"
    and "length tr = 0 \<and> n = 4 \<and> s = ''abcd'' \<or> length tr = 5 \<and> n = 2 \<and> s = ''ef''"
  shows "\<exists>evs. length evs = 5 \<and> read_once c fd (Some buf) k (int n) two_chunks tr =
    (Done (int n, Some (take k buf @ s @ drop (k + length s) buf)), tr @ evs)"
proof -
  have g: "g_int 0 (f_int 4) = 4" "g_int 0 (f_int 2) = 2" by (simp_all add: in_int_def)
  show ?thesis
    using assms(2,3)
    by (elim disjE conjE)
      (simp_all add: read_once_def overwrite_def RequireLock_def ReleaseLock_def SendRequest_def
        ReceiveReply_def receive_def shm_get_def two_chunks_def io_simps assms(1) got_int g)
qed

theorem read_last_chunk_misplaced:
  assumes "cl_SharedMemorySize c = 4"
  shows "fst (scepfsdRead c 5 (Some ''......'') 6 two_chunks []) = Done (6, Some ''efcd..'')"
proof -
  let ?once = "\<lambda>b n. read_once c 5 (Some b) 0 n"
  obtain tr where 1: "length tr = 5" "?once ''......'' 4 two_chunks [] = (Done (4, Some ''abcd..''), tr)"
    using two_chunks_read [OF assms, of 0 4 "''......''" "[]" "''abcd''" 5] by auto
  obtain tr' where 2: "?once ''abcd..'' 2 two_chunks tr = (Done (2, Some ''efcd..''), tr')"
    using two_chunks_read [OF assms, of 0 2 "''abcd..''" tr "''ef''" 5] 1(1) by auto
  have it: "iterM 2 b s = bindM (b s) (\<lambda>x. case x of Inl s' \<Rightarrow> bindM (b s') (\<lambda>x. case x of
      Inl s' \<Rightarrow> stuckM | Inr r \<Rightarrow> retM r) | Inr r \<Rightarrow> retM r)"
    for b :: "int \<times> string option \<Rightarrow> _" and s
    unfolding numeral_2_eq_2 iterM.simps
    by (intro arg_cong [where f = "bindM (b s)"] ext) (simp split: sum.split)
  have f: "fuel two_chunks = 2" by (simp add: two_chunks_def)
  have r1: "read_chunk c 5 6 (0, Some ''......'') two_chunks [] = (Done (Inl (4, Some ''abcd..'')), tr)"
    using 1 by (simp add: read_chunk_def bindM_def size_left_def as_int_def assms retM_def)
  have r2: "read_chunk c 5 6 (4, Some ''abcd..'') = retM (Inr (None, 4, Some ''abcd..''))"
    by (simp add: read_chunk_def size_left_def as_int_def assms)
  have "loopM (read_chunk c 5 6) (0, Some ''......'') two_chunks [] =
      (Done (None, 4, Some ''abcd..''), tr)"
    unfolding loopM_def f it by (simp add: bindM_def r1 r2 retM_def)
  then show ?thesis
    using 2 by (simp add: scepfsdRead_def bindM_def size_left_def as_int_def retM_def)
qed

subsection \<open>Client and daemon together\<close>

lemma receive_int:
  assumes "got (answer E tr (Ipc (Sock_recv (cl_Cfd c) 4))) = f_int r" "in_int r"
  shows "ReceiveReply c E tr =
    (Done r, tr @ [(Ipc (Sock_recv (cl_Cfd c) 4), answer E tr (Ipc (Sock_recv (cl_Cfd c) 4)))])"
  using assms by (simp add: ReceiveReply_def receive_def io_simps)


definition always :: "reply \<Rightarrow> env" where
  "always r = \<lparr>answer = (\<lambda>tr c. r), fuel = 0\<rparr>"


end
