(* ===== verification/Fuse_Adapter.thy ===== *)
theory Fuse_Adapter
  imports Modes Time_Conv Hl Atad
begin

text \<open>
  The FUSE file system (\<open>src/src/iomanx_adapter.c\<close>): each operation of \<open>iomanx_adapter_operations\<close>
  translates its arguments, makes one or a few calls of iomanX and translates what comes back.
  An operation without a file handle gets \<open>fi = NULL\<close>, here \<open>None\<close>. Local variables the code does
  not initialise are parameters (\<open>timeinfo\<close>, \<open>junk\<close>).
\<close>

subsection \<open>Paths, flags and stat structures\<close>

definition IOMANX_MOUNT_POINT :: string where "IOMANX_MOUNT_POINT = ''pfs0:''"

text \<open>\<open>strncpy\<close> and \<open>strncat\<close>, both with the size of the whole buffer of 1024 bytes.\<close>

definition translate_path :: "string \<Rightarrow> string io" where
  "translate_path path = bufM 1024 (IOMANX_MOUNT_POINT @ ''/'' @ take 1024 path)"

definition O_ACCMODE :: u32 where "O_ACCMODE = 3"
definition O_EXCL :: u32 where "O_EXCL = 0x80"
definition O_TRUNC :: u32 where "O_TRUNC = 0x200"
definition O_APPEND :: u32 where "O_APPEND = 0x400"
definition O_NONBLOCK :: u32 where "O_NONBLOCK = 0x800"

definition open_flags :: "u32 \<Rightarrow> u32" where
  "open_flags fl =
     (let f = 0;
          f = or_if (fl AND O_ACCMODE = O_RDONLY) FIO_O_RDONLY f;
          f = or_if (fl AND O_ACCMODE = O_WRONLY) FIO_O_WRONLY f;
          f = or_if (fl AND O_ACCMODE = O_RDWR) FIO_O_RDWR f;
          f = or_if (fl AND O_NONBLOCK \<noteq> 0) FIO_O_NBLOCK f;
          f = or_if (fl AND O_APPEND \<noteq> 0) FIO_O_APPEND f;
          f = or_if (fl AND O_CREAT \<noteq> 0) FIO_O_CREAT f;
          f = or_if (fl AND O_TRUNC \<noteq> 0) FIO_O_TRUNC f
      in or_if (fl AND O_EXCL \<noteq> 0) FIO_O_EXCL f)"

definition create_flags :: "u32 \<Rightarrow> u32" where
  "create_flags fl =
     (let f = 0;
          f = or_if (fl AND O_ACCMODE = O_RDONLY) FIO_O_RDONLY f;
          f = or_if (fl AND O_ACCMODE = O_WRONLY) FIO_O_WRONLY f;
          f = or_if (fl AND O_ACCMODE = O_RDWR) FIO_O_RDWR f;
          f = or_if (fl AND O_NONBLOCK \<noteq> 0) FIO_O_NBLOCK f;
          f = or_if (fl AND O_APPEND \<noteq> 0) FIO_O_APPEND f;
          f = f OR FIO_O_CREAT;
          f = or_if (fl AND O_TRUNC \<noteq> 0) FIO_O_TRUNC f
      in or_if (fl AND O_EXCL \<noteq> 0) FIO_O_EXCL f)"

text \<open>The size of a file is a signed 64-bit number on the host.\<close>

definition convert_stat_to_posix :: "iox_stat \<Rightarrow> posix_stat" where
  "convert_stat_to_posix st = \<lparr>ps_mode = fuse_mode_to_posix (st_mode st),
     ps_size = sint (ucast (st_size st) OR push_bit 32 (ucast (st_hisize st)) :: u64),
     ps_ctime = convert_time_to_posix (st_ctime st),
     ps_atime = convert_time_to_posix (st_atime st),
     ps_mtime = convert_time_to_posix (st_mtime st)\<rparr>"

definition convert_stat_to_iomanx :: "tm \<Rightarrow> posix_stat \<Rightarrow> iox_stat" where
  "convert_stat_to_iomanx timeinfo ps = zero_stat\<lparr>
     st_size := word_of_int (ps_size ps AND 0xffffffff),
     st_hisize := word_of_int (drop_bit 32 (ps_size ps) AND 0xffffffff),
     st_mode := fuse_mode_to_iomanx (ps_mode ps),
     st_ctime := convert_time_to_iomanx timeinfo (ps_ctime ps),
     st_atime := convert_time_to_iomanx timeinfo (ps_atime ps),
     st_mtime := convert_time_to_iomanx timeinfo (ps_mtime ps)\<rparr>"

subsection \<open>Files\<close>

text \<open>What FUSE passes in \<open>fuse_file_info\<close>: the flags of \<open>open\<close>, or the handle.\<close>

type_synonym fi = "u32 option"

definition ENOENT :: int where "ENOENT = 2"

text \<open>\<open>open\<close> and \<open>create\<close> return the code and the handle to store.\<close>

definition iomanx_adapter_open :: "string \<Rightarrow> fi \<Rightarrow> (int \<times> u32 option) io" where
  "iomanx_adapter_open path fi =
     (case fi of None \<Rightarrow> retM (0, None)
      | Some flags \<Rightarrow>
          bindM (translate_path path) (\<lambda>translated_path.
          bindM (codeM (Ix_open translated_path (open_flags flags) 0)) (\<lambda>fh.
          if fh < 0 then retM (fh, None) else retM (0, Some (to_u32 fh)))))"

definition iomanx_adapter_create :: "string \<Rightarrow> u32 \<Rightarrow> fi \<Rightarrow> (int \<times> u32 option) io" where
  "iomanx_adapter_create path mode fi =
     (case fi of None \<Rightarrow> retM (0, None)
      | Some flags \<Rightarrow>
          bindM (translate_path path) (\<lambda>translated_path.
          bindM (codeM (Ix_open translated_path (create_flags flags) (fuse_mode_to_iomanx mode))) (\<lambda>fh.
          if fh < 0 then retM (fh, None) else retM (0, Some (to_u32 fh)))))"

text \<open>An error code is passed on, anything else is 0.\<close>

definition zero_or_error :: "call \<Rightarrow> int io" where
  "zero_or_error c = bindM (codeM c) (\<lambda>res. if res < 0 then retM res else retM 0)"

definition iomanx_adapter_fsync :: "string \<Rightarrow> int \<Rightarrow> fi \<Rightarrow> int io" where
  "iomanx_adapter_fsync path isdatasync fi =
     (case fi of None \<Rightarrow> retM 0
      | Some fh \<Rightarrow> bindM (translate_path path) (\<lambda>p. zero_or_error (Ix_sync p isdatasync)))"

text \<open>The handle is stored as a \<open>uint64_t\<close> and passed to iomanX as an \<open>int\<close>.\<close>

definition iomanx_adapter_release :: "string \<Rightarrow> fi \<Rightarrow> int io" where
  "iomanx_adapter_release path fi =
     (case fi of None \<Rightarrow> retM 0 | Some fh \<Rightarrow> zero_or_error (Ix_close (sint fh)))"

text \<open>The position iomanX returns is cut down to an \<open>int\<close>; -48 is \<open>lseek64\<close> not supported.\<close>

definition iomanx_adapter_lseek :: "int \<Rightarrow> int \<Rightarrow> fi \<Rightarrow> int io" where
  "iomanx_adapter_lseek offset whence fi =
     (case fi of None \<Rightarrow> retM (- ENOENT)
      | Some fh \<Rightarrow>
          bindM (codeM (Ix_lseek64 (sint fh) offset whence)) (\<lambda>r.
          if to_s32 r = - 48 then codeM (Ix_lseek (sint fh) (to_s32 offset) whence)
          else retM (to_s32 r)))"

definition iomanx_adapter_read :: "nat \<Rightarrow> int \<Rightarrow> fi \<Rightarrow> (int \<times> string) io" where
  "iomanx_adapter_read sz offset fi =
     bindM (iomanx_adapter_lseek offset FIO_SEEK_SET fi) (\<lambda>res.
     if res < 0 then retM (res, [])
     else case fi of None \<Rightarrow> faultM
       | Some fh \<Rightarrow> bindM (callM (Ix_read (sint fh) sz)) (\<lambda>r. retM (rp_ret r, rp_data r)))"

definition iomanx_adapter_write :: "string \<Rightarrow> int \<Rightarrow> fi \<Rightarrow> int io" where
  "iomanx_adapter_write buf offset fi =
     bindM (iomanx_adapter_lseek offset FIO_SEEK_SET fi) (\<lambda>res.
     if res < 0 then retM res
     else case fi of None \<Rightarrow> faultM | Some fh \<Rightarrow> codeM (Ix_write (sint fh) buf))"

definition iomanx_adapter_ftruncate :: "int \<Rightarrow> fi \<Rightarrow> int io" where
  "iomanx_adapter_ftruncate offset fi =
     bindM (iomanx_adapter_lseek offset FIO_SEEK_SET fi) (\<lambda>res.
     if res < 0 then retM res else retM 0)"

subsection \<open>The file system\<close>

text \<open>
  The fields of \<open>statvfs\<close> that are set, all unsigned: block size, blocks, free blocks and the
  longest name. The tests for a negative value never succeed.
\<close>

record statvfs =
  f_bsize :: u64
  f_blocks :: u64
  f_bfree :: u64
  f_namemax :: nat

definition iomanx_adapter_statfs :: "int \<Rightarrow> (int \<times> statvfs) io" where
  "iomanx_adapter_statfs totalsectors =
     bindM (codeM (Ix_devctl IOMANX_MOUNT_POINT PDIOC_ZONESZ No_arg 0)) (\<lambda>zone.
     let bsize = word_of_int zone :: u64 in
     if bsize div 512 = 0 then faultM
     else
       bindM (codeM (Ix_devctl IOMANX_MOUNT_POINT PDIOC_ZONEFREE No_arg 0)) (\<lambda>free.
       retM (0, \<lparr>f_bsize = bsize, f_blocks = word_of_int totalsectors div (bsize div 512),
         f_bfree = word_of_int free, f_namemax = 255\<rparr>)))"

definition iomanx_adapter_unlink :: "string \<Rightarrow> int io" where
  "iomanx_adapter_unlink path = bindM (translate_path path) (\<lambda>p. zero_or_error (Ix_remove p))"

definition iomanx_adapter_mkdir :: "string \<Rightarrow> u32 \<Rightarrow> int io" where
  "iomanx_adapter_mkdir path mode =
     bindM (translate_path path) (\<lambda>p. zero_or_error (Ix_mkdir p (fuse_mode_to_iomanx mode)))"

definition iomanx_adapter_rmdir :: "string \<Rightarrow> int io" where
  "iomanx_adapter_rmdir path = bindM (translate_path path) (\<lambda>p. zero_or_error (Ix_rmdir p))"

definition iomanx_adapter_rename :: "string \<Rightarrow> string \<Rightarrow> int io" where
  "iomanx_adapter_rename from to =
     bindM (translate_path from) (\<lambda>translated_from.
     bindM (translate_path to) (\<lambda>translated_to.
     zero_or_error (Ix_rename translated_from translated_to)))"

text \<open>The target of a link is translated like a path.\<close>

definition iomanx_adapter_symlink :: "string \<Rightarrow> string \<Rightarrow> int io" where
  "iomanx_adapter_symlink from to =
     bindM (translate_path from) (\<lambda>translated_from.
     bindM (translate_path to) (\<lambda>translated_to.
     zero_or_error (Ix_symlink translated_from translated_to)))"

definition iomanx_adapter_readlink :: "string \<Rightarrow> nat \<Rightarrow> (int \<times> string) io" where
  "iomanx_adapter_readlink path sz =
     bindM (translate_path path) (\<lambda>p.
     bindM (callM (Ix_readlink p (sz - 1))) (\<lambda>r.
     if rp_ret r < 0 then retM (rp_ret r, [])
     else bindM (bufM sz (take (nat (rp_ret r)) (rp_data r))) (\<lambda>s. retM (0, s))))"

text \<open>Directory entries go to \<open>filler\<close> until it is full; the last result of \<open>dread\<close> is returned.\<close>

definition readdir_body :: "int \<Rightarrow> unit \<Rightarrow> (unit + int) io" where
  "readdir_body dp = (\<lambda>_.
     bindM (callM (Ix_dread dp)) (\<lambda>r.
     if rp_ret r \<noteq> 0 \<and> rp_ret r \<noteq> - 1 then
       bindM (codeM (Fuse (Fuse_fill (rp_data r) (convert_stat_to_posix (rp_stat r))))) (\<lambda>full.
       if full \<noteq> 0 then retM (Inr (rp_ret r)) else retM (Inl ()))
     else retM (Inr (rp_ret r))))"

definition iomanx_adapter_readdir :: "string \<Rightarrow> int io" where
  "iomanx_adapter_readdir path =
     bindM (translate_path path) (\<lambda>p.
     bindM (codeM (Ix_dopen p)) (\<lambda>dp.
     if dp < 0 then retM dp
     else
       bindM (loopM (readdir_body dp) ()) (\<lambda>res.
       bindM (doM (Ix_close dp)) (\<lambda>_. retM res))))"

definition iomanx_adapter_getattr :: "string \<Rightarrow> (int \<times> posix_stat option) io" where
  "iomanx_adapter_getattr path =
     bindM (translate_path path) (\<lambda>p.
     bindM (callM (Ix_getstat p)) (\<lambda>r.
     if rp_ret r < 0 then retM (rp_ret r, None)
     else retM (0, Some (convert_stat_to_posix (rp_stat r)))))"

definition iomanx_adapter_chmod :: "tm \<Rightarrow> posix_stat \<Rightarrow> string \<Rightarrow> u32 \<Rightarrow> int io" where
  "iomanx_adapter_chmod timeinfo junk path mode =
     bindM (translate_path path) (\<lambda>p.
     zero_or_error (Ix_chstat p (convert_stat_to_iomanx timeinfo (junk\<lparr>ps_mode := mode\<rparr>)) FIO_CST_MODE))"

definition iomanx_adapter_utimens :: "tm \<Rightarrow> iox_stat \<Rightarrow> string \<Rightarrow> int \<Rightarrow> int \<Rightarrow> int io" where
  "iomanx_adapter_utimens timeinfo junk path atime mtime =
     bindM (translate_path path) (\<lambda>p.
     zero_or_error (Ix_chstat p (junk\<lparr>st_atime := convert_time_to_iomanx timeinfo atime,
       st_mtime := convert_time_to_iomanx timeinfo mtime\<rparr>) (FIO_CST_AT OR FIO_CST_MT)))"

definition iomanx_adapter_init :: "unit io" where
  "iomanx_adapter_init = retM ()"

definition iomanx_adapter_destroy :: "atad \<Rightarrow> unit io" where
  "iomanx_adapter_destroy disk =
     bindM (doM (Ix_umount IOMANX_MOUNT_POINT)) (\<lambda>_.
     bindM (atad_close disk) (\<lambda>_. retM ()))"


subsection \<open>The program\<close>

text \<open>
  The options. \<open>fuse_opt_parse\<close> is code of the FUSE library: it fills the structure and calls
  \<open>iomanx_adapter_opt_proc\<close> for every other argument. The first one that is not an option is
  the device and is taken from the arguments; 1 keeps an argument, \<open>None\<close> is \<open>abort\<close>.
\<close>

record options =
  opt_device :: string
  opt_partition :: string
  opt_maxopen :: string
  opt_numbuffers :: string
  opt_show_help :: bool

definition options_default :: options where
  "options_default = \<lparr>opt_device = [], opt_partition = ''__common'', opt_maxopen = ''32'',
     opt_numbuffers = ''127'', opt_show_help = False\<rparr>"

definition FUSE_OPT_KEY_OPT :: int where "FUSE_OPT_KEY_OPT = - 1"
definition FUSE_OPT_KEY_NONOPT :: int where "FUSE_OPT_KEY_NONOPT = - 2"

definition iomanx_adapter_opt_proc :: "string \<Rightarrow> int \<Rightarrow> options \<Rightarrow> (int \<times> options) option" where
  "iomanx_adapter_opt_proc arg key opts =
     (if key = FUSE_OPT_KEY_OPT then Some (1, opts)
      else if key = FUSE_OPT_KEY_NONOPT then
        if length (opt_device opts) = 0 then Some (0, opts\<lparr>opt_device := arg\<rparr>) else Some (1, opts)
      else None)"

text \<open>The sectors of the main partition and its sub-partitions, summed up in an \<open>int\<close>.\<close>

fun sum_sectors :: "int \<Rightarrow> nat list \<Rightarrow> int \<Rightarrow> int io" where
  "sum_sectors fd [] acc = retM acc"
| "sum_sectors fd (i # is) acc =
     bindM (codeM (Ix_ioctl2 fd HIOCGETSIZE (Int_arg (word_of_nat i)) 4)) (\<lambda>n.
     sum_sectors fd is (to_s32 (acc + n)))"

text \<open>\<open>main\<close> from the parsed options on. Diagnostics on standard error are not modelled.\<close>

definition fuse_help :: "string \<Rightarrow> unit io" where
  "fuse_help progname =
     putsM (''usage: '' @ progname @ '' [options] <disk> <mountpoint>'' @ nl @ nl @
       ''File-system specific options:'' @ nl @
       ''    --partition=<s>      PFS partition in APA to mount'' @ nl @
       ''                         (default '' @ [CHR 0x22] @ ''__common'' @ [CHR 0x22] @ '')'' @ nl @
       ''    --maxopen=<d>        Maximum number of files that can be opened at one time'' @ nl @
       ''                         (default '' @ [CHR 0x22] @ ''32'' @ [CHR 0x22] @ '', max '' @
       [CHR 0x22] @ ''32'' @ [CHR 0x22] @ '')'' @ nl @
       ''    --numbuffers=<d>     Maximum number of buffers'' @ nl @
       ''                         (default '' @ [CHR 0x22] @ ''127'' @ [CHR 0x22] @ '', max '' @
       [CHR 0x22] @ ''127'' @ [CHR 0x22] @ '')'' @ nl @ nl)"

definition fuse_mount :: "string \<Rightarrow> (int \<times> int) io" where
  "fuse_mount part =
     (let mount_point = ''hdd0:'' @ take 250 part in
      bindM (codeM (Ix_open mount_point FIO_O_RDONLY 0)) (\<lambda>fd.
      bindM (codeM (Ix_ioctl2 fd HIOCNSUB No_arg 0)) (\<lambda>nsub.
      bindM (sum_sectors fd [0..<nat (nsub + 1)] 0) (\<lambda>totalsectors.
      bindM (doM (Ix_close fd)) (\<lambda>_.
      bindM (codeM (Ix_mount IOMANX_MOUNT_POINT mount_point 0)) (\<lambda>result.
      retM (result, totalsectors)))))))"

text \<open>
  \<open>fuse_args\<close> is what \<open>fuse_opt_parse\<close> left of the arguments; with the help option the program
  name is cleared in it, so that FUSE prints its own options only.
\<close>

definition fuse_program :: "string \<Rightarrow> string list \<Rightarrow> options \<Rightarrow> int io" where
  "fuse_program progname fuse_args opts =
     bindM (if opt_device opts = [] \<or> opt_show_help opts then
         bindM (fuse_help progname) (\<lambda>_.
         bindM (codeM (Fuse (Fuse_add_arg ''--help''))) (\<lambda>r.
         retM (r, ([] # tl fuse_args) @ [''--help''])))
       else retM (0, fuse_args)) (\<lambda>(added, fuse_args).
     if added \<noteq> 0 then retM 1
     else
       bindM (set_atad_device_path (opt_device opts) atad_boot) (\<lambda>disk.
       bindM (codeM (Init_apa [''ps2hdd.irx''])) (\<lambda>result.
       if result < 0 then retM 1
       else
         bindM (codeM (Init_pfs [''pfs.irx'', ''-m'', ''1'', ''-o'', opt_maxopen opts, ''-n'',
           opt_numbuffers opts])) (\<lambda>result.
         if result < 0 then retM 1
         else
           bindM (fuse_mount (opt_partition opts)) (\<lambda>(result, totalsectors).
           if result < 0 then retM 1
           else codeM (Fuse (Fuse_main fuse_args)))))))"

end
