(* ===== verification/Positioned.thy ===== *)
theory Positioned
  imports Prog
begin

text \<open>
  Files with a position, and the programs that use them as arrays of bytes. A classifier says
  which calls are a seek, a read or a write of the file in question; a driver \<open>honours\<close> the
  file when its answers are those of a file with a position and contents, which \<open>file_step\<close>
  computes from the history. A program that first seeks and then transfers implements
  positioned access: the locale \<open>positioned\<close> carries that from one transfer to any sequence
  of them.
\<close>

subsection \<open>Files\<close>

definition pread :: "string \<Rightarrow> nat \<Rightarrow> nat \<Rightarrow> string" where
  "pread bs n pos = take n (drop pos bs)"

definition pwrite :: "string \<Rightarrow> string \<Rightarrow> nat \<Rightarrow> string" where
  "pwrite bs buf pos =
     (if buf = [] then bs
      else take pos (bs @ replicate (pos - length bs) (CHR 0x00)) @ buf @ drop (pos + length buf) bs)"

datatype file_op = Seek_to nat | Read_next nat | Write_next string

type_synonym classifier = "call \<Rightarrow> file_op option"

fun file_op_step :: "file_op \<Rightarrow> nat \<times> string \<Rightarrow> nat \<times> string" where
  "file_op_step (Seek_to off) (pos, bs) = (off, bs)"
| "file_op_step (Read_next n) (pos, bs) = (pos + length (pread bs n pos), bs)"
| "file_op_step (Write_next buf) (pos, bs) = (pos + length buf, pwrite bs buf pos)"

definition file_step :: "classifier \<Rightarrow> nat \<times> string \<Rightarrow> call \<times> reply \<Rightarrow> nat \<times> string" where
  "file_step cls s e = (case cls (fst e) of None \<Rightarrow> s | Some op \<Rightarrow> file_op_step op s)"

definition file_at :: "classifier \<Rightarrow> string \<Rightarrow> trace \<Rightarrow> nat \<times> string" where
  "file_at cls bs tr = foldl (file_step cls) (0, bs) tr"

text \<open>The answer a file at a position gives.\<close>

fun file_answer :: "file_op \<Rightarrow> nat \<times> string \<Rightarrow> reply \<Rightarrow> bool" where
  "file_answer (Seek_to off) (pos, bs) r = (rp_ret r = int off)"
| "file_answer (Read_next n) (pos, bs) r =
     (rp_ret r = int (length (pread bs n pos)) \<and> rp_data r = pread bs n pos)"
| "file_answer (Write_next buf) (pos, bs) r = (rp_ret r = int (length buf))"

definition honours :: "env \<Rightarrow> classifier \<Rightarrow> string \<Rightarrow> bool" where
  "honours E cls bs0 = (\<forall>tr c op. cls c = Some op \<longrightarrow> file_answer op (file_at cls bs0 tr) (answer E tr c))"

lemma honoursD:
  "honours E cls bs0 \<Longrightarrow> cls c = Some op \<Longrightarrow> file_at cls bs0 tr = s \<Longrightarrow> file_answer op s (answer E tr c)"
  by (auto simp: honours_def)

lemma honours_seek:
  "honours E cls bs0 \<Longrightarrow> cls c = Some (Seek_to off) \<Longrightarrow> rp_ret (answer E tr c) = int off"
  by (drule (1) honoursD [where tr = tr, OF _ _ refl]) (cases "file_at cls bs0 tr"; simp)

lemma honours_read:
  "honours E cls bs0 \<Longrightarrow> file_at cls bs0 tr = (pos, bs) \<Longrightarrow> cls c = Some (Read_next n) \<Longrightarrow>
    rp_ret (answer E tr c) = int (length (pread bs n pos))"
  "honours E cls bs0 \<Longrightarrow> file_at cls bs0 tr = (pos, bs) \<Longrightarrow> cls c = Some (Read_next n) \<Longrightarrow>
    rp_data (answer E tr c) = pread bs n pos"
  by (drule (2) honoursD [rotated], simp)+

lemma honours_write:
  "honours E cls bs0 \<Longrightarrow> cls c = Some (Write_next buf) \<Longrightarrow> rp_ret (answer E tr c) = int (length buf)"
  by (drule (1) honoursD [where tr = tr, OF _ _ refl]) (cases "file_at cls bs0 tr"; simp)

lemma file_at_Nil [simp]: "file_at cls bs [] = (0, bs)"
  by (simp add: file_at_def)

lemma file_at_append [simp]: "file_at cls bs (tr @ es) = foldl (file_step cls) (file_at cls bs tr) es"
  by (simp add: file_at_def)

lemma file_step_simps [simp]:
  "cls c = Some op \<Longrightarrow> file_step cls s (c, r) = file_op_step op s"
  "cls c = None \<Longrightarrow> file_step cls s (c, r) = s"
  by (simp_all add: file_step_def)

lemma length_pread [simp]: "length (pread bs n pos) = min n (length bs - pos)"
  by (simp add: pread_def)

text \<open>What was written is read.\<close>

lemma pread_pwrite: "pread (pwrite bs buf pos) (length buf) pos = buf"
  by (auto simp: pread_def pwrite_def)

text \<open>A driver with one file, which computes its answers from the history.\<close>

definition one_file :: "classifier \<Rightarrow> string \<Rightarrow> env" where
  "one_file cls bs0 = \<lparr>answer = (\<lambda>tr c. case file_at cls bs0 tr of (pos, bs) \<Rightarrow> (case cls c of
      Some (Seek_to off) \<Rightarrow> code (int off)
    | Some (Read_next n) \<Rightarrow> code_data (int (length (pread bs n pos))) (pread bs n pos)
    | Some (Write_next buf) \<Rightarrow> code (int (length buf))
    | None \<Rightarrow> code 0)), fuel = 0\<rparr>"

lemma one_file_honours: "honours (one_file cls bs0) cls bs0"
proof -
  have "file_answer op s (answer (one_file cls bs0) tr c)" if "cls c = Some op" "file_at cls bs0 tr = s"
    for tr c op s
    using that by (cases op; cases s) (auto simp: one_file_def)
  then show ?thesis by (simp add: honours_def)
qed

subsection \<open>Positioned transfers\<close>

text \<open>Transfers at an offset, and what they leave in the file.\<close>

datatype transfer = Read_at nat nat | Write_at nat string

fun stored :: "transfer \<Rightarrow> string \<Rightarrow> string" where
  "stored (Read_at n off) bs = bs"
| "stored (Write_at off buf) bs = pwrite bs buf off"

fun transfers_spec :: "(transfer \<Rightarrow> string \<Rightarrow> 'r) \<Rightarrow> transfer list \<Rightarrow> string \<Rightarrow> 'r list \<times> string" where
  "transfers_spec res [] bs = ([], bs)"
| "transfers_spec res (t # ts) bs =
     (case transfers_spec res ts (stored t bs) of (rs, bs') \<Rightarrow> (res t bs # rs, bs'))"

fun run_transfers :: "(transfer \<Rightarrow> 'r io) \<Rightarrow> transfer list \<Rightarrow> 'r list io" where
  "run_transfers run [] = retM []"
| "run_transfers run (t # ts) =
     bindM (run t) (\<lambda>r. bindM (run_transfers run ts) (\<lambda>rs. retM (r # rs)))"

lemma run_after: "m E tr = (Done a, tr') \<Longrightarrow> bindM m f E tr = f a E tr'"
  by (simp add: bindM_def)

text \<open>
  \<open>run t\<close> performs a transfer for which \<open>ok\<close> holds on the file of \<open>cls\<close>: over a driver that
  honours the file it returns \<open>res t bs\<close> and leaves the file as \<open>stored\<close> says.
\<close>

locale positioned =
  fixes cls :: classifier
    and run :: "transfer \<Rightarrow> 'r io"
    and res :: "transfer \<Rightarrow> string \<Rightarrow> 'r"
    and ok :: "transfer \<Rightarrow> bool"
  assumes one: "honours E cls bs0 \<Longrightarrow> file_at cls bs0 tr = (pos, bs) \<Longrightarrow> ok t \<Longrightarrow>
      \<exists>tr' pos'. run t E tr = (Done (res t bs), tr') \<and> file_at cls bs0 tr' = (pos', stored t bs)"
begin

lemma many:
  assumes h: "honours E cls bs0"
  shows "file_at cls bs0 tr = (pos, bs) \<Longrightarrow> list_all ok ts \<Longrightarrow>
    \<exists>tr' pos'. run_transfers run ts E tr = (Done (fst (transfers_spec res ts bs)), tr') \<and>
      file_at cls bs0 tr' = (pos', snd (transfers_spec res ts bs))"
proof (induction ts arbitrary: tr pos bs)
  case Nil
  then show ?case by (simp add: io_simps)
next
  case (Cons t ts)
  obtain tr1 pos1 where 1: "run t E tr = (Done (res t bs), tr1)" "file_at cls bs0 tr1 = (pos1, stored t bs)"
    using one [OF h Cons.prems(1), of t] Cons.prems(2) by auto
  obtain tr2 pos2 where 2: "run_transfers run ts E tr1 = (Done (fst (transfers_spec res ts (stored t bs))), tr2)"
    "file_at cls bs0 tr2 = (pos2, snd (transfers_spec res ts (stored t bs)))"
    using Cons.IH [OF 1(2)] Cons.prems(2) by auto
  show ?case
    by (simp add: run_after [where m = "run t", OF 1(1)]
        run_after [where m = "run_transfers run ts", OF 2(1)] 2(2) io_simps split: prod.splits)
qed

lemma refines:
  assumes "honours E cls bs0" "list_all ok ts"
  shows "\<exists>tr. run_transfers run ts E [] = (Done (fst (transfers_spec res ts bs0)), tr) \<and>
    snd (file_at cls bs0 tr) = snd (transfers_spec res ts bs0)"
  using many [OF assms(1) file_at_Nil assms(2)] by auto

end

end
