(* ===== verification/Fuse_Props.thy ===== *)
theory Fuse_Props
  imports Fuse_Adapter Ledger Positioned
begin

text \<open>
  The FUSE adapter against what FUSE expects. Its pair of a seek and a transfer implements the
  positioned operations of theory \<open>Positioned\<close>, up to 2 GiB; a stat structure survives the
  round trip; and whatever FUSE asks, the adapter stays within the mounted partition.
\<close>

subsection \<open>Positioned access\<close>

text \<open>The calls on an open file of iomanX.\<close>

fun iomanx_file :: "int \<Rightarrow> classifier" where
  "iomanx_file fh (Ix_lseek64 f off wh) =
     (if f = fh \<and> wh = FIO_SEEK_SET \<and> 0 \<le> off then Some (Seek_to (nat off)) else None)"
| "iomanx_file fh (Ix_read f n) = (if f = fh then Some (Read_next n) else None)"
| "iomanx_file fh (Ix_write f buf) = (if f = fh then Some (Write_next buf) else None)"
| "iomanx_file fh _ = None"

text \<open>
  The requests FUSE makes on an open file, with offsets and sizes that fit the \<open>int\<close> parameters of
  iomanX, and what they should return.
\<close>

fun within_int :: "transfer \<Rightarrow> bool" where
  "within_int (Read_at n off) = (off < 2 ^ 31 \<and> n < 2 ^ 31)"
| "within_int (Write_at off buf) = (off < 2 ^ 31 \<and> length buf < 2 ^ 31)"

fun fuse_result :: "transfer \<Rightarrow> string \<Rightarrow> int \<times> string" where
  "fuse_result (Read_at n off) bs = (int (length (pread bs n off)), pread bs n off)"
| "fuse_result (Write_at off buf) bs = (int (length buf), [])"

fun run_transfer :: "fi \<Rightarrow> transfer \<Rightarrow> (int \<times> string) io" where
  "run_transfer fi (Read_at n off) = iomanx_adapter_read n (int off) fi"
| "run_transfer fi (Write_at off buf) =
     bindM (iomanx_adapter_write buf (int off) fi) (\<lambda>r. retM (r, []))"

lemma lseek_honoured:
  assumes "honours E (iomanx_file (sint h)) bs0" "off < 2 ^ 31"
  shows "iomanx_adapter_lseek (int off) FIO_SEEK_SET (Some h) E tr =
    (Done (int off), tr @ [(Ix_lseek64 (sint h) (int off) FIO_SEEK_SET,
       answer E tr (Ix_lseek64 (sint h) (int off) FIO_SEEK_SET))])"
proof -
  have "rp_ret (answer E tr (Ix_lseek64 (sint h) (int off) FIO_SEEK_SET)) = int off"
    using honours_seek [OF assms(1), where off = off] by simp
  moreover have "to_s32 (int off) = int off" using assms(2) by (intro to_s32_id) auto
  ultimately show ?thesis by (simp add: iomanx_adapter_lseek_def io_simps)
qed

lemma run_transfer_one:
  assumes h: "honours E (iomanx_file (sint h)) bs0" and at: "file_at (iomanx_file (sint h)) bs0 tr = (pos, bs)"
    and small: "within_int t"
  shows "\<exists>tr' pos'. run_transfer (Some h) t E tr = (Done (fuse_result t bs), tr') \<and>
    file_at (iomanx_file (sint h)) bs0 tr' = (pos', stored t bs)"
proof (cases t)
  case (Read_at n off)
  let ?s = "Ix_lseek64 (sint h) (int off) FIO_SEEK_SET"
  let ?tr = "tr @ [(?s, answer E tr ?s)]"
  have at': "file_at (iomanx_file (sint h)) bs0 ?tr = (off, bs)" by (simp add: at)
  from small Read_at have l: "iomanx_adapter_lseek (int off) FIO_SEEK_SET (Some h) E tr = (Done (int off), ?tr)"
    by (intro lseek_honoured [OF h]) simp
  show ?thesis
    using at honours_read [OF h at', where n = n and c = "Ix_read (sint h) n"]
    by (auto simp: Read_at iomanx_adapter_read_def run_after [where m = "iomanx_adapter_lseek (int off) FIO_SEEK_SET (Some h)", OF l] io_simps)
next
  case (Write_at off buf)
  let ?s = "Ix_lseek64 (sint h) (int off) FIO_SEEK_SET"
  let ?tr = "tr @ [(?s, answer E tr ?s)]"
  have at': "file_at (iomanx_file (sint h)) bs0 ?tr = (off, bs)" by (simp add: at)
  from small Write_at have l: "iomanx_adapter_lseek (int off) FIO_SEEK_SET (Some h) E tr = (Done (int off), ?tr)"
    by (intro lseek_honoured [OF h]) simp
  show ?thesis
    using at honours_write [OF h, where buf = buf and c = "Ix_write (sint h) buf"]
    by (auto simp: Write_at iomanx_adapter_write_def io_simps run_after [where m = "iomanx_adapter_lseek (int off) FIO_SEEK_SET (Some h)", OF l])
qed

interpretation fuse_file: positioned "iomanx_file (sint h)" "run_transfer (Some h)" fuse_result within_int for h
  by unfold_locales (rule run_transfer_one)

text \<open>C4. Reading and writing through FUSE is positioned access to the file: over a driver whose
  handle behaves as a file with a position, any sequence of reads and writes at offsets and of sizes
  below 2 GiB returns what \<open>pread\<close> and \<open>pwrite\<close> return and leaves the file with the bytes they
  leave.\<close>

theorem fuse_positioned:
  assumes "honours E (iomanx_file (sint h)) bs0" and "list_all within_int ts"
  shows "\<exists>tr. run_transfers (run_transfer (Some h)) ts E [] = (Done (fst (transfers_spec fuse_result ts bs0)), tr) \<and>
    snd (file_at (iomanx_file (sint h)) bs0 tr) = snd (transfers_spec fuse_result ts bs0)"
  using assms by (rule fuse_file.refines)

theorem fuse_positioned_witness:
  "\<exists>tr. run_transfers (run_transfer (Some 5)) [Write_at 4 ''xyz'', Read_at 9 1, Read_at 9 20]
       (one_file (iomanx_file 5) ''ab'') [] =
     (Done [(3, []), (6, ''b'' @ [CHR 0x00, CHR 0x00] @ ''xyz''), (0, [])], tr)"
proof -
  let ?ts = "[Write_at 4 ''xyz'', Read_at 9 1, Read_at 9 20]"
  have "honours (one_file (iomanx_file 5) ''ab'') (iomanx_file (sint (5 :: u32))) ''ab''"
    using one_file_honours [of "iomanx_file 5" "''ab''"] by simp
  moreover have "list_all within_int ?ts" by simp
  ultimately obtain tr where "run_transfers (run_transfer (Some 5)) ?ts (one_file (iomanx_file 5) ''ab'') [] =
      (Done (fst (transfers_spec fuse_result ?ts ''ab'')), tr)"
    using fuse_positioned by blast
  moreover have "fst (transfers_spec fuse_result ?ts ''ab'') =
      [(3, []), (6, ''b'' @ [CHR 0x00, CHR 0x00] @ ''xyz''), (0, [])]"
    by (simp add: pread_def pwrite_def numeral_eq_Suc)
  ultimately show ?thesis by auto
qed

text \<open>Beyond 2 GiB the position no longer fits the adapter's \<open>int\<close>: the seek succeeds and the
  read fails with a made-up code.\<close>

theorem fuse_read_beyond_2g:
  assumes "honours E (iomanx_file (sint h)) bs0" "2 ^ 31 \<le> off" "off < 2 ^ 32 - 48"
  shows "iomanx_adapter_read n (int off) (Some h) E tr =
    (Done (int off - 2 ^ 32, []), tr @ [(Ix_lseek64 (sint h) (int off) FIO_SEEK_SET,
       answer E tr (Ix_lseek64 (sint h) (int off) FIO_SEEK_SET))])"
proof -
  have "rp_ret (answer E tr (Ix_lseek64 (sint h) (int off) FIO_SEEK_SET)) = int off"
    using honours_seek [OF assms(1), where off = off] by simp
  moreover have "to_s32 (int off) = int off - 2 ^ 32"
  proof -
    have "(word_of_int (int off) :: u32) = word_of_int (int off - 2 ^ 32)"
      by (simp add: word_of_int_eq_iff take_bit_eq_mod)
    then have "to_s32 (int off) = to_s32 (int off - 2 ^ 32)" unfolding to_s32_def by presburger
    also have "\<dots> = int off - 2 ^ 32" using assms(2,3) by (intro to_s32_id) auto
    finally show ?thesis .
  qed
  ultimately show ?thesis
    using assms(3) by (simp add: iomanx_adapter_read_def iomanx_adapter_lseek_def io_simps)
qed

subsection \<open>Stat structures\<close>

text \<open>What the adapter keeps of a stat structure.\<close>

definition stat_kept :: "iox_stat \<Rightarrow> iox_stat" where
  "stat_kept st = zero_stat\<lparr>
     st_mode := ((st_mode st AND 0xF000) OR spread (st_mode st)) OR (st_mode st AND 0xE00),
     st_size := st_size st, st_hisize := st_hisize st,
     st_ctime := st_ctime st, st_atime := st_atime st, st_mtime := st_mtime st\<rparr>"

lemma size_halves:
  fixes lo hi :: u32
  defines "sz \<equiv> sint (ucast lo OR push_bit 32 (ucast hi) :: u64)"
  shows "word_of_int (sz AND 0xffffffff) = lo" "word_of_int (drop_bit 32 sz AND 0xffffffff) = hi"
proof -
  have mask: "x AND 0xffffffff = take_bit 32 x" for x :: int
    by (simp add: take_bit_eq_mask mask_eq_exp_minus_1)
  have bits: "bit sz n = (if n < 32 then bit lo n else bit hi (n - 32))" if "n < 64" for n
    using that bit_imp_le_length [of lo n] bit_imp_le_length [of hi "n - 32"]
    by (auto simp: sz_def bit_sint_iff bit_simps)
  show "word_of_int (sz AND 0xffffffff) = lo"
    unfolding mask by (intro bit_word_eqI) (simp add: bit_simps bits)
  show "word_of_int (drop_bit 32 sz AND 0xffffffff) = hi"
    unfolding mask by (intro bit_word_eqI) (simp add: bit_simps bits)
qed

text \<open>C18. A stat structure of iomanX survives the trip to the host and back: size in both its
  halves, the three time stamps, file type and special bits are the same, the permissions are
  widened to all classes, the attribute and private words are cleared.\<close>

theorem stat_roundtrip:
  assumes "known_type (st_mode st)" "stamp_ok (st_ctime st)" "stamp_ok (st_atime st)" "stamp_ok (st_mtime st)"
  shows "convert_stat_to_iomanx timeinfo (convert_stat_to_posix st) = stat_kept st"
  using fuse_modes.to_iox_to_posix_known [OF assms(1)] fuse_times.stamp_inverse [OF assms(2), of timeinfo]
    fuse_times.stamp_inverse [OF assms(3), of timeinfo] fuse_times.stamp_inverse [OF assms(4), of timeinfo]
  by (simp add: convert_stat_to_iomanx_def convert_stat_to_posix_def stat_kept_def size_halves)

theorem stat_roundtrip_witness:
  "let t = [0, 58, 59, 23, 29, 2, 0xD4, 7];
       st = zero_stat\<lparr>st_mode := 0x21A4, st_size := 0xFFFFFFFF, st_hisize := 0x80000001,
              st_ctime := t, st_atime := t, st_mtime := t\<rparr>
   in \<forall>timeinfo. convert_stat_to_iomanx timeinfo (convert_stat_to_posix st) = st\<lparr>st_mode := 0x21B6\<rparr>"
proof -
  have "stamp_ok [0, 58, 59, 23, 29, 2, 0xD4, 7]"
    by (simp add: stamp_ok_def tm_ok_def stamp_tm_def year_bytes mlens_def leap_def)
  then show ?thesis
    unfolding Let_def
    by (intro allI, subst stat_roundtrip)
      (simp_all add: known_type_def FIO_S_ISREG_def fio stat_kept_def zero_stat_def spread_def)
qed

subsection \<open>What the operations reach\<close>

text \<open>The table \<open>iomanx_adapter_operations\<close>, with the arguments FUSE passes.\<close>

datatype fuse_request =
    Rq_getattr string
  | Rq_readlink string nat
  | Rq_mkdir string u32
  | Rq_unlink string
  | Rq_rmdir string
  | Rq_symlink string string
  | Rq_rename string string
  | Rq_chmod tm posix_stat string u32
  | Rq_ftruncate int fi
  | Rq_open string fi
  | Rq_read nat int fi
  | Rq_write string int fi
  | Rq_statfs
  | Rq_release string fi
  | Rq_fsync string int fi
  | Rq_readdir string
  | Rq_create string u32 fi
  | Rq_utimens tm iox_stat string int int

definition only_code :: "(int \<times> 'a) io \<Rightarrow> int io" where
  "only_code m = bindM m (\<lambda>(r, _). retM r)"

fun iomanx_adapter_operations :: "int \<Rightarrow> fuse_request \<Rightarrow> int io" where
  "iomanx_adapter_operations n (Rq_getattr p) = only_code (iomanx_adapter_getattr p)"
| "iomanx_adapter_operations n (Rq_readlink p sz) = only_code (iomanx_adapter_readlink p sz)"
| "iomanx_adapter_operations n (Rq_mkdir p m) = iomanx_adapter_mkdir p m"
| "iomanx_adapter_operations n (Rq_unlink p) = iomanx_adapter_unlink p"
| "iomanx_adapter_operations n (Rq_rmdir p) = iomanx_adapter_rmdir p"
| "iomanx_adapter_operations n (Rq_symlink p q) = iomanx_adapter_symlink p q"
| "iomanx_adapter_operations n (Rq_rename p q) = iomanx_adapter_rename p q"
| "iomanx_adapter_operations n (Rq_chmod t j p m) = iomanx_adapter_chmod t j p m"
| "iomanx_adapter_operations n (Rq_ftruncate off fi) = iomanx_adapter_ftruncate off fi"
| "iomanx_adapter_operations n (Rq_open p fi) = only_code (iomanx_adapter_open p fi)"
| "iomanx_adapter_operations n (Rq_read sz off fi) = only_code (iomanx_adapter_read sz off fi)"
| "iomanx_adapter_operations n (Rq_write buf off fi) = iomanx_adapter_write buf off fi"
| "iomanx_adapter_operations n Rq_statfs = only_code (iomanx_adapter_statfs n)"
| "iomanx_adapter_operations n (Rq_release p fi) = iomanx_adapter_release p fi"
| "iomanx_adapter_operations n (Rq_fsync p d fi) = iomanx_adapter_fsync p d fi"
| "iomanx_adapter_operations n (Rq_readdir p) = iomanx_adapter_readdir p"
| "iomanx_adapter_operations n (Rq_create p m fi) = only_code (iomanx_adapter_create p m fi)"
| "iomanx_adapter_operations n (Rq_utimens t j p a m) = iomanx_adapter_utimens t j p a m"

text \<open>Calls inside the mounted partition, and on handles.\<close>

definition pfs_path :: "string \<Rightarrow> bool" where
  "pfs_path p = (has_prefix p ''pfs0:/'' \<and> length p < 1024)"

fun in_partition :: "call \<Rightarrow> bool" where
  "in_partition (Ix_open p f m) = pfs_path p"
| "in_partition (Ix_remove p) = pfs_path p"
| "in_partition (Ix_mkdir p m) = pfs_path p"
| "in_partition (Ix_rmdir p) = pfs_path p"
| "in_partition (Ix_dopen p) = pfs_path p"
| "in_partition (Ix_getstat p) = pfs_path p"
| "in_partition (Ix_chstat p st m) = pfs_path p"
| "in_partition (Ix_rename p q) = (pfs_path p \<and> pfs_path q)"
| "in_partition (Ix_symlink p q) = (pfs_path p \<and> pfs_path q)"
| "in_partition (Ix_readlink p n) = pfs_path p"
| "in_partition (Ix_sync p d) = pfs_path p"
| "in_partition (Ix_devctl d c a n) = (d = ''pfs0:'' \<and> c \<in> {PDIOC_ZONESZ, PDIOC_ZONEFREE})"
| "in_partition (Ix_close fd) = True"
| "in_partition (Ix_read fd n) = True"
| "in_partition (Ix_write fd s) = True"
| "in_partition (Ix_lseek fd off wh) = True"
| "in_partition (Ix_lseek64 fd off wh) = True"
| "in_partition (Ix_dread fd) = True"
| "in_partition (Fuse (Fuse_fill s st)) = True"
| "in_partition _ = False"

lemma emits_only_translated [emits]:
  "(\<And>p. pfs_path p \<Longrightarrow> emits_only A (f p)) \<Longrightarrow> emits_only A (bindM (translate_path path) f)"
  by (simp add: translate_path_def io_simps IOMANX_MOUNT_POINT_def pfs_path_def has_prefix_def emits_only_basic)

lemma emits_zero_or_error [emits]: "A c \<Longrightarrow> emits_only A (zero_or_error c)"
  by (auto simp: zero_or_error_def intro!: emits)

lemmas fuse_defs = iomanx_adapter_getattr_def iomanx_adapter_readlink_def iomanx_adapter_mkdir_def
  iomanx_adapter_unlink_def iomanx_adapter_rmdir_def iomanx_adapter_symlink_def
  iomanx_adapter_rename_def iomanx_adapter_chmod_def iomanx_adapter_ftruncate_def
  iomanx_adapter_open_def iomanx_adapter_read_def iomanx_adapter_write_def
  iomanx_adapter_statfs_def iomanx_adapter_release_def iomanx_adapter_fsync_def
  iomanx_adapter_readdir_def iomanx_adapter_create_def iomanx_adapter_utimens_def
  iomanx_adapter_lseek_def readdir_body_def

fun holds_handle :: "fuse_request \<Rightarrow> bool" where
  "holds_handle (Rq_open p fi) = True"
| "holds_handle (Rq_create p m fi) = True"
| "holds_handle (Rq_release p fi) = True"
| "holds_handle _ = False"

lemma operations_reach: "emits_only in_partition (iomanx_adapter_operations n req)"
  by (cases req) (auto simp: only_code_def fuse_defs IOMANX_MOUNT_POINT_def Let_def intro!: emits)

text \<open>Without a directory handle nothing is opened; \<open>readdir\<close> closes the handle it opened.\<close>

lemma gwp_readdir_loop [gwp]:
  "(\<And>a. Q a L) \<Longrightarrow> gwp ledger_step (loopM (readdir_body dp) u) Q L"
  by (rule gwp_neutral) (auto simp: readdir_body_def intro!: emits)

lemma readdir_balanced: "balanced (iomanx_adapter_readdir path)"
  by (auto simp: balanced_def iomanx_adapter_readdir_def translate_path_def intro!: gwp)

lemma operations_balanced: "\<not> holds_handle req \<Longrightarrow> balanced (iomanx_adapter_operations n req)"
proof (cases req)
  case (Rq_readdir p)
  then show ?thesis by (simp add: readdir_balanced)
qed (auto simp: only_code_def fuse_defs Let_def intro!: balanced_neutral emits)


end
