(* ===== verification/Host_Adapter.thy ===== *)
theory Host_Adapter
  imports Fuse_Adapter
begin

text \<open>
  The driver \<open>host:\<close> (\<open>src/src/host_adapter.c\<close>), which gives the emulated console the files of the
  host: the operations of its \<open>iop_device_ops_t\<close>. The descriptor or directory pointer in
  \<open>privdata\<close> is an integer (NULL is 0); an operation that sets it returns it with the code.
  Standard input and output values are those of Linux; the branches for Windows are not compiled.
\<close>

definition EBADF :: int where "EBADF = 9"

text \<open>A call of the C library whose failure is turned into \<open>-errno\<close>, otherwise 0.\<close>

definition neg_errno :: "int io" where
  "neg_errno = bindM (codeM (Posix P_errno)) (\<lambda>e. retM (- e))"

definition or_errno :: "call \<Rightarrow> int io" where
  "or_errno c = bindM (codeM c) (\<lambda>res. if res < 0 then neg_errno else retM res)"

definition zero_or_errno :: "call \<Rightarrow> int io" where
  "zero_or_errno c = bindM (codeM c) (\<lambda>res. if res < 0 then neg_errno else retM 0)"

subsection \<open>Files\<close>

text \<open>
  \<open>translated_flags\<close> stays 0: every test and every assignment is on \<open>flags\<close>, which already holds
  the flags of iomanX and is passed to \<open>open\<close>.
\<close>

definition host_open_flags :: "u32 \<Rightarrow> u32" where
  "host_open_flags flags =
     (let flags = (if flags AND FIO_O_RDWR \<noteq> 0 then flags OR O_RDWR
                   else if flags AND FIO_O_RDONLY \<noteq> 0 then flags OR O_RDONLY
                   else if flags AND FIO_O_WRONLY \<noteq> 0 then flags OR O_WRONLY
                   else flags);
          flags = or_if (flags AND FIO_O_NBLOCK \<noteq> 0) O_NONBLOCK flags;
          flags = or_if (flags AND FIO_O_APPEND \<noteq> 0) O_APPEND flags;
          flags = flags OR O_CREAT;
          flags = or_if (flags AND FIO_O_TRUNC \<noteq> 0) O_TRUNC flags
      in or_if (flags AND FIO_O_EXCL \<noteq> 0) O_EXCL flags)"

definition host_translator_op_open :: "string \<Rightarrow> u32 \<Rightarrow> u32 \<Rightarrow> (int \<times> int option) io" where
  "host_translator_op_open name flags mode =
     bindM (codeM (Host_open name (host_open_flags flags) mode)) (\<lambda>fh.
     if fh < 0 then bindM neg_errno (\<lambda>r. retM (r, None)) else retM (0, Some fh))"

definition host_translator_op_close :: "int \<Rightarrow> int io" where
  "host_translator_op_close privdata = zero_or_errno (Host_close privdata)"

definition host_translator_op_read :: "int \<Rightarrow> int \<Rightarrow> (int \<times> string) io" where
  "host_translator_op_read privdata sz =
     bindM (callM (Host_read privdata (nat sz))) (\<lambda>r.
     if rp_ret r < 0 then bindM neg_errno (\<lambda>e. retM (e, [])) else retM (rp_ret r, rp_data r))"

definition host_translator_op_write :: "int \<Rightarrow> string \<Rightarrow> int io" where
  "host_translator_op_write privdata buf = or_errno (Host_write privdata buf)"

text \<open>The position is cut down to an \<open>int\<close>; \<open>lseek64\<close> does not return it.\<close>

definition host_translator_op_lseek :: "int \<Rightarrow> int \<Rightarrow> int \<Rightarrow> int io" where
  "host_translator_op_lseek privdata offset mode =
     bindM (codeM (Host_lseek privdata offset mode)) (\<lambda>r.
     if to_s32 r < 0 then neg_errno else retM (to_s32 r))"

definition host_translator_op_lseek64 :: "int \<Rightarrow> int \<Rightarrow> int \<Rightarrow> int io" where
  "host_translator_op_lseek64 privdata offset whence =
     bindM (codeM (Host_lseek privdata offset whence)) (\<lambda>r.
     if to_s32 r < 0 then neg_errno else retM 0)"

subsection \<open>Names\<close>

definition host_translator_op_remove :: "string \<Rightarrow> int io" where
  "host_translator_op_remove name = zero_or_errno (Host_remove name)"

definition host_translator_op_mkdir :: "string \<Rightarrow> u32 \<Rightarrow> int io" where
  "host_translator_op_mkdir path mode = zero_or_errno (Posix (P_mkdir path mode))"

definition host_translator_op_rmdir :: "string \<Rightarrow> int io" where
  "host_translator_op_rmdir path = zero_or_errno (Posix (P_rmdir path))"

definition host_translator_op_rename :: "string \<Rightarrow> string \<Rightarrow> int io" where
  "host_translator_op_rename old new_1 = zero_or_errno (Posix (P_rename old new_1))"

definition host_translator_op_chdir :: "string \<Rightarrow> int io" where
  "host_translator_op_chdir name = zero_or_errno (Host_chdir name)"

definition host_translator_op_symlink :: "string \<Rightarrow> string \<Rightarrow> int io" where
  "host_translator_op_symlink old new_1 = zero_or_errno (Posix (P_symlink old new_1))"

definition host_translator_op_readlink :: "string \<Rightarrow> nat \<Rightarrow> (int \<times> string) io" where
  "host_translator_op_readlink path buflen =
     bindM (callM (Posix (P_readlink path buflen))) (\<lambda>r.
     if rp_ret r < 0 then bindM neg_errno (\<lambda>e. retM (e, [])) else retM (0, rp_data r))"

definition host_translator_op_sync :: "string \<Rightarrow> int \<Rightarrow> int io" where
  "host_translator_op_sync dev flag = bindM (doM (Posix P_sync)) (\<lambda>_. retM 0)"

subsection \<open>Directories\<close>

definition host_translator_op_dopen :: "string \<Rightarrow> (int \<times> int option) io" where
  "host_translator_op_dopen path =
     bindM (codeM (Posix (P_opendir path))) (\<lambda>res.
     if res = 0 then bindM neg_errno (\<lambda>r. retM (r, None)) else retM (0, Some res))"

definition host_translator_op_dclose :: "int \<Rightarrow> int io" where
  "host_translator_op_dclose privdata =
     (if privdata = 0 then retM (- EBADF) else zero_or_errno (Posix (P_closedir privdata)))"

text \<open>
  The name of an entry fills at most the 256 bytes of \<open>iox_dirent_t.name\<close>; the stat structure is
  cleared. The result is 0, which for iomanX is the end of the directory.
\<close>

definition host_translator_op_dread :: "int \<Rightarrow> (int \<times> (string \<times> iox_stat) option) io" where
  "host_translator_op_dread privdata =
     (if privdata = 0 then retM (- EBADF, None)
      else
        bindM (callM (Posix (P_readdir privdata))) (\<lambda>d.
        if rp_ret d = 0 then
          bindM (codeM (Posix P_errno)) (\<lambda>e. if e \<noteq> 0 then retM (- e, None) else retM (- 1, None))
        else retM (0, Some (take 256 (rp_data d), zero_stat))))"

subsection \<open>Status\<close>

definition host_stat_to_iomanx :: "tm \<Rightarrow> posix_stat \<Rightarrow> iox_stat" where
  "host_stat_to_iomanx timeinfo ps = zero_stat\<lparr>
     st_size := word_of_int (ps_size ps AND 0xffffffff),
     st_hisize := word_of_int (drop_bit 32 (ps_size ps) AND 0xffffffff),
     st_mode := host_mode_to_iomanx (ps_mode ps),
     st_ctime := host_time_to_iomanx timeinfo (ps_ctime ps),
     st_atime := host_time_to_iomanx timeinfo (ps_atime ps),
     st_mtime := host_time_to_iomanx timeinfo (ps_mtime ps)\<rparr>"

definition host_translator_op_getstat :: "tm \<Rightarrow> string \<Rightarrow> (int \<times> iox_stat option) io" where
  "host_translator_op_getstat timeinfo name =
     bindM (callM (Posix (P_stat name))) (\<lambda>r.
     if rp_ret r < 0 then bindM neg_errno (\<lambda>e. retM (e, None))
     else retM (0, Some (host_stat_to_iomanx timeinfo (rp_posix r))))"

text \<open>Only the mode is changed.\<close>

definition host_translator_op_chstat :: "string \<Rightarrow> iox_stat option \<Rightarrow> u32 \<Rightarrow> int io" where
  "host_translator_op_chstat name iomanx_stat statmask =
     (case iomanx_stat of None \<Rightarrow> retM (- EBADF)
      | Some st \<Rightarrow>
          if statmask AND FIO_CST_MODE \<noteq> 0 then
            zero_or_errno (Posix (P_chmod name (host_mode_to_posix (st_mode st))))
          else retM 0)"

subsection \<open>Operations that are not supported, and registration\<close>

definition host_translator_op_init :: int where "host_translator_op_init = - 48"
definition host_translator_op_exit :: int where "host_translator_op_exit = - 48"
definition host_translator_op_format :: int where "host_translator_op_format = - 48"
definition host_translator_op_ioctl :: int where "host_translator_op_ioctl = - 48"
definition host_translator_op_mount :: int where "host_translator_op_mount = - 48"
definition host_translator_op_umount :: int where "host_translator_op_umount = - 48"
definition host_translator_op_devctl :: int where "host_translator_op_devctl = - 48"
definition host_translator_op_ioctl2 :: int where "host_translator_op_ioctl2 = - 48"

definition host_adapter_init :: "int io" where
  "host_adapter_init = bindM (doM (Ix_AddDrv ''host'')) (\<lambda>_. retM 0)"

subsection \<open>Facts\<close>

lemma test_bit:
  "((f :: u32) AND 1 = 0) = (\<not> bit f 0)" "(f AND 2 = 0) = (\<not> bit f 1)" "(f AND 0x10 = 0) = (\<not> bit f 4)"
  "(f AND 0x40 = 0) = (\<not> bit f 6)" "(f AND 0x80 = 0) = (\<not> bit f 7)" "(f AND 0x100 = 0) = (\<not> bit f 8)"
  "(f AND 0x200 = 0) = (\<not> bit f 9)" "(f AND 0x400 = 0) = (\<not> bit f 10)" "(f AND 0x800 = 0) = (\<not> bit f 11)"
  using and_exp_eq_0_iff_not_bit [of f 0] and_exp_eq_0_iff_not_bit [of f 1]
    and_exp_eq_0_iff_not_bit [of f 4] and_exp_eq_0_iff_not_bit [of f 6]
    and_exp_eq_0_iff_not_bit [of f 7] and_exp_eq_0_iff_not_bit [of f 8]
    and_exp_eq_0_iff_not_bit [of f 9] and_exp_eq_0_iff_not_bit [of f 10]
    and_exp_eq_0_iff_not_bit [of f 11]
  by simp_all

lemma test_access: "((f :: u32) AND 3 = 0) = (\<not> bit f 0 \<and> \<not> bit f 1)"
proof -
  have "f AND 3 = (f AND 1) OR (f AND 2)" by (simp flip: bit.conj_disj_distrib)
  then show ?thesis using test_bit(1,2) [of f] by (auto simp: or_eq_0_iff)
qed

lemmas host_flags = FIO_O_RDONLY_def FIO_O_WRONLY_def FIO_O_RDWR_def FIO_O_NBLOCK_def FIO_O_APPEND_def
  FIO_O_CREAT_def FIO_O_TRUNC_def FIO_O_EXCL_def O_RDONLY_def O_WRONLY_def O_RDWR_def O_CREAT_def
  O_EXCL_def O_TRUNC_def O_APPEND_def O_NONBLOCK_def

text \<open>
  The flags a host file is opened with. Every open creates the file; every open that reads or
  writes asks for \<open>O_RDWR\<close>, with \<open>O_WRONLY\<close> beside it when the file is only read; and because the
  flags of iomanX stay in the word, a file opened with \<open>FIO_O_CREAT\<close>, \<open>FIO_O_TRUNC\<close> or
  \<open>FIO_O_APPEND\<close> is emptied.
\<close>

theorem host_open_flags_effect:
  "host_open_flags f AND O_CREAT \<noteq> 0 \<and>
   (f AND 3 \<noteq> 0 \<longleftrightarrow> host_open_flags f AND O_RDWR \<noteq> 0) \<and>
   (f AND FIO_O_RDONLY \<noteq> 0 \<longleftrightarrow> host_open_flags f AND O_WRONLY \<noteq> 0) \<and>
   (f AND FIO_O_CREAT \<noteq> 0 \<or> f AND FIO_O_TRUNC \<noteq> 0 \<or> f AND FIO_O_APPEND \<noteq> 0 \<longleftrightarrow>
      host_open_flags f AND O_TRUNC \<noteq> 0)"
  by (auto simp: host_open_flags_def Let_def host_flags or_if_def test_bit test_access bit_simps)

text \<open>The stat structure of a host file is the one the FUSE adapter makes.\<close>

theorem host_stat_agrees: "host_stat_to_iomanx timeinfo ps = convert_stat_to_iomanx timeinfo ps"
proof -
  have "host_time_to_iomanx t p = convert_time_to_iomanx t p" for t p
    by (simp add: host_time_to_iomanx_def convert_time_to_iomanx_def)
  moreover have "host_mode_to_iomanx m = fuse_mode_to_iomanx m" for m
    by (simp add: host_mode_to_iomanx_nf fuse_mode_to_iomanx_nf)
  ultimately show ?thesis by (simp add: host_stat_to_iomanx_def convert_stat_to_iomanx_def)
qed

end
