(* ===== verification/Disk_Props.thy ===== *)
theory Disk_Props
  imports Atad Positioned Host_Adapter
begin

text \<open>
  The disk of the emulated console and the files of the driver \<open>host:\<close> as positioned files of
  the host (theory \<open>Positioned\<close>): sector transfers and the driver's seek and transfer implement
  positioned access to the file behind the descriptor.
\<close>

subsection \<open>A file of the host\<close>

fun host_file :: "int \<Rightarrow> classifier" where
  "host_file fd (Host_lseek f off wh) =
     (if f = fd \<and> wh = SEEK_SET \<and> 0 \<le> off then Some (Seek_to (nat off)) else None)"
| "host_file fd (Host_read f n) = (if f = fd then Some (Read_next n) else None)"
| "host_file fd (Host_write f buf) = (if f = fd then Some (Write_next buf) else None)"
| "host_file fd _ = None"

subsection \<open>Sectors\<close>

text \<open>Whole sectors at a sector's boundary, with 32-bit sector and byte counts.\<close>

definition sectors :: "nat \<Rightarrow> nat \<Rightarrow> bool" where
  "sectors n off = (512 dvd n \<and> n < 2 ^ 32 \<and> 512 dvd off \<and> off div 512 < 2 ^ 32)"

fun on_sectors :: "transfer \<Rightarrow> bool" where
  "on_sectors (Read_at n off) = sectors n off"
| "on_sectors (Write_at off buf) = sectors (length buf) off"

text \<open>A read that reaches past the end of the disk fails, with the bytes there are.\<close>

fun sector_result :: "transfer \<Rightarrow> string \<Rightarrow> int \<times> string" where
  "sector_result (Read_at n off) bs = (if off + n \<le> length bs \<or> n = 0 then 0 else - 1, pread bs n off)"
| "sector_result (Write_at off buf) bs = (0, [])"

fun run_sectors :: "atad \<Rightarrow> transfer \<Rightarrow> (int \<times> string) io" where
  "run_sectors A (Read_at n off) =
     ata_device_sector_io A 0 [] (of_nat (off div 512)) (of_nat (n div 512)) ATA_DIR_READ"
| "run_sectors A (Write_at off buf) =
     bindM (ata_device_sector_io A 0 buf (of_nat (off div 512)) (of_nat (length buf div 512)) ATA_DIR_WRITE)
       (\<lambda>(r, _). retM (r, []))"

lemma sectors_words:
  assumes "sectors n off"
  shows "unat ((of_nat (n div 512) :: u32) * 512) = n"
    and "uint ((of_nat (n div 512) :: u32) * 512) = int n"
    and "uint (of_nat (off div 512) :: u32) * 512 = int off"
proof -
  from assms obtain k where k: "n = 512 * k" "512 * k < 2 ^ 32" by (auto simp: sectors_def)
  have "(of_nat (n div 512) :: u32) * 512 = of_nat n" using k by simp
  then show 1: "unat ((of_nat (n div 512) :: u32) * 512) = n"
    using k by (simp add: unsigned_of_nat take_bit_nat_eq_self del: of_nat_mult)
  then show "uint ((of_nat (n div 512) :: u32) * 512) = int n" by (simp only: uint_nat)
  from assms obtain j where "off = 512 * j" "j < 2 ^ 32" by (auto simp: sectors_def)
  then show "uint (of_nat (off div 512) :: u32) * 512 = int off"
    by (simp add: unsigned_of_nat take_bit_nat_eq_self)
qed

lemma run_sectors_one:
  assumes open_disk: "at_handle A \<noteq> - 1"
    and h: "honours E (host_file (at_handle A)) bs0"
    and at: "file_at (host_file (at_handle A)) bs0 tr = (pos, bs)" and ok: "on_sectors t"
  shows "\<exists>tr' pos'. run_sectors A t E tr = (Done (sector_result t bs), tr') \<and>
    file_at (host_file (at_handle A)) bs0 tr' = (pos', stored t bs)"
proof (cases t)
  case (Read_at n off)
  let ?s = "Host_lseek (at_handle A) (int off) SEEK_SET"
  let ?tr = "tr @ [(?s, answer E tr ?s)]"
  have w: "sectors n off" using ok Read_at by simp
  have at': "file_at (host_file (at_handle A)) bs0 ?tr = (off, bs)" by (simp add: at)
  show ?thesis
    using at open_disk honours_seek [OF h, where off = off and c = ?s and tr = tr]
      honours_read [OF h at', where n = n and c = "Host_read (at_handle A) n"]
    by (auto simp: Read_at ata_device_sector_io_def sectors_words [OF w] ATA_DIR_READ_def ATA_DIR_WRITE_def
        io_simps split: if_splits)
next
  case (Write_at off buf)
  let ?s = "Host_lseek (at_handle A) (int off) SEEK_SET"
  let ?tr = "tr @ [(?s, answer E tr ?s)]"
  have w: "sectors (length buf) off" using ok Write_at by simp
  have at': "file_at (host_file (at_handle A)) bs0 ?tr = (off, bs)" by (simp add: at)
  show ?thesis
    using at open_disk honours_seek [OF h, where off = off and c = ?s and tr = tr]
      honours_write [OF h, where buf = buf and c = "Host_write (at_handle A) buf" and tr = ?tr]
    by (auto simp: Write_at ata_device_sector_io_def sectors_words [OF w] ATA_DIR_WRITE_def io_simps)
qed

definition disk_ok :: "atad \<Rightarrow> transfer \<Rightarrow> bool" where
  "disk_ok A t = (at_handle A \<noteq> - 1 \<and> on_sectors t)"

interpretation disk: positioned "host_file (at_handle A)" "run_sectors A" sector_result "disk_ok A" for A
  by unfold_locales (unfold disk_ok_def, elim conjE, rule run_sectors_one)

text \<open>C17. The emulated disk stores sectors: over a host file that behaves as bytes with a position,
  any sequence of transfers of whole sectors leaves the bytes \<open>pwrite\<close> leaves and every read gets
  what \<open>pread\<close> gets, succeeding exactly when all its sectors are there.\<close>

theorem disk_sectors:
  assumes "honours E (host_file (at_handle A)) bs0" and "list_all (disk_ok A) ts"
  shows "\<exists>tr. run_transfers (run_sectors A) ts E [] = (Done (fst (transfers_spec sector_result ts bs0)), tr) \<and>
    snd (file_at (host_file (at_handle A)) bs0 tr) = snd (transfers_spec sector_result ts bs0)"
  using assms by (rule disk.refines)

theorem disk_sectors_witness:
  "let A = \<lparr>at_handle = 3, at_hdd_length = 2\<rparr>; old = replicate 1024 (CHR ''o''); put = replicate 512 (CHR ''n'')
   in \<exists>tr. run_transfers (run_sectors A) [Write_at 512 put, Read_at 1024 0, Read_at 1024 512]
       (one_file (host_file 3) old) [] =
     (Done [(0, []), (0, replicate 512 (CHR ''o'') @ put), (- 1, put)], tr)"
proof -
  let ?A = "\<lparr>at_handle = 3, at_hdd_length = 2\<rparr>" and ?old = "replicate 1024 (CHR ''o'')"
    and ?put = "replicate 512 (CHR ''n'')"
  let ?ts = "[Write_at 512 ?put, Read_at 1024 0, Read_at 1024 512]"
  have "honours (one_file (host_file 3) ?old) (host_file (at_handle ?A)) ?old"
    using one_file_honours [of "host_file 3" ?old] by simp
  moreover have "list_all (disk_ok ?A) ?ts"
    by (simp add: disk_ok_def sectors_def)
  ultimately obtain tr where "run_transfers (run_sectors ?A) ?ts (one_file (host_file 3) ?old) [] =
      (Done (fst (transfers_spec sector_result ?ts ?old)), tr)"
    using disk_sectors by blast
  moreover have "fst (transfers_spec sector_result ?ts ?old) =
      [(0, []), (0, replicate 512 (CHR ''o'') @ ?put), (- 1, ?put)]"
    by (simp add: pread_def pwrite_def)
  ultimately show ?thesis by (auto simp: Let_def)
qed

subsection \<open>Files of the driver \<open>host:\<close>\<close>

text \<open>What iomanX asks of the driver for a transfer at an offset.\<close>

fun run_host :: "int \<Rightarrow> transfer \<Rightarrow> (int \<times> string) io" where
  "run_host fd (Read_at n off) =
     bindM (host_translator_op_lseek64 fd (int off) SEEK_SET) (\<lambda>r.
     if r < 0 then retM (r, []) else host_translator_op_read fd (int n))"
| "run_host fd (Write_at off buf) =
     bindM (host_translator_op_lseek64 fd (int off) SEEK_SET) (\<lambda>r.
     if r < 0 then retM (r, []) else bindM (host_translator_op_write fd buf) (\<lambda>r. retM (r, [])))"

fun small_offset :: "transfer \<Rightarrow> bool" where
  "small_offset (Read_at n off) = (off < 2 ^ 31)"
| "small_offset (Write_at off buf) = (off < 2 ^ 31)"

fun host_result :: "transfer \<Rightarrow> string \<Rightarrow> int \<times> string" where
  "host_result (Read_at n off) bs = (int (length (pread bs n off)), pread bs n off)"
| "host_result (Write_at off buf) bs = (int (length buf), [])"

lemma run_host_one:
  assumes h: "honours E (host_file fd) bs0" and at: "file_at (host_file fd) bs0 tr = (pos, bs)"
    and ok: "small_offset t"
  shows "\<exists>tr' pos'. run_host fd t E tr = (Done (host_result t bs), tr') \<and>
    file_at (host_file fd) bs0 tr' = (pos', stored t bs)"
proof (cases t)
  case (Read_at n off)
  let ?s = "Host_lseek fd (int off) SEEK_SET"
  let ?tr = "tr @ [(?s, answer E tr ?s)]"
  have at': "file_at (host_file fd) bs0 ?tr = (off, bs)" by (simp add: at)
  show ?thesis
    using at ok honours_seek [OF h, where off = off and c = ?s and tr = tr]
      honours_read [OF h at', where n = n and c = "Host_read fd n"]
    by (auto simp: Read_at host_translator_op_lseek64_def host_translator_op_read_def io_simps)
next
  case (Write_at off buf)
  let ?s = "Host_lseek fd (int off) SEEK_SET"
  let ?tr = "tr @ [(?s, answer E tr ?s)]"
  have at': "file_at (host_file fd) bs0 ?tr = (off, bs)" by (simp add: at)
  show ?thesis
    using at ok honours_seek [OF h, where off = off and c = ?s and tr = tr]
      honours_write [OF h, where buf = buf and c = "Host_write fd buf" and tr = ?tr]
    by (auto simp: Write_at host_translator_op_lseek64_def host_translator_op_write_def or_errno_def io_simps)
qed

interpretation host_driver: positioned "host_file fd" "run_host fd" host_result small_offset for fd
  by unfold_locales (rule run_host_one)

text \<open>
  The driver gives positioned access to its files below 2 GiB. Its \<open>lseek64\<close> answers 0 for every
  position, so a caller that takes the answer for the position sees the start of the file.
\<close>

theorem host_positioned:
  assumes "honours E (host_file fd) bs0" and "list_all small_offset ts"
  shows "\<exists>tr. run_transfers (run_host fd) ts E [] = (Done (fst (transfers_spec host_result ts bs0)), tr) \<and>
    snd (file_at (host_file fd) bs0 tr) = snd (transfers_spec host_result ts bs0)"
  using assms by (rule host_driver.refines)

theorem host_seek_forgets:
  assumes "honours E (host_file fd) bs0" "off < 2 ^ 31"
  shows "fst (host_translator_op_lseek64 fd (int off) SEEK_SET E tr) = Done 0"
  using assms(2) honours_seek [OF assms(1), where off = off and c = "Host_lseek fd (int off) SEEK_SET" and tr = tr]
  by (simp add: host_translator_op_lseek64_def io_simps)

end
