(* ===== verification/Ps2kinst.thy ===== *)
theory Ps2kinst
  imports Pfsd_Client Copy_Loop Atad
begin

text \<open>
  The PFS library as the daemon and the installer start it (\<open>src/src/pfslib_compat.c\<close>), and the
  installer \<open>ps2kinst\<close> (\<open>src/src/ps2kinst.c\<close>), which copies a kernel into the system partition,
  through the daemon or, when there is none, through the library. The functions of
  \<open>pfslib_compat.h\<close> pass their arguments to iomanX unchanged.
  Messages on standard error are not modelled.
\<close>

subsection \<open>Block devices\<close>

record pfslib =
  pl_hddFd :: "int list"
  pl_disk :: atad

definition pfslib_boot :: pfslib where
  "pfslib_boot = \<lparr>pl_hddFd = [0, 0], pl_disk = atad_boot\<rparr>"

definition O_LARGEFILE :: u32 where "O_LARGEFILE = 0"

definition g_hdd_argv :: "string list" where "g_hdd_argv = [[], ''-o'', ''32'', ''-n'', ''8'']"

definition g_pfs_argv :: "string list" where
  "g_pfs_argv = [[], ''-m'', ''32'', ''-n'', ''72'', ''-o'', ''32'']"

text \<open>
  One device: \<open>True\<close> when it counts. A descriptor closed because the size of the device could not
  be had stays in the table.
\<close>

definition open_device :: "nat \<Rightarrow> pfslib \<Rightarrow> (bool \<times> pfslib) io" where
  "open_device i L =
     bindM (bufM 16 (''/dev/hd'' @ [char_of (97 + i)])) (\<lambda>dev_buf.
     bindM (codeM (Host_open dev_buf (O_LARGEFILE OR O_RDWR) 0)) (\<lambda>fd.
     if fd < 0 then retM (False, L\<lparr>pl_hddFd := (pl_hddFd L)[i := - 1]\<rparr>)
     else
       bindM (codeM (Posix (P_flock fd True))) (\<lambda>r.
       if r \<noteq> 0 then
         bindM (doM (Host_close fd)) (\<lambda>_. retM (False, L\<lparr>pl_hddFd := (pl_hddFd L)[i := - 1]\<rparr>))
       else
         let L = L\<lparr>pl_hddFd := (pl_hddFd L)[i := fd]\<rparr> in
         if i = 0 then
           bindM (set_atad_device_handle fd (pl_disk L)) (\<lambda>(r, A).
           if r \<noteq> 0 then
             bindM (doM (Posix (P_flock fd False))) (\<lambda>_.
             bindM (doM (Host_close fd)) (\<lambda>_. retM (False, L\<lparr>pl_disk := A\<rparr>)))
           else retM (True, L\<lparr>pl_disk := A\<rparr>))
         else retM (True, L))))"

definition scepfsInit :: "pfslib \<Rightarrow> (int \<times> pfslib) io" where
  "scepfsInit L =
     bindM (open_device 0 L) (\<lambda>(a, L).
     bindM (open_device 1 L) (\<lambda>(b, L).
     if \<not> a \<and> \<not> b then retM (- 1, L)
     else
       bindM (codeM (Init_apa g_hdd_argv)) (\<lambda>r.
       if r \<noteq> 0 then retM (- 2, L)
       else
         bindM (codeM (Init_pfs g_pfs_argv)) (\<lambda>r. retM (if r \<noteq> 0 then - 3 else 0, L)))))"

fun close_devices :: "int list \<Rightarrow> unit io" where
  "close_devices [] = retM ()"
| "close_devices (fd # fds) =
     (if fd \<ge> 0 then
        bindM (doM (Posix (P_flock fd False))) (\<lambda>_.
        bindM (doM (Host_close fd)) (\<lambda>_. close_devices fds))
      else close_devices fds)"

definition scepfsExit :: "pfslib \<Rightarrow> unit io" where
  "scepfsExit L = close_devices (pl_hddFd L)"

text \<open>The \<open>int\<close> \<open>ioctl\<close> stores through its pointer is in the bytes of the answer.\<close>

definition BLKRASET :: nat where "BLKRASET = 0x1262"
definition BLKRAGET :: nat where "BLKRAGET = 0x1263"

definition scepfsGetReadAhead :: "pfslib \<Rightarrow> int io" where
  "scepfsGetReadAhead L =
     bindM (callM (Posix (P_ioctl (pl_hddFd L ! 0) BLKRAGET 0))) (\<lambda>r.
     let ret_ra = g_int 0 (rp_data r) in
     bindM (putsM (''current read ahead setting = '' @ dec_int ret_ra @ nl)) (\<lambda>_. retM ret_ra))"

definition scepfsSetReadAhead :: "pfslib \<Rightarrow> int \<Rightarrow> int io" where
  "scepfsSetReadAhead L enabled =
     bindM (scepfsGetReadAhead L) (\<lambda>_.
     bindM (codeM (Posix (P_ioctl (pl_hddFd L ! 0) BLKRASET enabled))) (\<lambda>raget_res.
     if raget_res \<noteq> 0 then
       bindM (codeM (Posix P_errno)) (\<lambda>e.
       bindM (putsM (''BLKRASET failed. errno'' @ dec_int e @ nl)) (\<lambda>_. retM raget_res))
     else
       bindM (callM (Posix (P_ioctl (pl_hddFd L ! 0) BLKRAGET 0))) (\<lambda>r.
       bindM (putsM (''read ahead setting set to '' @ dec_int (g_int 0 (rp_data r)) @ nl)) (\<lambda>_.
       retM 0))))"

text \<open>The functions of \<open>pfslib_compat.h\<close> the installer uses.\<close>

definition scepfsOpen :: "string \<Rightarrow> u32 \<Rightarrow> u32 \<Rightarrow> int io" where
  "scepfsOpen name flags mode = codeM (Ix_open name flags mode)"

definition scepfsWrite :: "int \<Rightarrow> string \<Rightarrow> int io" where
  "scepfsWrite fd ptr = codeM (Ix_write fd ptr)"

definition scepfsClose :: "int \<Rightarrow> int io" where
  "scepfsClose fd = codeM (Ix_close fd)"

definition scepfsMkdir :: "string \<Rightarrow> u32 \<Rightarrow> int io" where
  "scepfsMkdir name mode = codeM (Ix_mkdir name mode)"

definition scepfsChdir :: "string \<Rightarrow> int io" where
  "scepfsChdir name = codeM (Ix_chdir name)"

definition scepfsMount :: "string \<Rightarrow> string \<Rightarrow> u32 \<Rightarrow> int io" where
  "scepfsMount fsname devname flag = codeM (Ix_mount fsname devname flag)"

definition scepfsUmount :: "string \<Rightarrow> int io" where
  "scepfsUmount fsname = codeM (Ix_umount fsname)"

lemmas scepfs_defs = scepfsOpen_def scepfsWrite_def scepfsClose_def scepfsMkdir_def scepfsChdir_def
  scepfsMount_def scepfsUmount_def

subsection \<open>The installer\<close>

text \<open>The copying loop leaves with the last result of \<open>read\<close>, or with -7 after a failed write.\<close>

definition install_body_PFSlib :: "int \<Rightarrow> int \<Rightarrow> unit \<Rightarrow> (unit + int \<times> bool) io" where
  "install_body_PFSlib rfd wfd = (\<lambda>_.
     bindM (callM (Host_read rfd 0x8000)) (\<lambda>r.
     if rp_ret r \<le> 0 then retM (Inr (rp_ret r, False))
     else
       bindM (scepfsWrite wfd (got r)) (\<lambda>w.
       if w \<noteq> rp_ret r then retM (Inr (rp_ret r, True)) else retM (Inl ()))))"

definition install_kernel_PFSlib :: "int \<Rightarrow> int io" where
  "install_kernel_PFSlib rfd =
     bindM (scepfsInit pfslib_boot) (\<lambda>(r, L).
     if r \<noteq> 0 then retM (- 2)
     else
       bindM (scepfsMount ''pfs0:'' ''hdd0:__system'' 0) (\<lambda>r.
       if r < 0 then retM (- 3)
       else
         bindM (scepfsMkdir ''pfs0:/p2lboot'' 511) (\<lambda>r.
         if r < 0 \<and> r \<noteq> - 17 then retM (- 4)
         else
           bindM (scepfsChdir ''pfs0:/p2lboot'') (\<lambda>r.
           if r < 0 then retM (- 5)
           else
             bindM (scepfsOpen ''pfs0:vmlinux'' 1538 511) (\<lambda>wfd.
             if wfd < 0 then retM (- 6)
             else
               bindM (loopM (install_body_PFSlib rfd wfd) ()) (\<lambda>(r, failed).
               if failed then retM (- 7)
               else if r < 0 then retM (- 8)
               else
                 bindM (doM (Host_close rfd)) (\<lambda>_.
                 bindM (scepfsClose wfd) (\<lambda>_.
                 bindM (scepfsUmount ''pfs0:'') (\<lambda>_.
                 bindM (scepfsExit L) (\<lambda>_. retM 0))))))))))"

definition install_body :: "pfsd_client \<Rightarrow> int \<Rightarrow> int \<Rightarrow> unit \<Rightarrow> (unit + int \<times> bool) io" where
  "install_body c rfd wfd = (\<lambda>_.
     bindM (callM (Host_read rfd 0x8000)) (\<lambda>r.
     if rp_ret r \<le> 0 then retM (Inr (rp_ret r, False))
     else
       bindM (scepfsdWrite c wfd (Some (got r)) (word_of_int (rp_ret r))) (\<lambda>w.
       if w \<noteq> rp_ret r then retM (Inr (rp_ret r, True)) else retM (Inl ()))))"

definition install_kernel :: "stack \<Rightarrow> string \<Rightarrow> int io" where
  "install_kernel st kernel_file =
     bindM (codeM (Host_open kernel_file O_RDONLY 0)) (\<lambda>rfd.
     if rfd < 0 then retM (- 1)
     else
       bindM (scepfsdInit (client_boot st)) (\<lambda>(r, c).
       if r \<noteq> 0 then install_kernel_PFSlib rfd
       else
         bindM (scepfsdMount c ''pfs0:'' ''hdd0:__system'' 0 None 0) (\<lambda>r.
         if r < 0 then retM (- 3)
         else
           bindM (scepfsdMkdir c ''pfs0:/p2lboot'' 511) (\<lambda>r.
           if r < 0 \<and> r \<noteq> - 17 then retM (- 4)
           else
             bindM (scepfsdChdir c ''pfs0:/p2lboot'') (\<lambda>r.
             if r < 0 then retM (- 5)
             else
               bindM (scepfsdOpen c ''pfs0:vmlinux'' 1538 511) (\<lambda>wfd.
               if wfd < 0 then retM (- 6)
               else
                 bindM (loopM (install_body c rfd wfd) ()) (\<lambda>(r, failed).
                 if failed then retM (- 7)
                 else if r < 0 then retM (- 8)
                 else
                   bindM (doM (Host_close rfd)) (\<lambda>_.
                   bindM (scepfsdClose c wfd) (\<lambda>_.
                   bindM (scepfsdUmount c ''pfs0:'') (\<lambda>_.
                   bindM (scepfsdExit c) (\<lambda>_. retM 0)))))))))))"

text \<open>
  \<open>main\<close> over what \<open>getopt_long\<close> returns: 0 for \<open>--help\<close>, which sets the flag itself, \<open>h\<close>, any
  other code for an error, and at the end of the options the remaining arguments.
\<close>

definition usage :: "int \<Rightarrow> int io" where
  "usage es = retM es"

fun ps2kinst_main :: "stack \<Rightarrow> int list \<Rightarrow> bool \<Rightarrow> string list \<Rightarrow> int io" where
  "ps2kinst_main st [] show_help operands =
     (if operands = [] then usage 1
      else if show_help then usage 0
      else install_kernel st (hd operands))"
| "ps2kinst_main st (c # cs) show_help operands =
     (if c = 0 \<or> c = 104 then ps2kinst_main st cs True operands else usage 1)"

subsection \<open>The kernel is copied\<close>

interpretation install_copies: copy_loop "install_body_PFSlib rfd wfd" "Host_read rfd 0x8000"
  "Ix_write wfd" "\<lambda>len result. result = len" "\<lambda>r. (rp_ret r, False)"
  by unfold_locales (auto simp: install_body_PFSlib_def scepfs_defs io_simps)

text \<open>
  A summary of a history: the bytes read, the bytes the device accepted, and the last code of
  \<open>read\<close> on the host.
\<close>

fun install_step :: "string \<times> string \<times> int \<Rightarrow> call \<times> reply \<Rightarrow> string \<times> string \<times> int" where
  "install_step (a, b, e) (Host_read fd n, r) = (a @ got r, b, rp_ret r)"
| "install_step (a, b, e) (Ix_write fd s, r) = (a, b @ take (nat (rp_ret r)) s, e)"
| "install_step s _ = s"

definition install_summary :: "trace \<Rightarrow> string \<times> string \<times> int" where
  "install_summary tr = foldl install_step ([], [], 1) tr"

definition no_transfer :: "call \<Rightarrow> bool" where
  "no_transfer c = (case c of Host_read _ _ \<Rightarrow> False | Ix_write _ _ \<Rightarrow> False | _ \<Rightarrow> True)"

lemma install_step_ignores: "no_transfer c \<Longrightarrow> install_step g (c, r) = g"
  by (cases g; cases c) (simp_all add: no_transfer_def)

lemma got_all: "rp_ret r \<le> 0 \<Longrightarrow> got r = []"
  by (simp add: got_def)

lemma take_got: "take (nat (rp_ret r)) (got r) = got r"
  by (simp add: got_def)

lemma install_loop [gwp]:
  assumes q: "\<And>n b. n \<le> 0 \<Longrightarrow> Q (n, False) (b, b, n)" and t: "\<And>n h. Q (n, True) h"
  shows "gwp install_step (loopM (install_body_PFSlib rfd wfd) ()) Q (a, a, e)"
proof (rule gwp_loopM [where I = "\<lambda>_ (x, y, _). x = y"])
  fix s :: unit and h :: "string \<times> string \<times> int"
  assume "case h of (x, y, _) \<Rightarrow> x = y"
  then obtain x k where h: "h = (x, x, k)" by (cases h) auto
  show "gwp install_step (install_body_PFSlib rfd wfd s)
      (\<lambda>x g'. case x of Inl s' \<Rightarrow> case g' of (x, y, _) \<Rightarrow> x = y | Inr r \<Rightarrow> Q r g') h"
    unfolding install_body_PFSlib_def scepfs_defs h
    by (auto intro!: gwp q t simp: got_all take_got)
qed simp

lemma install_quiet:
  "emits_only no_transfer m \<Longrightarrow> (\<And>v. Q v g) \<Longrightarrow> gwp install_step m Q g"
  by (rule gwp_ignored [of no_transfer]) (auto simp: install_step_ignores)

lemma emits_devices:
  "emits_only no_transfer (close_devices fds)" "emits_only no_transfer (scepfsInit L)"
  by (induction fds)
    (auto simp: scepfsInit_def open_device_def set_atad_device_handle_def no_transfer_def Let_def intro!: emits)

lemma gwp_devices [gwp]:
  "(\<And>v. Q v g) \<Longrightarrow> gwp install_step (scepfsInit L) Q g"
  "(\<And>v. R v g) \<Longrightarrow> gwp install_step (scepfsExit L) R g"
  by (rule install_quiet; simp add: scepfsExit_def emits_devices)+


end
