(* ===== verification/Spec2Isabelle.thy ===== *)
theory Spec2Isabelle
  imports Hl_Props Shell_Cmds Getline Hdlfs_Driver Tar_Handles Tar_Restore
    Pfsd_Cleanup Client_Props Fuse_Props Disk_Props Ps2kinst
begin

text \<open>
  A verification of pfsshell: tools that read and write the hard disks of a game console (APA
  partitions with PFS file systems) from a POSIX host.

  \<^bold>\<open>The program.\<close> All its parts are written against iomanX, the I/O manager of the console, whose
  interface is \<open>src/src/iomanX_port.h\<close>. Above it stand the shell (\<open>shell.c\<close>, \<open>util.c\<close>,
  \<open>startup.c\<close>), the archiver \<open>pfs2tar.c\<close>, the FUSE file system \<open>iomanx_adapter.c\<close>, the daemon
  \<open>pfsd.c\<close> with the library of its clients \<open>pfsd_client.c\<close>, the installer \<open>ps2kinst.c\<close> and the
  operations \<open>hl.c\<close> they share. Below it stand the drivers of this repository: games of HDLoader
  (\<open>subprojects/hdlfs/main.c\<close>) and files of the host (\<open>host_adapter.c\<close>), and the emulation of
  what drivers need of the console, a disk (\<open>subprojects/fakeps2sdk/atad.c\<close>) and semaphores
  (\<open>thsemap.c\<close>).

  \<^bold>\<open>How it is modelled.\<close> iomanX itself, the APA and the PFS driver are git submodules and not in the
  repository; the C library, FUSE and the operating system are outside it as well. All of that is
  the \<open>env\<close> of \<^theory_text>\<open>Iomanx\<close>, which answers each call from the history of the calls so far. A C
  function that makes calls is a function of type \<open>'a io\<close> (\<^theory_text>\<open>Prog\<close>), from an environment and a
  history to an outcome and a longer history; a theorem about every \<open>env\<close> holds for every behaviour
  of the disk, the drivers and the host, failures included. The outcomes are a return, \<open>exit\<close>, an
  access outside an array (\<open>Fault\<close>) and a loop that has used up the iterations the environment
  grants (\<open>Stuck\<close>). Structures are records, C strings are the characters before the NUL, \<open>unsigned\<close>
  values are words of their width, and \<open>int\<close> values are integers, cut down by \<open>to_s32\<close> where
  the code can exceed the range. Functions without calls are plain functions. A static variable is a
  component of a record that is passed and returned. Where the code reads memory it has not
  initialised, the contents are a parameter.

  Four ways of reasoning share the library. \<open>io_simps\<close> evaluates straight-line code. \<open>wp\<close> and
  the rules \<open>vcg\<close> give partial correctness for all environments, \<open>twp\<close> (\<^theory_text>\<open>Total\<close>) total
  correctness. \<open>gwp\<close> (\<^theory_text>\<open>Ghost\<close>) follows a program with a summary of its history, such as the
  open handles. \<open>emits_only\<close> bounds the calls a program can make whatever its outcome.

  \<^bold>\<open>The parts and their theories.\<close>
  \<^item> \<^theory_text>\<open>Prelude\<close>: words, C strings, numbers as text. \<^theory_text>\<open>Iomanx\<close>, \<^theory_text>\<open>Prog\<close>, \<^theory_text>\<open>Ghost\<close>, \<^theory_text>\<open>Total\<close>: the
    interface and the logic, as above. \<^theory_text>\<open>Bytes\<close>: fields of binary structures.
  \<^item> \<open>util.c\<close>: \<^theory_text>\<open>Parse_Line\<close>, the state machine that cuts a command line in place into tokens. It
    equals a reference tokenizer on words, inverts quoting, and overruns the caller's array exactly
    when there are too many words.
  \<^item> \<open>hl.c\<close>: \<^theory_text>\<open>Hl\<close>, with its properties in \<^theory_text>\<open>Ledger\<close> (handles and mounts are given back),
    \<^theory_text>\<open>Copy_Loop\<close> (the locale \<open>copy_loop\<close>, the contract of the read-and-write loops of the whole
    program) and \<^theory_text>\<open>Hl_Props\<close>.
  \<^item> \<open>shell.c\<close>: \<^theory_text>\<open>Shell\<close>, one function per \<open>do_\<close> handler, the command table, \<open>exec\<close> and the main
    loop. \<^theory_text>\<open>Shell_Props\<close>: commands run only when their requirements hold, the context and the
    open handles and mounts agree after every session, everything is given back at the end.
    \<^theory_text>\<open>Shell_Cmds\<close>: what single commands promise (\<open>cd\<close>, \<open>get\<close>, \<open>put\<close>, \<open>mkpart\<close>, \<open>df\<close>).
    \<^theory_text>\<open>Getline\<close>: the \<open>getline\<close> compiled where the C library has none, and the lines it spoils.
  \<^item> Modes and times of \<open>pfs2tar.c\<close>, \<open>iomanx_adapter.c\<close> and \<open>host_adapter.c\<close>: \<^theory_text>\<open>Modes\<close> (locale
    \<open>mode_codec\<close>) and \<^theory_text>\<open>Time_Conv\<close> (locale \<open>time_codec\<close>, over the calendar of \<open>timegm\<close> and
    \<open>gmtime\<close>), interpreted on the conversions of each program.
  \<^item> \<open>pfs2tar.c\<close>: \<^theory_text>\<open>Tar\<close>, with \<^theory_text>\<open>Tar_Header\<close> (the header as fields of 512 bytes), \<^theory_text>\<open>Tar_Backup\<close>
    (a file is archived completely, nothing is written outside an array), \<^theory_text>\<open>Tar_Handles\<close> (every
    handle is closed) and \<^theory_text>\<open>Tar_Restore\<close> (an archive is restored completely).
  \<^item> \<open>subprojects/hdlfs\<close>: \<^theory_text>\<open>Hdlfs_Info\<close> (the game header of 1024 bytes), \<^theory_text>\<open>Hdlfs\<close> (the driver's
    operations), \<^theory_text>\<open>Hdlfs_Props\<close> (slices cover the game, transfers and seeks reach the right
    sectors), \<^theory_text>\<open>Hdlfs_Driver\<close> (the table of operations; in every state a sequence of requests
    reaches no unit is locked and the open handles are those of the mounted units). \<^theory_text>\<open>Semap\<close>: the semaphores refine a bounded
    allocator. \<^theory_text>\<open>Atad\<close>: the disk.
  \<^item> \<^theory_text>\<open>Positioned\<close>: files with a position (locale \<open>positioned\<close>), of which the open files of FUSE, the
    sectors of the disk and the files of \<open>host:\<close> are interpretations; the last two are in
    \<^theory_text>\<open>Disk_Props\<close>: a seek and a transfer are positioned access to the bytes behind a descriptor.
  \<^item> \<open>iomanx_adapter.c\<close>: \<^theory_text>\<open>Fuse_Adapter\<close>, the operations FUSE calls and the program around them;
    \<^theory_text>\<open>Fuse_Props\<close>: reads and writes refine \<open>pread\<close> and \<open>pwrite\<close>, stat structures survive the
    trip to the host, the operations stay inside the mounted partition.
  \<^item> \<open>host_adapter.c\<close>: \<^theory_text>\<open>Host_Adapter\<close>, the operations of the \<open>host:\<close> driver and what its flags do.
  \<^item> \<open>pfsd.c\<close>, \<open>pfsd_common.h\<close>: \<^theory_text>\<open>Pfsd_Rpc\<close> (the bytes of a request), \<^theory_text>\<open>Pfsd\<close> (the tables of
    mount points, open files and connections, every command, the event loop), \<^theory_text>\<open>Pfsd_Props\<close>
    (clients are kept apart, every request is answered), \<^theory_text>\<open>Pfsd_Tables\<close> (the invariant of the
    tables in every state the loop reaches, as an inductive relation; what a client leaves behind),
    \<^theory_text>\<open>Pfsd_Cleanup\<close> (removing a client ends).
  \<^item> \<open>pfsd_client.c\<close>: \<^theory_text>\<open>Pfsd_Client\<close>, every call of the library; \<^theory_text>\<open>Client_Props\<close>: its locking, and
    client and daemon together.
  \<^item> \<open>pfslib_compat.c\<close>, \<open>ps2kinst.c\<close>: \<^theory_text>\<open>Ps2kinst\<close>; the installer reports success only for a complete
    copy.

  \<^bold>\<open>Bounds and fuel.\<close> The loops over the disk's or the host's answers have no bound of their own, so
  they take one from the environment (\<open>fuel\<close>). Safety properties hold for any fuel. The properties
  that something is completed state how much is enough: more iterations than the source
  delivers chunks, headers or blocks, and for \<open>cleanup_client\<close> more than the open files.
  Every other recursion is structural or has a measure.

  \<^bold>\<open>Assumptions.\<close> Properties of completeness assume that the environment serves the data
  (\<open>serves\<close>, \<open>returns\<close>, \<open>honours\<close>); those on the daemon's tables assume that the PFS library
  refuses to close the descriptor -1 and that descriptor 0 is taken, so no connection gets it.
  Each such property has a witness with a concrete environment.

  \<^bold>\<open>Not modelled.\<close> The texts of \<open>strerror\<close>, \<open>perror\<close> and most messages on standard error; the
  branches compiled on other hosts (Windows, macOS; but for \<open>getline\<close>) and those under \<open>#if 0\<close> and
  \<open>WIP_WIP_FIXME\<close>; the parsing of options by \<open>getopt_long\<close> and \<open>fuse_opt_parse\<close>, which is library
  code, with its result as a parameter; signals and the preemption of one client by another
  inside a call: a history is one process, and the daemon's clients meet in the order in which the
  daemon serves them. iomanX, APA and PFS cannot be read here, so what they do on the disk is
  left open.
\<close>

end
